(* ===== verification/Prelude.thy ===== *)
theory Prelude
  imports Main "HOL-Library.Word" "HOL-Library.Monad_Syntax"
begin

text \<open>
  Shared vocabulary of the development: the machine types of the Go program, its error values,
  the three ways a Go call can end (value, error, panic), the events a handler emits, and the
  callback loop of \<open>collections.Map.Walk\<close>. The rules that case analyses over outcomes share are
  collected in \<open>go_simps\<close>.
\<close>

named_theorems go_simps \<open>facts about outcomes and error values that component proofs share\<close>

section \<open>Machine types\<close>

type_synonym byte = "8 word"
type_synonym bytes = "byte list"
type_synonym u64 = "64 word"

section \<open>Error values\<close>

text \<open>
  An \<open>error\<close> of the Go code: a registered sentinel (\<open>errors.Register\<close>: code space and code), an
  error wrapped with a message (\<open>errorsmod.Wrap\<close>, \<open>Wrapf\<close>, \<open>fmt.Errorf\<close> with \<open>%w\<close>), a plain
  message, a gRPC status, the not-found error of \<open>collections\<close>, and any other error of a library.
  A formatted message keeps its format string and its arguments, so no information is lost and no
  printing routine of a library is invented.
\<close>

datatype grpc_code = InvalidArgument | NotFound | Internal | Unimplemented

datatype fmt_arg =
    ArgStr string
  | ArgBytes bytes
  | ArgU64 u64
  | ArgInt int
  | ArgTime int
  | ArgErr go_error
and go_error =
    Sentinel string nat
  | Wrapf go_error string "fmt_arg list"
  | Errorf string "fmt_arg list"
  | StatusErr grpc_code string
  | CollErrNotFound
  | LibError string

text \<open>\<open>errors.Is\<close> follows the chain of wrapped errors.\<close>

fun errors_Is :: "go_error \<Rightarrow> go_error \<Rightarrow> bool" where
  "errors_Is (Wrapf e m args) t = (Wrapf e m args = t \<or> errors_Is e t)"
| "errors_Is e t = (e = t)"

lemma errors_Is_refl [simp]: "errors_Is e e"
  by (cases e) auto

section \<open>Outcomes\<close>

text \<open>A Go call returns a value, returns a non-nil error, or panics.\<close>

datatype 'a outcome = Ret 'a | Err go_error | Panic go_error

fun is_ret :: "'a outcome \<Rightarrow> bool" where
  "is_ret (Ret _) = True"
| "is_ret _ = False"

fun is_panic :: "'a outcome \<Rightarrow> bool" where
  "is_panic (Panic _) = True"
| "is_panic _ = False"

lemma is_ret_iff [go_simps]: "is_ret r \<longleftrightarrow> (\<exists>x. r = Ret x)"
  by (cases r) auto

lemma is_panic_iff [go_simps]: "is_panic r \<longleftrightarrow> (\<exists>e. r = Panic e)"
  by (cases r) auto

section \<open>Events\<close>

datatype event = Event string "(string \<times> string) list"

section \<open>Walking a collection\<close>

text \<open>
  \<open>Map.Walk(ctx, nil, f)\<close> hands the decoded entries to the callback \<open>f\<close> in iteration order, until
  the callback says stop or fails, or decoding an entry fails. The entries the iterator can decode
  and the error that ends them, if any, come from the store; \<open>acc\<close> is the state the closure
  captures.
\<close>

fun walk :: "('k \<Rightarrow> 'v \<Rightarrow> 'acc \<Rightarrow> 'acc \<times> bool \<times> go_error option) \<Rightarrow> ('k \<times> 'v) list \<Rightarrow>
    go_error option \<Rightarrow> 'acc \<Rightarrow> 'acc \<times> go_error option" where
  "walk f [] fin acc = (acc, fin)"
| "walk f ((k, v) # es) fin acc =
     (case f k v acc of
        (acc', stop, Some e) \<Rightarrow> (acc', Some e)
      | (acc', stop, None) \<Rightarrow> if stop then (acc', None) else walk f es fin acc')"

text \<open>Two shapes of callback the code uses: search with early stop, and collect.\<close>

lemma walk_search:
  "fst (walk (\<lambda>k v found. if P v then (True, True, None) else (found, False, None)) es fin acc)
     \<longleftrightarrow> acc \<or> (\<exists>(k, v) \<in> set es. P v)"
proof (induction es arbitrary: acc)
  case (Cons e es)
  then show ?case by (cases e) simp
qed simp

lemma walk_collect:
  "walk (\<lambda>k v xs. (xs @ [v], False, None)) es fin acc = (acc @ map snd es, fin)"
  by (induction es arbitrary: acc) auto

lemma map_of_eq_Some_set:
  "map_of es = m \<Longrightarrow> distinct (map fst es) \<Longrightarrow> snd ` set es = ran m"
  by (force simp: ran_distinct)

end
