(* ===== verification/Store.thy ===== *)
theory Store
  imports Prelude
begin

text \<open>
  The persistent state of a module. A keeper reaches it through \<open>collections.Item\<close> and
  \<open>collections.Map\<close> (package \<open>cosmossdk.io/collections\<close>, not part of this repository), so the
  operations are parameters of the model: records of functions over an abstract store. The two
  locales state what the code relies on, through an abstraction function (\<open>val\<close>, \<open>abs\<close>), an
  invariant and a predicate \<open>ok\<close> for values that can be encoded; \<open>registry_store\<close> joins them for
  a module that keeps an item and a map in one store. They are interpreted in \<open>KVStore\<close> on a byte
  store that encodes values with this repository's own protobuf routines.
\<close>

record ('s, 'v) item_ops =
  i_get :: "'s \<Rightarrow> go_error + 'v"
  i_set :: "'s \<Rightarrow> 'v \<Rightarrow> go_error + 's"

record ('s, 'k, 'v) map_ops =
  m_has :: "'s \<Rightarrow> 'k \<Rightarrow> go_error + bool"
  m_get :: "'s \<Rightarrow> 'k \<Rightarrow> go_error + 'v"
  m_set :: "'s \<Rightarrow> 'k \<Rightarrow> 'v \<Rightarrow> go_error + 's"
  m_iter :: "'s \<Rightarrow> ('k \<times> 'v) list \<times> go_error option"

section \<open>The contract of an item\<close>

locale item_store =
  fixes I :: "('s, 'v) item_ops"
    and invar :: "'s \<Rightarrow> bool"
    and val :: "'s \<Rightarrow> 'v option"
    and ok :: "'v \<Rightarrow> bool"
  assumes item_get: "invar s \<Longrightarrow>
      i_get I s = (case val s of None \<Rightarrow> Inl CollErrNotFound | Some v \<Rightarrow> Inr v)"
    and item_set: "invar s \<Longrightarrow> ok v \<Longrightarrow>
      \<exists>s'. i_set I s v = Inr s' \<and> invar s' \<and> val s' = Some v"
begin

lemma item_get_Some: "invar s \<Longrightarrow> val s = Some v \<Longrightarrow> i_get I s = Inr v"
  by (simp add: item_get)

lemma item_get_None: "invar s \<Longrightarrow> val s = None \<Longrightarrow> i_get I s = Inl CollErrNotFound"
  by (simp add: item_get)

lemma item_setE:
  assumes "invar s" and "ok v"
  obtains s' where "i_set I s v = Inr s'" "invar s'" "val s' = Some v" "i_get I s' = Inr v"
  using item_set [OF assms] item_get_Some by blast

end

section \<open>The contract of a map\<close>

text \<open>
  \<open>Walk\<close> with a nil range visits every entry once, in ascending key order; the order is the
  parameter \<open>less\<close> on keys.
\<close>

locale map_store =
  fixes M :: "('s, 'k, 'v) map_ops"
    and invar :: "'s \<Rightarrow> bool"
    and abs :: "'s \<Rightarrow> 'k \<rightharpoonup> 'v"
    and okey :: "'k \<Rightarrow> bool"
    and ok :: "'v \<Rightarrow> bool"
    and less :: "'k \<Rightarrow> 'k \<Rightarrow> bool"
  assumes map_get: "invar s \<Longrightarrow> okey k \<Longrightarrow>
      m_get M s k = (case abs s k of None \<Rightarrow> Inl CollErrNotFound | Some v \<Rightarrow> Inr v)"
    and map_has: "invar s \<Longrightarrow> okey k \<Longrightarrow> m_has M s k = Inr (k \<in> dom (abs s))"
    and map_set: "invar s \<Longrightarrow> okey k \<Longrightarrow> ok v \<Longrightarrow>
      \<exists>s'. m_set M s k v = Inr s' \<and> invar s' \<and> abs s' = (abs s)(k \<mapsto> v)"
    and map_iter: "invar s \<Longrightarrow>
      \<exists>es. m_iter M s = (es, None) \<and> sorted_wrt less (map fst es) \<and> distinct (map fst es)
        \<and> map_of es = abs s"
begin

lemma map_setE:
  assumes "invar s" "okey k" "ok v"
  obtains s' where "m_set M s k v = Inr s'" "invar s'" "abs s' = (abs s)(k \<mapsto> v)"
  using map_set [OF assms] by blast

lemma map_iterE:
  assumes "invar s"
  obtains es where "m_iter M s = (es, None)" "sorted_wrt less (map fst es)"
    "distinct (map fst es)" "map_of es = abs s"
  using map_iter [OF assms] by blast

text \<open>Searching the walked entries decides membership in the range of the map.\<close>

lemma walk_search_abs:
  assumes "invar s"
  shows "fst (walk (\<lambda>k v found. if P v then (True, True, None) else (found, False, None))
      (fst (m_iter M s)) (snd (m_iter M s)) False) \<longleftrightarrow> (\<exists>k v. abs s k = Some v \<and> P v)"
proof -
  obtain es where es: "m_iter M s = (es, None)" "distinct (map fst es)" "map_of es = abs s"
    using assms by (elim map_iterE)
  have "(\<exists>(k, v) \<in> set es. P v) \<longleftrightarrow> (\<exists>k v. map_of es k = Some v \<and> P v)"
    using es(2) by force
  then show ?thesis using es by (simp add: walk_search)
qed

end

section \<open>An item and a map in one store\<close>

locale registry_store =
  item_store I invar val iok + map_store M invar abs okey ok less
  for I :: "('s, 'p) item_ops" and M :: "('s, 'k, 'v) map_ops"
    and invar :: "'s \<Rightarrow> bool" and val :: "'s \<Rightarrow> 'p option" and iok :: "'p \<Rightarrow> bool"
    and abs :: "'s \<Rightarrow> 'k \<rightharpoonup> 'v" and okey :: "'k \<Rightarrow> bool" and ok :: "'v \<Rightarrow> bool"
    and less :: "'k \<Rightarrow> 'k \<Rightarrow> bool" +
  assumes item_frame: "invar s \<Longrightarrow> iok p \<Longrightarrow> i_set I s p = Inr s' \<Longrightarrow> abs s' = abs s"
    and map_frame: "invar s \<Longrightarrow> okey k \<Longrightarrow> ok v \<Longrightarrow> m_set M s k v = Inr s' \<Longrightarrow> val s' = val s"

end
