(* ===== verification/Wire.thy ===== *)
theory Wire
  imports Prelude
begin

unbundle bit_operations_syntax

text \<open>
  The wire-level routines that protoc-gen-gogo puts into every \<open>*.pb.go\<close> file of \<open>x/*/types\<close>:
  the size of a varint, \<open>encodeVarint\<close>, the varint loop of \<open>Unmarshal\<close>, and \<open>skip\<close> for unknown
  fields. The files hold one copy each under their own names, equal but for the names of the error
  variables; the definitions here are translated from \<open>x/td/types/params.pb.go\<close>.

  Conventions. Values are 64-bit words. Indexes are natural numbers: the Go code keeps them in an
  \<open>int\<close>, and where a sum can exceed \<open>2^63 - 1\<close> the code tests the wrapped value for a negative sign;
  \<open>add_index\<close> is \<open>None\<close> exactly there. A write outside a buffer is a panic.
\<close>

section \<open>Strings and bytes\<close>

definition bytes_of_string :: "string \<Rightarrow> bytes" where
  "bytes_of_string s = map of_char s"

definition string_of_bytes :: "bytes \<Rightarrow> string" where
  "string_of_bytes bs = map (\<lambda>b. char_of (unat b)) bs"

lemma length_bytes_of_string [simp]: "length (bytes_of_string s) = length s"
  by (simp add: bytes_of_string_def)

lemma bytes_of_string_eq_Nil [simp]: "bytes_of_string s = [] \<longleftrightarrow> s = []"
  by (simp add: bytes_of_string_def)

lemma unat_of_char: "unat (of_char c :: byte) = of_char c"
proof -
  have "(of_char c :: byte) = word_of_nat (of_char c)"
    by (simp add: of_char_def)
  moreover have "of_char c < (256 :: nat)" by (rule nat_of_char_less_256)
  ultimately show ?thesis by (simp add: unat_of_nat)
qed

lemma string_of_bytes_of_string [simp]: "string_of_bytes (bytes_of_string s) = s"
  by (induction s) (simp_all add: string_of_bytes_def bytes_of_string_def unat_of_char)

lemma bytes_of_string_of_bytes [simp]: "bytes_of_string (string_of_bytes bs) = bs"
proof (induction bs)
  case (Cons b bs)
  have "unat b < 256" using unsigned_less [of b] by simp
  then have "unat (of_char (char_of (unat b)) :: byte) = unat b"
    by (simp add: unat_of_char)
  then have "(of_char (char_of (unat b)) :: byte) = b" by (rule unsigned_word_eqI)
  with Cons show ?case by (simp add: string_of_bytes_def bytes_of_string_def)
qed (simp add: string_of_bytes_def bytes_of_string_def)

lemma bytes_of_string_inject [simp]: "bytes_of_string s = bytes_of_string t \<longleftrightarrow> s = t"
  by (metis string_of_bytes_of_string)

section \<open>Errors\<close>

definition ErrInvalidLength :: go_error where
  "ErrInvalidLength = Errorf ''proto: negative length found during unmarshaling'' []"

definition ErrIntOverflow :: go_error where
  "ErrIntOverflow = Errorf ''proto: integer overflow'' []"

definition ErrUnexpectedEndOfGroup :: go_error where
  "ErrUnexpectedEndOfGroup = Errorf ''proto: unexpected end of group'' []"

definition io_ErrUnexpectedEOF :: go_error where
  "io_ErrUnexpectedEOF = Errorf ''unexpected EOF'' []"

section \<open>The size of a varint\<close>

text \<open>\<open>bits.Len64\<close>: the number of bits needed to write \<open>x\<close>, 0 for 0.\<close>

lemma unat_drop_bit_less: "x \<noteq> 0 \<Longrightarrow> 0 < n \<Longrightarrow> unat (drop_bit n x) < unat (x :: u64)"
proof -
  assume "x \<noteq> 0" "0 < n"
  then have "0 < unat x" by (simp add: unat_gt_0)
  moreover have "1 < (2 :: nat) ^ n" using \<open>0 < n\<close> by (intro one_less_power) simp_all
  ultimately have "unat x div 2 ^ n < unat x" by (intro div_less_dividend)
  then show ?thesis by (simp only: unat_drop_bit_eq drop_bit_eq_div [of n "unat x"])
qed

function Len64 :: "u64 \<Rightarrow> nat" where
  "Len64 x = (if x = 0 then 0 else Suc (Len64 (drop_bit 1 x)))"
  by pat_completeness auto
termination by (relation "measure unat") (auto intro: unat_drop_bit_less simp del: One_nat_def)

declare Len64.simps [simp del]

definition sov :: "u64 \<Rightarrow> nat" where
  "sov x = (Len64 (x OR 1) + 6) div 7"

definition soz :: "u64 \<Rightarrow> nat" where
  "soz x = sov (push_bit 1 x XOR signed_drop_bit 63 x)"

section \<open>Writing\<close>

definition set_byte :: "bytes \<Rightarrow> nat \<Rightarrow> byte \<Rightarrow> bytes option" where
  "set_byte dAtA i b = (if i < length dAtA then Some (dAtA[i := b]) else None)"

lemma ge_128_not_zero: "128 \<le> (v :: u64) \<Longrightarrow> v \<noteq> 0"
  by auto

function put_varint :: "bytes \<Rightarrow> nat \<Rightarrow> u64 \<Rightarrow> bytes option" where
  "put_varint dAtA offset v =
     (if 128 \<le> v then
        (case set_byte dAtA offset (ucast (v AND 0x7f OR 0x80)) of
           None \<Rightarrow> None
         | Some dAtA' \<Rightarrow> put_varint dAtA' (Suc offset) (drop_bit 7 v))
      else set_byte dAtA offset (ucast v))"
  by pat_completeness auto
termination
  by (relation "measure (\<lambda>(d, i, v). unat v)") (auto intro!: unat_drop_bit_less)

declare put_varint.simps [simp del]

text \<open>\<open>offset -= sov(v)\<close>; a negative offset makes the first write panic.\<close>

definition encodeVarint :: "bytes \<Rightarrow> nat \<Rightarrow> u64 \<Rightarrow> (bytes \<times> nat) option" where
  "encodeVarint dAtA offset v =
     (if sov v \<le> offset then
        (let base = offset - sov v in map_option (\<lambda>d. (d, base)) (put_varint dAtA base v))
      else None)"

section \<open>Reading\<close>

function read_varint :: "bytes \<Rightarrow> nat \<Rightarrow> nat \<Rightarrow> u64 \<Rightarrow> go_error + (u64 \<times> nat)" where
  "read_varint dAtA iNdEx shift acc =
     (if 64 \<le> shift then Inl ErrIntOverflow
      else if length dAtA \<le> iNdEx then Inl io_ErrUnexpectedEOF
      else
        let b = dAtA ! iNdEx;
            acc' = acc OR push_bit shift (ucast (b AND 0x7F)) in
        if b < 0x80 then Inr (acc', Suc iNdEx)
        else read_varint dAtA (Suc iNdEx) (shift + 7) acc')"
  by pat_completeness auto
termination by (relation "measure (\<lambda>(d, i, shift, acc). 64 - shift)") auto

declare read_varint.simps [simp del]

definition add_index :: "nat \<Rightarrow> nat \<Rightarrow> nat option" where
  "add_index i n = (if i + n < 2 ^ 63 then Some (i + n) else None)"

text \<open>
  A length read from the wire, and the slice it announces: \<open>int(stringLen)\<close> may be negative, the end
  index may overflow or lie behind the data.
\<close>

definition read_len :: "bytes \<Rightarrow> nat \<Rightarrow> go_error + (bytes \<times> nat)" where
  "read_len dAtA iNdEx =
     (case read_varint dAtA iNdEx 0 0 of
        Inl err \<Rightarrow> Inl err
      | Inr (stringLen, iNdEx) \<Rightarrow>
     let intStringLen = sint stringLen in
     if intStringLen < 0 then Inl ErrInvalidLength
     else
     (case add_index iNdEx (nat intStringLen) of
        None \<Rightarrow> Inl ErrInvalidLength
      | Some postIndex \<Rightarrow>
     if length dAtA < postIndex then Inl io_ErrUnexpectedEOF
     else Inr (take (postIndex - iNdEx) (drop iNdEx dAtA), postIndex)))"

section \<open>Skipping an unknown field\<close>

text \<open>The body of the loop after the tag: the new index and group depth.\<close>

definition skip_body :: "bytes \<Rightarrow> u64 \<Rightarrow> nat \<Rightarrow> nat \<Rightarrow> go_error + (nat \<times> nat)" where
  "skip_body dAtA wireType iNdEx depth =
     (if wireType = 0 then
        (case read_varint dAtA iNdEx 0 0 of Inl err \<Rightarrow> Inl err | Inr (_, i) \<Rightarrow> Inr (i, depth))
      else if wireType = 1 then
        (case add_index iNdEx 8 of None \<Rightarrow> Inl ErrInvalidLength | Some i \<Rightarrow> Inr (i, depth))
      else if wireType = 2 then
        (case read_varint dAtA iNdEx 0 0 of
           Inl err \<Rightarrow> Inl err
         | Inr (len, i) \<Rightarrow>
             if sint len < 0 then Inl ErrInvalidLength
             else (case add_index i (nat (sint len)) of
                     None \<Rightarrow> Inl ErrInvalidLength | Some j \<Rightarrow> Inr (j, depth)))
      else if wireType = 3 then Inr (iNdEx, depth + 1)
      else if wireType = 4 then
        (if depth = 0 then Inl ErrUnexpectedEndOfGroup else Inr (iNdEx, depth - 1))
      else if wireType = 5 then
        (case add_index iNdEx 4 of None \<Rightarrow> Inl ErrInvalidLength | Some i \<Rightarrow> Inr (i, depth))
      else Inl (Errorf ''proto: illegal wireType %d'' [ArgU64 wireType]))"

lemma read_varint_advances:
  "read_varint d i shift acc = Inr (w, j) \<Longrightarrow> i < j \<and> j \<le> length d"
  by (induction d i shift acc arbitrary: w j rule: read_varint.induct)
    (subst (asm) (2) read_varint.simps, fastforce simp: Let_def split: if_splits)

lemma add_index_Some: "add_index i n = Some j \<longleftrightarrow> j = i + n \<and> i + n < 2 ^ 63"
  by (auto simp: add_index_def)

lemma skip_body_advances: "skip_body d wt i depth = Inr (j, depth') \<Longrightarrow> i \<le> j"
  by (auto simp: skip_body_def add_index_Some split: if_splits sum.splits option.splits
      dest!: read_varint_advances)

function skip_loop :: "bytes \<Rightarrow> nat \<Rightarrow> nat \<Rightarrow> go_error + nat" where
  "skip_loop dAtA iNdEx depth =
     (if iNdEx < length dAtA then
        (case read_varint dAtA iNdEx 0 0 of
           Inl err \<Rightarrow> Inl err
         | Inr (wire, i1) \<Rightarrow>
        (case skip_body dAtA (wire AND 0x7) i1 depth of
           Inl err \<Rightarrow> Inl err
         | Inr (i2, depth') \<Rightarrow>
        if depth' = 0 then Inr i2 else skip_loop dAtA i2 depth'))
      else Inl io_ErrUnexpectedEOF)"
  by pat_completeness auto
termination
  by (relation "measure (\<lambda>(d, i, depth). length d - i)")
    (auto dest!: read_varint_advances skip_body_advances)

declare skip_loop.simps [simp del]

definition skip_field :: "bytes \<Rightarrow> go_error + nat" where
  "skip_field dAtA = skip_loop dAtA 0 0"

lemma skip_loop_advances: "skip_loop d i depth = Inr j \<Longrightarrow> i < j"
proof (induction d i depth rule: skip_loop.induct)
  case (1 d i depth)
  from "1.prems" obtain w i1 i2 depth' where s: "i < length d" "read_varint d i 0 0 = Inr (w, i1)"
    "skip_body d (w AND 7) i1 depth = Inr (i2, depth')"
    and r: "(if depth' = 0 then Inr i2 else skip_loop d i2 depth') = Inr j"
    by (subst (asm) skip_loop.simps) (auto split: if_splits sum.splits)
  have "i < i2" using read_varint_advances [OF s(2)] skip_body_advances [OF s(3)] by simp
  with "1.IH" [OF s(1,2) _ s(3)] r show ?case by (auto split: if_splits)
qed

end
