(* ===== verification/VrTypes.thy ===== *)
theory VrTypes
  imports Store Wire
begin

text \<open>
  The data of module \<open>x/validatorregistry\<close>: the messages of \<open>types/*.pb.go\<close> as records, the
  sentinel errors and names of \<open>types/errors.go\<close> and \<open>types/keys.go\<close>, the parameters of
  \<open>types/params.go\<close> and the genesis state with its validation (\<open>types/genesis.go\<close>).
  Go strings are byte strings; they are modelled as HOL strings, whose characters are bytes.
\<close>

section \<open>Messages\<close>

record Validator =
  v_Index :: string
  v_MemberId :: string
  v_OperatorAddress :: string
  v_ConsensusPubkey :: string
  v_Status :: string
  v_TermEnd :: u64

text \<open>\<open>Params\<close> of this module has no fields.\<close>

datatype VrParams = VrParams

record VrMsgUpdateParams =
  vmup_Authority :: string
  vmup_Params :: VrParams

record MsgOnboardValidator =
  mov_Creator :: string
  mov_Index :: string
  mov_MemberId :: string
  mov_OperatorAddress :: string
  mov_ConsensusPubkey :: string
  mov_Status :: string
  mov_TermEnd :: u64

record VrGenesisState =
  vgs_Params :: VrParams
  vgs_ValidatorMap :: "Validator list"

text \<open>
  The responses of the message server have no fields; the requests and responses of the query
  server follow. \<open>PageRequest\<close> and \<open>PageResponse\<close> are types of the SDK, reached through pointers:
  they are type variables, nil is \<open>None\<close>.
\<close>

datatype VrMsgUpdateParamsResponse = VrMsgUpdateParamsResponse
datatype MsgOnboardValidatorResponse = MsgOnboardValidatorResponse
datatype VrQueryParamsRequest = VrQueryParamsRequest

record VrQueryParamsResponse =
  vqpr_Params :: VrParams

record QueryGetValidatorRequest =
  qgvr_Index :: string

record QueryGetValidatorResponse =
  qgvs_Validator :: Validator

record 'q QueryAllValidatorRequest =
  qavr_Pagination :: "'q option"

record 'r QueryAllValidatorResponse =
  qavs_Validator :: "Validator list"
  qavs_Pagination :: "'r option"

text \<open>The module configuration.\<close>

record VrModuleConfig =
  vmc_Authority :: string

section \<open>Names and errors\<close>

definition vr_ModuleName :: string where
  "vr_ModuleName = ''validatorregistry''"

definition vr_GovModuleName :: string where
  "vr_GovModuleName = ''gov''"

definition vr_ParamsKey :: bytes where
  "vr_ParamsKey = bytes_of_string ''p_validatorregistry''"

definition ValidatorKey :: bytes where
  "ValidatorKey = bytes_of_string ''validator/value/''"

definition vr_ErrInvalidSigner :: go_error where
  "vr_ErrInvalidSigner = Sentinel vr_ModuleName 1100"

definition ErrInvalidValidator :: go_error where
  "ErrInvalidValidator = Sentinel vr_ModuleName 1101"

section \<open>Parameters\<close>

definition vr_NewParams :: VrParams where
  "vr_NewParams = VrParams"

definition vr_DefaultParams :: VrParams where
  "vr_DefaultParams = vr_NewParams"

definition vr_Params_Validate :: "VrParams \<Rightarrow> go_error option" where
  "vr_Params_Validate p = None"

section \<open>Genesis state\<close>

definition vr_DefaultGenesis :: VrGenesisState where
  "vr_DefaultGenesis = \<lparr>vgs_Params = vr_DefaultParams, vgs_ValidatorMap = []\<rparr>"

text \<open>
  The loop of \<open>Validate\<close>: \<open>seen\<close> is the local map \<open>validatorIndexMap\<close>, whose values carry no
  information.
\<close>

fun vr_validate_indexes :: "Validator list \<Rightarrow> string set \<Rightarrow> go_error option" where
  "vr_validate_indexes [] seen = None"
| "vr_validate_indexes (elem # rest) seen =
     (let index = v_Index elem in
      if index \<in> seen then Some (Errorf ''duplicated index for validator'' [])
      else vr_validate_indexes rest (insert index seen))"

definition vr_Genesis_Validate :: "VrGenesisState \<Rightarrow> go_error option" where
  "vr_Genesis_Validate gs =
     (case vr_validate_indexes (vgs_ValidatorMap gs) {} of
        Some e \<Rightarrow> Some e
      | None \<Rightarrow> vr_Params_Validate (vgs_Params gs))"

lemma vr_validate_indexes_None:
  "vr_validate_indexes vs seen = None \<longleftrightarrow>
     distinct (map v_Index vs) \<and> set (map v_Index vs) \<inter> seen = {}"
  by (induction vs arbitrary: seen) (auto simp: Let_def)

text \<open>A genesis state of the registry passes \<open>Validate\<close> exactly when no two of its validators
  share an index.\<close>

lemma vr_Genesis_Validate_distinct:
  "vr_Genesis_Validate gs = None \<longleftrightarrow> distinct (map v_Index (vgs_ValidatorMap gs))"
  using vr_validate_indexes_None [of "vgs_ValidatorMap gs" "{}"]
  by (auto simp: vr_Genesis_Validate_def vr_Params_Validate_def split: option.splits)

lemma vr_DefaultGenesis_valid: "vr_Genesis_Validate vr_DefaultGenesis = None"
  by (simp add: vr_Genesis_Validate_distinct vr_DefaultGenesis_def)

end
