(* ===== verification/VrKeeper.thy ===== *)
theory VrKeeper
  imports VrTypes
begin

text \<open>
  The keeper of \<open>x/validatorregistry\<close>: its state (one store with the item \<open>Params\<close> and the map
  \<open>Validator\<close>, and the events of the block context), \<open>NewKeeper\<close>, the whitelist query the ante
  handler uses, the message server, the query server and the genesis import and export.

  Libraries the keeper calls are parameters: the collections of the store (\<open>Store\<close>), the address
  codec and the bech32 functions of the SDK. Functional lemmas give the result of every operation
  on every branch; the lemmas of \<open>registry\<close>, a locale over the contract of the store, state what
  the operations do to the abstract registry.
\<close>

section \<open>State and dependencies\<close>

type_synonym addr_to_bytes = "string \<Rightarrow> go_error + bytes"

record 's VrCtx =
  vc_store :: 's
  vc_events :: "event list"

record 's VrKeeper =
  vk_StringToBytes :: addr_to_bytes          \<comment> \<open>\<open>addressCodec.StringToBytes\<close>\<close>
  vk_BytesToString :: "bytes \<Rightarrow> go_error + string"  \<comment> \<open>\<open>addressCodec.BytesToString\<close>\<close>
  vk_ValAddressFromBech32 :: addr_to_bytes   \<comment> \<open>\<open>sdk.ValAddressFromBech32\<close>\<close>
  vk_AccAddressString :: "bytes \<Rightarrow> string"   \<comment> \<open>\<open>sdk.AccAddress.String\<close>\<close>
  vk_authority :: bytes
  vk_Params :: "('s, VrParams) item_ops"
  vk_Validator :: "('s, string, Validator) map_ops"

text \<open>
  \<open>NewKeeper\<close>: the schema builder belongs to the collections library; \<open>build_err\<close> is the error its
  \<open>Build\<close> returns.
\<close>

definition vr_NewKeeper :: "'s VrKeeper \<Rightarrow> go_error option \<Rightarrow> 's VrKeeper outcome" where
  "vr_NewKeeper k build_err =
     (case vk_BytesToString k (vk_authority k) of
        Inl err \<Rightarrow> Panic (Errorf ''invalid authority address %s: %s''
          [ArgBytes (vk_authority k), ArgErr err])
      | Inr _ \<Rightarrow> (case build_err of Some err \<Rightarrow> Panic err | None \<Rightarrow> Ret k))"

definition vr_GetAuthority :: "'s VrKeeper \<Rightarrow> bytes" where
  "vr_GetAuthority k = vk_authority k"

section \<open>The whitelist query\<close>

definition IsValidatorWhitelisted :: "'s VrKeeper \<Rightarrow> 's \<Rightarrow> string \<Rightarrow> bool" where
  "IsValidatorWhitelisted k s operatorAddress =
     (let (entries, fin) = m_iter (vk_Validator k) s in
      fst (walk (\<lambda>key val found.
                   if v_OperatorAddress val = operatorAddress then (True, True, None)
                   else (found, False, None))
             entries fin False))"

section \<open>Message server\<close>

definition onboarded_event :: "MsgOnboardValidator \<Rightarrow> event" where
  "onboarded_event msg = Event ''validator_onboarded''
     [(''index'', mov_Index msg), (''member_id'', mov_MemberId msg),
      (''operator_address'', mov_OperatorAddress msg), (''status'', mov_Status msg)]"

definition onboarded_validator :: "MsgOnboardValidator \<Rightarrow> Validator" where
  "onboarded_validator msg =
     \<lparr>v_Index = mov_Index msg, v_MemberId = mov_MemberId msg,
      v_OperatorAddress = mov_OperatorAddress msg, v_ConsensusPubkey = mov_ConsensusPubkey msg,
      v_Status = mov_Status msg, v_TermEnd = mov_TermEnd msg\<rparr>"

text \<open>Each check of the handler, in the order of the source; the first that fails ends the call.\<close>

definition OnboardValidator ::
    "'s VrKeeper \<Rightarrow> MsgOnboardValidator \<Rightarrow> 's VrCtx \<Rightarrow> unit outcome \<times> 's VrCtx" where
  "OnboardValidator k msg ctx =
     (case vk_StringToBytes k (mov_Creator msg) of
        Inl err \<Rightarrow> (Err (Wrapf err ''invalid creator address'' []), ctx)
      | Inr creatorAddr \<Rightarrow>
     let authority = vr_GetAuthority k in
     if creatorAddr \<noteq> authority then
       (Err (Wrapf vr_ErrInvalidSigner ''expected authority %s, got %s''
          [ArgStr (vk_AccAddressString k authority), ArgStr (mov_Creator msg)]), ctx)
     else if mov_Index msg = '''' then
       (Err (Wrapf ErrInvalidValidator ''index cannot be empty'' []), ctx)
     else if mov_MemberId msg = '''' then
       (Err (Wrapf ErrInvalidValidator ''member_id cannot be empty'' []), ctx)
     else if mov_OperatorAddress msg = '''' then
       (Err (Wrapf ErrInvalidValidator ''operator_address cannot be empty'' []), ctx)
     else if mov_Status msg = '''' then
       (Err (Wrapf ErrInvalidValidator ''status cannot be empty'' []), ctx)
     else
     (case m_has (vk_Validator k) (vc_store ctx) (mov_Index msg) of
        Inl err \<Rightarrow> (Err (Wrapf err ''failed to check validator existence'' []), ctx)
      | Inr exists \<Rightarrow>
     if exists then
       (Err (Wrapf ErrInvalidValidator ''validator with index %s already exists''
          [ArgStr (mov_Index msg)]), ctx)
     else
     (case vk_ValAddressFromBech32 k (mov_OperatorAddress msg) of
        Inl err \<Rightarrow> (Err (Wrapf ErrInvalidValidator ''invalid operator address format: %v''
                     [ArgErr err]), ctx)
      | Inr _ \<Rightarrow>
     (case m_set (vk_Validator k) (vc_store ctx) (mov_Index msg) (onboarded_validator msg) of
        Inl err \<Rightarrow> (Err (Wrapf err ''failed to store validator'' []), ctx)
      | Inr store \<Rightarrow>
          (Ret (), ctx\<lparr>vc_store := store, vc_events := vc_events ctx @ [onboarded_event msg]\<rparr>)))))"

definition vr_UpdateParams ::
    "'s VrKeeper \<Rightarrow> VrMsgUpdateParams \<Rightarrow> 's VrCtx \<Rightarrow> unit outcome \<times> 's VrCtx" where
  "vr_UpdateParams k req ctx =
     (case vk_StringToBytes k (vmup_Authority req) of
        Inl err \<Rightarrow> (Err (Wrapf err ''invalid authority address'' []), ctx)
      | Inr authority \<Rightarrow>
     if vr_GetAuthority k \<noteq> authority then
       let expectedAuthorityStr =
             (case vk_BytesToString k (vr_GetAuthority k) of Inl _ \<Rightarrow> '''' | Inr str \<Rightarrow> str) in
       (Err (Wrapf vr_ErrInvalidSigner ''invalid authority; expected %s, got %s''
          [ArgStr expectedAuthorityStr, ArgStr (vmup_Authority req)]), ctx)
     else
     (case vr_Params_Validate (vmup_Params req) of
        Some err \<Rightarrow> (Err err, ctx)
      | None \<Rightarrow>
     (case i_set (vk_Params k) (vc_store ctx) (vmup_Params req) of
        Inl err \<Rightarrow> (Err err, ctx)
      | Inr store \<Rightarrow> (Ret (), ctx\<lparr>vc_store := store\<rparr>))))"

section \<open>Query server\<close>

text \<open>A nil request is \<open>None\<close>. The zero value of \<open>Params\<close> is its only value.\<close>

definition vr_Query_Params :: "'s VrKeeper \<Rightarrow> VrQueryParamsRequest option \<Rightarrow> 's \<Rightarrow> VrQueryParamsResponse outcome" where
  "vr_Query_Params k req s =
     (case req of
        None \<Rightarrow> Err (StatusErr InvalidArgument ''invalid request'')
      | Some _ \<Rightarrow>
     (case i_get (vk_Params k) s of
        Inl err \<Rightarrow> if \<not> errors_Is err CollErrNotFound
                   then Err (StatusErr Internal ''internal error'')
                   else Ret \<lparr>vqpr_Params = VrParams\<rparr>
      | Inr params \<Rightarrow> Ret \<lparr>vqpr_Params = params\<rparr>))"

definition GetValidator ::
    "'s VrKeeper \<Rightarrow> QueryGetValidatorRequest option \<Rightarrow> 's \<Rightarrow> QueryGetValidatorResponse outcome" where
  "GetValidator k req s =
     (case req of
        None \<Rightarrow> Err (StatusErr InvalidArgument ''invalid request'')
      | Some req \<Rightarrow>
     (case m_get (vk_Validator k) s (qgvr_Index req) of
        Inl err \<Rightarrow> if errors_Is err CollErrNotFound then Err (StatusErr NotFound ''not found'')
                   else Err (StatusErr Internal ''internal error'')
      | Inr val \<Rightarrow> Ret \<lparr>qgvs_Validator = val\<rparr>))"

text \<open>
  \<open>query.CollectionPaginate\<close> and the printing of its error are library code: \<open>paginate\<close> returns the
  page of values and its response, \<open>err_text\<close> is \<open>err.Error()\<close>. The transform the code passes
  returns the value it is given.
\<close>

definition ListValidator ::
    "('s \<Rightarrow> 'q option \<Rightarrow> (string \<Rightarrow> Validator \<Rightarrow> go_error + Validator)
        \<Rightarrow> go_error + (Validator list \<times> 'r option)) \<Rightarrow> (go_error \<Rightarrow> string)
     \<Rightarrow> 'q QueryAllValidatorRequest option \<Rightarrow> 's \<Rightarrow> 'r QueryAllValidatorResponse outcome" where
  "ListValidator paginate err_text req s =
     (case req of
        None \<Rightarrow> Err (StatusErr InvalidArgument ''invalid request'')
      | Some req \<Rightarrow>
     (case paginate s (qavr_Pagination req) (\<lambda>_ value. Inr value) of
        Inl err \<Rightarrow> Err (StatusErr Internal (err_text err))
      | Inr (validators, pageRes) \<Rightarrow>
          Ret \<lparr>qavs_Validator = validators, qavs_Pagination = pageRes\<rparr>))"

section \<open>Genesis\<close>

fun vr_import_validators ::
    "'s VrKeeper \<Rightarrow> Validator list \<Rightarrow> 's \<Rightarrow> go_error option \<times> 's" where
  "vr_import_validators k [] s = (None, s)"
| "vr_import_validators k (elem # rest) s =
     (case m_set (vk_Validator k) s (v_Index elem) elem of
        Inl err \<Rightarrow> (Some err, s)
      | Inr s' \<Rightarrow> vr_import_validators k rest s')"

definition vr_InitGenesis ::
    "'s VrKeeper \<Rightarrow> VrGenesisState \<Rightarrow> 's VrCtx \<Rightarrow> unit outcome \<times> 's VrCtx" where
  "vr_InitGenesis k genState ctx =
     (case vr_import_validators k (vgs_ValidatorMap genState) (vc_store ctx) of
        (Some err, s) \<Rightarrow> (Err err, ctx\<lparr>vc_store := s\<rparr>)
      | (None, s) \<Rightarrow>
     (case i_set (vk_Params k) s (vgs_Params genState) of
        Inl err \<Rightarrow> (Err err, ctx\<lparr>vc_store := s\<rparr>)
      | Inr s' \<Rightarrow> (Ret (), ctx\<lparr>vc_store := s'\<rparr>)))"

definition vr_ExportGenesis :: "'s VrKeeper \<Rightarrow> 's \<Rightarrow> VrGenesisState outcome" where
  "vr_ExportGenesis k s =
     (let genesis = vr_DefaultGenesis in
      case i_get (vk_Params k) s of
        Inl err \<Rightarrow> Err err
      | Inr params \<Rightarrow>
     (let (entries, fin) = m_iter (vk_Validator k) s;
          genesis = genesis\<lparr>vgs_Params := params\<rparr> in
      case walk (\<lambda>_ val g. (g\<lparr>vgs_ValidatorMap := vgs_ValidatorMap g @ [val]\<rparr>, False, None))
             entries fin genesis of
        (_, Some err) \<Rightarrow> Err err
      | (genesis, None) \<Rightarrow> Ret genesis))"

section \<open>Every branch of the handlers\<close>

lemma OnboardValidator_Ret_iff:
  "OnboardValidator k msg ctx = (Ret (), ctx') \<longleftrightarrow>
     vk_StringToBytes k (mov_Creator msg) = Inr (vk_authority k) \<and>
     mov_Index msg \<noteq> '''' \<and> mov_MemberId msg \<noteq> '''' \<and> mov_OperatorAddress msg \<noteq> '''' \<and>
     mov_Status msg \<noteq> '''' \<and>
     m_has (vk_Validator k) (vc_store ctx) (mov_Index msg) = Inr False \<and>
     (\<exists>a. vk_ValAddressFromBech32 k (mov_OperatorAddress msg) = Inr a) \<and>
     (\<exists>s. m_set (vk_Validator k) (vc_store ctx) (mov_Index msg) (onboarded_validator msg) = Inr s
        \<and> ctx' = ctx\<lparr>vc_store := s, vc_events := vc_events ctx @ [onboarded_event msg]\<rparr>)"
  by (auto simp: OnboardValidator_def vr_GetAuthority_def Let_def split: sum.splits if_splits)

lemma OnboardValidator_cases:
  "(\<exists>ctx'. OnboardValidator k msg ctx = (Ret (), ctx')) \<or>
   (\<exists>err. OnboardValidator k msg ctx = (Err err, ctx))"
  by (simp add: OnboardValidator_def Let_def split: sum.split)

lemma vr_UpdateParams_Ret_iff:
  "vr_UpdateParams k req ctx = (Ret (), ctx') \<longleftrightarrow>
     vk_StringToBytes k (vmup_Authority req) = Inr (vk_authority k) \<and>
     (\<exists>s. i_set (vk_Params k) (vc_store ctx) (vmup_Params req) = Inr s \<and> ctx' = ctx\<lparr>vc_store := s\<rparr>)"
  by (auto simp: vr_UpdateParams_def vr_GetAuthority_def vr_Params_Validate_def Let_def
      split: sum.splits if_splits)

lemma vr_UpdateParams_cases:
  "(\<exists>ctx'. vr_UpdateParams k req ctx = (Ret (), ctx')) \<or>
   (\<exists>err. vr_UpdateParams k req ctx = (Err err, ctx))"
  by (simp add: vr_UpdateParams_def Let_def split: sum.split option.split)

section \<open>What the operations do to the abstract registry\<close>

text \<open>The registry map is keyed by the index of the entry.\<close>

definition keyed :: "(string \<rightharpoonup> Validator) \<Rightarrow> bool" where
  "keyed m \<longleftrightarrow> (\<forall>i v. m i = Some v \<longrightarrow> v_Index v = i)"

lemma keyed_upd [intro]: "keyed m \<Longrightarrow> v_Index v = i \<Longrightarrow> keyed (m(i \<mapsto> v))"
  by (auto simp: keyed_def)

lemma onboarded_validator_sel [simp]:
  "v_Index (onboarded_validator msg) = mov_Index msg"
  "v_OperatorAddress (onboarded_validator msg) = mov_OperatorAddress msg"
  by (simp_all add: onboarded_validator_def)

definition import_map :: "Validator list \<Rightarrow> (string \<rightharpoonup> Validator)" where
  "import_map vs = map_of (rev (map (\<lambda>v. (v_Index v, v)) vs))"

lemma import_map_Nil [simp]: "m ++ import_map [] = m"
  by (simp add: import_map_def)

lemma import_map_Cons [simp]: "m ++ import_map (v # vs) = m(v_Index v \<mapsto> v) ++ import_map vs"
  by (simp add: import_map_def)

lemma vr_export_walk:
  "walk (\<lambda>_ val g. (g\<lparr>vgs_ValidatorMap := vgs_ValidatorMap g @ [val]\<rparr>, False, None)) es fin g =
     (g\<lparr>vgs_ValidatorMap := vgs_ValidatorMap g @ map snd es\<rparr>, fin)"
  by (induction es arbitrary: g) auto

locale registry =
  registry_store "vk_Params k" "vk_Validator k" invar pabs iok vabs okey ok less
  for k :: "'s VrKeeper" and invar pabs iok vabs okey ok less
begin

lemma whitelisted_iff:
  "invar s \<Longrightarrow> IsValidatorWhitelisted k s a \<longleftrightarrow>
     (\<exists>i v. vabs s i = Some v \<and> v_OperatorAddress v = a)"
  using walk_search_abs [of s "\<lambda>v. v_OperatorAddress v = a"]
  by (simp add: IsValidatorWhitelisted_def case_prod_beta Let_def)

lemma onboard_abs:
  assumes "invar (vc_store ctx)" "okey (mov_Index msg)" "ok (onboarded_validator msg)"
    and ret: "OnboardValidator k msg ctx = (Ret (), ctx')"
  shows "invar (vc_store ctx') \<and> mov_Index msg \<notin> dom (vabs (vc_store ctx)) \<and>
    vabs (vc_store ctx') = (vabs (vc_store ctx))(mov_Index msg \<mapsto> onboarded_validator msg) \<and>
    pabs (vc_store ctx') = pabs (vc_store ctx)"
proof -
  from ret obtain s where set: "m_set (vk_Validator k) (vc_store ctx) (mov_Index msg)
      (onboarded_validator msg) = Inr s" and ctx': "vc_store ctx' = s"
    and new: "m_has (vk_Validator k) (vc_store ctx) (mov_Index msg) = Inr False"
    by (auto simp: OnboardValidator_Ret_iff)
  from assms(1-3) have "invar s \<and> vabs s = (vabs (vc_store ctx))(mov_Index msg \<mapsto> onboarded_validator msg)"
    by (rule map_setE) (simp add: set)
  then show ?thesis
    using assms(1-3) new map_frame [OF assms(1-3) set] by (simp add: ctx' map_has)
qed

lemma onboard_succeeds:
  assumes "invar (vc_store ctx)" "okey (mov_Index msg)" "ok (onboarded_validator msg)"
    and "vk_StringToBytes k (mov_Creator msg) = Inr (vk_authority k)"
    and "mov_Index msg \<noteq> ''''" "mov_MemberId msg \<noteq> ''''" "mov_OperatorAddress msg \<noteq> ''''"
      "mov_Status msg \<noteq> ''''"
    and "mov_Index msg \<notin> dom (vabs (vc_store ctx))"
    and "vk_ValAddressFromBech32 k (mov_OperatorAddress msg) = Inr a"
  shows "\<exists>ctx'. OnboardValidator k msg ctx = (Ret (), ctx')"
  using assms(4-) map_set [OF assms(1-3)]
  by (simp add: OnboardValidator_Ret_iff map_has [OF assms(1,2)]) blast

lemma update_params_abs:
  assumes "invar (vc_store ctx)" "iok (vmup_Params req)"
    and ret: "vr_UpdateParams k req ctx = (Ret (), ctx')"
  shows "invar (vc_store ctx') \<and> vabs (vc_store ctx') = vabs (vc_store ctx) \<and>
    pabs (vc_store ctx') = Some (vmup_Params req)"
proof -
  from ret obtain s where set: "i_set (vk_Params k) (vc_store ctx) (vmup_Params req) = Inr s"
    and ctx': "vc_store ctx' = s" by (auto simp: vr_UpdateParams_Ret_iff)
  from assms(1,2) have "invar s \<and> pabs s = Some (vmup_Params req)"
    by (rule item_setE) (simp add: set)
  then show ?thesis using item_frame [OF assms(1,2) set] by (simp add: ctx')
qed

lemma get_validator_abs:
  "invar s \<Longrightarrow> okey i \<Longrightarrow>
   GetValidator k (Some \<lparr>qgvr_Index = i\<rparr>) s = (case vabs s i of
      None \<Rightarrow> Err (StatusErr NotFound ''not found'') | Some v \<Rightarrow> Ret \<lparr>qgvs_Validator = v\<rparr>)"
  by (simp add: GetValidator_def map_get split: option.splits)

lemma params_abs:
  "invar s \<Longrightarrow> vr_Query_Params k (Some q) s = Ret \<lparr>vqpr_Params = VrParams\<rparr>"
proof -
  have "p = VrParams" for p by (cases p)
  then show "invar s \<Longrightarrow> ?thesis" by (simp add: vr_Query_Params_def item_get split: option.split)
qed

lemma import_abs:
  "invar s \<Longrightarrow> \<forall>v \<in> set vs. okey (v_Index v) \<and> ok v \<Longrightarrow>
   \<exists>s'. vr_import_validators k vs s = (None, s') \<and> invar s' \<and> pabs s' = pabs s \<and>
        vabs s' = vabs s ++ import_map vs"
proof (induction vs arbitrary: s)
  case Nil
  then show ?case by simp
next
  case (Cons v vs)
  then have h: "invar s" "okey (v_Index v)" "ok v" by simp_all
  obtain s1 where s1: "m_set (vk_Validator k) s (v_Index v) v = Inr s1" "invar s1"
    "vabs s1 = (vabs s)(v_Index v \<mapsto> v)" using map_set [OF h] by blast
  have "pabs s1 = pabs s" using h s1(1) by (rule map_frame)
  from Cons.prems(2) have "\<forall>v \<in> set vs. okey (v_Index v) \<and> ok v" by simp
  from Cons.IH [OF s1(2) this] obtain s' where "vr_import_validators k vs s1 = (None, s')"
    "invar s'" "pabs s' = pabs s1" "vabs s' = vabs s1 ++ import_map vs" by blast
  with s1 \<open>pabs s1 = pabs s\<close> show ?case by (intro exI [of _ s']) simp
qed

lemma init_genesis_abs:
  assumes "invar (vc_store ctx)" "\<forall>v \<in> set (vgs_ValidatorMap g). okey (v_Index v) \<and> ok v"
    "iok (vgs_Params g)"
  shows "\<exists>s'. vr_InitGenesis k g ctx = (Ret (), ctx\<lparr>vc_store := s'\<rparr>) \<and> invar s' \<and>
    pabs s' = Some (vgs_Params g) \<and> vabs s' = vabs (vc_store ctx) ++ import_map (vgs_ValidatorMap g)"
proof -
  from import_abs [OF assms(1,2)] obtain s where
    s: "vr_import_validators k (vgs_ValidatorMap g) (vc_store ctx) = (None, s)" "invar s"
      "vabs s = vabs (vc_store ctx) ++ import_map (vgs_ValidatorMap g)" by blast
  from s(2) assms(3) obtain s' where "i_set (vk_Params k) s (vgs_Params g) = Inr s'" "invar s'"
    "pabs s' = Some (vgs_Params g)" by (rule item_setE)
  with item_frame [OF s(2) assms(3)] s show ?thesis
    by (intro exI [of _ s']) (simp add: vr_InitGenesis_def)
qed

lemma export_genesis_abs:
  assumes "invar s" "pabs s = Some p"
  shows "\<exists>es. vr_ExportGenesis k s = Ret \<lparr>vgs_Params = p, vgs_ValidatorMap = map snd es\<rparr> \<and>
    map_of es = vabs s \<and> sorted_wrt less (map fst es) \<and> distinct (map fst es)"
proof -
  from assms(1) obtain es where es: "m_iter (vk_Validator k) s = (es, None)"
    "sorted_wrt less (map fst es)" "distinct (map fst es)" "map_of es = vabs s"
    by (elim map_iterE)
  with assms show ?thesis
    by (intro exI [of _ es]) (simp add: vr_ExportGenesis_def item_get vr_DefaultGenesis_def vr_export_walk)
qed

end

end
