(* ===== verification/Group.thy ===== *)
theory Group
  imports Prelude
begin

text \<open>
  The group module of the SDK (\<open>x/group\<close>) as the code uses it: proposals with the fields the code
  reads, and the keeper's queries and \<open>Exec\<close> as functions over an abstract state \<open>'g\<close>. Times are
  counted in nanoseconds; \<open>t.Before(u)\<close> is \<open>t < u\<close>. Of the enumerations only the constants the code
  names are distinguished.
\<close>

datatype proposal_status = PROPOSAL_STATUS_ACCEPTED | Proposal_Status_Other nat

datatype executor_result =
    PROPOSAL_EXECUTOR_RESULT_SUCCESS | PROPOSAL_EXECUTOR_RESULT_FAILURE
  | Executor_Result_Other nat

record Proposal =
  pr_Id :: u64
  pr_GroupPolicyAddress :: string
  pr_Status :: proposal_status
  pr_ExecutorResult :: executor_result
  pr_VotingPeriodEnd :: int

record 'g group_ops =
  g_StatusString :: "proposal_status \<Rightarrow> string"   \<comment> \<open>\<open>ProposalStatus.String\<close>\<close>
  g_Groups :: "'g \<Rightarrow> go_error + u64 list"
  g_GroupPoliciesByGroup :: "'g \<Rightarrow> u64 \<Rightarrow> go_error + string list"
  g_ProposalsByGroupPolicy :: "'g \<Rightarrow> string \<Rightarrow> go_error + Proposal list"
  g_Proposal :: "'g \<Rightarrow> u64 \<Rightarrow> go_error + Proposal"
  g_Exec :: "'g \<Rightarrow> u64 \<Rightarrow> string \<Rightarrow> unit outcome \<times> 'g"

text \<open>A proposal may run once its voting period is over and it is accepted.\<close>

definition may_execute :: "int \<Rightarrow> Proposal \<Rightarrow> bool" where
  "may_execute now p \<longleftrightarrow>
     pr_VotingPeriodEnd p \<le> now \<and> pr_Status p = PROPOSAL_STATUS_ACCEPTED"

text \<open>\<dots> and has not been run to an end before.\<close>

definition pending :: "int \<Rightarrow> Proposal \<Rightarrow> bool" where
  "pending now p \<longleftrightarrow> may_execute now p \<and>
     pr_ExecutorResult p \<noteq> PROPOSAL_EXECUTOR_RESULT_SUCCESS \<and>
     pr_ExecutorResult p \<noteq> PROPOSAL_EXECUTOR_RESULT_FAILURE"

end
