(* ===== verification/Ante.thy ===== *)
theory Ante
  imports VrKeeper Group
begin

text \<open>
  The ante handler (\<open>ante/\<close>): the two decorators of this chain and the order \<open>NewAnteHandler\<close>
  gives them among the SDK's own. A decorator receives the context, the transaction, the simulate
  flag and the rest of the chain. The SDK's decorators and \<open>sdk.ChainAnteDecorators\<close> are
  parameters.
\<close>

section \<open>Transactions and handlers\<close>

text \<open>Messages, as the type switches of the decorators tell them apart.\<close>

datatype 'm sdk_msg =
    MsgExec u64              \<comment> \<open>\<open>*group.MsgExec\<close> with its \<open>ProposalId\<close>\<close>
  | MsgCreateValidator string \<comment> \<open>\<open>*stakingtypes.MsgCreateValidator\<close> with its \<open>ValidatorAddress\<close>\<close>
  | OtherMsg 'm

record ('m, 'x) Tx =
  tx_Msgs :: "'m sdk_msg list"
  tx_Rest :: 'x                \<comment> \<open>fees, memo, signatures\<close>

record ('s, 'g, 'z) AnteCtx =
  ac_BlockTime :: int
  ac_Registry :: 's
  ac_Group :: 'g
  ac_Rest :: 'z

type_synonym ('c, 't) AnteHandler = "'c \<Rightarrow> 't \<Rightarrow> bool \<Rightarrow> 'c \<times> unit outcome"
type_synonym ('c, 't) AnteDecorator = "'c \<Rightarrow> 't \<Rightarrow> bool \<Rightarrow> ('c, 't) AnteHandler \<Rightarrow> 'c \<times> unit outcome"

definition ErrInvalidRequest :: go_error where
  "ErrInvalidRequest = Sentinel ''sdk'' 18"

definition ErrUnauthorized :: go_error where
  "ErrUnauthorized = Sentinel ''sdk'' 4"

section \<open>Group proposal timing\<close>

text \<open>The loop over the messages; the result is the error of the first message that is refused.\<close>

fun timing_check :: "'g group_ops \<Rightarrow> 'g \<Rightarrow> int \<Rightarrow> 'm sdk_msg list \<Rightarrow> go_error option" where
  "timing_check G g currentTime [] = None"
| "timing_check G g currentTime (msg # rest) =
     (case msg of
        MsgExec proposalId \<Rightarrow>
          (case g_Proposal G g proposalId of
             Inl err \<Rightarrow> Some (Wrapf ErrInvalidRequest ''failed to get proposal %d: %v''
                          [ArgU64 proposalId, ArgErr err])
           | Inr proposal \<Rightarrow>
               let votingPeriodEnd = pr_VotingPeriodEnd proposal in
               if currentTime < votingPeriodEnd then
                 Some (Wrapf ErrInvalidRequest
                   ''proposal %d cannot be executed yet. Voting period ends at %s, current time is %s. Execute only after voting period ends''
                   [ArgU64 proposalId, ArgTime votingPeriodEnd, ArgTime currentTime])
               else if pr_Status proposal \<noteq> PROPOSAL_STATUS_ACCEPTED then
                 Some (Wrapf ErrInvalidRequest
                   ''proposal %d is not in ACCEPTED status (current: %s). Only accepted proposals can be executed''
                   [ArgU64 proposalId, ArgStr (g_StatusString G (pr_Status proposal))])
               else timing_check G g currentTime rest)
      | _ \<Rightarrow> timing_check G g currentTime rest)"

definition GroupProposalTiming_AnteHandle ::
    "'g group_ops \<Rightarrow> (('s, 'g, 'z) AnteCtx, ('m, 'x) Tx) AnteDecorator" where
  "GroupProposalTiming_AnteHandle G ctx tx simulate next =
     (case timing_check G (ac_Group ctx) (ac_BlockTime ctx) (tx_Msgs tx) of
        Some err \<Rightarrow> (ctx, Err err)
      | None \<Rightarrow> next ctx tx simulate)"

section \<open>Validator whitelist\<close>

fun whitelist_check :: "'s VrKeeper \<Rightarrow> 's \<Rightarrow> 'm sdk_msg list \<Rightarrow> go_error option" where
  "whitelist_check k s [] = None"
| "whitelist_check k s (msg # rest) =
     (case msg of
        MsgCreateValidator addr \<Rightarrow>
          if \<not> IsValidatorWhitelisted k s addr then
            Some (Wrapf ErrUnauthorized
              ''validator address %s is not whitelisted. Only whitelisted validators can create validators''
              [ArgStr addr])
          else whitelist_check k s rest
      | _ \<Rightarrow> whitelist_check k s rest)"

definition ValidatorWhitelist_AnteHandle ::
    "'s VrKeeper \<Rightarrow> (('s, 'g, 'z) AnteCtx, ('m, 'x) Tx) AnteDecorator" where
  "ValidatorWhitelist_AnteHandle k ctx tx simulate next =
     (case whitelist_check k (ac_Registry ctx) (tx_Msgs tx) of
        Some err \<Rightarrow> (ctx, Err err)
      | None \<Rightarrow> next ctx tx simulate)"

section \<open>The chain\<close>

record ('c, 't, 'ak, 'bk) sdk_ante =
  sa_SetUpContext :: "('c, 't) AnteDecorator"
  sa_ValidateBasic :: "('c, 't) AnteDecorator"
  sa_DeductFee :: "'ak \<Rightarrow> 'bk \<Rightarrow> ('c, 't) AnteDecorator"
  sa_IncrementSequence :: "'ak \<Rightarrow> ('c, 't) AnteDecorator"
  sa_ChainAnteDecorators :: "('c, 't) AnteDecorator list \<Rightarrow> ('c, 't) AnteHandler"

text \<open>A nil keeper or handler map is \<open>None\<close>.\<close>

definition NewAnteHandler ::
    "(('s, 'g, 'z) AnteCtx, ('m, 'x) Tx, 'ak, 'bk) sdk_ante \<Rightarrow> 'ak \<Rightarrow> 'bk option \<Rightarrow> 'smh option
     \<Rightarrow> 'sgc \<Rightarrow> 's VrKeeper \<Rightarrow> 'g group_ops \<Rightarrow> go_error + (('s, 'g, 'z) AnteCtx, ('m, 'x) Tx) AnteHandler" where
  "NewAnteHandler S accountKeeper bankKeeper signModeHandler sigGasConsumer
       validatorRegistryKeeper groupKeeper =
     (case bankKeeper of
        None \<Rightarrow> Inl (Errorf ''bank keeper is required'' [])
      | Some bk \<Rightarrow>
     (case signModeHandler of
        None \<Rightarrow> Inl (Errorf ''sign mode handler is required'' [])
      | Some _ \<Rightarrow>
     let anteDecorators =
           [sa_SetUpContext S,
            sa_ValidateBasic S,
            GroupProposalTiming_AnteHandle groupKeeper,
            ValidatorWhitelist_AnteHandle validatorRegistryKeeper,
            sa_DeductFee S accountKeeper bk,
            sa_IncrementSequence S accountKeeper] in
     Inr (sa_ChainAnteDecorators S anteDecorators)))"

section \<open>Lemmas\<close>

definition exec_allowed :: "'g group_ops \<Rightarrow> 'g \<Rightarrow> int \<Rightarrow> 'm sdk_msg \<Rightarrow> bool" where
  "exec_allowed G g now msg =
     (case msg of
        MsgExec i \<Rightarrow> (case g_Proposal G g i of Inl _ \<Rightarrow> False | Inr p \<Rightarrow> may_execute now p)
      | _ \<Rightarrow> True)"

definition create_allowed :: "'s VrKeeper \<Rightarrow> 's \<Rightarrow> 'm sdk_msg \<Rightarrow> bool" where
  "create_allowed k s msg =
     (case msg of MsgCreateValidator a \<Rightarrow> IsValidatorWhitelisted k s a | _ \<Rightarrow> True)"

lemma exec_allowed_simps [simp]:
  "exec_allowed G g now (MsgExec i) \<longleftrightarrow> (\<exists>p. g_Proposal G g i = Inr p \<and> may_execute now p)"
  "exec_allowed G g now (MsgCreateValidator a)"
  "exec_allowed G g now (OtherMsg m)"
  by (auto simp: exec_allowed_def split: sum.split)

lemma create_allowed_simps [simp]:
  "create_allowed k s (MsgExec i)"
  "create_allowed k s (MsgCreateValidator a) \<longleftrightarrow> IsValidatorWhitelisted k s a"
  "create_allowed k s (OtherMsg m)"
  by (simp_all add: create_allowed_def)

lemma timing_check_None:
  "timing_check G g now msgs = None \<longleftrightarrow> list_all (exec_allowed G g now) msgs"
proof (induction msgs)
  case (Cons msg msgs)
  then show ?case
    by (cases msg) (auto simp: may_execute_def Let_def split: sum.split)
qed simp

lemma whitelist_check_None:
  "whitelist_check k s msgs = None \<longleftrightarrow> list_all (create_allowed k s) msgs"
proof (induction msgs)
  case (Cons msg msgs)
  then show ?case by (cases msg) auto
qed simp

text \<open>
  The chain of the SDK: \<open>ChainAnteDecorators\<close> gives each decorator the rest of the chain as \<open>next\<close>,
  and the SDK's first two decorators either refuse or go on with the same transaction and a context
  that shows the same block time, registry and group state.
\<close>

definition same_view :: "('s, 'g, 'z) AnteCtx \<Rightarrow> ('s, 'g, 'z) AnteCtx \<Rightarrow> bool" where
  "same_view c c' \<longleftrightarrow> ac_BlockTime c = ac_BlockTime c' \<and> ac_Registry c = ac_Registry c' \<and>
     ac_Group c = ac_Group c'"

definition passes_on :: "(('s, 'g, 'z) AnteCtx, ('m, 'x) Tx) AnteDecorator \<Rightarrow> bool" where
  "passes_on d \<longleftrightarrow> (\<forall>ctx tx sim nxt r. d ctx tx sim nxt = (r, Ret ()) \<longrightarrow>
     (\<exists>ctx'. same_view ctx ctx' \<and> nxt ctx' tx sim = (r, Ret ())))"

locale sdk_chain =
  fixes S :: "(('s, 'g, 'z) AnteCtx, ('m, 'x) Tx, 'ak, 'bk) sdk_ante"
  assumes chain: "sa_ChainAnteDecorators S (d # ds) ctx tx sim =
      d ctx tx sim (sa_ChainAnteDecorators S ds)"
    and set_up: "passes_on (sa_SetUpContext S)"
    and basic: "passes_on (sa_ValidateBasic S)"
begin

lemma accepted:
  assumes h: "NewAnteHandler S ak bk smh sgc k G = Inr h" and acc: "h ctx tx sim = (r, Ret ())"
  shows "list_all (exec_allowed G (ac_Group ctx) (ac_BlockTime ctx)) (tx_Msgs tx) \<and>
    list_all (create_allowed k (ac_Registry ctx)) (tx_Msgs tx)"
proof -
  from h obtain b where heq: "h = sa_ChainAnteDecorators S [sa_SetUpContext S, sa_ValidateBasic S,
      GroupProposalTiming_AnteHandle G, ValidatorWhitelist_AnteHandle k,
      sa_DeductFee S ak b, sa_IncrementSequence S ak]"
    by (auto simp: NewAnteHandler_def Let_def split: option.splits)
  from acc set_up obtain c1 where c1: "same_view ctx c1"
    "sa_ChainAnteDecorators S [sa_ValidateBasic S, GroupProposalTiming_AnteHandle G,
      ValidatorWhitelist_AnteHandle k, sa_DeductFee S ak b, sa_IncrementSequence S ak] c1 tx sim = (r, Ret ())"
    unfolding heq chain [of "sa_SetUpContext S"] passes_on_def by blast
  from c1(2) basic obtain c2 where c2: "same_view c1 c2"
    "sa_ChainAnteDecorators S [GroupProposalTiming_AnteHandle G, ValidatorWhitelist_AnteHandle k,
      sa_DeductFee S ak b, sa_IncrementSequence S ak] c2 tx sim = (r, Ret ())"
    unfolding chain [of "sa_ValidateBasic S"] passes_on_def by blast
  from c2(2) have "timing_check G (ac_Group c2) (ac_BlockTime c2) (tx_Msgs tx) = None"
    and "whitelist_check k (ac_Registry c2) (tx_Msgs tx) = None"
    by (auto simp: chain GroupProposalTiming_AnteHandle_def ValidatorWhitelist_AnteHandle_def
        split: option.splits)
  with c1(1) c2(1) show ?thesis
    by (simp add: same_view_def timing_check_None whitelist_check_None)
qed

end

section \<open>A chain that keeps the contract\<close>

text \<open>
  The chain as nested calls, ended by a handler that accepts; \<open>SetUpContext\<close> changes only the part of
  the context the decorators here do not read (the gas meter), \<open>ValidateBasic\<close> refuses transactions
  by a test of its own.
\<close>

fun chain_decorators :: "('c, 't) AnteDecorator list \<Rightarrow> ('c, 't) AnteHandler" where
  "chain_decorators [] ctx tx sim = (ctx, Ret ())"
| "chain_decorators (d # ds) ctx tx sim = d ctx tx sim (chain_decorators ds)"

definition sdk_decorators ::
    "('z \<Rightarrow> 'z) \<Rightarrow> (('m, 'x) Tx \<Rightarrow> bool) \<Rightarrow> (('s, 'g, 'z) AnteCtx, ('m, 'x) Tx, 'ak, 'bk) sdk_ante" where
  "sdk_decorators setGas basicOk =
     \<lparr>sa_SetUpContext = (\<lambda>ctx tx sim nxt. nxt (ctx\<lparr>ac_Rest := setGas (ac_Rest ctx)\<rparr>) tx sim),
      sa_ValidateBasic = (\<lambda>ctx tx sim nxt.
        if basicOk tx then nxt ctx tx sim else (ctx, Err (LibError ''no signatures''))),
      sa_DeductFee = (\<lambda>ak bk ctx tx sim nxt. nxt ctx tx sim),
      sa_IncrementSequence = (\<lambda>ak ctx tx sim nxt. nxt ctx tx sim),
      sa_ChainAnteDecorators = chain_decorators\<rparr>"

lemma set_up_passes_on: "passes_on (sa_SetUpContext (sdk_decorators setGas basicOk))"
  unfolding passes_on_def
proof (intro allI impI)
  fix ctx tx sim nxt r
  assume "sa_SetUpContext (sdk_decorators setGas basicOk) ctx tx sim nxt = (r, Ret ())"
  then show "\<exists>ctx'. same_view ctx ctx' \<and> nxt ctx' tx sim = (r, Ret ())"
    by (intro exI [of _ "ctx\<lparr>ac_Rest := setGas (ac_Rest ctx)\<rparr>"])
      (simp add: sdk_decorators_def same_view_def)
qed

interpretation sdk_decorators: sdk_chain "sdk_decorators setGas basicOk" for setGas basicOk
  by unfold_locales
    (simp_all add: set_up_passes_on, auto simp: sdk_decorators_def passes_on_def same_view_def
      split: if_splits)

end
