(* ===== verification/Sdk.thy ===== *)
theory Sdk
  imports Prelude
begin

text \<open>
  The Cosmos SDK libraries the trust deposit module calls, as parameters: the decimal type
  \<open>math.LegacyDec\<close>, the \<open>sdk.Coins\<close> constructors and comparisons, and the bank keeper of
  \<open>types/expected_keepers.go\<close>. The locales state the documented behaviour the module relies on;
  \<open>SdkModel\<close> interprets them on a fixed-point decimal and a ledger of balances.
\<close>

section \<open>Operations\<close>

text \<open>\<open>None\<close> is a panic (overflow of the representation, division by zero, invalid coin).\<close>

record 'd dec_ops =
  LegacyDecNil :: 'd                            \<comment> \<open>the zero value \<open>LegacyDec{}\<close>\<close>
  LegacyZeroDec :: 'd
  LegacyNewDec :: "int \<Rightarrow> 'd"
  LegacyNewDecFromInt :: "int \<Rightarrow> 'd"
  LegacyNewDecFromStr :: "string \<Rightarrow> go_error + 'd"
  dec_Add :: "'d \<Rightarrow> 'd \<Rightarrow> 'd option"
  dec_Sub :: "'d \<Rightarrow> 'd \<Rightarrow> 'd option"
  dec_Mul :: "'d \<Rightarrow> 'd \<Rightarrow> 'd option"
  dec_Quo :: "'d \<Rightarrow> 'd \<Rightarrow> 'd option"
  dec_GTE :: "'d \<Rightarrow> 'd \<Rightarrow> bool"
  dec_TruncateInt :: "'d \<Rightarrow> int option"

record 'c coin_ops =
  NewCoins1 :: "string \<Rightarrow> int \<Rightarrow> 'c option"     \<comment> \<open>\<open>sdk.NewCoins(sdk.NewCoin(denom, amount))\<close>\<close>
  coins_IsZero :: "'c \<Rightarrow> bool"
  coins_IsAllGTE :: "'c \<Rightarrow> 'c \<Rightarrow> bool"

record ('b, 'c) bank_ops =
  GetAllBalances :: "'b \<Rightarrow> bytes \<Rightarrow> 'c"
  SendCoinsFromAccountToModule :: "'b \<Rightarrow> bytes \<Rightarrow> string \<Rightarrow> 'c \<Rightarrow> 'b outcome"
  SendCoinsFromModuleToModule :: "'b \<Rightarrow> string \<Rightarrow> string \<Rightarrow> 'c \<Rightarrow> 'b outcome"

section \<open>The contract of the decimal type\<close>

text \<open>
  A decimal is an integer \<open>raw\<close> counting units of \<open>10^-18\<close>. Sums and differences are exact, products
  are rounded to a nearest unit, quotients are within one unit, \<open>TruncateInt\<close> rounds towards zero.
  Results whose size stays under the limit of the representation do not panic.
\<close>

definition prec :: int where "prec = 10 ^ 18"

lemma prec_pos [simp]: "0 < prec"
  by (simp add: prec_def)

lemma prec_nonneg [simp]: "0 \<le> prec"
  by (simp add: prec_def)

lemma abs_prec [simp]: "\<bar>prec\<bar> = prec"
  by (simp add: prec_def)

lemma abs_scaled: "z = x * prec \<Longrightarrow> \<bar>z\<bar> = \<bar>x\<bar> * prec"
  by (simp add: abs_mult)

definition dec_limit :: int where "dec_limit = 2 ^ 250"

definition trunc_div :: "int \<Rightarrow> int \<Rightarrow> int" where
  "trunc_div a b = (let q = \<bar>a\<bar> div \<bar>b\<bar> in if 0 \<le> a \<longleftrightarrow> 0 \<le> b then q else - q)"

lemma trunc_div_nonneg: "0 \<le> a \<Longrightarrow> 0 < b \<Longrightarrow> trunc_div a b = a div b"
  by (simp add: trunc_div_def)

locale legacy_dec =
  fixes L :: "'d dec_ops" and raw :: "'d \<Rightarrow> int"
  assumes raw_zero: "raw (LegacyZeroDec L) = 0"
    and raw_new: "raw (LegacyNewDec L n) = n * prec"
    and raw_of_int: "raw (LegacyNewDecFromInt L n) = n * prec"
    and raw_add: "\<bar>raw a + raw b\<bar> \<le> dec_limit \<Longrightarrow>
      \<exists>c. dec_Add L a b = Some c \<and> raw c = raw a + raw b"
    and raw_sub: "\<bar>raw a - raw b\<bar> \<le> dec_limit \<Longrightarrow>
      \<exists>c. dec_Sub L a b = Some c \<and> raw c = raw a - raw b"
    and raw_mul: "\<bar>raw a * raw b\<bar> \<le> dec_limit \<Longrightarrow>
      \<exists>c. dec_Mul L a b = Some c \<and> 2 * \<bar>raw c * prec - raw a * raw b\<bar> \<le> prec"
    and raw_quo: "raw b \<noteq> 0 \<Longrightarrow> \<bar>raw a\<bar> * prec \<le> dec_limit \<Longrightarrow>
      \<exists>c. dec_Quo L a b = Some c \<and> \<bar>raw c * raw b - raw a * prec\<bar> \<le> \<bar>raw b\<bar>"
    and raw_quo_sign: "dec_Quo L a b = Some c \<Longrightarrow> 0 \<le> raw a \<Longrightarrow> 0 < raw b \<Longrightarrow> 0 \<le> raw c"
    and raw_gte: "dec_GTE L a b \<longleftrightarrow> raw b \<le> raw a"
    and raw_trunc: "\<bar>raw a\<bar> \<le> dec_limit \<Longrightarrow> dec_TruncateInt L a = Some (trunc_div (raw a) prec)"

section \<open>The contract of coins and the bank\<close>

text \<open>
  \<open>amt c d\<close> is the amount of denomination \<open>d\<close> in the coins \<open>c\<close>, \<open>bal b a d\<close> the balance of address
  \<open>a\<close>, \<open>macc m\<close> the address of module account \<open>m\<close> and \<open>known m\<close> whether it exists. A transfer moves
  the coins if the sender has them and fails otherwise; an unknown module account is a panic.
\<close>

definition move :: "(bytes \<Rightarrow> string \<Rightarrow> nat) \<Rightarrow> bytes \<Rightarrow> bytes \<Rightarrow> (string \<Rightarrow> nat)
    \<Rightarrow> bytes \<Rightarrow> string \<Rightarrow> nat" where
  "move bl src dst c a d =
     bl a d - (if a = src then c d else 0) + (if a = dst then c d else 0)"

lemma move_self: "\<forall>d. c d \<le> bl a d \<Longrightarrow> move bl a a c = bl"
  by (auto simp: move_def fun_eq_iff)

lemma move_other: "a \<noteq> src \<Longrightarrow> a \<noteq> dst \<Longrightarrow> move bl src dst c a = bl a"
  by (auto simp: move_def)

lemma move_total:
  "finite A \<Longrightarrow> src \<in> A \<Longrightarrow> dst \<in> A \<Longrightarrow> c d \<le> bl src d \<Longrightarrow>
   (\<Sum>a\<in>A. move bl src dst c a d) = (\<Sum>a\<in>A. bl a d)"
proof -
  assume A: "finite A" "src \<in> A" "dst \<in> A" and le: "c d \<le> bl src d"
  have "(\<Sum>a\<in>A. int (move bl src dst c a d)) =
      (\<Sum>a\<in>A. int (bl a d) - (if a = src then int (c d) else 0) + (if a = dst then int (c d) else 0))"
    using le by (intro sum.cong) (auto simp: move_def)
  also have "\<dots> = (\<Sum>a\<in>A. int (bl a d))"
    using A by (simp add: sum.distrib sum_subtractf)
  finally show ?thesis by (simp flip: of_nat_sum)
qed

locale sdk_bank =
  fixes B :: "('b, 'c) bank_ops" and C :: "'c coin_ops"
    and amt :: "'c \<Rightarrow> string \<Rightarrow> nat" and bal :: "'b \<Rightarrow> bytes \<Rightarrow> string \<Rightarrow> nat"
    and macc :: "string \<Rightarrow> bytes" and known :: "string \<Rightarrow> bool"
  assumes new_coins: "0 \<le> n \<Longrightarrow>
      \<exists>c. NewCoins1 C d n = Some c \<and> amt c = (\<lambda>x. if x = d then nat n else 0)"
    and new_coins_neg: "n < 0 \<Longrightarrow> NewCoins1 C d n = None"
    and is_zero: "coins_IsZero C c \<longleftrightarrow> (\<forall>d. amt c d = 0)"
    and all_gte: "coins_IsAllGTE C c c' \<longleftrightarrow> (\<forall>d. amt c' d \<le> amt c d)"
    and balances: "amt (GetAllBalances B b a) = bal b a"
    and send_mm: "known m \<Longrightarrow> known m' \<Longrightarrow> \<forall>d. amt c d \<le> bal b (macc m) d \<Longrightarrow>
      \<exists>b'. SendCoinsFromModuleToModule B b m m' c = Ret b' \<and>
           bal b' = move (bal b) (macc m) (macc m') (amt c)"
    and send_mm_short: "known m \<Longrightarrow> known m' \<Longrightarrow> \<not> (\<forall>d. amt c d \<le> bal b (macc m) d) \<Longrightarrow>
      \<exists>e. SendCoinsFromModuleToModule B b m m' c = Err e"
    and send_mm_unknown: "\<not> known m \<or> \<not> known m' \<Longrightarrow>
      \<exists>e. SendCoinsFromModuleToModule B b m m' c = Panic e"
    and send_am: "SendCoinsFromAccountToModule B b a m c = Ret b' \<Longrightarrow>
      known m \<and> (\<forall>d. amt c d \<le> bal b a d) \<and> bal b' = move (bal b) a (macc m) (amt c)"
    and send_am_short: "known m \<Longrightarrow> \<not> (\<forall>d. amt c d \<le> bal b a d) \<Longrightarrow>
      \<exists>e. SendCoinsFromAccountToModule B b a m c = Err e"
    and send_am_unknown: "\<not> known m \<Longrightarrow> \<exists>e. SendCoinsFromAccountToModule B b a m c = Panic e"
begin

lemma send_all_mm:
  assumes "known m" "known m'" "macc m \<noteq> macc m'"
  shows "\<exists>b'. SendCoinsFromModuleToModule B b m m' (GetAllBalances B b (macc m)) = Ret b' \<and>
    bal b' = (bal b)(macc m := (\<lambda>_. 0),
                     macc m' := (\<lambda>d. bal b (macc m') d + bal b (macc m) d))"
proof -
  obtain b' where "SendCoinsFromModuleToModule B b m m' (GetAllBalances B b (macc m)) = Ret b'"
    "bal b' = move (bal b) (macc m) (macc m') (bal b (macc m))"
    using send_mm [of m m' "GetAllBalances B b (macc m)" b] assms(1,2) balances by auto
  with assms(3) show ?thesis by (auto simp: move_def fun_eq_iff)
qed

end

end
