(* ===== verification/Expected.thy ===== *)
theory Expected
  imports Sdk
begin

text \<open>
  The interfaces the two modules expect of other modules (\<open>types/expected_keepers.go\<close>), as records of
  their methods, and the sample addresses of \<open>testutil/sample\<close>. A method that reads takes the context it
  reads; \<open>Get\<close> of a parameter subspace returns the value the code passes a pointer for. Extension of a record is
  the inclusion of one interface in another, so that what the code passes where less is expected is the
  same value truncated.
\<close>

section \<open>The accounts\<close>

record ('ctx, 'acc) td_AccountKeeper =
  ak_GetAccount :: "'ctx \<Rightarrow> bytes \<Rightarrow> 'acc"

record ('ctx, 'acc, 'codec) td_AuthKeeper = "('ctx, 'acc) td_AccountKeeper" +
  ak_AddressCodec :: 'codec

record ('ctx, 'acc, 'codec) vr_AuthKeeper =
  vak_AddressCodec :: 'codec
  vak_GetAccount :: "'ctx \<Rightarrow> bytes \<Rightarrow> 'acc"

section \<open>The bank\<close>

text \<open>The trust deposit module moves coins (\<open>bank_ops\<close>), the registry only lists the bank.\<close>

record ('b, 'c) td_BankKeeper = "('b, 'c) bank_ops" +
  bk_SpendableCoins :: "'b \<Rightarrow> bytes \<Rightarrow> 'c"

record ('b, 'c) vr_BankKeeper =
  vbk_SpendableCoins :: "'b \<Rightarrow> bytes \<Rightarrow> 'c"

section \<open>Parameter subspaces\<close>

record ('ctx, 'v) td_ParamSubspace =
  tps_Get :: "'ctx \<Rightarrow> bytes \<Rightarrow> 'v"
  tps_Set :: "'ctx \<Rightarrow> bytes \<Rightarrow> 'v \<Rightarrow> 'ctx"

record ('ctx, 'v) vr_ParamSubspace =
  vps_Get :: "'ctx \<Rightarrow> bytes \<Rightarrow> 'v"
  vps_Set :: "'ctx \<Rightarrow> bytes \<Rightarrow> 'v \<Rightarrow> 'ctx"

section \<open>Sample addresses\<close>

text \<open>The key generator of \<open>ed25519\<close> takes its randomness from a source \<open>'r\<close>, which it leaves changed.\<close>

record ('r, 'sk, 'pk) ed25519_ops =
  ed_GenPrivKey :: "'r \<Rightarrow> 'sk \<times> 'r"
  ed_PubKey :: "'sk \<Rightarrow> 'pk"
  ed_Address :: "'pk \<Rightarrow> bytes"
  ed_AccAddress_String :: "bytes \<Rightarrow> string"

definition sample_AccAddress :: "('r, 'sk, 'pk) ed25519_ops \<Rightarrow> 'r \<Rightarrow> string \<times> 'r" where
  "sample_AccAddress E rand =
     (let (sk, rand') = ed_GenPrivKey E rand;
          pk = ed_PubKey E sk;
          addr = ed_Address E pk
      in (ed_AccAddress_String E addr, rand'))"

end
