(* ===== verification/Varint.thy ===== *)
theory Varint
  imports Wire
begin

text \<open>
  The varint encoding as a function to bytes, and that the buffer routines of \<open>Wire\<close> implement it:
  the size computed by \<open>sov\<close> is the number of bytes written, writing puts exactly these bytes, and
  reading them gives the value back. Sizes are between 1 and 10 bytes.
\<close>

unbundle bit_operations_syntax

function varint_bytes :: "u64 \<Rightarrow> bytes" where
  "varint_bytes v =
     (if 128 \<le> v then ucast (v AND 0x7f OR 0x80) # varint_bytes (drop_bit 7 v) else [ucast v])"
  by pat_completeness auto
termination by (relation "measure unat") (auto intro!: unat_drop_bit_less)

declare varint_bytes.simps [simp del]

lemma varint_bytes_small: "v < 128 \<Longrightarrow> varint_bytes v = [ucast v]"
  by (subst varint_bytes.simps) (simp add: not_le [symmetric])

lemma varint_bytes_big:
  "128 \<le> v \<Longrightarrow> varint_bytes v = ucast (v AND 0x7f OR 0x80) # varint_bytes (drop_bit 7 v)"
  by (subst varint_bytes.simps) simp

lemma varint_bytes_neq_Nil [simp]: "varint_bytes v \<noteq> []"
  by (subst varint_bytes.simps) simp

section \<open>Bits\<close>

lemma nat_lt_128_bits: "(n :: nat) < 128 \<longleftrightarrow> (\<forall>m. bit n m \<longrightarrow> m < 7)"
proof -
  have "n < 128 \<longleftrightarrow> take_bit 7 n = n" by (simp add: take_bit_nat_eq_self_iff)
  also have "\<dots> \<longleftrightarrow> (\<forall>m. bit n m \<longrightarrow> m < 7)" by (auto simp: bit_eq_iff bit_take_bit_iff)
  finally show ?thesis .
qed

lemma u64_lt_128: "(v :: u64) < 128 \<longleftrightarrow> (\<forall>m. bit v m \<longrightarrow> m < 7)"
  using nat_lt_128_bits [of "unat v"]
  by (auto simp: word_less_nat_alt bit_unsigned_iff possible_bit_def dest: bit_imp_le_length)

lemma byte_lt_128: "(b :: byte) < 128 \<longleftrightarrow> \<not> bit b 7"
proof -
  have "b < 128 \<longleftrightarrow> (\<forall>m. bit b m \<longrightarrow> m < 7)"
    using nat_lt_128_bits [of "unat b"]
    by (auto simp: word_less_nat_alt bit_unsigned_iff possible_bit_def dest: bit_imp_le_length)
  also have "\<dots> \<longleftrightarrow> \<not> bit b 7"
  proof -
    have "m < 7 \<or> m = 7" if "bit b m" for m using bit_imp_le_length [OF that] by simp arith
    then show ?thesis by blast
  qed
  finally show ?thesis .
qed

lemma numerals_bits: "(127 :: u64) = mask 7" "(127 :: byte) = mask 7"
  by (simp_all add: mask_eq_exp_minus_1)

lemma bit_128 [simp]: "bit (128 :: u64) n \<longleftrightarrow> n = 7" "bit (128 :: byte) n \<longleftrightarrow> n = 7"
  "bit (128 :: int) n \<longleftrightarrow> n = 7" "bit (128 :: nat) n \<longleftrightarrow> n = 7"
  using bit_exp_iff [of 7 n, where 'a = u64] bit_exp_iff [of 7 n, where 'a = byte]
    bit_exp_iff [of 7 n, where 'a = int] bit_exp_iff [of 7 n, where 'a = nat]
  by (auto simp: possible_bit_def)

lemma low7_of_big: "ucast (ucast (v AND 0x7f OR 0x80 :: u64) AND 0x7F :: byte) = (v AND 0x7f :: u64)"
  unfolding numerals_bits by (rule bit_word_eqI) (auto simp: bit_simps)

lemma low7_of_small: "v < 128 \<Longrightarrow> ucast (ucast (v :: u64) AND 0x7F :: byte) = v"
  unfolding numerals_bits(2) u64_lt_128 by (rule bit_word_eqI) (auto simp: bit_simps)

lemma big_byte_cont: "\<not> ucast (v AND 0x7f OR 0x80 :: u64) < (128 :: byte)"
  unfolding byte_lt_128 numerals_bits by (simp add: bit_simps)

lemma small_byte_last: "(v :: u64) < 128 \<Longrightarrow> (ucast v :: byte) < 128"
  unfolding byte_lt_128 u64_lt_128 by (auto simp: bit_simps)

lemma split7: "(v AND 0x7f) OR push_bit 7 (drop_bit 7 v) = (v :: u64)"
proof (rule bit_word_eqI)
  fix n
  show "bit ((v AND 0x7f) OR push_bit 7 (drop_bit 7 v)) n = bit v n" if "n < LENGTH(64)"
    using that unfolding numerals_bits by (cases "n < 7") (auto simp: bit_simps not_less)
qed

section \<open>The size\<close>

lemma Len64_drop: "x \<noteq> 0 \<Longrightarrow> Len64 x = Suc (Len64 (drop_bit 1 x))"
  by (subst Len64.simps) simp

lemma Len64_0 [simp]: "Len64 0 = 0"
  by (subst Len64.simps) simp

lemma Len64_le: "Len64 x \<le> n \<longleftrightarrow> unat x < 2 ^ n"
proof (induction n arbitrary: x)
  case 0
  then show ?case by (cases "x = 0") (simp_all add: Len64_drop unat_gt_0 not_less Suc_le_eq)
next
  case (Suc n)
  show ?case
  proof (cases "x = 0")
    case False
    have "unat (drop_bit 1 x) = unat x div 2"
      by (simp only: unat_drop_bit_eq drop_bit_eq_div [of 1 "unat x"] power_one_right)
    with False Suc [of "drop_bit 1 x"] show ?thesis by (simp add: Len64_drop del: One_nat_def) linarith
  qed simp
qed

lemma Len64_le_64: "Len64 x \<le> 64"
  using unsigned_less [of x] by (simp add: Len64_le)

lemma Len64_drop_bit: "Len64 (drop_bit k x) = Len64 x - k"
proof -
  have "Len64 (drop_bit k x) \<le> n \<longleftrightarrow> Len64 x \<le> n + k" for n
  proof -
    have "unat (drop_bit k x) < 2 ^ n \<longleftrightarrow> unat x < 2 ^ (n + k)"
      by (simp only: unat_drop_bit_eq drop_bit_eq_div [of k "unat x"])
        (simp add: div_less_iff_less_mult power_add)
    then show ?thesis by (simp add: Len64_le)
  qed
  from this [of "Len64 x - k"] this [of "Len64 (drop_bit k x)"] show ?thesis by linarith
qed

lemma Len64_or_1: "Len64 (x OR 1) = max 1 (Len64 x)"
proof (cases "x = 0")
  case True
  then show ?thesis by (simp add: Len64_drop)
next
  case False
  have "drop_bit 1 (x OR 1) = drop_bit 1 x" by (rule bit_word_eqI) (auto simp: bit_simps)
  moreover have "x OR 1 \<noteq> 0"
  proof
    assume "x OR 1 = 0"
    then have "bit (x OR 1) 0 = bit (0 :: u64) 0" by simp
    then show False by (simp add: bit_simps)
  qed
  ultimately show ?thesis using False by (simp add: Len64_drop del: One_nat_def)
qed

lemma sov_eq: "sov v = (max 1 (Len64 v) + 6) div 7"
  by (simp add: sov_def Len64_or_1)

lemma sov_bounds: "1 \<le> sov v \<and> sov v \<le> 10"
  using Len64_le_64 [of v] by (auto simp: sov_eq max_def)

lemma length_varint_bytes: "length (varint_bytes v) = sov v"
proof (induction v rule: varint_bytes.induct)
  case (1 v)
  show ?case
  proof (cases "128 \<le> v")
    case True
    then have "7 < Len64 v"
      using Len64_le [of v 7] by (simp add: word_le_nat_alt not_le [symmetric])
    then show ?thesis using True 1 by (simp add: varint_bytes_big sov_eq Len64_drop_bit)
  next
    case False
    then have "Len64 v \<le> 7" by (simp add: Len64_le word_le_nat_alt not_le)
    then show ?thesis using False by (auto simp: varint_bytes_small not_le sov_eq max_def)
  qed
qed

section \<open>Writing puts the encoding\<close>

lemma put_varint_eq:
  "length xs = length (varint_bytes v) \<Longrightarrow>
   put_varint (pre @ xs @ post) (length pre) v = Some (pre @ varint_bytes v @ post)"
proof (induction v arbitrary: pre xs rule: varint_bytes.induct)
  case (1 v)
  show ?case
  proof (cases "128 \<le> v")
    case True
    have "length xs = Suc (length (varint_bytes (drop_bit 7 v)))"
      unfolding "1.prems" varint_bytes_big [OF True] by simp
    then obtain x ys where xs: "xs = x # ys" "length ys = length (varint_bytes (drop_bit 7 v))"
      by (cases xs) auto
    have "put_varint ((pre @ [ucast (v AND 0x7f OR 0x80)]) @ ys @ post)
        (length (pre @ [ucast (v AND 0x7f OR 0x80) :: byte])) (drop_bit 7 v)
      = Some ((pre @ [ucast (v AND 0x7f OR 0x80)]) @ varint_bytes (drop_bit 7 v) @ post)"
      by (rule "1.IH" [OF True xs(2)])
    with True show ?thesis unfolding xs(1) varint_bytes_big [OF True]
      by (subst put_varint.simps) (simp add: set_byte_def list_update_append)
  next
    case False
    then have v: "v < 128" by (simp add: not_le)
    have "length xs = Suc 0" unfolding "1.prems" varint_bytes_small [OF v] by simp
    then obtain x where "xs = [x]" by (cases xs) auto
    with False show ?thesis unfolding varint_bytes_small [OF v]
      by (subst put_varint.simps) (simp add: set_byte_def list_update_append)
  qed
qed

text \<open>\<open>encodeVarint\<close> puts the encoding right before the offset and returns where it starts.\<close>

lemma take_take_drop:
  assumes "b + n = i"
  shows "take b d @ take n (drop b d) @ drop i d = d"
  unfolding assms [symmetric] by (metis append_take_drop_id drop_drop add.commute)

lemma encodeVarint_eq:
  assumes "sov v \<le> i" "i \<le> length d"
  shows "encodeVarint d i v = Some (take (i - sov v) d @ varint_bytes v @ drop i d, i - sov v)"
proof -
  let ?b = "i - sov v"
  have "put_varint (take ?b d @ take (sov v) (drop ?b d) @ drop i d) (length (take ?b d)) v
      = Some (take ?b d @ varint_bytes v @ drop i d)"
    using assms by (intro put_varint_eq) (simp add: length_varint_bytes)
  moreover have "take ?b d @ take (sov v) (drop ?b d) @ drop i d = d"
    using assms by (intro take_take_drop) simp
  moreover have "length (take ?b d) = ?b" using assms by simp
  ultimately have "put_varint d ?b v = Some (take ?b d @ varint_bytes v @ drop i d)"
    by (simp only:)
  then show ?thesis using assms(1) by (simp add: encodeVarint_def Let_def)
qed

section \<open>Reading gives the value back\<close>

lemma shift_fits:
  assumes "s < 64" "drop_bit (64 - s) v = 0" "128 \<le> (v :: u64)"
  shows "s + 7 < 64"
proof (rule ccontr)
  assume c: "\<not> s + 7 < 64"
  have "m < 7" if "bit v m" for m
  proof (rule ccontr)
    assume "\<not> m < 7"
    then have "bit (drop_bit (64 - s) v) (m - (64 - s))"
      using that c assms(1) by (simp add: bit_drop_bit_eq)
    then show False by (simp add: assms(2))
  qed
  then have "v < 128" unfolding u64_lt_128 by blast
  with assms(3) show False by simp
qed

lemma push_split7:
  "(acc OR push_bit s (v AND 0x7f)) OR push_bit (s + 7) (drop_bit 7 v) = acc OR push_bit s (v :: u64)"
proof -
  have "push_bit s (v AND 0x7f) OR push_bit (s + 7) (drop_bit 7 v) =
      push_bit s ((v AND 0x7f) OR push_bit 7 (drop_bit 7 v))"
    by (simp only: push_bit_or push_bit_push_bit)
  then show ?thesis by (simp only: split7 or.assoc)
qed

lemma sov_big: "128 \<le> v \<Longrightarrow> sov v = Suc (sov (drop_bit 7 v))"
  unfolding length_varint_bytes [symmetric] by (simp add: varint_bytes_big)

lemma sov_small: "v < 128 \<Longrightarrow> sov v = 1"
  unfolding length_varint_bytes [symmetric] by (simp add: varint_bytes_small)

lemma read_varint_bytes:
  "s < 64 \<Longrightarrow> drop_bit (64 - s) v = 0 \<Longrightarrow>
   read_varint (pre @ varint_bytes v @ post) (length pre) s acc =
     Inr (acc OR push_bit s v, length pre + sov v)"
proof (induction v arbitrary: pre s acc rule: varint_bytes.induct)
  case (1 v)
  show ?case
  proof (cases "128 \<le> v")
    case True
    have s: "s + 7 < 64" by (rule shift_fits [OF "1.prems" True])
    let ?b = "ucast (v AND 0x7f OR 0x80) :: byte"
    have fits: "drop_bit (64 - (s + 7)) (drop_bit 7 v) = 0"
      using "1.prems"(2) s by (simp add: drop_bit_drop_bit)
    have r: "read_varint ((pre @ [?b]) @ varint_bytes (drop_bit 7 v) @ post) (length (pre @ [?b]))
        (s + 7) (acc OR push_bit s (v AND 0x7f)) =
      Inr ((acc OR push_bit s (v AND 0x7f)) OR push_bit (s + 7) (drop_bit 7 v),
        length (pre @ [?b]) + sov (drop_bit 7 v))"
      by (rule "1.IH" [OF True s fits])
    show ?thesis
      unfolding varint_bytes_big [OF True] sov_big [OF True] using r [unfolded push_split7] s big_byte_cont [of v]
      by (subst read_varint.simps) (simp add: low7_of_big Let_def)
  next
    case False
    then have v: "v < 128" by simp
    show ?thesis
      unfolding varint_bytes_small [OF v] sov_small [OF v]
      using "1.prems"(1) small_byte_last [OF v]
      by (subst read_varint.simps) (simp add: low7_of_small [OF v] Let_def)
  qed
qed

lemma read_varint_0:
  "read_varint (pre @ varint_bytes v @ post) (length pre) 0 0 = Inr (v, length pre + sov v)"
proof -
  have "drop_bit (64 - 0) v = 0" by (rule bit_word_eqI) (auto simp: bit_simps dest: bit_imp_le_length)
  then have "read_varint (pre @ varint_bytes v @ post) (length pre) 0 0 =
      Inr (0 OR push_bit 0 v, length pre + sov v)"
    by (intro read_varint_bytes) simp_all
  then show ?thesis by simp
qed

end
