(* ===== verification/Codec.thy ===== *)
theory Codec
  imports Varint
begin

text \<open>
  The shape shared by every generated message of \<open>x/*/types/*.pb.go\<close>.

  A \<open>MarshalToSizedBuffer\<close> fills its buffer from the back: it keeps an index \<open>i\<close>, starting at the
  length of the buffer, and every field is written right before \<open>i\<close>. Its statements are steps on
  the pair of buffer and index; a slice or store outside the buffer panics, the marshaller of an
  embedded message may fail.

  An \<open>Unmarshal\<close> is a loop that reads a tag and switches on the field number. The cases of the
  switch are a table from field numbers to what is done with the value (\<open>field\<close>); the loop, the
  checks of tag and wire type, the reading of the value and the skipping of unknown fields are the
  same in every message. The Go method updates its receiver in place and leaves it half filled when
  it fails; every caller drops it then, so the model returns the error alone.
\<close>

section \<open>Writing\<close>

type_synonym wbuf = "bytes \<times> nat"
type_synonym wstep = "wbuf \<Rightarrow> wbuf outcome"

definition index_out_of_range :: go_error where
  "index_out_of_range = LibError ''runtime error: index out of range''"

definition slice_out_of_range :: go_error where
  "slice_out_of_range = LibError ''runtime error: slice bounds out of range''"

text \<open>\<open>i--; dAtA[i] = b\<close>\<close>

fun put_byte :: "byte \<Rightarrow> wstep" where
  "put_byte b (dAtA, i) =
     (if i = 0 then Panic index_out_of_range
      else case set_byte dAtA (i - 1) b of
             None \<Rightarrow> Panic index_out_of_range
           | Some dAtA' \<Rightarrow> Ret (dAtA', i - 1))"

text \<open>\<open>i = encodeVarint(dAtA, i, v)\<close>\<close>

fun put_uvarint :: "u64 \<Rightarrow> wstep" where
  "put_uvarint v (dAtA, i) =
     (case encodeVarint dAtA i v of None \<Rightarrow> Panic index_out_of_range | Some r \<Rightarrow> Ret r)"

text \<open>\<open>i -= len(bs); copy(dAtA[i:], bs)\<close>\<close>

fun put_bytes :: "bytes \<Rightarrow> wstep" where
  "put_bytes bs (dAtA, i) =
     (if length bs \<le> i \<and> i \<le> length dAtA
      then Ret (take (i - length bs) dAtA @ bs @ drop i dAtA, i - length bs)
      else Panic slice_out_of_range)"

fun run_steps :: "wstep list \<Rightarrow> wstep" where
  "run_steps [] b = Ret b"
| "run_steps (s # ss) b =
     (case s b of Ret b' \<Rightarrow> run_steps ss b' | Err e \<Rightarrow> Err e | Panic e \<Rightarrow> Panic e)"

definition step_when :: "bool \<Rightarrow> wstep list \<Rightarrow> wstep" where
  "step_when c ss b = (if c then run_steps ss b else Ret b)"

text \<open>A length-delimited field: the payload, its length, the tag.\<close>

definition put_len_field :: "byte \<Rightarrow> bytes \<Rightarrow> wstep" where
  "put_len_field tag bs =
     run_steps [put_bytes bs, put_uvarint (of_nat (length bs)), put_byte tag]"

text \<open>\<open>if len(m.F) > 0 { ... }\<close> for a string field, \<open>if m.F != 0 { ... }\<close> for an integer field.\<close>

definition put_string_field :: "byte \<Rightarrow> string \<Rightarrow> wstep" where
  "put_string_field tag s = step_when (0 < length s) [put_len_field tag (bytes_of_string s)]"

definition put_uint_field :: "byte \<Rightarrow> u64 \<Rightarrow> wstep" where
  "put_uint_field tag v = step_when (v \<noteq> 0) [put_uvarint v, put_byte tag]"

text \<open>
  An embedded message: its \<open>MarshalToSizedBuffer\<close> runs on \<open>dAtA[:i]\<close> and returns how many bytes it
  wrote at the end of that slice.
\<close>

fun put_message :: "byte \<Rightarrow> (bytes \<Rightarrow> (bytes \<times> nat) outcome) \<Rightarrow> wstep" where
  "put_message tag marshalToSizedBuffer (dAtA, i) =
     (case marshalToSizedBuffer (take i dAtA) of
        Err e \<Rightarrow> Err e
      | Panic e \<Rightarrow> Panic e
      | Ret (front, sz) \<Rightarrow>
          if sz \<le> i
          then run_steps [put_uvarint (of_nat sz), put_byte tag] (front @ drop i dAtA, i - sz)
          else Panic index_out_of_range)"

text \<open>\<open>if m.F != nil { ... }\<close> for a pointer field, and the loop of a repeated field, from its end.\<close>

definition put_pointer ::
    "byte \<Rightarrow> ('p \<Rightarrow> bytes \<Rightarrow> (bytes \<times> nat) outcome) \<Rightarrow> 'p option \<Rightarrow> wstep" where
  "put_pointer tag marshalToSizedBuffer p b =
     (case p of None \<Rightarrow> Ret b | Some m \<Rightarrow> put_message tag (marshalToSizedBuffer m) b)"

definition put_repeated ::
    "byte \<Rightarrow> ('a \<Rightarrow> bytes \<Rightarrow> (bytes \<times> nat) outcome) \<Rightarrow> 'a list \<Rightarrow> wstep" where
  "put_repeated tag marshalToSizedBuffer xs =
     run_steps (map (\<lambda>x. put_message tag (marshalToSizedBuffer x)) (rev xs))"

text \<open>
  A field of a custom type (\<open>LegacyDec\<close>): the size first, then \<open>MarshalTo\<close> into \<open>dAtA[i:]\<close>.
\<close>

fun put_custom :: "byte \<Rightarrow> nat \<Rightarrow> (bytes \<Rightarrow> bytes outcome) \<Rightarrow> wstep" where
  "put_custom tag sz marshalTo (dAtA, i) =
     (if sz \<le> i \<and> i - sz \<le> length dAtA then
        (case marshalTo (drop (i - sz) dAtA) of
           Err e \<Rightarrow> Err e
         | Panic e \<Rightarrow> Panic e
         | Ret rest \<Rightarrow>
             run_steps [put_uvarint (of_nat sz), put_byte tag]
               (take (i - sz) dAtA @ rest, i - sz))
      else Panic slice_out_of_range)"

text \<open>\<open>i := len(dAtA)\<close>, the steps, \<open>return len(dAtA) - i, nil\<close>.\<close>

definition marshal_steps :: "wstep list \<Rightarrow> bytes \<Rightarrow> (bytes \<times> nat) outcome" where
  "marshal_steps ss dAtA =
     (case run_steps ss (dAtA, length dAtA) of
        Ret (dAtA', i) \<Rightarrow> Ret (dAtA', length dAtA - i)
      | Err e \<Rightarrow> Err e
      | Panic e \<Rightarrow> Panic e)"

text \<open>
  \<open>Marshal\<close> allocates a buffer of \<open>Size()\<close> bytes; \<open>MarshalTo\<close> uses the first \<open>Size()\<close> bytes of the
  caller's buffer (whose capacity is its length).
\<close>

definition pb_Marshal ::
    "('m \<Rightarrow> nat) \<Rightarrow> ('m \<Rightarrow> bytes \<Rightarrow> (bytes \<times> nat) outcome) \<Rightarrow> 'm \<Rightarrow> bytes outcome" where
  "pb_Marshal Size MarshalToSizedBuffer m =
     (let size = Size m; dAtA = replicate size 0 in
      case MarshalToSizedBuffer m dAtA of
        Err e \<Rightarrow> Err e
      | Panic e \<Rightarrow> Panic e
      | Ret (dAtA', n) \<Rightarrow> Ret (take n dAtA'))"

definition pb_MarshalTo ::
    "('m \<Rightarrow> nat) \<Rightarrow> ('m \<Rightarrow> bytes \<Rightarrow> (bytes \<times> nat) outcome) \<Rightarrow> 'm \<Rightarrow> bytes \<Rightarrow> (bytes \<times> nat) outcome"
  where
  "pb_MarshalTo Size MarshalToSizedBuffer m dAtA =
     (let size = Size m in
      if length dAtA < size then Panic slice_out_of_range
      else case MarshalToSizedBuffer m (take size dAtA) of
             Err e \<Rightarrow> Err e
           | Panic e \<Rightarrow> Panic e
           | Ret (front, n) \<Rightarrow> Ret (front @ drop size dAtA, n))"

text \<open>
  \<open>XXX_Marshal\<close>: the table-driven marshaller of the library, or \<open>MarshalToSizedBuffer\<close> on the whole
  capacity of the buffer \<open>b\<close>, of which the first \<open>n\<close> bytes are returned.
\<close>

definition pb_XXX_Marshal ::
    "(bytes \<Rightarrow> 'm \<Rightarrow> bytes outcome) \<Rightarrow> ('m \<Rightarrow> bytes \<Rightarrow> (bytes \<times> nat) outcome) \<Rightarrow> 'm \<Rightarrow> bytes \<Rightarrow> bool
     \<Rightarrow> bytes outcome" where
  "pb_XXX_Marshal messageInfo_Marshal MarshalToSizedBuffer m b deterministic =
     (if deterministic then messageInfo_Marshal b m
      else case MarshalToSizedBuffer m b of
        Err e \<Rightarrow> Err e
      | Panic e \<Rightarrow> Panic e
      | Ret (b', n) \<Rightarrow> Ret (take n b'))"

text \<open>A getter: the field of the message, or its zero value for a nil pointer.\<close>

definition pb_getter :: "('m \<Rightarrow> 'f) \<Rightarrow> 'f \<Rightarrow> 'm option \<Rightarrow> 'f" where
  "pb_getter field zero m = (case m of Some m \<Rightarrow> field m | None \<Rightarrow> zero)"

section \<open>Sizes\<close>

definition len_size :: "nat \<Rightarrow> nat" where
  "len_size l = 1 + l + sov (of_nat l)"

definition string_size :: "string \<Rightarrow> nat" where
  "string_size s = (let l = length s in if 0 < l then len_size l else 0)"

definition uint_size :: "u64 \<Rightarrow> nat" where
  "uint_size v = (if v \<noteq> 0 then 1 + sov v else 0)"

definition pointer_size :: "('p \<Rightarrow> nat) \<Rightarrow> 'p option \<Rightarrow> nat" where
  "pointer_size sizeOf p = (case p of None \<Rightarrow> 0 | Some m \<Rightarrow> len_size (sizeOf m))"

definition repeated_size :: "('a \<Rightarrow> nat) \<Rightarrow> 'a list \<Rightarrow> nat" where
  "repeated_size sizeOf xs = (\<Sum>x\<leftarrow>xs. len_size (sizeOf x))"

section \<open>Reading\<close>

datatype 'm field =
    VarintField string "u64 \<Rightarrow> 'm \<Rightarrow> 'm"
  | LenField string "bytes \<Rightarrow> 'm \<Rightarrow> go_error + 'm"

definition StringField :: "string \<Rightarrow> (string \<Rightarrow> 'm \<Rightarrow> 'm) \<Rightarrow> 'm field" where
  "StringField fname upd = LenField fname (\<lambda>bs m. Inr (upd (string_of_bytes bs) m))"

text \<open>\<open>if err := m.F.Unmarshal(dAtA[iNdEx:postIndex]); err != nil { return err }\<close>\<close>

definition MessageField ::
    "string \<Rightarrow> (bytes \<Rightarrow> 'a \<Rightarrow> go_error + 'a) \<Rightarrow> ('m \<Rightarrow> 'a) \<Rightarrow> ('a \<Rightarrow> 'm \<Rightarrow> 'm) \<Rightarrow> 'm field" where
  "MessageField fname unmarshal sel upd =
     LenField fname
       (\<lambda>bs m. case unmarshal bs (sel m) of Inl err \<Rightarrow> Inl err | Inr x \<Rightarrow> Inr (upd x m))"

text \<open>A pointer field allocates its message when it is nil; a repeated one appends a zero element.\<close>

definition PointerField ::
    "string \<Rightarrow> (bytes \<Rightarrow> 'a \<Rightarrow> go_error + 'a) \<Rightarrow> 'a \<Rightarrow> ('m \<Rightarrow> 'a option)
     \<Rightarrow> ('a \<Rightarrow> 'm \<Rightarrow> 'm) \<Rightarrow> 'm field" where
  "PointerField fname unmarshal zero sel upd =
     MessageField fname unmarshal (\<lambda>m. case sel m of None \<Rightarrow> zero | Some p \<Rightarrow> p) upd"

definition RepeatedField ::
    "string \<Rightarrow> (bytes \<Rightarrow> 'a \<Rightarrow> go_error + 'a) \<Rightarrow> 'a \<Rightarrow> ('a \<Rightarrow> 'm \<Rightarrow> 'm) \<Rightarrow> 'm field" where
  "RepeatedField fname unmarshal zero add = MessageField fname unmarshal (\<lambda>m. zero) add"

text \<open>One round of the loop, from the index of the tag to the index of the next.\<close>

definition field_number :: "u64 \<Rightarrow> int" where
  "field_number wire = sint (ucast (drop_bit 3 wire) :: 32 word)"

definition unmarshal_value ::
    "'m field \<Rightarrow> u64 \<Rightarrow> bytes \<Rightarrow> nat \<Rightarrow> 'm \<Rightarrow> go_error + ('m \<times> nat)" where
  "unmarshal_value f wireType dAtA iNdEx m =
     (case f of
        VarintField fname upd \<Rightarrow>
          if wireType \<noteq> 0 then
            Inl (Errorf (''proto: wrong wireType = %d for field '' @ fname) [ArgU64 wireType])
          else (case read_varint dAtA iNdEx 0 0 of
                  Inl err \<Rightarrow> Inl err
                | Inr (v, i) \<Rightarrow> Inr (upd v m, i))
      | LenField fname upd \<Rightarrow>
          if wireType \<noteq> 2 then
            Inl (Errorf (''proto: wrong wireType = %d for field '' @ fname) [ArgU64 wireType])
          else (case read_len dAtA iNdEx of
                  Inl err \<Rightarrow> Inl err
                | Inr (bs, postIndex) \<Rightarrow>
                    (case upd bs m of Inl err \<Rightarrow> Inl err | Inr m' \<Rightarrow> Inr (m', postIndex))))"

definition skip_unknown :: "bytes \<Rightarrow> nat \<Rightarrow> go_error + nat" where
  "skip_unknown dAtA preIndex =
     (case skip_field (drop preIndex dAtA) of
        Inl err \<Rightarrow> Inl err
      | Inr skippy \<Rightarrow>
     (case add_index preIndex skippy of
        None \<Rightarrow> Inl ErrInvalidLength
      | Some i \<Rightarrow> if length dAtA < i then Inl io_ErrUnexpectedEOF else Inr i))"

definition unmarshal_field ::
    "string \<Rightarrow> (int \<times> 'm field) list \<Rightarrow> bytes \<Rightarrow> nat \<Rightarrow> 'm \<Rightarrow> go_error + ('m \<times> nat)" where
  "unmarshal_field name fields dAtA preIndex m =
     (case read_varint dAtA preIndex 0 0 of
        Inl err \<Rightarrow> Inl err
      | Inr (wire, iNdEx) \<Rightarrow>
     let fieldNum = field_number wire; wireType = wire AND 0x7 in
     if wireType = 4 then
       Inl (Errorf (''proto: '' @ name @ '': wiretype end group for non-group'') [])
     else if fieldNum \<le> 0 then
       Inl (Errorf (''proto: '' @ name @ '': illegal tag %d (wire type %d)'')
         [ArgInt fieldNum, ArgU64 wire])
     else
     (case map_of fields fieldNum of
        Some f \<Rightarrow> unmarshal_value f wireType dAtA iNdEx m
      | None \<Rightarrow> (case skip_unknown dAtA preIndex of Inl err \<Rightarrow> Inl err | Inr i \<Rightarrow> Inr (m, i))))"

lemma read_len_advances: "read_len d i = Inr (bs, j) \<Longrightarrow> i < j"
  by (auto simp: read_len_def Let_def add_index_Some split: sum.splits option.splits if_splits
      dest!: read_varint_advances)

lemma skip_unknown_advances: "skip_unknown d i = Inr j \<Longrightarrow> i < j \<and> j \<le> length d"
  by (auto simp: skip_unknown_def skip_field_def add_index_Some
      split: sum.splits option.splits if_splits dest!: skip_loop_advances)

lemma unmarshal_value_advances: "unmarshal_value f wt d i m = Inr (m', j) \<Longrightarrow> i < j"
  by (auto simp: unmarshal_value_def split: field.splits sum.splits if_splits
      dest!: read_len_advances read_varint_advances)

lemma unmarshal_field_advances:
  "unmarshal_field name fields d i m = Inr (m', j) \<Longrightarrow> i < j"
  by (auto simp: unmarshal_field_def Let_def split: sum.splits option.splits if_splits
      dest!: skip_unknown_advances unmarshal_value_advances read_varint_advances)

text \<open>The loop. Every round ends behind the index it started at, so it terminates on any input.\<close>

function unmarshal_loop ::
    "string \<Rightarrow> (int \<times> 'm field) list \<Rightarrow> bytes \<Rightarrow> nat \<Rightarrow> 'm \<Rightarrow> go_error + 'm" where
  "unmarshal_loop name fields dAtA iNdEx m =
     (if iNdEx < length dAtA then
        (case unmarshal_field name fields dAtA iNdEx m of
           Inl err \<Rightarrow> Inl err
         | Inr (m', i) \<Rightarrow> unmarshal_loop name fields dAtA i m')
      else if length dAtA < iNdEx then Inl io_ErrUnexpectedEOF
      else Inr m)"
  by pat_completeness auto
termination
  by (relation "measure (\<lambda>(name, fields, d, i, m). length d - i)")
    (auto dest!: unmarshal_field_advances)

declare unmarshal_loop.simps [simp del]

definition pb_Unmarshal ::
    "string \<Rightarrow> (int \<times> 'm field) list \<Rightarrow> bytes \<Rightarrow> 'm \<Rightarrow> go_error + 'm" where
  "pb_Unmarshal name fields dAtA m = unmarshal_loop name fields dAtA 0 m"

end
