(* ===== verification/CodecLaws.thy ===== *)
theory CodecLaws
  imports Codec
begin

text \<open>
  What the writers and readers of \<open>Codec\<close> do, as two predicates that compose along the fields of
  a message: \<open>emits s e\<close> says that a step puts exactly the bytes \<open>e\<close> before the index, and
  \<open>decodes\<close> that the \<open>Unmarshal\<close> loop, standing before the bytes \<open>e\<close>, passes them and turns one
  message into another. The locale \<open>pb_message\<close> is the contract of a generated message type, and
  proves once that \<open>Marshal\<close> gives its encoding in \<open>Size()\<close> bytes and \<open>Unmarshal\<close> inverts it.
\<close>

unbundle bit_operations_syntax

section \<open>Encodings\<close>

definition len_enc :: "byte \<Rightarrow> bytes \<Rightarrow> bytes" where
  "len_enc tag bs = tag # varint_bytes (of_nat (length bs)) @ bs"

definition string_enc :: "byte \<Rightarrow> string \<Rightarrow> bytes" where
  "string_enc tag s = (if s = [] then [] else len_enc tag (bytes_of_string s))"

definition uint_enc :: "byte \<Rightarrow> u64 \<Rightarrow> bytes" where
  "uint_enc tag v = (if v = 0 then [] else tag # varint_bytes v)"

lemma length_len_enc: "length (len_enc tag bs) = len_size (length bs)"
  by (simp add: len_enc_def len_size_def length_varint_bytes)

lemma length_string_enc: "length (string_enc tag s) = string_size s"
  by (simp add: string_enc_def string_size_def length_len_enc Let_def)

lemma length_uint_enc: "length (uint_enc tag v) = uint_size v"
  by (simp add: uint_enc_def uint_size_def length_varint_bytes)

definition pointer_enc :: "byte \<Rightarrow> ('p \<Rightarrow> bytes) \<Rightarrow> 'p option \<Rightarrow> bytes" where
  "pointer_enc tag e p = (case p of None \<Rightarrow> [] | Some x \<Rightarrow> len_enc tag (e x))"

definition repeated_enc :: "byte \<Rightarrow> ('a \<Rightarrow> bytes) \<Rightarrow> 'a list \<Rightarrow> bytes" where
  "repeated_enc tag e xs = concat (map (\<lambda>x. len_enc tag (e x)) xs)"

lemma length_pointer_enc:
  "(\<And>x. p = Some x \<Longrightarrow> sizeOf x = length (e x)) \<Longrightarrow>
   length (pointer_enc tag e p) = pointer_size sizeOf p"
  by (cases p) (simp_all add: pointer_enc_def pointer_size_def length_len_enc)

lemma length_repeated_enc:
  "(\<And>x. x \<in> set xs \<Longrightarrow> sizeOf x = length (e x)) \<Longrightarrow>
   length (repeated_enc tag e xs) = repeated_size sizeOf xs"
  by (induction xs) (simp_all add: repeated_enc_def repeated_size_def length_len_enc)

lemmas length_enc = length_len_enc length_string_enc length_uint_enc

section \<open>Writing\<close>

definition emits :: "wstep \<Rightarrow> bytes \<Rightarrow> bool" where
  "emits s e \<longleftrightarrow> (\<forall>d i. length e \<le> i \<longrightarrow> i \<le> length d \<longrightarrow>
     s (d, i) = Ret (take (i - length e) d @ e @ drop i d, i - length e))"

definition fills :: "(bytes \<Rightarrow> (bytes \<times> nat) outcome) \<Rightarrow> bytes \<Rightarrow> bool" where
  "fills f e \<longleftrightarrow> (\<forall>d. length e \<le> length d \<longrightarrow>
     f d = Ret (take (length d - length e) d @ e, length e))"

lemma emits_put_bytes: "emits (put_bytes bs) bs"
  by (simp add: emits_def)

lemma emits_put_byte: "emits (put_byte b) [b]"
proof -
  have "d[i - 1 := b] = take (i - 1) d @ b # drop i d" if "0 < i" "i \<le> length d" for d :: bytes and i
    using that by (cases i) (simp_all add: upd_conv_take_nth_drop)
  then show ?thesis by (auto simp: emits_def set_byte_def)
qed

lemma emits_put_uvarint: "emits (put_uvarint v) (varint_bytes v)"
  by (auto simp: emits_def encodeVarint_eq length_varint_bytes)

lemma emits_Nil: "emits (run_steps []) []"
  by (simp add: emits_def)

lemma emits_Cons:
  assumes "emits s e1" "emits (run_steps ss) e2"
  shows "emits (run_steps (s # ss)) (e2 @ e1)"
proof -
  {
    fix d :: bytes and i
    assume l: "length (e2 @ e1) \<le> i" "i \<le> length d"
    let ?j = "i - length e1" and ?d = "take (i - length e1) d @ e1 @ drop i d"
    have 1: "s (d, i) = Ret (?d, ?j)" using assms(1) l by (simp add: emits_def)
    have 2: "run_steps ss (?d, ?j) =
        Ret (take (?j - length e2) ?d @ e2 @ drop ?j ?d, ?j - length e2)"
      using assms(2) l unfolding emits_def by (auto simp del: take_append drop_append)
    have 3: "take (?j - length e2) ?d = take (?j - length e2) d" "drop ?j ?d = e1 @ drop i d"
      using l by (simp_all add: min_def)
    have "run_steps (s # ss) (d, i) =
        Ret (take (i - length (e2 @ e1)) d @ (e2 @ e1) @ drop i d, i - length (e2 @ e1))"
      using 1 2 [unfolded 3] by (simp add: add.commute)
  }
  then show ?thesis unfolding emits_def by blast
qed

lemma emits_single: "emits s e \<Longrightarrow> emits (run_steps [s]) e"
  using emits_Cons [OF _ emits_Nil] by simp

lemma emits_when: "emits (run_steps ss) e \<Longrightarrow> emits (step_when c ss) (if c then e else [])"
  by (simp add: emits_def step_when_def)

lemma emits_len_tail:
  "n = length bs \<Longrightarrow>
   emits (run_steps [put_uvarint (of_nat n), put_byte tag]) (tag # varint_bytes (of_nat (length bs)))"
  using emits_Cons [OF emits_put_uvarint emits_single [OF emits_put_byte]] by simp

lemma emits_len_field: "emits (put_len_field tag bs) (len_enc tag bs)"
  using emits_Cons [OF emits_put_bytes emits_len_tail [OF refl]]
  by (simp add: put_len_field_def [abs_def] len_enc_def)

lemma emits_string_field: "emits (put_string_field tag s) (string_enc tag s)"
proof -
  have "emits (step_when (0 < length s) [put_len_field tag (bytes_of_string s)])
      (if 0 < length s then len_enc tag (bytes_of_string s) else [])"
    by (rule emits_when [OF emits_single [OF emits_len_field]])
  then show ?thesis by (cases "s = []") (simp_all add: put_string_field_def string_enc_def)
qed

lemma emits_uint_field: "emits (put_uint_field tag v) (uint_enc tag v)"
proof -
  have "emits (step_when (v \<noteq> 0) [put_uvarint v, put_byte tag])
      (if v \<noteq> 0 then [tag] @ varint_bytes v else [])"
    by (rule emits_when [OF emits_Cons [OF emits_put_uvarint emits_single [OF emits_put_byte]]])
  then show ?thesis by (cases "v = 0") (simp_all add: put_uint_field_def uint_enc_def)
qed

lemma fills_marshal_steps: "emits (run_steps ss) e \<Longrightarrow> fills (marshal_steps ss) e"
  by (simp add: emits_def fills_def marshal_steps_def)

lemma emits_put_message:
  assumes "fills f e"
  shows "emits (put_message tag f) (len_enc tag e)"
proof -
  {
    fix d :: bytes and i
    assume l: "length (len_enc tag e) \<le> i" "i \<le> length d"
    then have e: "length e \<le> i" by (simp add: len_enc_def)
    have "f (take i d) = Ret (take (i - length e) d @ e, length e)"
      using assms l e by (simp add: fills_def min_def)
    moreover have "run_steps [put_uvarint (of_nat (length e)), put_byte tag]
        (take (i - length e) d @ e @ drop i d, i - length e) =
      Ret (take (i - length (len_enc tag e)) d @ len_enc tag e @ drop i d,
        i - length (len_enc tag e))"
    proof -
      let ?t = "tag # varint_bytes (of_nat (length e))"
      have s: "len_enc tag e = ?t @ e" by (simp add: len_enc_def)
      have "length ?t \<le> i - length e" using l(1) unfolding s by simp
      moreover have "i - length e \<le> length (take (i - length e) d @ e @ drop i d)"
        using l e by simp
      ultimately have "run_steps [put_uvarint (of_nat (length e)), put_byte tag]
          (take (i - length e) d @ e @ drop i d, i - length e) =
        Ret (take (i - length e - length ?t) (take (i - length e) d @ e @ drop i d) @ ?t @
          drop (i - length e) (take (i - length e) d @ e @ drop i d), i - length e - length ?t)"
        using emits_len_tail [OF refl, where tag = tag and bs = e] unfolding emits_def by blast
      then show ?thesis using l e unfolding s by (simp add: min_def diff_diff_left add.commute del: run_steps.simps)
    qed
    ultimately have "put_message tag f (d, i) =
        Ret (take (i - length (len_enc tag e)) d @ len_enc tag e @ drop i d,
          i - length (len_enc tag e))"
      using e by (simp del: run_steps.simps)
  }
  then show ?thesis unfolding emits_def by blast
qed

lemma emits_put_custom:
  assumes "\<And>d. length e \<le> length d \<Longrightarrow> mt d = Ret (e @ drop (length e) d)" "n = length e"
  shows "emits (put_custom tag n mt) (len_enc tag e)"
proof -
  have "put_custom tag n mt (d, i) = run_steps [put_bytes e, put_uvarint (of_nat n), put_byte tag] (d, i)"
    if "length e \<le> i" "i \<le> length d" for d i
  proof -
    have "length e \<le> length (drop (i - length e) d)" using that by simp
    from assms(1) [OF this] have "mt (drop (i - length e) d) = Ret (e @ drop i d)"
      using that(1) by simp
    moreover have "i - length e \<le> length d" using that by simp
    ultimately show ?thesis using that assms(2) by simp
  qed
  moreover have "emits (run_steps [put_bytes e, put_uvarint (of_nat n), put_byte tag]) (len_enc tag e)"
    using emits_len_field [of tag e] unfolding put_len_field_def assms(2) .
  ultimately show ?thesis unfolding emits_def by (simp add: len_enc_def del: run_steps.simps)
qed

text \<open>A repeated field is written from its last element to its first.\<close>

lemma emits_run_steps: "list_all2 emits ss es \<Longrightarrow> emits (run_steps ss) (concat (rev es))"
proof (induction rule: list_all2_induct)
  case Nil
  show ?case using emits_Nil by (simp only: rev.simps concat.simps)
next
  case (Cons s ss e es)
  show ?case using emits_Cons [OF Cons(1) Cons(3)] by (simp only: rev.simps concat_append concat.simps append_Nil2)
qed

lemma emits_repeated:
  assumes "\<And>x. x \<in> set xs \<Longrightarrow> fills (f x) (e x)"
  shows "emits (put_repeated tag f xs) (repeated_enc tag e xs)"
proof -
  have "list_all2 emits (map (\<lambda>x. put_message tag (f x)) (rev xs))
      (map (\<lambda>x. len_enc tag (e x)) (rev xs))"
    using assms by (simp add: list_all2_conv_all_nth emits_put_message rev_nth)
  from emits_run_steps [OF this] show ?thesis
    by (simp add: rev_map [symmetric] put_repeated_def repeated_enc_def)
qed

lemma emits_pointer:
  assumes "\<And>x. p = Some x \<Longrightarrow> fills (f x) (e x)"
  shows "emits (put_pointer tag f p) (pointer_enc tag e p)"
proof (cases p)
  case None
  then show ?thesis by (simp add: put_pointer_def pointer_enc_def emits_def)
next
  case (Some x)
  then have "emits (put_message tag (f x)) (len_enc tag (e x))"
    by (intro emits_put_message assms)
  then show ?thesis using Some by (simp add: emits_def put_pointer_def pointer_enc_def)
qed

section \<open>Reading\<close>

definition decodes ::
    "string \<Rightarrow> (int \<times> 'm field) list \<Rightarrow> bytes \<Rightarrow> 'm \<Rightarrow> 'm \<Rightarrow> bool" where
  "decodes name fields e m m' \<longleftrightarrow> (\<forall>pre post. length (pre @ e @ post) < 2 ^ 63 \<longrightarrow>
     unmarshal_loop name fields (pre @ e @ post) (length pre) m =
     unmarshal_loop name fields (pre @ e @ post) (length pre + length e) m')"

text \<open>A tag byte holds the field number and the wire type.\<close>

definition is_tag :: "byte \<Rightarrow> int \<Rightarrow> u64 \<Rightarrow> bool" where
  "is_tag tag n wt \<longleftrightarrow> tag < 128 \<and> field_number (ucast tag) = n \<and> 0 < n \<and>
     ucast tag AND 7 = wt \<and> wt \<noteq> 4"

lemma decodes_Nil: "decodes name fields [] m m"
  by (simp add: decodes_def)

lemma decodes_append:
  assumes "decodes name fields e1 m m1" "decodes name fields e2 m1 m2"
  shows "decodes name fields (e1 @ e2) m m2"
proof -
  {
    fix pre post :: bytes
    assume l: "length (pre @ (e1 @ e2) @ post) < 2 ^ 63"
    have "unmarshal_loop name fields (pre @ e1 @ (e2 @ post)) (length pre) m =
        unmarshal_loop name fields (pre @ e1 @ (e2 @ post)) (length pre + length e1) m1"
    proof -
      have "length (pre @ e1 @ (e2 @ post)) < 2 ^ 63" using l by (simp add: add.assoc)
      then show ?thesis using assms(1) unfolding decodes_def by blast
    qed
    moreover have "unmarshal_loop name fields ((pre @ e1) @ e2 @ post) (length (pre @ e1)) m1 =
        unmarshal_loop name fields ((pre @ e1) @ e2 @ post) (length (pre @ e1) + length e2) m2"
    proof -
      have "length ((pre @ e1) @ e2 @ post) < 2 ^ 63" using l by (simp add: add.assoc)
      then show ?thesis using assms(2) unfolding decodes_def by blast
    qed
    ultimately have "unmarshal_loop name fields (pre @ (e1 @ e2) @ post) (length pre) m =
        unmarshal_loop name fields (pre @ (e1 @ e2) @ post) (length pre + length (e1 @ e2)) m2"
      by (simp add: add.assoc)
  }
  then show ?thesis unfolding decodes_def by blast
qed

lemma read_tag:
  assumes "tag < 128"
  shows "read_varint (pre @ tag # rest) (length pre) 0 0 = Inr (ucast (tag :: byte), Suc (length pre))"
proof -
  have "(ucast tag :: u64) < 128"
    using assms by (simp add: word_less_nat_alt unsigned_ucast_eq take_bit_nat_eq_self)
  moreover have "ucast (ucast tag :: u64) = tag" by (rule bit_word_eqI) (simp add: bit_simps)
  ultimately have "varint_bytes (ucast tag) = [tag]" "sov (ucast tag) = 1"
    by (simp_all add: varint_bytes_small sov_small)
  then show ?thesis using read_varint_0 [of pre "ucast tag" rest] by simp
qed

text \<open>A round of the loop on a known field.\<close>

lemma decodes_field:
  assumes tag: "is_tag tag n wt" and f: "map_of fields n = Some f"
    and v: "\<And>pre post. length (pre @ v @ post) < 2 ^ 63 \<Longrightarrow>
      unmarshal_value f wt (pre @ v @ post) (length pre) m = Inr (m', length pre + length v)"
  shows "decodes name fields (tag # v) m m'"
proof -
  {
    fix pre post :: bytes
    assume l: "length (pre @ (tag # v) @ post) < 2 ^ 63"
    let ?d = "pre @ (tag # v) @ post"
    have "unmarshal_value f wt ((pre @ [tag]) @ v @ post) (length (pre @ [tag])) m =
        Inr (m', length (pre @ [tag]) + length v)"
      by (rule v) (use l in simp)
    then have "unmarshal_field name fields ?d (length pre) m = Inr (m', length pre + length (tag # v))"
      using tag f read_tag [of tag pre "v @ post"]
      by (simp add: unmarshal_field_def is_tag_def)
    then have "unmarshal_loop name fields ?d (length pre) m =
        unmarshal_loop name fields ?d (length pre + length (tag # v)) m'"
      by (subst unmarshal_loop.simps) simp
  }
  then show ?thesis unfolding decodes_def by blast
qed

lemma sint_length:
  assumes "n < 2 ^ 63"
  shows "sint (of_nat n :: u64) = int n"
proof -
  have u: "unat (of_nat n :: u64) = n" using assms by (simp add: unat_of_nat)
  have "sint (of_nat n :: u64) = signed_take_bit 63 (int n)"
    by (simp add: sint_uint uint_nat u)
  then show ?thesis using assms by (simp add: signed_take_bit_int_eq_self)
qed

lemma read_len_enc:
  assumes "length (pre @ (varint_bytes (of_nat (length bs)) @ bs) @ post) < 2 ^ 63"
  shows "read_len (pre @ (varint_bytes (of_nat (length bs)) @ bs) @ post) (length pre) =
    Inr (bs, length pre + sov (of_nat (length bs)) + length bs)"
proof -
  have l: "length bs < 2 ^ 63" using assms by simp
  have s: "sint (of_nat (length bs) :: u64) = int (length bs)" by (rule sint_length [OF l])
  have a: "add_index (length pre + sov (of_nat (length bs))) (length bs) =
      Some (length pre + sov (of_nat (length bs)) + length bs)"
    using assms by (simp add: add_index_def length_varint_bytes)
  show ?thesis
    using read_varint_0 [of pre "of_nat (length bs)" "bs @ post"]
    by (simp add: read_len_def s a length_varint_bytes)
qed

lemma decodes_len_field:
  assumes "map_of fields n = Some (LenField fname upd)" "is_tag tag n 2" "upd bs m = Inr m'"
  shows "decodes name fields (len_enc tag bs) m m'"
  unfolding len_enc_def
  by (rule decodes_field [OF assms(2,1)])
    (simp add: unmarshal_value_def read_len_enc [simplified] assms(3) length_varint_bytes)

lemma decodes_string_field:
  assumes "is_tag tag n 2" "map_of fields n = Some (StringField fname upd)" "s = [] \<Longrightarrow> upd s m = m"
  shows "decodes name fields (string_enc tag s) m (upd s m)"
proof (cases "s = []")
  case False
  have "decodes name fields (len_enc tag (bytes_of_string s)) m (upd s m)"
    by (rule decodes_len_field [OF assms(2) [unfolded StringField_def] assms(1)]) simp
  with False show ?thesis by (simp add: string_enc_def)
next
  case True
  then have "upd s m = m" by (rule assms(3))
  then show ?thesis by (simp add: True string_enc_def decodes_Nil)
qed

lemma decodes_uint_field:
  assumes "is_tag tag n 0" "map_of fields n = Some (VarintField fname upd)" "v = 0 \<Longrightarrow> upd v m = m"
  shows "decodes name fields (uint_enc tag v) m (upd v m)"
proof (cases "v = 0")
  case False
  have "decodes name fields (tag # varint_bytes v) m (upd v m)"
    by (rule decodes_field [OF assms(1,2)])
      (simp add: unmarshal_value_def read_varint_0 length_varint_bytes)
  with False show ?thesis by (simp add: uint_enc_def)
next
  case True
  then have "upd v m = m" by (rule assms(3))
  then show ?thesis by (simp add: True uint_enc_def decodes_Nil)
qed

lemma decodes_message_field:
  assumes "is_tag tag n 2" "map_of fields n = Some (MessageField fname unm sel upd)"
    "length e < 2 ^ 63 \<Longrightarrow> unm e (sel m) = Inr x"
  shows "decodes name fields (len_enc tag e) m (upd x m)"
proof (cases "length e < 2 ^ 63")
  case True
  with assms show ?thesis
    by (intro decodes_len_field [OF assms(2) [unfolded MessageField_def]]) simp_all
next
  case False
  then show ?thesis by (simp add: decodes_def len_enc_def)
qed

lemma decodes_pointer_field:
  assumes "is_tag tag n 2" "map_of fields n = Some (PointerField fname unm z sel upd)" "sel m = None"
    "\<And>x. p = Some x \<Longrightarrow> length (e x) < 2 ^ 63 \<Longrightarrow> unm (e x) z = Inr x"
  shows "decodes name fields (pointer_enc tag e p) m (case p of None \<Rightarrow> m | Some x \<Rightarrow> upd x m)"
proof (cases p)
  case None
  then show ?thesis by (simp add: pointer_enc_def decodes_Nil)
next
  case (Some x)
  have "decodes name fields (len_enc tag (e x)) m (upd x m)"
    by (rule decodes_message_field [OF assms(1,2) [unfolded PointerField_def]])
      (simp add: assms(3,4) Some)
  with Some show ?thesis by (simp add: pointer_enc_def)
qed

lemma decodes_repeated_field:
  assumes "is_tag tag n 2" "map_of fields n = Some (RepeatedField fname unm z add)"
    "\<And>x. x \<in> set xs \<Longrightarrow> length (e x) < 2 ^ 63 \<Longrightarrow> unm (e x) z = Inr x"
  shows "decodes name fields (repeated_enc tag e xs) m (fold add xs m)"
  using assms(3)
proof (induction xs arbitrary: m)
  case Nil
  show ?case by (simp add: decodes_Nil repeated_enc_def)
next
  case (Cons x xs)
  have "decodes name fields (len_enc tag (e x)) m (add x m)"
    by (rule decodes_message_field [OF assms(1,2) [unfolded RepeatedField_def]])
      (simp add: Cons.prems)
  moreover have "decodes name fields (repeated_enc tag e xs) (add x m) (fold add xs (add x m))"
    by (rule Cons.IH) (simp add: Cons.prems)
  ultimately show ?case by (simp add: decodes_append repeated_enc_def)
qed

lemma is_tags:
  "is_tag 0x0a 1 2" "is_tag 0x12 2 2" "is_tag 0x1a 3 2" "is_tag 0x22 4 2" "is_tag 0x2a 5 2"
  "is_tag 0x32 6 2" "is_tag 0x08 1 0" "is_tag 0x10 2 0" "is_tag 0x18 3 0" "is_tag 0x20 4 0"
  "is_tag 0x28 5 0" "is_tag 0x30 6 0" "is_tag 0x38 7 0"
  by (simp_all add: is_tag_def field_number_def)

text \<open>
  The introduction rules that walk along the fields of a message. The goals they leave are about
  the message alone: that its fields make up the message, and that an omitted field has its zero
  value.
\<close>

lemma decodes_to: "decodes name fields e m m1 \<Longrightarrow> m1 = m' \<Longrightarrow> decodes name fields e m m'"
  by simp

lemma emits_to: "emits s e \<Longrightarrow> e = e' \<Longrightarrow> emits s e'"
  by simp

lemmas decodes_intros = decodes_append decodes_string_field decodes_uint_field is_tags

lemmas emits_intros = emits_Cons emits_Nil emits_string_field emits_uint_field emits_put_message
  emits_repeated emits_pointer

text \<open>A length-delimited field whose number the switch does not know is skipped.\<close>

lemma skip_len_field:
  assumes "tag < 128" "ucast tag AND 7 = (2 :: u64)" "length (len_enc tag bs @ post) < 2 ^ 63"
  shows "skip_field (len_enc tag bs @ post) = Inr (length (len_enc tag bs))"
proof -
  let ?v = "varint_bytes (of_nat (length bs))" and ?d = "len_enc tag bs @ post"
  have d: "?d = [] @ tag # (?v @ bs @ post)" "?d = [tag] @ ?v @ (bs @ post)"
    by (simp_all add: len_enc_def)
  have 1: "read_varint ?d 0 0 0 = Inr (ucast tag, 1)"
    unfolding d(1) using read_tag [OF assms(1), of "[]"] by simp
  have 2: "read_varint ?d 1 0 0 = Inr (of_nat (length bs), 1 + sov (of_nat (length bs)))"
    unfolding d(2) using read_varint_0 [of "[tag]" "of_nat (length bs)" "bs @ post"] by simp
  have l: "length bs < 2 ^ 63" "length (len_enc tag bs) < 2 ^ 63"
    using assms(3) by (simp_all add: len_enc_def)
  have "skip_body ?d 2 1 0 = Inr (length (len_enc tag bs), 0)"
    using 2 l by (simp add: skip_body_def sint_length add_index_def length_len_enc len_size_def)
  moreover have "0 < length ?d" by (simp add: len_enc_def)
  ultimately show ?thesis
    using 1 assms(2) unfolding skip_field_def by (subst skip_loop.simps) simp
qed

lemma decodes_unknown_field:
  assumes "is_tag tag n 2" "map_of fields n = None"
  shows "decodes name fields (len_enc tag bs) m m"
proof -
  {
    fix pre post :: bytes
    assume l: "length (pre @ len_enc tag bs @ post) < 2 ^ 63"
    let ?d = "pre @ len_enc tag bs @ post" and ?j = "length pre + length (len_enc tag bs)"
    have "skip_field (len_enc tag bs @ post) = Inr (length (len_enc tag bs))"
      using assms(1) l by (intro skip_len_field) (simp_all add: is_tag_def)
    then have "skip_unknown ?d (length pre) = Inr ?j"
      using l by (simp add: skip_unknown_def add_index_def)
    moreover have "read_varint ?d (length pre) 0 0 = Inr (ucast tag, Suc (length pre))"
      using assms(1) read_tag [of tag pre] by (simp add: is_tag_def len_enc_def)
    ultimately have "unmarshal_field name fields ?d (length pre) m = Inr (m, ?j)"
      using assms by (simp add: unmarshal_field_def is_tag_def)
    then have "unmarshal_loop name fields ?d (length pre) m = unmarshal_loop name fields ?d ?j m"
      by (subst unmarshal_loop.simps) (simp add: len_enc_def)
  }
  then show ?thesis unfolding decodes_def by blast
qed

lemma decodes_unmarshal:
  assumes "decodes name fields e m m'" "length e < 2 ^ 63"
  shows "pb_Unmarshal name fields e m = Inr m'"
proof -
  have "unmarshal_loop name fields ([] @ e @ []) (length ([] :: bytes)) m =
      unmarshal_loop name fields ([] @ e @ []) (length ([] :: bytes) + length e) m'"
    using assms unfolding decodes_def by (metis append_Nil append_Nil2)
  then show ?thesis
    by (simp add: pb_Unmarshal_def) (subst unmarshal_loop.simps, simp)
qed

section \<open>The contract of a message type\<close>

locale pb_message =
  fixes name :: string
    and fields :: "(int \<times> 'm field) list"
    and Size :: "'m \<Rightarrow> nat"
    and MarshalToSizedBuffer :: "'m \<Rightarrow> bytes \<Rightarrow> (bytes \<times> nat) outcome"
    and enc :: "'m \<Rightarrow> bytes"
    and zero :: 'm
    and valid :: "'m \<Rightarrow> bool"
  assumes size_enc: "valid m \<Longrightarrow> Size m = length (enc m)"
    and fills_enc: "valid m \<Longrightarrow> fills (MarshalToSizedBuffer m) (enc m)"
    and decodes_enc: "valid m \<Longrightarrow> decodes name fields (enc m) zero m"
begin

lemma marshal: "valid m \<Longrightarrow> pb_Marshal Size MarshalToSizedBuffer m = Ret (enc m)"
  using fills_enc [of m] by (simp add: pb_Marshal_def size_enc fills_def Let_def)

lemma marshal_to:
  "valid m \<Longrightarrow> length (enc m) \<le> length d \<Longrightarrow>
   pb_MarshalTo Size MarshalToSizedBuffer m d =
     Ret (enc m @ drop (length (enc m)) d, length (enc m))"
  using fills_enc [of m] by (simp add: pb_MarshalTo_def size_enc fills_def Let_def)

text \<open>
  \<open>XXX_Marshal\<close> gives the encoding when the capacity of its buffer is the size of the message, as its
  callers allocate it; in a larger buffer the message is at the end and the first bytes are returned.
\<close>

lemma xxx_marshal:
  "valid m \<Longrightarrow> Size m \<le> length b \<Longrightarrow>
   pb_XXX_Marshal info MarshalToSizedBuffer m b False =
     Ret (take (Size m) (take (length b - Size m) b @ enc m))"
  using fills_enc [of m] by (simp add: pb_XXX_Marshal_def size_enc fills_def)

lemma xxx_marshal_exact:
  "valid m \<Longrightarrow> length b = Size m \<Longrightarrow>
   pb_XXX_Marshal info MarshalToSizedBuffer m b False = pb_Marshal Size MarshalToSizedBuffer m"
  by (simp add: xxx_marshal marshal size_enc)

lemma unmarshal_enc:
  "valid m \<Longrightarrow> length (enc m) < 2 ^ 63 \<Longrightarrow> pb_Unmarshal name fields (enc m) zero = Inr m"
  by (rule decodes_unmarshal [OF decodes_enc])

lemma roundtrip:
  assumes "valid m" "Size m < 2 ^ 63"
  shows "\<exists>bs. pb_Marshal Size MarshalToSizedBuffer m = Ret bs \<and> length bs = Size m \<and>
    pb_Unmarshal name fields bs zero = Inr m"
  using marshal [OF assms(1)] unmarshal_enc [OF assms(1)] assms(2) by (simp add: size_enc [OF assms(1)])

lemma enc_inj:
  assumes "valid m" "valid m'" "enc m = enc m'" "Size m < 2 ^ 63"
  shows "m = m'"
proof -
  have l: "length (enc m) < 2 ^ 63" using assms(4) by (simp add: size_enc [OF assms(1)])
  have "Inr m = (pb_Unmarshal name fields (enc m) zero :: go_error + 'm)"
    by (rule unmarshal_enc [OF assms(1) l, symmetric])
  also have "\<dots> = pb_Unmarshal name fields (enc m') zero" by (simp only: assms(3))
  also have "\<dots> = Inr m'"
    by (rule unmarshal_enc [OF assms(2) l [unfolded assms(3)]])
  finally show ?thesis by simp
qed

end

section \<open>Codecs of libraries\<close>

text \<open>
  An embedded message whose type is not declared in this repository, and a field of a custom type.
  The contracts say what the generated code relies on: the size is the number of bytes written, the
  bytes are an encoding of the value, reading them gives the value back. Every message of the
  repository keeps the first contract.
\<close>

record 'p pb_codec =
  pc_Size :: "'p \<Rightarrow> nat"
  pc_MarshalToSizedBuffer :: "'p \<Rightarrow> bytes \<Rightarrow> (bytes \<times> nat) outcome"
  pc_Unmarshal :: "bytes \<Rightarrow> 'p \<Rightarrow> go_error + 'p"
  pc_zero :: 'p

locale pb_library =
  fixes P :: "'p pb_codec" and enc :: "'p \<Rightarrow> bytes" and valid :: "'p \<Rightarrow> bool"
  assumes library_size: "valid x \<Longrightarrow> pc_Size P x = length (enc x)"
    and library_fills: "valid x \<Longrightarrow> fills (pc_MarshalToSizedBuffer P x) (enc x)"
    and library_unmarshal: "valid x \<Longrightarrow> length (enc x) < 2 ^ 63 \<Longrightarrow>
      pc_Unmarshal P (enc x) (pc_zero P) = Inr x"

lemma pb_message_library:
  assumes "pb_message name flds Size MarshalToSizedBuffer enc zero valid"
  shows "pb_library \<lparr>pc_Size = Size, pc_MarshalToSizedBuffer = MarshalToSizedBuffer,
    pc_Unmarshal = pb_Unmarshal name flds, pc_zero = zero\<rparr> enc valid"
  using assms by (auto simp: pb_message_def pb_library_def decodes_unmarshal)

record 'd dec_codec =
  dc_Size :: "'d \<Rightarrow> nat"
  dc_MarshalTo :: "'d \<Rightarrow> bytes \<Rightarrow> bytes outcome"
  dc_Unmarshal :: "bytes \<Rightarrow> 'd \<Rightarrow> go_error + 'd"
  dc_zero :: 'd

locale dec_codec_laws =
  fixes D :: "'d dec_codec" and enc :: "'d \<Rightarrow> bytes" and valid :: "'d \<Rightarrow> bool"
  assumes dec_size: "valid x \<Longrightarrow> dc_Size D x = length (enc x)"
    and dec_marshal: "valid x \<Longrightarrow> length (enc x) \<le> length d \<Longrightarrow>
      dc_MarshalTo D x d = Ret (enc x @ drop (length (enc x)) d)"
    and dec_unmarshal: "valid x \<Longrightarrow> length (enc x) < 2 ^ 63 \<Longrightarrow> dc_Unmarshal D (enc x) z = Inr x"
begin

lemma emits_dec:
  "valid x \<Longrightarrow> emits (put_custom tag (dc_Size D x) (dc_MarshalTo D x)) (len_enc tag (enc x))"
  by (rule emits_put_custom) (simp_all add: dec_marshal dec_size)

end

end
