(* ===== verification/VrPb.thy ===== *)
theory VrPb
  imports VrTypes CodecLaws
begin

text \<open>
  The codecs of the messages of \<open>x/validatorregistry/types\<close>, message by message: \<open>Size\<close>,
  \<open>MarshalToSizedBuffer\<close> (the steps from the last field to the first, as in the source),
  \<open>Marshal\<close>, \<open>MarshalTo\<close>, the cases of the switch of \<open>Unmarshal\<close> (\<open>fields\<close>), \<open>Unmarshal\<close> itself,
  and the zero value the generated code starts from. \<open>enc\<close> is the specification of the encoding;
  every message interprets \<open>pb_message\<close>, which gives its round trip.

  The pagination messages of the list query belong to the SDK: their codec is a parameter \<open>P\<close>, and
  the two messages that contain them are proved inside the locale of its contract.
\<close>

section \<open>\<open>Validator\<close>\<close>

definition Validator_MarshalToSizedBuffer ::
    "Validator \<Rightarrow> bytes \<Rightarrow> (bytes \<times> nat) outcome" where
  "Validator_MarshalToSizedBuffer m = marshal_steps
     [put_uint_field 0x30 (v_TermEnd m),
      put_string_field 0x2a (v_Status m),
      put_string_field 0x22 (v_ConsensusPubkey m),
      put_string_field 0x1a (v_OperatorAddress m),
      put_string_field 0x12 (v_MemberId m),
      put_string_field 0x0a (v_Index m)]"

definition Validator_Size :: "Validator \<Rightarrow> nat" where
  "Validator_Size m =
     string_size (v_Index m) +
     string_size (v_MemberId m) +
     string_size (v_OperatorAddress m) +
     string_size (v_ConsensusPubkey m) +
     string_size (v_Status m) +
     uint_size (v_TermEnd m)"

definition Validator_Marshal :: "Validator \<Rightarrow> bytes outcome" where
  "Validator_Marshal = pb_Marshal Validator_Size Validator_MarshalToSizedBuffer"

definition Validator_MarshalTo ::
    "Validator \<Rightarrow> bytes \<Rightarrow> (bytes \<times> nat) outcome" where
  "Validator_MarshalTo = pb_MarshalTo Validator_Size Validator_MarshalToSizedBuffer"

definition Validator_zero :: "Validator" where
  "Validator_zero =
     \<lparr>v_Index = '''', v_MemberId = '''', v_OperatorAddress = '''', v_ConsensusPubkey = '''', v_Status = '''', v_TermEnd = 0\<rparr>"

definition Validator_fields :: "(int \<times> Validator field) list" where
  "Validator_fields =
     [(1, StringField ''Index'' (\<lambda>s m. m\<lparr>v_Index := s\<rparr>)),
      (2, StringField ''MemberId'' (\<lambda>s m. m\<lparr>v_MemberId := s\<rparr>)),
      (3, StringField ''OperatorAddress'' (\<lambda>s m. m\<lparr>v_OperatorAddress := s\<rparr>)),
      (4, StringField ''ConsensusPubkey'' (\<lambda>s m. m\<lparr>v_ConsensusPubkey := s\<rparr>)),
      (5, StringField ''Status'' (\<lambda>s m. m\<lparr>v_Status := s\<rparr>)),
      (6, VarintField ''TermEnd'' (\<lambda>v m. m\<lparr>v_TermEnd := v\<rparr>))]"

definition Validator_Unmarshal ::
    "bytes \<Rightarrow> Validator \<Rightarrow> go_error + Validator" where
  "Validator_Unmarshal = pb_Unmarshal ''Validator'' Validator_fields"

definition Validator_enc :: "Validator \<Rightarrow> bytes" where
  "Validator_enc m =
     string_enc 0x0a (v_Index m) @
     string_enc 0x12 (v_MemberId m) @
     string_enc 0x1a (v_OperatorAddress m) @
     string_enc 0x22 (v_ConsensusPubkey m) @
     string_enc 0x2a (v_Status m) @
     uint_enc 0x30 (v_TermEnd m)"

lemma Validator_lookup:
  "map_of Validator_fields 1 =
     Some (StringField ''Index'' (\<lambda>s m. m\<lparr>v_Index := s\<rparr>))"
  "map_of Validator_fields 2 =
     Some (StringField ''MemberId'' (\<lambda>s m. m\<lparr>v_MemberId := s\<rparr>))"
  "map_of Validator_fields 3 =
     Some (StringField ''OperatorAddress'' (\<lambda>s m. m\<lparr>v_OperatorAddress := s\<rparr>))"
  "map_of Validator_fields 4 =
     Some (StringField ''ConsensusPubkey'' (\<lambda>s m. m\<lparr>v_ConsensusPubkey := s\<rparr>))"
  "map_of Validator_fields 5 =
     Some (StringField ''Status'' (\<lambda>s m. m\<lparr>v_Status := s\<rparr>))"
  "map_of Validator_fields 6 =
     Some (VarintField ''TermEnd'' (\<lambda>v m. m\<lparr>v_TermEnd := v\<rparr>))"
  by (simp_all add: Validator_fields_def)

interpretation validator_pb: pb_message "''Validator''" Validator_fields Validator_Size
  Validator_MarshalToSizedBuffer Validator_enc Validator_zero "\<lambda>m. True"
proof
  fix m
  show "Validator_Size m = length (Validator_enc m)"
    by (simp add: Validator_Size_def Validator_enc_def length_enc)
  show "fills (Validator_MarshalToSizedBuffer m) (Validator_enc m)"
    unfolding Validator_MarshalToSizedBuffer_def
    by (rule fills_marshal_steps, rule emits_to, (rule emits_intros)+) (simp add: Validator_enc_def)
  show "decodes ''Validator'' Validator_fields (Validator_enc m) Validator_zero m"
    unfolding Validator_enc_def
    by (rule decodes_to, (rule decodes_intros Validator_lookup
        | (simp add: Validator_zero_def; fail))+)
qed

lemma Validator_Unmarshal_enc:
  "length (Validator_enc m) < 2 ^ 63 \<Longrightarrow> Validator_Unmarshal (Validator_enc m) Validator_zero = Inr m"
  using validator_pb.unmarshal_enc [of m] by (simp add: Validator_Unmarshal_def)

section \<open>\<open>Params\<close>\<close>

definition VrParams_MarshalToSizedBuffer ::
    "VrParams \<Rightarrow> bytes \<Rightarrow> (bytes \<times> nat) outcome" where
  "VrParams_MarshalToSizedBuffer m = marshal_steps
     []"

definition VrParams_Size :: "VrParams \<Rightarrow> nat" where
  "VrParams_Size m = 0"

definition VrParams_Marshal :: "VrParams \<Rightarrow> bytes outcome" where
  "VrParams_Marshal = pb_Marshal VrParams_Size VrParams_MarshalToSizedBuffer"

definition VrParams_MarshalTo ::
    "VrParams \<Rightarrow> bytes \<Rightarrow> (bytes \<times> nat) outcome" where
  "VrParams_MarshalTo = pb_MarshalTo VrParams_Size VrParams_MarshalToSizedBuffer"

definition VrParams_zero :: "VrParams" where
  "VrParams_zero = VrParams"

definition VrParams_fields :: "(int \<times> VrParams field) list" where
  "VrParams_fields =
     []"

definition VrParams_Unmarshal ::
    "bytes \<Rightarrow> VrParams \<Rightarrow> go_error + VrParams" where
  "VrParams_Unmarshal = pb_Unmarshal ''Params'' VrParams_fields"

definition VrParams_enc :: "VrParams \<Rightarrow> bytes" where
  "VrParams_enc m =
     []"

interpretation vr_params_pb: pb_message "''Params''" VrParams_fields VrParams_Size
  VrParams_MarshalToSizedBuffer VrParams_enc VrParams_zero "\<lambda>m. True"
proof
  fix m
  show "VrParams_Size m = length (VrParams_enc m)"
    by (simp add: VrParams_Size_def VrParams_enc_def length_enc)
  show "fills (VrParams_MarshalToSizedBuffer m) (VrParams_enc m)"
    unfolding VrParams_MarshalToSizedBuffer_def
    by (rule fills_marshal_steps, rule emits_to, (rule emits_intros)+) (simp add: VrParams_enc_def)
  show "decodes ''Params'' VrParams_fields (VrParams_enc m) VrParams_zero m"
    by (cases m) (simp add: VrParams_enc_def VrParams_zero_def decodes_Nil)
qed

lemma VrParams_Unmarshal_enc:
  "length (VrParams_enc m) < 2 ^ 63 \<Longrightarrow> VrParams_Unmarshal (VrParams_enc m) VrParams_zero = Inr m"
  using vr_params_pb.unmarshal_enc [of m] by (simp add: VrParams_Unmarshal_def)

section \<open>\<open>GenesisState\<close>\<close>

definition VrGenesisState_MarshalToSizedBuffer ::
    "VrGenesisState \<Rightarrow> bytes \<Rightarrow> (bytes \<times> nat) outcome" where
  "VrGenesisState_MarshalToSizedBuffer m = marshal_steps
     [put_repeated 0x12 Validator_MarshalToSizedBuffer (vgs_ValidatorMap m),
      put_message 0x0a (VrParams_MarshalToSizedBuffer (vgs_Params m))]"

definition VrGenesisState_Size :: "VrGenesisState \<Rightarrow> nat" where
  "VrGenesisState_Size m =
     len_size (VrParams_Size (vgs_Params m)) +
     repeated_size Validator_Size (vgs_ValidatorMap m)"

definition VrGenesisState_Marshal :: "VrGenesisState \<Rightarrow> bytes outcome" where
  "VrGenesisState_Marshal = pb_Marshal VrGenesisState_Size VrGenesisState_MarshalToSizedBuffer"

definition VrGenesisState_MarshalTo ::
    "VrGenesisState \<Rightarrow> bytes \<Rightarrow> (bytes \<times> nat) outcome" where
  "VrGenesisState_MarshalTo = pb_MarshalTo VrGenesisState_Size VrGenesisState_MarshalToSizedBuffer"

definition VrGenesisState_zero :: "VrGenesisState" where
  "VrGenesisState_zero = \<lparr>vgs_Params = VrParams_zero, vgs_ValidatorMap = []\<rparr>"

definition VrGenesisState_fields :: "(int \<times> VrGenesisState field) list" where
  "VrGenesisState_fields =
     [(1, MessageField ''Params'' VrParams_Unmarshal vgs_Params (\<lambda>x m. m\<lparr>vgs_Params := x\<rparr>)),
      (2, RepeatedField ''ValidatorMap'' Validator_Unmarshal Validator_zero
        (\<lambda>x m. m\<lparr>vgs_ValidatorMap := vgs_ValidatorMap m @ [x]\<rparr>))]"

definition VrGenesisState_Unmarshal ::
    "bytes \<Rightarrow> VrGenesisState \<Rightarrow> go_error + VrGenesisState" where
  "VrGenesisState_Unmarshal = pb_Unmarshal ''GenesisState'' VrGenesisState_fields"

definition VrGenesisState_enc :: "VrGenesisState \<Rightarrow> bytes" where
  "VrGenesisState_enc m =
     len_enc 0x0a (VrParams_enc (vgs_Params m)) @
     repeated_enc 0x12 Validator_enc (vgs_ValidatorMap m)"

lemma VrGenesisState_lookup:
  "map_of VrGenesisState_fields 1 =
     Some (MessageField ''Params'' VrParams_Unmarshal vgs_Params (\<lambda>x m. m\<lparr>vgs_Params := x\<rparr>))"
  "map_of VrGenesisState_fields 2 =
     Some (RepeatedField ''ValidatorMap'' Validator_Unmarshal Validator_zero
        (\<lambda>x m. m\<lparr>vgs_ValidatorMap := vgs_ValidatorMap m @ [x]\<rparr>))"
  by (simp_all add: VrGenesisState_fields_def)

lemma fold_add_validator:
  "fold (\<lambda>x m. m\<lparr>vgs_ValidatorMap := vgs_ValidatorMap m @ [x]\<rparr>) xs m =
     m\<lparr>vgs_ValidatorMap := vgs_ValidatorMap m @ xs\<rparr>"
  by (induction xs arbitrary: m) simp_all

interpretation vr_genesis_pb: pb_message "''GenesisState''" VrGenesisState_fields VrGenesisState_Size
  VrGenesisState_MarshalToSizedBuffer VrGenesisState_enc VrGenesisState_zero "\<lambda>m. True"
proof
  fix m
  show "VrGenesisState_Size m = length (VrGenesisState_enc m)"
    by (simp add: VrGenesisState_Size_def VrGenesisState_enc_def length_enc vr_params_pb.size_enc
        length_repeated_enc [where sizeOf = Validator_Size] validator_pb.size_enc)
  show "fills (VrGenesisState_MarshalToSizedBuffer m) (VrGenesisState_enc m)"
    unfolding VrGenesisState_MarshalToSizedBuffer_def
    by (rule fills_marshal_steps, rule emits_to, (rule emits_intros vr_params_pb.fills_enc validator_pb.fills_enc | (rule TrueI; fail))+) (simp add: VrGenesisState_enc_def)
  show "decodes ''GenesisState'' VrGenesisState_fields (VrGenesisState_enc m) VrGenesisState_zero m"
    unfolding VrGenesisState_enc_def
    by (rule decodes_to, (rule decodes_intros VrGenesisState_lookup
          decodes_message_field [where x = "vgs_Params m"] decodes_repeated_field
        | (simp add: VrGenesisState_zero_def VrParams_Unmarshal_enc Validator_Unmarshal_enc fold_add_validator; fail))+)
qed

lemma VrGenesisState_Unmarshal_enc:
  "length (VrGenesisState_enc m) < 2 ^ 63 \<Longrightarrow> VrGenesisState_Unmarshal (VrGenesisState_enc m) VrGenesisState_zero = Inr m"
  using vr_genesis_pb.unmarshal_enc [of m] by (simp add: VrGenesisState_Unmarshal_def)

section \<open>\<open>Module\<close>\<close>

definition VrModuleConfig_MarshalToSizedBuffer ::
    "VrModuleConfig \<Rightarrow> bytes \<Rightarrow> (bytes \<times> nat) outcome" where
  "VrModuleConfig_MarshalToSizedBuffer m = marshal_steps
     [put_string_field 0x0a (vmc_Authority m)]"

definition VrModuleConfig_Size :: "VrModuleConfig \<Rightarrow> nat" where
  "VrModuleConfig_Size m =
     string_size (vmc_Authority m)"

definition VrModuleConfig_Marshal :: "VrModuleConfig \<Rightarrow> bytes outcome" where
  "VrModuleConfig_Marshal = pb_Marshal VrModuleConfig_Size VrModuleConfig_MarshalToSizedBuffer"

definition VrModuleConfig_MarshalTo ::
    "VrModuleConfig \<Rightarrow> bytes \<Rightarrow> (bytes \<times> nat) outcome" where
  "VrModuleConfig_MarshalTo = pb_MarshalTo VrModuleConfig_Size VrModuleConfig_MarshalToSizedBuffer"

definition VrModuleConfig_zero :: "VrModuleConfig" where
  "VrModuleConfig_zero = \<lparr>vmc_Authority = ''''\<rparr>"

definition VrModuleConfig_fields :: "(int \<times> VrModuleConfig field) list" where
  "VrModuleConfig_fields =
     [(1, StringField ''Authority'' (\<lambda>s m. m\<lparr>vmc_Authority := s\<rparr>))]"

definition VrModuleConfig_Unmarshal ::
    "bytes \<Rightarrow> VrModuleConfig \<Rightarrow> go_error + VrModuleConfig" where
  "VrModuleConfig_Unmarshal = pb_Unmarshal ''Module'' VrModuleConfig_fields"

definition VrModuleConfig_enc :: "VrModuleConfig \<Rightarrow> bytes" where
  "VrModuleConfig_enc m =
     string_enc 0x0a (vmc_Authority m)"

lemma VrModuleConfig_lookup:
  "map_of VrModuleConfig_fields 1 =
     Some (StringField ''Authority'' (\<lambda>s m. m\<lparr>vmc_Authority := s\<rparr>))"
  by (simp_all add: VrModuleConfig_fields_def)

interpretation vr_module_pb: pb_message "''Module''" VrModuleConfig_fields VrModuleConfig_Size
  VrModuleConfig_MarshalToSizedBuffer VrModuleConfig_enc VrModuleConfig_zero "\<lambda>m. True"
proof
  fix m
  show "VrModuleConfig_Size m = length (VrModuleConfig_enc m)"
    by (simp add: VrModuleConfig_Size_def VrModuleConfig_enc_def length_enc)
  show "fills (VrModuleConfig_MarshalToSizedBuffer m) (VrModuleConfig_enc m)"
    unfolding VrModuleConfig_MarshalToSizedBuffer_def
    by (rule fills_marshal_steps, rule emits_to, (rule emits_intros)+) (simp add: VrModuleConfig_enc_def)
  show "decodes ''Module'' VrModuleConfig_fields (VrModuleConfig_enc m) VrModuleConfig_zero m"
    unfolding VrModuleConfig_enc_def
    by (rule decodes_to, (rule decodes_intros VrModuleConfig_lookup
        | (simp add: VrModuleConfig_zero_def; fail))+)
qed

lemma VrModuleConfig_Unmarshal_enc:
  "length (VrModuleConfig_enc m) < 2 ^ 63 \<Longrightarrow> VrModuleConfig_Unmarshal (VrModuleConfig_enc m) VrModuleConfig_zero = Inr m"
  using vr_module_pb.unmarshal_enc [of m] by (simp add: VrModuleConfig_Unmarshal_def)

section \<open>\<open>MsgUpdateParams\<close>\<close>

definition VrMsgUpdateParams_MarshalToSizedBuffer ::
    "VrMsgUpdateParams \<Rightarrow> bytes \<Rightarrow> (bytes \<times> nat) outcome" where
  "VrMsgUpdateParams_MarshalToSizedBuffer m = marshal_steps
     [put_message 0x12 (VrParams_MarshalToSizedBuffer (vmup_Params m)),
      put_string_field 0x0a (vmup_Authority m)]"

definition VrMsgUpdateParams_Size :: "VrMsgUpdateParams \<Rightarrow> nat" where
  "VrMsgUpdateParams_Size m =
     string_size (vmup_Authority m) +
     len_size (VrParams_Size (vmup_Params m))"

definition VrMsgUpdateParams_Marshal :: "VrMsgUpdateParams \<Rightarrow> bytes outcome" where
  "VrMsgUpdateParams_Marshal =
     pb_Marshal VrMsgUpdateParams_Size VrMsgUpdateParams_MarshalToSizedBuffer"

definition VrMsgUpdateParams_MarshalTo ::
    "VrMsgUpdateParams \<Rightarrow> bytes \<Rightarrow> (bytes \<times> nat) outcome" where
  "VrMsgUpdateParams_MarshalTo =
     pb_MarshalTo VrMsgUpdateParams_Size VrMsgUpdateParams_MarshalToSizedBuffer"

definition VrMsgUpdateParams_zero :: "VrMsgUpdateParams" where
  "VrMsgUpdateParams_zero = \<lparr>vmup_Authority = '''', vmup_Params = VrParams_zero\<rparr>"

definition VrMsgUpdateParams_fields :: "(int \<times> VrMsgUpdateParams field) list" where
  "VrMsgUpdateParams_fields =
     [(1, StringField ''Authority'' (\<lambda>s m. m\<lparr>vmup_Authority := s\<rparr>)),
      (2, MessageField ''Params'' VrParams_Unmarshal vmup_Params (\<lambda>x m. m\<lparr>vmup_Params := x\<rparr>))]"

definition VrMsgUpdateParams_Unmarshal ::
    "bytes \<Rightarrow> VrMsgUpdateParams \<Rightarrow> go_error + VrMsgUpdateParams" where
  "VrMsgUpdateParams_Unmarshal = pb_Unmarshal ''MsgUpdateParams'' VrMsgUpdateParams_fields"

definition VrMsgUpdateParams_enc :: "VrMsgUpdateParams \<Rightarrow> bytes" where
  "VrMsgUpdateParams_enc m =
     string_enc 0x0a (vmup_Authority m) @
     len_enc 0x12 (VrParams_enc (vmup_Params m))"

lemma VrMsgUpdateParams_lookup:
  "map_of VrMsgUpdateParams_fields 1 =
     Some (StringField ''Authority'' (\<lambda>s m. m\<lparr>vmup_Authority := s\<rparr>))"
  "map_of VrMsgUpdateParams_fields 2 =
     Some (MessageField ''Params'' VrParams_Unmarshal vmup_Params (\<lambda>x m. m\<lparr>vmup_Params := x\<rparr>))"
  by (simp_all add: VrMsgUpdateParams_fields_def)

interpretation vr_update_pb: pb_message "''MsgUpdateParams''" VrMsgUpdateParams_fields VrMsgUpdateParams_Size
  VrMsgUpdateParams_MarshalToSizedBuffer VrMsgUpdateParams_enc VrMsgUpdateParams_zero "\<lambda>m. True"
proof
  fix m
  show "VrMsgUpdateParams_Size m = length (VrMsgUpdateParams_enc m)"
    by (simp add: VrMsgUpdateParams_Size_def VrMsgUpdateParams_enc_def length_enc vr_params_pb.size_enc)
  show "fills (VrMsgUpdateParams_MarshalToSizedBuffer m) (VrMsgUpdateParams_enc m)"
    unfolding VrMsgUpdateParams_MarshalToSizedBuffer_def
    by (rule fills_marshal_steps, rule emits_to, (rule emits_intros vr_params_pb.fills_enc | (rule TrueI; fail))+) (simp add: VrMsgUpdateParams_enc_def)
  show "decodes ''MsgUpdateParams'' VrMsgUpdateParams_fields (VrMsgUpdateParams_enc m) VrMsgUpdateParams_zero m"
    unfolding VrMsgUpdateParams_enc_def
    by (rule decodes_to, (rule decodes_intros VrMsgUpdateParams_lookup
          decodes_message_field [where x = "vmup_Params m"]
        | (simp add: VrMsgUpdateParams_zero_def VrParams_Unmarshal_enc; fail))+)
qed

lemma VrMsgUpdateParams_Unmarshal_enc:
  "length (VrMsgUpdateParams_enc m) < 2 ^ 63 \<Longrightarrow> VrMsgUpdateParams_Unmarshal (VrMsgUpdateParams_enc m) VrMsgUpdateParams_zero = Inr m"
  using vr_update_pb.unmarshal_enc [of m] by (simp add: VrMsgUpdateParams_Unmarshal_def)

section \<open>\<open>MsgUpdateParamsResponse\<close>\<close>

definition VrMsgUpdateParamsResponse_MarshalToSizedBuffer ::
    "VrMsgUpdateParamsResponse \<Rightarrow> bytes \<Rightarrow> (bytes \<times> nat) outcome" where
  "VrMsgUpdateParamsResponse_MarshalToSizedBuffer m = marshal_steps
     []"

definition VrMsgUpdateParamsResponse_Size :: "VrMsgUpdateParamsResponse \<Rightarrow> nat" where
  "VrMsgUpdateParamsResponse_Size m = 0"

definition VrMsgUpdateParamsResponse_Marshal ::
    "VrMsgUpdateParamsResponse \<Rightarrow> bytes outcome" where
  "VrMsgUpdateParamsResponse_Marshal =
     pb_Marshal VrMsgUpdateParamsResponse_Size VrMsgUpdateParamsResponse_MarshalToSizedBuffer"

definition VrMsgUpdateParamsResponse_MarshalTo ::
    "VrMsgUpdateParamsResponse \<Rightarrow> bytes \<Rightarrow> (bytes \<times> nat) outcome" where
  "VrMsgUpdateParamsResponse_MarshalTo =
     pb_MarshalTo VrMsgUpdateParamsResponse_Size VrMsgUpdateParamsResponse_MarshalToSizedBuffer"

definition VrMsgUpdateParamsResponse_zero :: "VrMsgUpdateParamsResponse" where
  "VrMsgUpdateParamsResponse_zero = VrMsgUpdateParamsResponse"

definition VrMsgUpdateParamsResponse_fields ::
    "(int \<times> VrMsgUpdateParamsResponse field) list" where
  "VrMsgUpdateParamsResponse_fields =
     []"

definition VrMsgUpdateParamsResponse_Unmarshal ::
    "bytes \<Rightarrow> VrMsgUpdateParamsResponse \<Rightarrow> go_error + VrMsgUpdateParamsResponse" where
  "VrMsgUpdateParamsResponse_Unmarshal =
     pb_Unmarshal ''MsgUpdateParamsResponse'' VrMsgUpdateParamsResponse_fields"

definition VrMsgUpdateParamsResponse_enc :: "VrMsgUpdateParamsResponse \<Rightarrow> bytes" where
  "VrMsgUpdateParamsResponse_enc m =
     []"

interpretation vr_update_resp_pb: pb_message "''MsgUpdateParamsResponse''" VrMsgUpdateParamsResponse_fields VrMsgUpdateParamsResponse_Size
  VrMsgUpdateParamsResponse_MarshalToSizedBuffer VrMsgUpdateParamsResponse_enc VrMsgUpdateParamsResponse_zero "\<lambda>m. True"
proof
  fix m
  show "VrMsgUpdateParamsResponse_Size m = length (VrMsgUpdateParamsResponse_enc m)"
    by (simp add: VrMsgUpdateParamsResponse_Size_def VrMsgUpdateParamsResponse_enc_def length_enc)
  show "fills (VrMsgUpdateParamsResponse_MarshalToSizedBuffer m) (VrMsgUpdateParamsResponse_enc m)"
    unfolding VrMsgUpdateParamsResponse_MarshalToSizedBuffer_def
    by (rule fills_marshal_steps, rule emits_to, (rule emits_intros)+) (simp add: VrMsgUpdateParamsResponse_enc_def)
  show "decodes ''MsgUpdateParamsResponse'' VrMsgUpdateParamsResponse_fields (VrMsgUpdateParamsResponse_enc m) VrMsgUpdateParamsResponse_zero m"
    by (cases m) (simp add: VrMsgUpdateParamsResponse_enc_def VrMsgUpdateParamsResponse_zero_def decodes_Nil)
qed

lemma VrMsgUpdateParamsResponse_Unmarshal_enc:
  "length (VrMsgUpdateParamsResponse_enc m) < 2 ^ 63 \<Longrightarrow> VrMsgUpdateParamsResponse_Unmarshal (VrMsgUpdateParamsResponse_enc m) VrMsgUpdateParamsResponse_zero = Inr m"
  using vr_update_resp_pb.unmarshal_enc [of m] by (simp add: VrMsgUpdateParamsResponse_Unmarshal_def)

section \<open>\<open>MsgOnboardValidator\<close>\<close>

definition MsgOnboardValidator_MarshalToSizedBuffer ::
    "MsgOnboardValidator \<Rightarrow> bytes \<Rightarrow> (bytes \<times> nat) outcome" where
  "MsgOnboardValidator_MarshalToSizedBuffer m = marshal_steps
     [put_uint_field 0x38 (mov_TermEnd m),
      put_string_field 0x32 (mov_Status m),
      put_string_field 0x2a (mov_ConsensusPubkey m),
      put_string_field 0x22 (mov_OperatorAddress m),
      put_string_field 0x1a (mov_MemberId m),
      put_string_field 0x12 (mov_Index m),
      put_string_field 0x0a (mov_Creator m)]"

definition MsgOnboardValidator_Size :: "MsgOnboardValidator \<Rightarrow> nat" where
  "MsgOnboardValidator_Size m =
     string_size (mov_Creator m) +
     string_size (mov_Index m) +
     string_size (mov_MemberId m) +
     string_size (mov_OperatorAddress m) +
     string_size (mov_ConsensusPubkey m) +
     string_size (mov_Status m) +
     uint_size (mov_TermEnd m)"

definition MsgOnboardValidator_Marshal :: "MsgOnboardValidator \<Rightarrow> bytes outcome" where
  "MsgOnboardValidator_Marshal =
     pb_Marshal MsgOnboardValidator_Size MsgOnboardValidator_MarshalToSizedBuffer"

definition MsgOnboardValidator_MarshalTo ::
    "MsgOnboardValidator \<Rightarrow> bytes \<Rightarrow> (bytes \<times> nat) outcome" where
  "MsgOnboardValidator_MarshalTo =
     pb_MarshalTo MsgOnboardValidator_Size MsgOnboardValidator_MarshalToSizedBuffer"

definition MsgOnboardValidator_zero :: "MsgOnboardValidator" where
  "MsgOnboardValidator_zero =
     \<lparr>mov_Creator = '''', mov_Index = '''', mov_MemberId = '''', mov_OperatorAddress = '''', mov_ConsensusPubkey = '''', mov_Status = '''', mov_TermEnd = 0\<rparr>"

definition MsgOnboardValidator_fields :: "(int \<times> MsgOnboardValidator field) list" where
  "MsgOnboardValidator_fields =
     [(1, StringField ''Creator'' (\<lambda>s m. m\<lparr>mov_Creator := s\<rparr>)),
      (2, StringField ''Index'' (\<lambda>s m. m\<lparr>mov_Index := s\<rparr>)),
      (3, StringField ''MemberId'' (\<lambda>s m. m\<lparr>mov_MemberId := s\<rparr>)),
      (4, StringField ''OperatorAddress'' (\<lambda>s m. m\<lparr>mov_OperatorAddress := s\<rparr>)),
      (5, StringField ''ConsensusPubkey'' (\<lambda>s m. m\<lparr>mov_ConsensusPubkey := s\<rparr>)),
      (6, StringField ''Status'' (\<lambda>s m. m\<lparr>mov_Status := s\<rparr>)),
      (7, VarintField ''TermEnd'' (\<lambda>v m. m\<lparr>mov_TermEnd := v\<rparr>))]"

definition MsgOnboardValidator_Unmarshal ::
    "bytes \<Rightarrow> MsgOnboardValidator \<Rightarrow> go_error + MsgOnboardValidator" where
  "MsgOnboardValidator_Unmarshal = pb_Unmarshal ''MsgOnboardValidator'' MsgOnboardValidator_fields"

definition MsgOnboardValidator_enc :: "MsgOnboardValidator \<Rightarrow> bytes" where
  "MsgOnboardValidator_enc m =
     string_enc 0x0a (mov_Creator m) @
     string_enc 0x12 (mov_Index m) @
     string_enc 0x1a (mov_MemberId m) @
     string_enc 0x22 (mov_OperatorAddress m) @
     string_enc 0x2a (mov_ConsensusPubkey m) @
     string_enc 0x32 (mov_Status m) @
     uint_enc 0x38 (mov_TermEnd m)"

lemma MsgOnboardValidator_lookup:
  "map_of MsgOnboardValidator_fields 1 =
     Some (StringField ''Creator'' (\<lambda>s m. m\<lparr>mov_Creator := s\<rparr>))"
  "map_of MsgOnboardValidator_fields 2 =
     Some (StringField ''Index'' (\<lambda>s m. m\<lparr>mov_Index := s\<rparr>))"
  "map_of MsgOnboardValidator_fields 3 =
     Some (StringField ''MemberId'' (\<lambda>s m. m\<lparr>mov_MemberId := s\<rparr>))"
  "map_of MsgOnboardValidator_fields 4 =
     Some (StringField ''OperatorAddress'' (\<lambda>s m. m\<lparr>mov_OperatorAddress := s\<rparr>))"
  "map_of MsgOnboardValidator_fields 5 =
     Some (StringField ''ConsensusPubkey'' (\<lambda>s m. m\<lparr>mov_ConsensusPubkey := s\<rparr>))"
  "map_of MsgOnboardValidator_fields 6 =
     Some (StringField ''Status'' (\<lambda>s m. m\<lparr>mov_Status := s\<rparr>))"
  "map_of MsgOnboardValidator_fields 7 =
     Some (VarintField ''TermEnd'' (\<lambda>v m. m\<lparr>mov_TermEnd := v\<rparr>))"
  by (simp_all add: MsgOnboardValidator_fields_def)

interpretation onboard_pb: pb_message "''MsgOnboardValidator''" MsgOnboardValidator_fields MsgOnboardValidator_Size
  MsgOnboardValidator_MarshalToSizedBuffer MsgOnboardValidator_enc MsgOnboardValidator_zero "\<lambda>m. True"
proof
  fix m
  show "MsgOnboardValidator_Size m = length (MsgOnboardValidator_enc m)"
    by (simp add: MsgOnboardValidator_Size_def MsgOnboardValidator_enc_def length_enc)
  show "fills (MsgOnboardValidator_MarshalToSizedBuffer m) (MsgOnboardValidator_enc m)"
    unfolding MsgOnboardValidator_MarshalToSizedBuffer_def
    by (rule fills_marshal_steps, rule emits_to, (rule emits_intros)+) (simp add: MsgOnboardValidator_enc_def)
  show "decodes ''MsgOnboardValidator'' MsgOnboardValidator_fields (MsgOnboardValidator_enc m) MsgOnboardValidator_zero m"
    unfolding MsgOnboardValidator_enc_def
    by (rule decodes_to, (rule decodes_intros MsgOnboardValidator_lookup
        | (simp add: MsgOnboardValidator_zero_def; fail))+)
qed

lemma MsgOnboardValidator_Unmarshal_enc:
  "length (MsgOnboardValidator_enc m) < 2 ^ 63 \<Longrightarrow> MsgOnboardValidator_Unmarshal (MsgOnboardValidator_enc m) MsgOnboardValidator_zero = Inr m"
  using onboard_pb.unmarshal_enc [of m] by (simp add: MsgOnboardValidator_Unmarshal_def)

section \<open>\<open>MsgOnboardValidatorResponse\<close>\<close>

definition MsgOnboardValidatorResponse_MarshalToSizedBuffer ::
    "MsgOnboardValidatorResponse \<Rightarrow> bytes \<Rightarrow> (bytes \<times> nat) outcome" where
  "MsgOnboardValidatorResponse_MarshalToSizedBuffer m = marshal_steps
     []"

definition MsgOnboardValidatorResponse_Size :: "MsgOnboardValidatorResponse \<Rightarrow> nat" where
  "MsgOnboardValidatorResponse_Size m = 0"

definition MsgOnboardValidatorResponse_Marshal ::
    "MsgOnboardValidatorResponse \<Rightarrow> bytes outcome" where
  "MsgOnboardValidatorResponse_Marshal =
     pb_Marshal MsgOnboardValidatorResponse_Size MsgOnboardValidatorResponse_MarshalToSizedBuffer"

definition MsgOnboardValidatorResponse_MarshalTo ::
    "MsgOnboardValidatorResponse \<Rightarrow> bytes \<Rightarrow> (bytes \<times> nat) outcome" where
  "MsgOnboardValidatorResponse_MarshalTo =
     pb_MarshalTo MsgOnboardValidatorResponse_Size MsgOnboardValidatorResponse_MarshalToSizedBuffer"

definition MsgOnboardValidatorResponse_zero :: "MsgOnboardValidatorResponse" where
  "MsgOnboardValidatorResponse_zero = MsgOnboardValidatorResponse"

definition MsgOnboardValidatorResponse_fields ::
    "(int \<times> MsgOnboardValidatorResponse field) list" where
  "MsgOnboardValidatorResponse_fields =
     []"

definition MsgOnboardValidatorResponse_Unmarshal ::
    "bytes \<Rightarrow> MsgOnboardValidatorResponse \<Rightarrow> go_error + MsgOnboardValidatorResponse" where
  "MsgOnboardValidatorResponse_Unmarshal =
     pb_Unmarshal ''MsgOnboardValidatorResponse'' MsgOnboardValidatorResponse_fields"

definition MsgOnboardValidatorResponse_enc ::
    "MsgOnboardValidatorResponse \<Rightarrow> bytes" where
  "MsgOnboardValidatorResponse_enc m =
     []"

interpretation onboard_resp_pb: pb_message "''MsgOnboardValidatorResponse''" MsgOnboardValidatorResponse_fields MsgOnboardValidatorResponse_Size
  MsgOnboardValidatorResponse_MarshalToSizedBuffer MsgOnboardValidatorResponse_enc MsgOnboardValidatorResponse_zero "\<lambda>m. True"
proof
  fix m
  show "MsgOnboardValidatorResponse_Size m = length (MsgOnboardValidatorResponse_enc m)"
    by (simp add: MsgOnboardValidatorResponse_Size_def MsgOnboardValidatorResponse_enc_def length_enc)
  show "fills (MsgOnboardValidatorResponse_MarshalToSizedBuffer m) (MsgOnboardValidatorResponse_enc m)"
    unfolding MsgOnboardValidatorResponse_MarshalToSizedBuffer_def
    by (rule fills_marshal_steps, rule emits_to, (rule emits_intros)+) (simp add: MsgOnboardValidatorResponse_enc_def)
  show "decodes ''MsgOnboardValidatorResponse'' MsgOnboardValidatorResponse_fields (MsgOnboardValidatorResponse_enc m) MsgOnboardValidatorResponse_zero m"
    by (cases m) (simp add: MsgOnboardValidatorResponse_enc_def MsgOnboardValidatorResponse_zero_def decodes_Nil)
qed

lemma MsgOnboardValidatorResponse_Unmarshal_enc:
  "length (MsgOnboardValidatorResponse_enc m) < 2 ^ 63 \<Longrightarrow> MsgOnboardValidatorResponse_Unmarshal (MsgOnboardValidatorResponse_enc m) MsgOnboardValidatorResponse_zero = Inr m"
  using onboard_resp_pb.unmarshal_enc [of m] by (simp add: MsgOnboardValidatorResponse_Unmarshal_def)

section \<open>\<open>QueryParamsRequest\<close>\<close>

definition VrQueryParamsRequest_MarshalToSizedBuffer ::
    "VrQueryParamsRequest \<Rightarrow> bytes \<Rightarrow> (bytes \<times> nat) outcome" where
  "VrQueryParamsRequest_MarshalToSizedBuffer m = marshal_steps
     []"

definition VrQueryParamsRequest_Size :: "VrQueryParamsRequest \<Rightarrow> nat" where
  "VrQueryParamsRequest_Size m = 0"

definition VrQueryParamsRequest_Marshal :: "VrQueryParamsRequest \<Rightarrow> bytes outcome" where
  "VrQueryParamsRequest_Marshal =
     pb_Marshal VrQueryParamsRequest_Size VrQueryParamsRequest_MarshalToSizedBuffer"

definition VrQueryParamsRequest_MarshalTo ::
    "VrQueryParamsRequest \<Rightarrow> bytes \<Rightarrow> (bytes \<times> nat) outcome" where
  "VrQueryParamsRequest_MarshalTo =
     pb_MarshalTo VrQueryParamsRequest_Size VrQueryParamsRequest_MarshalToSizedBuffer"

definition VrQueryParamsRequest_zero :: "VrQueryParamsRequest" where
  "VrQueryParamsRequest_zero = VrQueryParamsRequest"

definition VrQueryParamsRequest_fields :: "(int \<times> VrQueryParamsRequest field) list" where
  "VrQueryParamsRequest_fields =
     []"

definition VrQueryParamsRequest_Unmarshal ::
    "bytes \<Rightarrow> VrQueryParamsRequest \<Rightarrow> go_error + VrQueryParamsRequest" where
  "VrQueryParamsRequest_Unmarshal = pb_Unmarshal ''QueryParamsRequest'' VrQueryParamsRequest_fields"

definition VrQueryParamsRequest_enc :: "VrQueryParamsRequest \<Rightarrow> bytes" where
  "VrQueryParamsRequest_enc m =
     []"

interpretation vr_query_params_pb: pb_message "''QueryParamsRequest''" VrQueryParamsRequest_fields VrQueryParamsRequest_Size
  VrQueryParamsRequest_MarshalToSizedBuffer VrQueryParamsRequest_enc VrQueryParamsRequest_zero "\<lambda>m. True"
proof
  fix m
  show "VrQueryParamsRequest_Size m = length (VrQueryParamsRequest_enc m)"
    by (simp add: VrQueryParamsRequest_Size_def VrQueryParamsRequest_enc_def length_enc)
  show "fills (VrQueryParamsRequest_MarshalToSizedBuffer m) (VrQueryParamsRequest_enc m)"
    unfolding VrQueryParamsRequest_MarshalToSizedBuffer_def
    by (rule fills_marshal_steps, rule emits_to, (rule emits_intros)+) (simp add: VrQueryParamsRequest_enc_def)
  show "decodes ''QueryParamsRequest'' VrQueryParamsRequest_fields (VrQueryParamsRequest_enc m) VrQueryParamsRequest_zero m"
    by (cases m) (simp add: VrQueryParamsRequest_enc_def VrQueryParamsRequest_zero_def decodes_Nil)
qed

lemma VrQueryParamsRequest_Unmarshal_enc:
  "length (VrQueryParamsRequest_enc m) < 2 ^ 63 \<Longrightarrow> VrQueryParamsRequest_Unmarshal (VrQueryParamsRequest_enc m) VrQueryParamsRequest_zero = Inr m"
  using vr_query_params_pb.unmarshal_enc [of m] by (simp add: VrQueryParamsRequest_Unmarshal_def)

section \<open>\<open>QueryParamsResponse\<close>\<close>

definition VrQueryParamsResponse_MarshalToSizedBuffer ::
    "VrQueryParamsResponse \<Rightarrow> bytes \<Rightarrow> (bytes \<times> nat) outcome" where
  "VrQueryParamsResponse_MarshalToSizedBuffer m = marshal_steps
     [put_message 0x0a (VrParams_MarshalToSizedBuffer (vqpr_Params m))]"

definition VrQueryParamsResponse_Size :: "VrQueryParamsResponse \<Rightarrow> nat" where
  "VrQueryParamsResponse_Size m =
     len_size (VrParams_Size (vqpr_Params m))"

definition VrQueryParamsResponse_Marshal ::
    "VrQueryParamsResponse \<Rightarrow> bytes outcome" where
  "VrQueryParamsResponse_Marshal =
     pb_Marshal VrQueryParamsResponse_Size VrQueryParamsResponse_MarshalToSizedBuffer"

definition VrQueryParamsResponse_MarshalTo ::
    "VrQueryParamsResponse \<Rightarrow> bytes \<Rightarrow> (bytes \<times> nat) outcome" where
  "VrQueryParamsResponse_MarshalTo =
     pb_MarshalTo VrQueryParamsResponse_Size VrQueryParamsResponse_MarshalToSizedBuffer"

definition VrQueryParamsResponse_zero :: "VrQueryParamsResponse" where
  "VrQueryParamsResponse_zero = \<lparr>vqpr_Params = VrParams_zero\<rparr>"

definition VrQueryParamsResponse_fields :: "(int \<times> VrQueryParamsResponse field) list" where
  "VrQueryParamsResponse_fields =
     [(1, MessageField ''Params'' VrParams_Unmarshal vqpr_Params (\<lambda>x m. m\<lparr>vqpr_Params := x\<rparr>))]"

definition VrQueryParamsResponse_Unmarshal ::
    "bytes \<Rightarrow> VrQueryParamsResponse \<Rightarrow> go_error + VrQueryParamsResponse" where
  "VrQueryParamsResponse_Unmarshal =
     pb_Unmarshal ''QueryParamsResponse'' VrQueryParamsResponse_fields"

definition VrQueryParamsResponse_enc :: "VrQueryParamsResponse \<Rightarrow> bytes" where
  "VrQueryParamsResponse_enc m =
     len_enc 0x0a (VrParams_enc (vqpr_Params m))"

lemma VrQueryParamsResponse_lookup:
  "map_of VrQueryParamsResponse_fields 1 =
     Some (MessageField ''Params'' VrParams_Unmarshal vqpr_Params (\<lambda>x m. m\<lparr>vqpr_Params := x\<rparr>))"
  by (simp_all add: VrQueryParamsResponse_fields_def)

interpretation vr_query_params_resp_pb: pb_message "''QueryParamsResponse''" VrQueryParamsResponse_fields VrQueryParamsResponse_Size
  VrQueryParamsResponse_MarshalToSizedBuffer VrQueryParamsResponse_enc VrQueryParamsResponse_zero "\<lambda>m. True"
proof
  fix m
  show "VrQueryParamsResponse_Size m = length (VrQueryParamsResponse_enc m)"
    by (simp add: VrQueryParamsResponse_Size_def VrQueryParamsResponse_enc_def length_enc vr_params_pb.size_enc)
  show "fills (VrQueryParamsResponse_MarshalToSizedBuffer m) (VrQueryParamsResponse_enc m)"
    unfolding VrQueryParamsResponse_MarshalToSizedBuffer_def
    by (rule fills_marshal_steps, rule emits_to, (rule emits_intros vr_params_pb.fills_enc | (rule TrueI; fail))+) (simp add: VrQueryParamsResponse_enc_def)
  show "decodes ''QueryParamsResponse'' VrQueryParamsResponse_fields (VrQueryParamsResponse_enc m) VrQueryParamsResponse_zero m"
    unfolding VrQueryParamsResponse_enc_def
    by (rule decodes_to, (rule decodes_intros VrQueryParamsResponse_lookup
          decodes_message_field [where x = "vqpr_Params m"]
        | (simp add: VrQueryParamsResponse_zero_def VrParams_Unmarshal_enc; fail))+)
qed

lemma VrQueryParamsResponse_Unmarshal_enc:
  "length (VrQueryParamsResponse_enc m) < 2 ^ 63 \<Longrightarrow> VrQueryParamsResponse_Unmarshal (VrQueryParamsResponse_enc m) VrQueryParamsResponse_zero = Inr m"
  using vr_query_params_resp_pb.unmarshal_enc [of m] by (simp add: VrQueryParamsResponse_Unmarshal_def)

section \<open>\<open>QueryGetValidatorRequest\<close>\<close>

definition QueryGetValidatorRequest_MarshalToSizedBuffer ::
    "QueryGetValidatorRequest \<Rightarrow> bytes \<Rightarrow> (bytes \<times> nat) outcome" where
  "QueryGetValidatorRequest_MarshalToSizedBuffer m = marshal_steps
     [put_string_field 0x0a (qgvr_Index m)]"

definition QueryGetValidatorRequest_Size :: "QueryGetValidatorRequest \<Rightarrow> nat" where
  "QueryGetValidatorRequest_Size m =
     string_size (qgvr_Index m)"

definition QueryGetValidatorRequest_Marshal ::
    "QueryGetValidatorRequest \<Rightarrow> bytes outcome" where
  "QueryGetValidatorRequest_Marshal =
     pb_Marshal QueryGetValidatorRequest_Size QueryGetValidatorRequest_MarshalToSizedBuffer"

definition QueryGetValidatorRequest_MarshalTo ::
    "QueryGetValidatorRequest \<Rightarrow> bytes \<Rightarrow> (bytes \<times> nat) outcome" where
  "QueryGetValidatorRequest_MarshalTo =
     pb_MarshalTo QueryGetValidatorRequest_Size QueryGetValidatorRequest_MarshalToSizedBuffer"

definition QueryGetValidatorRequest_zero :: "QueryGetValidatorRequest" where
  "QueryGetValidatorRequest_zero = \<lparr>qgvr_Index = ''''\<rparr>"

definition QueryGetValidatorRequest_fields ::
    "(int \<times> QueryGetValidatorRequest field) list" where
  "QueryGetValidatorRequest_fields =
     [(1, StringField ''Index'' (\<lambda>s m. m\<lparr>qgvr_Index := s\<rparr>))]"

definition QueryGetValidatorRequest_Unmarshal ::
    "bytes \<Rightarrow> QueryGetValidatorRequest \<Rightarrow> go_error + QueryGetValidatorRequest" where
  "QueryGetValidatorRequest_Unmarshal =
     pb_Unmarshal ''QueryGetValidatorRequest'' QueryGetValidatorRequest_fields"

definition QueryGetValidatorRequest_enc :: "QueryGetValidatorRequest \<Rightarrow> bytes" where
  "QueryGetValidatorRequest_enc m =
     string_enc 0x0a (qgvr_Index m)"

lemma QueryGetValidatorRequest_lookup:
  "map_of QueryGetValidatorRequest_fields 1 =
     Some (StringField ''Index'' (\<lambda>s m. m\<lparr>qgvr_Index := s\<rparr>))"
  by (simp_all add: QueryGetValidatorRequest_fields_def)

interpretation query_get_pb: pb_message "''QueryGetValidatorRequest''" QueryGetValidatorRequest_fields QueryGetValidatorRequest_Size
  QueryGetValidatorRequest_MarshalToSizedBuffer QueryGetValidatorRequest_enc QueryGetValidatorRequest_zero "\<lambda>m. True"
proof
  fix m
  show "QueryGetValidatorRequest_Size m = length (QueryGetValidatorRequest_enc m)"
    by (simp add: QueryGetValidatorRequest_Size_def QueryGetValidatorRequest_enc_def length_enc)
  show "fills (QueryGetValidatorRequest_MarshalToSizedBuffer m) (QueryGetValidatorRequest_enc m)"
    unfolding QueryGetValidatorRequest_MarshalToSizedBuffer_def
    by (rule fills_marshal_steps, rule emits_to, (rule emits_intros)+) (simp add: QueryGetValidatorRequest_enc_def)
  show "decodes ''QueryGetValidatorRequest'' QueryGetValidatorRequest_fields (QueryGetValidatorRequest_enc m) QueryGetValidatorRequest_zero m"
    unfolding QueryGetValidatorRequest_enc_def
    by (rule decodes_to, (rule decodes_intros QueryGetValidatorRequest_lookup
        | (simp add: QueryGetValidatorRequest_zero_def; fail))+)
qed

lemma QueryGetValidatorRequest_Unmarshal_enc:
  "length (QueryGetValidatorRequest_enc m) < 2 ^ 63 \<Longrightarrow> QueryGetValidatorRequest_Unmarshal (QueryGetValidatorRequest_enc m) QueryGetValidatorRequest_zero = Inr m"
  using query_get_pb.unmarshal_enc [of m] by (simp add: QueryGetValidatorRequest_Unmarshal_def)

section \<open>\<open>QueryGetValidatorResponse\<close>\<close>

definition QueryGetValidatorResponse_MarshalToSizedBuffer ::
    "QueryGetValidatorResponse \<Rightarrow> bytes \<Rightarrow> (bytes \<times> nat) outcome" where
  "QueryGetValidatorResponse_MarshalToSizedBuffer m = marshal_steps
     [put_message 0x0a (Validator_MarshalToSizedBuffer (qgvs_Validator m))]"

definition QueryGetValidatorResponse_Size :: "QueryGetValidatorResponse \<Rightarrow> nat" where
  "QueryGetValidatorResponse_Size m =
     len_size (Validator_Size (qgvs_Validator m))"

definition QueryGetValidatorResponse_Marshal ::
    "QueryGetValidatorResponse \<Rightarrow> bytes outcome" where
  "QueryGetValidatorResponse_Marshal =
     pb_Marshal QueryGetValidatorResponse_Size QueryGetValidatorResponse_MarshalToSizedBuffer"

definition QueryGetValidatorResponse_MarshalTo ::
    "QueryGetValidatorResponse \<Rightarrow> bytes \<Rightarrow> (bytes \<times> nat) outcome" where
  "QueryGetValidatorResponse_MarshalTo =
     pb_MarshalTo QueryGetValidatorResponse_Size QueryGetValidatorResponse_MarshalToSizedBuffer"

definition QueryGetValidatorResponse_zero :: "QueryGetValidatorResponse" where
  "QueryGetValidatorResponse_zero = \<lparr>qgvs_Validator = Validator_zero\<rparr>"

definition QueryGetValidatorResponse_fields ::
    "(int \<times> QueryGetValidatorResponse field) list" where
  "QueryGetValidatorResponse_fields =
     [(1, MessageField ''Validator'' Validator_Unmarshal qgvs_Validator (\<lambda>x m. m\<lparr>qgvs_Validator := x\<rparr>))]"

definition QueryGetValidatorResponse_Unmarshal ::
    "bytes \<Rightarrow> QueryGetValidatorResponse \<Rightarrow> go_error + QueryGetValidatorResponse" where
  "QueryGetValidatorResponse_Unmarshal =
     pb_Unmarshal ''QueryGetValidatorResponse'' QueryGetValidatorResponse_fields"

definition QueryGetValidatorResponse_enc :: "QueryGetValidatorResponse \<Rightarrow> bytes" where
  "QueryGetValidatorResponse_enc m =
     len_enc 0x0a (Validator_enc (qgvs_Validator m))"

lemma QueryGetValidatorResponse_lookup:
  "map_of QueryGetValidatorResponse_fields 1 =
     Some (MessageField ''Validator'' Validator_Unmarshal qgvs_Validator (\<lambda>x m. m\<lparr>qgvs_Validator := x\<rparr>))"
  by (simp_all add: QueryGetValidatorResponse_fields_def)

interpretation query_get_resp_pb: pb_message "''QueryGetValidatorResponse''" QueryGetValidatorResponse_fields QueryGetValidatorResponse_Size
  QueryGetValidatorResponse_MarshalToSizedBuffer QueryGetValidatorResponse_enc QueryGetValidatorResponse_zero "\<lambda>m. True"
proof
  fix m
  show "QueryGetValidatorResponse_Size m = length (QueryGetValidatorResponse_enc m)"
    by (simp add: QueryGetValidatorResponse_Size_def QueryGetValidatorResponse_enc_def length_enc validator_pb.size_enc)
  show "fills (QueryGetValidatorResponse_MarshalToSizedBuffer m) (QueryGetValidatorResponse_enc m)"
    unfolding QueryGetValidatorResponse_MarshalToSizedBuffer_def
    by (rule fills_marshal_steps, rule emits_to, (rule emits_intros validator_pb.fills_enc | (rule TrueI; fail))+) (simp add: QueryGetValidatorResponse_enc_def)
  show "decodes ''QueryGetValidatorResponse'' QueryGetValidatorResponse_fields (QueryGetValidatorResponse_enc m) QueryGetValidatorResponse_zero m"
    unfolding QueryGetValidatorResponse_enc_def
    by (rule decodes_to, (rule decodes_intros QueryGetValidatorResponse_lookup
          decodes_message_field [where x = "qgvs_Validator m"]
        | (simp add: QueryGetValidatorResponse_zero_def Validator_Unmarshal_enc; fail))+)
qed

lemma QueryGetValidatorResponse_Unmarshal_enc:
  "length (QueryGetValidatorResponse_enc m) < 2 ^ 63 \<Longrightarrow> QueryGetValidatorResponse_Unmarshal (QueryGetValidatorResponse_enc m) QueryGetValidatorResponse_zero = Inr m"
  using query_get_resp_pb.unmarshal_enc [of m] by (simp add: QueryGetValidatorResponse_Unmarshal_def)

section \<open>\<open>QueryAllValidatorRequest\<close>\<close>

definition QueryAllValidatorRequest_MarshalToSizedBuffer ::
    "'p pb_codec \<Rightarrow> 'p QueryAllValidatorRequest \<Rightarrow> bytes \<Rightarrow> (bytes \<times> nat) outcome" where
  "QueryAllValidatorRequest_MarshalToSizedBuffer P m = marshal_steps
     [put_pointer 0x0a (pc_MarshalToSizedBuffer P) (qavr_Pagination m)]"

definition QueryAllValidatorRequest_Size ::
    "'p pb_codec \<Rightarrow> 'p QueryAllValidatorRequest \<Rightarrow> nat" where
  "QueryAllValidatorRequest_Size P m =
     pointer_size (pc_Size P) (qavr_Pagination m)"

definition QueryAllValidatorRequest_Marshal ::
    "'p pb_codec \<Rightarrow> 'p QueryAllValidatorRequest \<Rightarrow> bytes outcome" where
  "QueryAllValidatorRequest_Marshal P =
     pb_Marshal (QueryAllValidatorRequest_Size P) (QueryAllValidatorRequest_MarshalToSizedBuffer P)"

definition QueryAllValidatorRequest_MarshalTo ::
    "'p pb_codec \<Rightarrow> 'p QueryAllValidatorRequest \<Rightarrow> bytes \<Rightarrow> (bytes \<times> nat) outcome" where
  "QueryAllValidatorRequest_MarshalTo P =
     pb_MarshalTo (QueryAllValidatorRequest_Size P) (QueryAllValidatorRequest_MarshalToSizedBuffer P)"

definition QueryAllValidatorRequest_zero :: "'p QueryAllValidatorRequest" where
  "QueryAllValidatorRequest_zero = \<lparr>qavr_Pagination = None\<rparr>"

definition QueryAllValidatorRequest_fields ::
    "'p pb_codec \<Rightarrow> (int \<times> 'p QueryAllValidatorRequest field) list" where
  "QueryAllValidatorRequest_fields P =
     [(1, PointerField ''Pagination'' (pc_Unmarshal P) (pc_zero P) qavr_Pagination
        (\<lambda>x m. m\<lparr>qavr_Pagination := Some x\<rparr>))]"

definition QueryAllValidatorRequest_Unmarshal ::
    "'p pb_codec \<Rightarrow> bytes \<Rightarrow> 'p QueryAllValidatorRequest \<Rightarrow> go_error + ('p QueryAllValidatorRequest)" where
  "QueryAllValidatorRequest_Unmarshal P =
     pb_Unmarshal ''QueryAllValidatorRequest'' (QueryAllValidatorRequest_fields P)"

definition QueryAllValidatorRequest_enc ::
    "('p \<Rightarrow> bytes) \<Rightarrow> 'p QueryAllValidatorRequest \<Rightarrow> bytes" where
  "QueryAllValidatorRequest_enc enc m =
     pointer_enc 0x0a enc (qavr_Pagination m)"

lemma QueryAllValidatorRequest_lookup:
  "map_of (QueryAllValidatorRequest_fields P) 1 =
     Some (PointerField ''Pagination'' (pc_Unmarshal P) (pc_zero P) qavr_Pagination
        (\<lambda>x m. m\<lparr>qavr_Pagination := Some x\<rparr>))"
  by (simp_all add: QueryAllValidatorRequest_fields_def)

section \<open>\<open>QueryAllValidatorResponse\<close>\<close>

definition QueryAllValidatorResponse_MarshalToSizedBuffer ::
    "'p pb_codec \<Rightarrow> 'p QueryAllValidatorResponse \<Rightarrow> bytes \<Rightarrow> (bytes \<times> nat) outcome" where
  "QueryAllValidatorResponse_MarshalToSizedBuffer P m = marshal_steps
     [put_pointer 0x12 (pc_MarshalToSizedBuffer P) (qavs_Pagination m),
      put_repeated 0x0a Validator_MarshalToSizedBuffer (qavs_Validator m)]"

definition QueryAllValidatorResponse_Size ::
    "'p pb_codec \<Rightarrow> 'p QueryAllValidatorResponse \<Rightarrow> nat" where
  "QueryAllValidatorResponse_Size P m =
     repeated_size Validator_Size (qavs_Validator m) +
     pointer_size (pc_Size P) (qavs_Pagination m)"

definition QueryAllValidatorResponse_Marshal ::
    "'p pb_codec \<Rightarrow> 'p QueryAllValidatorResponse \<Rightarrow> bytes outcome" where
  "QueryAllValidatorResponse_Marshal P =
     pb_Marshal (QueryAllValidatorResponse_Size P) (QueryAllValidatorResponse_MarshalToSizedBuffer P)"

definition QueryAllValidatorResponse_MarshalTo ::
    "'p pb_codec \<Rightarrow> 'p QueryAllValidatorResponse \<Rightarrow> bytes \<Rightarrow> (bytes \<times> nat) outcome" where
  "QueryAllValidatorResponse_MarshalTo P =
     pb_MarshalTo (QueryAllValidatorResponse_Size P) (QueryAllValidatorResponse_MarshalToSizedBuffer P)"

definition QueryAllValidatorResponse_zero :: "'p QueryAllValidatorResponse" where
  "QueryAllValidatorResponse_zero = \<lparr>qavs_Validator = [], qavs_Pagination = None\<rparr>"

definition QueryAllValidatorResponse_fields ::
    "'p pb_codec \<Rightarrow> (int \<times> 'p QueryAllValidatorResponse field) list" where
  "QueryAllValidatorResponse_fields P =
     [(1, RepeatedField ''Validator'' Validator_Unmarshal Validator_zero
        (\<lambda>x m. m\<lparr>qavs_Validator := qavs_Validator m @ [x]\<rparr>)),
      (2, PointerField ''Pagination'' (pc_Unmarshal P) (pc_zero P) qavs_Pagination
        (\<lambda>x m. m\<lparr>qavs_Pagination := Some x\<rparr>))]"

definition QueryAllValidatorResponse_Unmarshal ::
    "'p pb_codec \<Rightarrow> bytes \<Rightarrow> 'p QueryAllValidatorResponse \<Rightarrow> go_error + ('p QueryAllValidatorResponse)" where
  "QueryAllValidatorResponse_Unmarshal P =
     pb_Unmarshal ''QueryAllValidatorResponse'' (QueryAllValidatorResponse_fields P)"

definition QueryAllValidatorResponse_enc ::
    "('p \<Rightarrow> bytes) \<Rightarrow> 'p QueryAllValidatorResponse \<Rightarrow> bytes" where
  "QueryAllValidatorResponse_enc enc m =
     repeated_enc 0x0a Validator_enc (qavs_Validator m) @
     pointer_enc 0x12 enc (qavs_Pagination m)"

lemma QueryAllValidatorResponse_lookup:
  "map_of (QueryAllValidatorResponse_fields P) 1 =
     Some (RepeatedField ''Validator'' Validator_Unmarshal Validator_zero
        (\<lambda>x m. m\<lparr>qavs_Validator := qavs_Validator m @ [x]\<rparr>))"
  "map_of (QueryAllValidatorResponse_fields P) 2 =
     Some (PointerField ''Pagination'' (pc_Unmarshal P) (pc_zero P) qavs_Pagination
        (\<lambda>x m. m\<lparr>qavs_Pagination := Some x\<rparr>))"
  by (simp_all add: QueryAllValidatorResponse_fields_def)

lemma fold_add_listed:
  "fold (\<lambda>x m. m\<lparr>qavs_Validator := qavs_Validator m @ [x]\<rparr>) xs m =
     m\<lparr>qavs_Validator := qavs_Validator m @ xs\<rparr>"
  by (induction xs arbitrary: m) simp_all

sublocale pb_library \<subseteq> query_all: pb_message "''QueryAllValidatorRequest''"
  "QueryAllValidatorRequest_fields P" "QueryAllValidatorRequest_Size P"
  "QueryAllValidatorRequest_MarshalToSizedBuffer P" "QueryAllValidatorRequest_enc enc"
  QueryAllValidatorRequest_zero "\<lambda>m. pred_option valid (qavr_Pagination m)"
proof
  fix m :: "'p QueryAllValidatorRequest"
  assume v: "pred_option valid (qavr_Pagination m)"
  show "QueryAllValidatorRequest_Size P m = length (QueryAllValidatorRequest_enc enc m)"
    using v by (cases "qavr_Pagination m") (simp_all add: QueryAllValidatorRequest_Size_def
        QueryAllValidatorRequest_enc_def pointer_enc_def pointer_size_def length_len_enc library_size)
  show "fills (QueryAllValidatorRequest_MarshalToSizedBuffer P m) (QueryAllValidatorRequest_enc enc m)"
    unfolding QueryAllValidatorRequest_MarshalToSizedBuffer_def
    by (rule fills_marshal_steps, rule emits_to,
        (rule emits_intros library_fills | (use v in \<open>simp; fail\<close>))+)
      (simp add: QueryAllValidatorRequest_enc_def)
  show "decodes ''QueryAllValidatorRequest'' (QueryAllValidatorRequest_fields P)
      (QueryAllValidatorRequest_enc enc m) QueryAllValidatorRequest_zero m"
    unfolding QueryAllValidatorRequest_enc_def
    by (rule decodes_to, (rule decodes_pointer_field is_tags QueryAllValidatorRequest_lookup)+)
      (use v in \<open>auto simp: QueryAllValidatorRequest_zero_def library_unmarshal split: option.splits\<close>)
qed

sublocale pb_library \<subseteq> query_all_resp: pb_message "''QueryAllValidatorResponse''"
  "QueryAllValidatorResponse_fields P" "QueryAllValidatorResponse_Size P"
  "QueryAllValidatorResponse_MarshalToSizedBuffer P" "QueryAllValidatorResponse_enc enc"
  QueryAllValidatorResponse_zero "\<lambda>m. pred_option valid (qavs_Pagination m)"
proof
  fix m :: "'p QueryAllValidatorResponse"
  assume v: "pred_option valid (qavs_Pagination m)"
  show "QueryAllValidatorResponse_Size P m = length (QueryAllValidatorResponse_enc enc m)"
    using v by (cases "qavs_Pagination m") (simp_all add: QueryAllValidatorResponse_Size_def
        QueryAllValidatorResponse_enc_def pointer_enc_def pointer_size_def length_len_enc library_size
        length_repeated_enc [where sizeOf = Validator_Size] validator_pb.size_enc)
  show "fills (QueryAllValidatorResponse_MarshalToSizedBuffer P m) (QueryAllValidatorResponse_enc enc m)"
    unfolding QueryAllValidatorResponse_MarshalToSizedBuffer_def
    by (rule fills_marshal_steps, rule emits_to,
        (rule emits_intros library_fills validator_pb.fills_enc TrueI | (use v in \<open>simp; fail\<close>))+)
      (simp add: QueryAllValidatorResponse_enc_def)
  show "decodes ''QueryAllValidatorResponse'' (QueryAllValidatorResponse_fields P)
      (QueryAllValidatorResponse_enc enc m) QueryAllValidatorResponse_zero m"
    unfolding QueryAllValidatorResponse_enc_def
    by (rule decodes_to, (rule decodes_append decodes_repeated_field decodes_pointer_field is_tags
          QueryAllValidatorResponse_lookup | (simp add: Validator_Unmarshal_enc; fail))+)
      (use v in \<open>auto simp: QueryAllValidatorResponse_zero_def library_unmarshal fold_add_listed
        split: option.splits\<close>)
qed

context pb_library
begin

lemmas query_all_resp_pb = query_all_resp.pb_message_axioms

end

end
