(* ===== verification/KVStore.thy ===== *)
theory KVStore
  imports Store CodecLaws "HOL-Library.List_Lexorder"
begin

text \<open>
  A store that keeps the contracts of \<open>Store\<close>: byte keys in ascending order, values encoded by a
  codec. An item lives under its prefix; the entries of a map with string keys live under the map's
  prefix followed by the bytes of the key. The store of a module is an instance with the module's
  prefixes and the generated protobuf routines as codecs.
\<close>

section \<open>The byte store\<close>

type_synonym kv = "(bytes \<times> bytes) list"

fun kv_set :: "bytes \<Rightarrow> bytes \<Rightarrow> kv \<Rightarrow> kv" where
  "kv_set k b [] = [(k, b)]"
| "kv_set k b ((k', b') # s) =
     (if k < k' then (k, b) # (k', b') # s
      else if k = k' then (k, b) # s
      else (k', b') # kv_set k b s)"

definition kv_sorted :: "kv \<Rightarrow> bool" where
  "kv_sorted s \<longleftrightarrow> sorted_wrt (<) (map fst s)"

lemma kv_sorted_simps [simp]:
  "kv_sorted []"
  "kv_sorted (e # s) \<longleftrightarrow> (\<forall>x \<in> set s. fst e < fst x) \<and> kv_sorted s"
  by (auto simp: kv_sorted_def)

lemma set_kv_set: "set (kv_set k b s) \<subseteq> insert (k, b) (set s)"
  by (induction s) (auto split: if_splits)

lemma kv_set_sorted: "kv_sorted s \<Longrightarrow> kv_sorted (kv_set k b s)"
proof (induction s)
  case (Cons e s)
  obtain k' b' where e: "e = (k', b')" by (cases e)
  show ?case
  proof (cases "k' < k")
    case True
    have "\<forall>x \<in> set (kv_set k b s). k' < fst x"
      using Cons.prems True set_kv_set [of k b s] by (force simp: e)
    with Cons True show ?thesis by (auto simp: e)
  next
    case False
    with Cons.prems show ?thesis by (force simp: e)
  qed
qed simp

lemma map_of_kv_set: "kv_sorted s \<Longrightarrow> map_of (kv_set k b s) = (map_of s)(k \<mapsto> b)"
  by (induction s) (auto simp: fun_eq_iff split: prod.split)

lemma kv_sorted_map_of: "kv_sorted s \<Longrightarrow> (k, b) \<in> set s \<longleftrightarrow> map_of s k = Some b"
  by (induction s) force+

section \<open>Codecs\<close>

record 'v codec =
  co_enc :: "'v \<Rightarrow> bytes outcome"
  co_dec :: "bytes \<Rightarrow> go_error + 'v"

definition co_ok :: "'v codec \<Rightarrow> 'v \<Rightarrow> bool" where
  "co_ok C v \<longleftrightarrow> (\<exists>b. co_enc C v = Ret b \<and> co_dec C b = Inr v)"

definition co_read :: "'v codec \<Rightarrow> bytes \<Rightarrow> 'v option" where
  "co_read C b = (case co_dec C b of Inl _ \<Rightarrow> None | Inr v \<Rightarrow> Some v)"

text \<open>\<open>codec.CollValue\<close>: a message is stored as its protobuf encoding.\<close>

definition CollValue ::
    "('v \<Rightarrow> bytes outcome) \<Rightarrow> (bytes \<Rightarrow> 'v \<Rightarrow> go_error + 'v) \<Rightarrow> 'v \<Rightarrow> 'v codec" where
  "CollValue marshal unmarshal zero = \<lparr>co_enc = marshal, co_dec = (\<lambda>b. unmarshal b zero)\<rparr>"

definition encode :: "'v codec \<Rightarrow> 'v \<Rightarrow> go_error + bytes" where
  "encode C v = (case co_enc C v of Ret b \<Rightarrow> Inr b | Err e \<Rightarrow> Inl e | Panic e \<Rightarrow> Inl e)"

section \<open>Items\<close>

definition kv_item :: "'v codec \<Rightarrow> bytes \<Rightarrow> (kv, 'v) item_ops" where
  "kv_item C p =
     \<lparr>i_get = (\<lambda>s. case map_of s p of None \<Rightarrow> Inl CollErrNotFound | Some b \<Rightarrow> co_dec C b),
      i_set = (\<lambda>s v. case encode C v of Inl e \<Rightarrow> Inl e | Inr b \<Rightarrow> Inr (kv_set p b s))\<rparr>"

definition item_val :: "'v codec \<Rightarrow> bytes \<Rightarrow> kv \<Rightarrow> 'v option" where
  "item_val C p s = Option.bind (map_of s p) (co_read C)"

definition item_inv :: "'v codec \<Rightarrow> bytes \<Rightarrow> kv \<Rightarrow> bool" where
  "item_inv C p s \<longleftrightarrow> (\<forall>b. map_of s p = Some b \<longrightarrow> co_read C b \<noteq> None)"

lemma kv_item_get:
  "item_inv C p s \<Longrightarrow> i_get (kv_item C p) s =
     (case item_val C p s of None \<Rightarrow> Inl CollErrNotFound | Some v \<Rightarrow> Inr v)"
  by (auto simp: kv_item_def item_inv_def item_val_def co_read_def split: option.splits sum.splits)

lemma kv_item_set:
  assumes "co_ok C v"
  obtains b where "i_set (kv_item C p) s v = Inr (kv_set p b s)" "co_read C b = Some v"
  using assms by (auto simp: co_ok_def kv_item_def encode_def co_read_def)

lemma kv_item_set_Inr:
  "i_set (kv_item C p) s v = Inr s' \<Longrightarrow> \<exists>b. s' = kv_set p b s"
  by (auto simp: kv_item_def split: sum.splits)

section \<open>Maps\<close>

definition key_less :: "string \<Rightarrow> string \<Rightarrow> bool" where
  "key_less a b \<longleftrightarrow> bytes_of_string a < bytes_of_string b"

definition has_prefix :: "bytes \<Rightarrow> bytes \<Rightarrow> bool" where
  "has_prefix p k \<longleftrightarrow> take (length p) k = p"

fun decode_entries :: "'v codec \<Rightarrow> bytes \<Rightarrow> kv \<Rightarrow> (string \<times> 'v) list \<times> go_error option" where
  "decode_entries C p [] = ([], None)"
| "decode_entries C p ((k, b) # s) =
     (if has_prefix p k then
        (case co_dec C b of
           Inl e \<Rightarrow> ([], Some e)
         | Inr v \<Rightarrow> let (es, fin) = decode_entries C p s in
             ((string_of_bytes (drop (length p) k), v) # es, fin))
      else decode_entries C p s)"

definition kv_map :: "'v codec \<Rightarrow> bytes \<Rightarrow> (kv, string, 'v) map_ops" where
  "kv_map C p =
     \<lparr>m_has = (\<lambda>s k. Inr (map_of s (p @ bytes_of_string k) \<noteq> None)),
      m_get = (\<lambda>s k. case map_of s (p @ bytes_of_string k) of
                 None \<Rightarrow> Inl CollErrNotFound | Some b \<Rightarrow> co_dec C b),
      m_set = (\<lambda>s k v. case encode C v of
                 Inl e \<Rightarrow> Inl e | Inr b \<Rightarrow> Inr (kv_set (p @ bytes_of_string k) b s)),
      m_iter = decode_entries C p\<rparr>"

definition map_abs :: "'v codec \<Rightarrow> bytes \<Rightarrow> kv \<Rightarrow> string \<Rightarrow> 'v option" where
  "map_abs C p s k = Option.bind (map_of s (p @ bytes_of_string k)) (co_read C)"

definition map_inv :: "'v codec \<Rightarrow> bytes \<Rightarrow> kv \<Rightarrow> bool" where
  "map_inv C p s \<longleftrightarrow> (\<forall>(k, b) \<in> set s. has_prefix p k \<longrightarrow> co_read C b \<noteq> None)"

lemma has_prefix_append [simp]: "has_prefix p (p @ k)"
  by (simp add: has_prefix_def)

lemma has_prefixE:
  assumes "has_prefix p k"
  obtains i where "k = p @ bytes_of_string i" "string_of_bytes (drop (length p) k) = i"
  using assms append_take_drop_id [of "length p" k]
  by (metis bytes_of_string_of_bytes has_prefix_def)

lemma append_less_iff: "p @ (a :: bytes) < p @ b \<longleftrightarrow> a < b"
  by (induction p) simp_all

lemma map_inv_get: "map_inv C p s \<Longrightarrow> map_of s (p @ k) = Some b \<Longrightarrow> co_read C b \<noteq> None"
  by (auto simp: map_inv_def dest!: map_of_SomeD)

lemma decode_entries_spec:
  "kv_sorted s \<Longrightarrow> map_inv C p s \<Longrightarrow>
   \<exists>es. decode_entries C p s = (es, None) \<and> map_of es = map_abs C p s \<and>
     sorted_wrt key_less (map fst es) \<and>
     (\<forall>i \<in> fst ` set es. (p @ bytes_of_string i) \<in> fst ` set s)"
proof (induction s)
  case Nil
  show ?case by (simp add: map_abs_def fun_eq_iff)
next
  case (Cons e s)
  obtain k b where e: "e = (k, b)" by (cases e)
  from Cons.prems have "kv_sorted s" "map_inv C p s" by (auto simp: map_inv_def)
  with Cons.IH obtain es where es: "decode_entries C p s = (es, None)" "map_of es = map_abs C p s"
    "sorted_wrt key_less (map fst es)" "\<forall>i \<in> fst ` set es. (p @ bytes_of_string i) \<in> fst ` set s"
    by blast
  show ?case
  proof (cases "has_prefix p k")
    case False
    then have "map_abs C p (e # s) = map_abs C p s"
      by (auto simp: map_abs_def e fun_eq_iff)
    with False es show ?thesis by (auto simp: e)
  next
    case True
    then obtain i where i: "k = p @ bytes_of_string i" "string_of_bytes (drop (length p) k) = i"
      by (rule has_prefixE)
    obtain v where v: "co_dec C b = Inr v"
      using Cons.prems(2) True by (auto simp: map_inv_def e co_read_def split: sum.splits)
    have "map_of ((i, v) # es) = map_abs C p (e # s)"
      using v by (auto simp: map_abs_def e i(1) fun_eq_iff es(2) co_read_def)
    moreover have "\<forall>j \<in> fst ` set es. key_less i j"
    proof
      fix j
      assume "j \<in> fst ` set es"
      with es(4) obtain x where "x \<in> set s" "fst x = p @ bytes_of_string j" by fastforce
      with Cons.prems(1) show "key_less i j"
        by (auto simp: e i(1) key_less_def append_less_iff)
    qed
    ultimately show ?thesis using True v es i by (auto simp: e)
  qed
qed

lemma sorted_key_less_distinct: "sorted_wrt key_less is \<Longrightarrow> distinct is"
  by (induction "is") (auto simp: key_less_def)

section \<open>An item and a map in one store\<close>

definition registry_inv :: "'p codec \<Rightarrow> bytes \<Rightarrow> 'v codec \<Rightarrow> bytes \<Rightarrow> kv \<Rightarrow> bool" where
  "registry_inv PC ip VC mp s \<longleftrightarrow> kv_sorted s \<and> item_inv PC ip s \<and> map_inv VC mp s"

locale kv_registry =
  fixes PC :: "'p codec" and ip :: bytes and VC :: "'v codec" and mp :: bytes
  assumes apart: "\<not> has_prefix mp ip"
begin

lemma not_ip: "mp @ k \<noteq> ip"
  using apart by auto

lemma set_item_inv:
  assumes "registry_inv PC ip VC mp s" "co_read PC b = Some v"
  shows "registry_inv PC ip VC mp (kv_set ip b s) \<and> item_val PC ip (kv_set ip b s) = Some v \<and>
    map_abs VC mp (kv_set ip b s) = map_abs VC mp s"
proof -
  have "map_inv VC mp (kv_set ip b s)"
    using assms(1) apart set_kv_set [of ip b s] by (fastforce simp: registry_inv_def map_inv_def)
  then show ?thesis using assms not_ip
    by (auto simp: registry_inv_def item_inv_def item_val_def map_abs_def kv_set_sorted map_of_kv_set)
qed

lemma set_map_inv:
  assumes "registry_inv PC ip VC mp s" "co_read VC b = Some v"
  shows "registry_inv PC ip VC mp (kv_set (mp @ bytes_of_string k) b s) \<and>
    item_val PC ip (kv_set (mp @ bytes_of_string k) b s) = item_val PC ip s \<and>
    map_abs VC mp (kv_set (mp @ bytes_of_string k) b s) = (map_abs VC mp s)(k \<mapsto> v)"
proof -
  let ?s = "kv_set (mp @ bytes_of_string k) b s"
  have "map_inv VC mp ?s"
    using assms set_kv_set [of "mp @ bytes_of_string k" b s]
    by (fastforce simp: registry_inv_def map_inv_def)
  moreover have "map_of ?s ip = map_of s ip"
    using assms(1) not_ip [of "bytes_of_string k"] by (simp add: map_of_kv_set registry_inv_def)
  ultimately show ?thesis using assms
    by (auto simp: registry_inv_def item_inv_def item_val_def map_abs_def kv_set_sorted
        map_of_kv_set fun_eq_iff)
qed

end

sublocale kv_registry \<subseteq> registry_store "kv_item PC ip" "kv_map VC mp" "registry_inv PC ip VC mp"
  "item_val PC ip" "co_ok PC" "map_abs VC mp" "\<lambda>k. True" "co_ok VC" key_less
proof
  fix s k v and p :: 'p and s'
  assume inv: "registry_inv PC ip VC mp s"
  then have s: "kv_sorted s" "item_inv PC ip s" "map_inv VC mp s" by (simp_all add: registry_inv_def)
  show "i_get (kv_item PC ip) s =
      (case item_val PC ip s of None \<Rightarrow> Inl CollErrNotFound | Some v \<Rightarrow> Inr v)"
    by (rule kv_item_get [OF s(2)])
  show "m_get (kv_map VC mp) s k =
      (case map_abs VC mp s k of None \<Rightarrow> Inl CollErrNotFound | Some v \<Rightarrow> Inr v)"
    using map_inv_get [OF s(3), of "bytes_of_string k"]
    by (cases "map_of s (mp @ bytes_of_string k)")
      (auto simp: kv_map_def map_abs_def co_read_def split: sum.splits)
  show "m_has (kv_map VC mp) s k = Inr (k \<in> dom (map_abs VC mp s))"
    using map_inv_get [OF s(3)]
    by (cases "map_of s (mp @ bytes_of_string k)") (auto simp: kv_map_def map_abs_def)
  show "\<exists>es. m_iter (kv_map VC mp) s = (es, None) \<and> sorted_wrt key_less (map fst es) \<and>
      distinct (map fst es) \<and> map_of es = map_abs VC mp s"
    using decode_entries_spec [OF s(1,3)] sorted_key_less_distinct by (auto simp: kv_map_def)
  show "\<exists>s'. i_set (kv_item PC ip) s p = Inr s' \<and> registry_inv PC ip VC mp s' \<and>
      item_val PC ip s' = Some p" if "co_ok PC p"
    using kv_item_set [OF that, of ip s] set_item_inv [OF inv] by metis
  show "\<exists>s'. m_set (kv_map VC mp) s k v = Inr s' \<and> registry_inv PC ip VC mp s' \<and>
      map_abs VC mp s' = (map_abs VC mp s)(k \<mapsto> v)" if "co_ok VC v"
    using that set_map_inv [OF inv] by (fastforce simp: co_ok_def kv_map_def encode_def co_read_def)
  show "map_abs VC mp s' = map_abs VC mp s"
    if "co_ok PC p" "i_set (kv_item PC ip) s p = Inr s'"
    using kv_item_set [OF that(1), of ip s] set_item_inv [OF inv] that(2) by (metis sum.inject(2))
  show "item_val PC ip s' = item_val PC ip s"
    if "co_ok VC v" "m_set (kv_map VC mp) s k v = Inr s'"
    using that set_map_inv [OF inv] by (auto simp: co_ok_def kv_map_def encode_def co_read_def)
qed

section \<open>Two items in one store\<close>

definition items_inv :: "'p codec \<Rightarrow> bytes \<Rightarrow> 'q codec \<Rightarrow> bytes \<Rightarrow> kv \<Rightarrow> bool" where
  "items_inv PC ip QC jp s \<longleftrightarrow> kv_sorted s \<and> item_inv PC ip s \<and> item_inv QC jp s"

lemma items_set:
  assumes "items_inv PC ip QC jp s" "co_ok PC v" "ip \<noteq> jp"
  shows "\<exists>s'. i_set (kv_item PC ip) s v = Inr s' \<and> items_inv PC ip QC jp s' \<and>
    item_val PC ip s' = Some v \<and> item_val QC jp s' = item_val QC jp s"
proof -
  obtain b where "i_set (kv_item PC ip) s v = Inr (kv_set ip b s)" "co_read PC b = Some v"
    using assms(2) by (rule kv_item_set)
  with assms show ?thesis
    by (auto simp: items_inv_def item_inv_def item_val_def kv_set_sorted map_of_kv_set)
qed

lemma items_inv_swap: "items_inv PC ip QC jp s \<Longrightarrow> items_inv QC jp PC ip s"
  by (simp add: items_inv_def)

lemma items_get:
  "items_inv PC ip QC jp s \<Longrightarrow> i_get (kv_item PC ip) s =
     (case item_val PC ip s of None \<Rightarrow> Inl CollErrNotFound | Some v \<Rightarrow> Inr v)"
  by (rule kv_item_get) (simp add: items_inv_def)

locale kv_items =
  fixes PC :: "'p codec" and ip :: bytes and QC :: "'q codec" and jp :: bytes
  assumes keys: "ip \<noteq> jp"

sublocale kv_items \<subseteq> P: item_store "kv_item PC ip" "items_inv PC ip QC jp" "item_val PC ip" "co_ok PC"
proof
  fix s v
  assume inv: "items_inv PC ip QC jp s"
  then show "i_get (kv_item PC ip) s =
      (case item_val PC ip s of None \<Rightarrow> Inl CollErrNotFound | Some v \<Rightarrow> Inr v)"
    by (rule items_get)
  show "\<exists>s'. i_set (kv_item PC ip) s v = Inr s' \<and> items_inv PC ip QC jp s' \<and>
      item_val PC ip s' = Some v" if "co_ok PC v"
    using items_set [OF inv that keys] by blast
qed

sublocale kv_items \<subseteq> Q: item_store "kv_item QC jp" "items_inv PC ip QC jp" "item_val QC jp" "co_ok QC"
proof
  fix s v
  assume inv: "items_inv PC ip QC jp s"
  show "i_get (kv_item QC jp) s =
      (case item_val QC jp s of None \<Rightarrow> Inl CollErrNotFound | Some v \<Rightarrow> Inr v)"
    by (rule items_get [OF items_inv_swap [OF inv]])
  show "\<exists>s'. i_set (kv_item QC jp) s v = Inr s' \<and> items_inv PC ip QC jp s' \<and>
      item_val QC jp s' = Some v" if "co_ok QC v"
    using items_set [OF items_inv_swap [OF inv] that keys [symmetric]] items_inv_swap by blast
qed

end
