(* ===== verification/VrStore.thy ===== *)
theory VrStore
  imports VrKeeper VrPb KVStore
begin

text \<open>
  The registry keeper on the byte store: the item and the map \<open>NewKeeper\<close> creates, with the prefixes
  of \<open>types/keys.go\<close> and \<open>types/key_validator.go\<close> and the protobuf codecs of the module. This is the
  instance of the store contract under which the facts of \<open>registry\<close> hold of the model.
\<close>

definition vr_params_codec :: "VrParams codec" where
  "vr_params_codec = CollValue VrParams_Marshal VrParams_Unmarshal VrParams_zero"

definition validator_codec :: "Validator codec" where
  "validator_codec = CollValue Validator_Marshal Validator_Unmarshal Validator_zero"

lemma validator_codec_ok:
  "length (Validator_enc v) < 2 ^ 63 \<Longrightarrow> co_ok validator_codec v"
  using validator_pb.marshal [of v] Validator_Unmarshal_enc [of v]
  by (simp add: co_ok_def validator_codec_def CollValue_def Validator_Marshal_def)

lemma vr_params_codec_ok: "co_ok vr_params_codec p"
  using vr_params_pb.marshal [of p] VrParams_Unmarshal_enc [of p]
  by (simp add: co_ok_def vr_params_codec_def CollValue_def VrParams_Marshal_def VrParams_enc_def)

definition vr_kv_keeper ::
    "addr_to_bytes \<Rightarrow> (bytes \<Rightarrow> go_error + string) \<Rightarrow> addr_to_bytes \<Rightarrow> (bytes \<Rightarrow> string) \<Rightarrow> bytes
     \<Rightarrow> kv VrKeeper" where
  "vr_kv_keeper stringToBytes bytesToString valAddress accString authority =
     \<lparr>vk_StringToBytes = stringToBytes, vk_BytesToString = bytesToString,
      vk_ValAddressFromBech32 = valAddress, vk_AccAddressString = accString,
      vk_authority = authority,
      vk_Params = kv_item vr_params_codec vr_ParamsKey,
      vk_Validator = kv_map validator_codec ValidatorKey\<rparr>"

lemma vr_kv_keeper_sel [simp]:
  "vk_StringToBytes (vr_kv_keeper sb bs va aa auth) = sb"
  "vk_ValAddressFromBech32 (vr_kv_keeper sb bs va aa auth) = va"
  "vk_authority (vr_kv_keeper sb bs va aa auth) = auth"
  "vk_Params (vr_kv_keeper sb bs va aa auth) = kv_item vr_params_codec vr_ParamsKey"
  "vk_Validator (vr_kv_keeper sb bs va aa auth) = kv_map validator_codec ValidatorKey"
  by (simp_all add: vr_kv_keeper_def)

interpretation vr_store: kv_registry vr_params_codec vr_ParamsKey validator_codec ValidatorKey
  by unfold_locales
    (simp add: has_prefix_def vr_ParamsKey_def ValidatorKey_def bytes_of_string_def)

abbreviation vr_inv :: "kv \<Rightarrow> bool" where
  "vr_inv \<equiv> registry_inv vr_params_codec vr_ParamsKey validator_codec ValidatorKey"

abbreviation vr_params_of :: "kv \<Rightarrow> VrParams option" where
  "vr_params_of \<equiv> item_val vr_params_codec vr_ParamsKey"

abbreviation validators_of :: "kv \<Rightarrow> string \<Rightarrow> Validator option" where
  "validators_of \<equiv> map_abs validator_codec ValidatorKey"

interpretation vr_kv: registry "vr_kv_keeper sb bs va aa auth" vr_inv vr_params_of
  "co_ok vr_params_codec" validators_of "\<lambda>i. True" "co_ok validator_codec" key_less
  for sb bs va aa auth
  unfolding registry_def vr_kv_keeper_sel by (rule vr_store.registry_store_axioms)

lemma vr_inv_empty [simp]: "vr_inv []" "validators_of [] = Map.empty" "vr_params_of [] = None"
  by (simp_all add: registry_inv_def item_inv_def map_inv_def map_abs_def item_val_def fun_eq_iff)

section \<open>A sample\<close>

text \<open>
  Entries of ordinary size can be stored; the sample keeper, whose addresses are the bytes of their
  text, and the sample message are the inputs of the witnesses.
\<close>

lemma string_size_le: "string_size s \<le> length s + 11"
  using sov_bounds [of "of_nat (length s)"] by (simp add: string_size_def len_size_def Let_def)

lemma uint_size_le: "uint_size v \<le> 11"
  using sov_bounds [of v] by (simp add: uint_size_def)

lemma validator_small_size:
  assumes "length (v_Index v) + length (v_MemberId v) + length (v_OperatorAddress v) +
    length (v_ConsensusPubkey v) + length (v_Status v) \<le> 1000"
  shows "Validator_Size v \<le> 1066"
  using assms string_size_le [of "v_Index v"] string_size_le [of "v_MemberId v"]
    string_size_le [of "v_OperatorAddress v"] string_size_le [of "v_ConsensusPubkey v"]
    string_size_le [of "v_Status v"] uint_size_le [of "v_TermEnd v"]
  unfolding Validator_Size_def by linarith

lemma validator_small_ok:
  assumes "length (v_Index v) + length (v_MemberId v) + length (v_OperatorAddress v) +
    length (v_ConsensusPubkey v) + length (v_Status v) \<le> 1000"
  shows "co_ok validator_codec v"
proof (rule validator_codec_ok)
  show "length (Validator_enc v) < 2 ^ 63"
    using validator_small_size [OF assms] by (simp add: validator_pb.size_enc)
qed

definition sample_keeper :: "kv VrKeeper" where
  "sample_keeper = vr_kv_keeper (\<lambda>s. Inr (bytes_of_string s)) (\<lambda>b. Inr (string_of_bytes b))
     (\<lambda>s. Inr (bytes_of_string s)) string_of_bytes (bytes_of_string ''gov'')"

definition sample_onboard :: MsgOnboardValidator where
  "sample_onboard = \<lparr>mov_Creator = ''gov'', mov_Index = ''v1'', mov_MemberId = ''m1'',
     mov_OperatorAddress = ''op1'', mov_ConsensusPubkey = ''pk'', mov_Status = ''active'', mov_TermEnd = 7\<rparr>"

definition sample_ctx :: "kv VrCtx" where
  "sample_ctx = \<lparr>vc_store = [], vc_events = []\<rparr>"

abbreviation sample_registry :: "kv VrKeeper \<Rightarrow> bool" where
  "sample_registry k \<equiv> registry k vr_inv vr_params_of (co_ok vr_params_codec) validators_of
     (\<lambda>i. True) (co_ok validator_codec) key_less"

lemma sample_registry: "sample_registry sample_keeper"
  unfolding sample_keeper_def by (rule vr_kv.registry_axioms)

lemma sample_sel [simp]:
  "vk_StringToBytes sample_keeper = (\<lambda>s. Inr (bytes_of_string s))"
  "vk_ValAddressFromBech32 sample_keeper = (\<lambda>s. Inr (bytes_of_string s))"
  "vk_authority sample_keeper = bytes_of_string ''gov''"
  "vc_store sample_ctx = []"
  "mov_Creator sample_onboard = ''gov''" "mov_Index sample_onboard = ''v1''"
  "mov_MemberId sample_onboard = ''m1''" "mov_OperatorAddress sample_onboard = ''op1''"
  "mov_Status sample_onboard = ''active''"
  by (simp_all add: sample_keeper_def sample_ctx_def sample_onboard_def)

lemma sample_onboard_ok: "co_ok validator_codec (onboarded_validator sample_onboard)"
  by (rule validator_small_ok) (simp add: onboarded_validator_def sample_onboard_def)

lemma sample_onboards: "\<exists>ctx'. OnboardValidator sample_keeper sample_onboard sample_ctx = (Ret (), ctx')"
  using registry.onboard_succeeds [OF sample_registry, of sample_ctx sample_onboard]
  by (simp add: sample_onboard_ok)

end
