(* ===== verification/VrRun.thy ===== *)
theory VrRun
  imports VrKeeper
begin

text \<open>
  The life of the registry as a step relation: one step is one message handled by the keeper, whether
  it succeeds or is refused. \<open>adm\<close> are the messages whose values the store can encode (any message
  that fits in a block). The facts of the locale say what a run can do to the registry: entries are
  only added, by the authority, under their own index.
\<close>

datatype vr_msg = OnboardMsg MsgOnboardValidator | UpdateParamsMsg VrMsgUpdateParams

fun vr_handle :: "'s VrKeeper \<Rightarrow> vr_msg \<Rightarrow> 's VrCtx \<Rightarrow> unit outcome \<times> 's VrCtx" where
  "vr_handle k (OnboardMsg msg) ctx = OnboardValidator k msg ctx"
| "vr_handle k (UpdateParamsMsg req) ctx = vr_UpdateParams k req ctx"

inductive vr_step :: "'s VrKeeper \<Rightarrow> (vr_msg \<Rightarrow> bool) \<Rightarrow> 's VrCtx \<Rightarrow> 's VrCtx \<Rightarrow> bool"
  for k adm where
  handled: "adm msg \<Longrightarrow> vr_handle k msg ctx = (r, ctx') \<Longrightarrow> vr_step k adm ctx ctx'"

inductive vr_run :: "'s VrKeeper \<Rightarrow> (vr_msg \<Rightarrow> bool) \<Rightarrow> 's VrCtx \<Rightarrow> 's VrCtx \<Rightarrow> bool"
  for k adm where
  start: "vr_run k adm ctx ctx"
| step: "vr_run k adm ctx c \<Longrightarrow> vr_step k adm c c' \<Longrightarrow> vr_run k adm ctx c'"

inductive_cases vr_stepE: "vr_step k adm ctx ctx'"
inductive_simps vr_step_iff: "vr_step k adm ctx ctx'"
fun_cases vr_handleE: "vr_handle k msg ctx = (r, ctx')"

text \<open>A refused message leaves the context as it was.\<close>

lemma vr_handle_refused:
  assumes "vr_handle k msg ctx = (r, ctx')" "r \<noteq> Ret ()"
  shows "ctx' = ctx"
proof (cases msg)
  case (OnboardMsg m)
  with assms OnboardValidator_cases [of k m ctx] show ?thesis by auto
next
  case (UpdateParamsMsg req)
  with assms vr_UpdateParams_cases [of k req ctx] show ?thesis by auto
qed

definition vr_admissible ::
    "(string \<Rightarrow> bool) \<Rightarrow> (Validator \<Rightarrow> bool) \<Rightarrow> (VrParams \<Rightarrow> bool) \<Rightarrow> vr_msg \<Rightarrow> bool" where
  "vr_admissible okey ok iok msg = (case msg of
     OnboardMsg m \<Rightarrow> okey (mov_Index m) \<and> ok (onboarded_validator m)
   | UpdateParamsMsg req \<Rightarrow> iok (vmup_Params req))"

section \<open>Messages that succeed\<close>

text \<open>Handling a list of messages in order, each with success; \<open>None\<close> when one of them is refused.\<close>

primrec vr_deliver :: "'s VrKeeper \<Rightarrow> vr_msg list \<Rightarrow> 's VrCtx \<Rightarrow> 's VrCtx option" where
  "vr_deliver k [] ctx = Some ctx"
| "vr_deliver k (m # ms) ctx =
     (case vr_handle k m ctx of (Ret _, ctx') \<Rightarrow> vr_deliver k ms ctx' | _ \<Rightarrow> None)"

lemma vr_deliver_Cons:
  "vr_deliver k (m # ms) ctx = Some c' \<longleftrightarrow>
     (\<exists>c. vr_handle k m ctx = (Ret (), c) \<and> vr_deliver k ms c = Some c')"
  by (auto split: prod.split outcome.split)

lemma vr_deliver_append:
  "vr_deliver k ms a = Some b \<Longrightarrow> vr_deliver k (ms @ ms') a = vr_deliver k ms' b"
  by (induction ms arbitrary: a) (auto split: prod.splits outcome.splits)

lemma vr_run_from: "vr_step k adm a b \<Longrightarrow> vr_run k adm b c \<Longrightarrow> vr_run k adm a c"
  by (rotate_tac, induction rule: vr_run.induct) (auto intro: vr_run.intros)

lemma vr_deliver_run:
  "list_all adm ms \<Longrightarrow> vr_deliver k ms a = Some c \<Longrightarrow> vr_run k adm a c"
proof (induction ms arbitrary: a)
  case Nil
  then show ?case by (simp add: vr_run.start)
next
  case (Cons m ms)
  then obtain b where b: "vr_handle k m a = (Ret (), b)" "vr_run k adm b c"
    unfolding vr_deliver_Cons by auto
  then show ?case using vr_run_from vr_step.handled [of adm m k a _ b] Cons.prems(1) by auto
qed

text \<open>The onboarding messages of a list, and the entries they stand for.\<close>

fun onboards :: "vr_msg list \<Rightarrow> MsgOnboardValidator list" where
  "onboards [] = []"
| "onboards (OnboardMsg m # ms) = m # onboards ms"
| "onboards (UpdateParamsMsg req # ms) = onboards ms"

lemma set_onboards: "m \<in> set (onboards ms) \<longleftrightarrow> OnboardMsg m \<in> set ms"
  by (induction ms rule: onboards.induct) auto

definition entries_of :: "vr_msg list \<Rightarrow> string \<rightharpoonup> Validator" where
  "entries_of ms = map_of (map (\<lambda>m. (mov_Index m, onboarded_validator m)) (onboards ms))"

lemma entries_of_simps [simp]:
  "entries_of [] = Map.empty"
  "entries_of (OnboardMsg m # ms) = (entries_of ms)(mov_Index m \<mapsto> onboarded_validator m)"
  "entries_of (UpdateParamsMsg req # ms) = entries_of ms"
  by (simp_all add: entries_of_def)

lemma dom_entries_of: "dom (entries_of ms) = mov_Index ` set (onboards ms)"
  by (simp add: entries_of_def dom_map_of_conv_image_fst image_image)

lemma entries_of_SomeD:
  "entries_of ms i = Some v \<Longrightarrow> \<exists>m. OnboardMsg m \<in> set ms \<and> mov_Index m = i \<and> onboarded_validator m = v"
  unfolding entries_of_def set_onboards [symmetric] by (drule map_of_SomeD) auto

section \<open>What messages do to the registry\<close>

context registry
begin

lemma whitelisted_ran:
  "invar s \<Longrightarrow> IsValidatorWhitelisted k s a \<longleftrightarrow> a \<in> v_OperatorAddress ` ran (vabs s)"
  by (force simp: whitelisted_iff ran_def)

text \<open>One step adds at most one entry, under a free index, for a message of the authority.\<close>

lemma step_abs:
  assumes "invar (vc_store ctx)" "vr_step k (vr_admissible okey ok iok) ctx ctx'"
  shows "invar (vc_store ctx') \<and> (vabs (vc_store ctx') = vabs (vc_store ctx) \<or>
    (\<exists>m. vk_StringToBytes k (mov_Creator m) = Inr (vk_authority k) \<and>
       mov_Index m \<notin> dom (vabs (vc_store ctx)) \<and>
       vabs (vc_store ctx') = (vabs (vc_store ctx))(mov_Index m \<mapsto> onboarded_validator m)))"
  using assms(2)
proof (rule vr_stepE)
  fix msg r
  assume adm: "vr_admissible okey ok iok msg" and h: "vr_handle k msg ctx = (r, ctx')"
  show ?thesis
  proof (cases "r = Ret ()")
    case False
    with vr_handle_refused [OF h] assms(1) show ?thesis by simp
  next
    case True
    show ?thesis
    proof (cases msg)
      case (OnboardMsg m)
      with h True have ret: "OnboardValidator k m ctx = (Ret (), ctx')" by simp
      from adm OnboardMsg have "okey (mov_Index m)" "ok (onboarded_validator m)"
        by (simp_all add: vr_admissible_def)
      from onboard_abs [OF assms(1) this ret] ret show ?thesis
        by (auto simp: OnboardValidator_Ret_iff)
    next
      case (UpdateParamsMsg req)
      with h True have ret: "vr_UpdateParams k req ctx = (Ret (), ctx')" by simp
      from adm UpdateParamsMsg have "iok (vmup_Params req)" by (simp add: vr_admissible_def)
      from update_params_abs [OF assms(1) this ret] show ?thesis by simp
    qed
  qed
qed

lemma run_abs:
  assumes "vr_run k (vr_admissible okey ok iok) ctx ctx'" "invar (vc_store ctx)"
    "keyed (vabs (vc_store ctx))"
  shows "invar (vc_store ctx') \<and> keyed (vabs (vc_store ctx')) \<and>
    vabs (vc_store ctx) \<subseteq>\<^sub>m vabs (vc_store ctx')"
  using assms
proof (induction rule: vr_run.induct)
  case (start ctx)
  then show ?case by simp
next
  case (step ctx c c')
  then have c: "invar (vc_store c)" "keyed (vabs (vc_store c))"
    "vabs (vc_store ctx) \<subseteq>\<^sub>m vabs (vc_store c)" by blast+
  note s = step_abs [OF c(1) step.hyps(2)]
  have "keyed (vabs (vc_store c')) \<and> vabs (vc_store c) \<subseteq>\<^sub>m vabs (vc_store c')"
  proof (cases "vabs (vc_store c') = vabs (vc_store c)")
    case True
    with c(2) show ?thesis by simp
  next
    case False
    with s obtain m where m: "mov_Index m \<notin> dom (vabs (vc_store c))"
      "vabs (vc_store c') = (vabs (vc_store c))(mov_Index m \<mapsto> onboarded_validator m)" by blast
    have "keyed (vabs (vc_store c'))" unfolding m(2) using c(2) by (rule keyed_upd) simp
    then show ?thesis using m by (auto simp: map_le_def)
  qed
  with s c(3) map_le_trans show ?case by blast
qed

text \<open>
  Messages that succeed add exactly the entries they stand for, under indexes that were free, and every
  onboarding message among them is one of the authority.
\<close>

lemma deliver_entries:
  assumes "list_all (vr_admissible okey ok iok) ms" "vr_deliver k ms ctx = Some ctx'" "invar (vc_store ctx)"
  shows "invar (vc_store ctx') \<and> vabs (vc_store ctx') = vabs (vc_store ctx) ++ entries_of ms \<and>
    (\<forall>m \<in> set (onboards ms). vk_StringToBytes k (mov_Creator m) = Inr (vk_authority k)) \<and>
    distinct (map mov_Index (onboards ms)) \<and> dom (vabs (vc_store ctx)) \<inter> dom (entries_of ms) = {}"
  using assms
proof (induction ms arbitrary: ctx)
  case (Cons msg ms)
  from Cons.prems obtain c where c: "vr_handle k msg ctx = (Ret (), c)" "vr_deliver k ms c = Some ctx'"
    unfolding vr_deliver_Cons by blast
  from Cons.prems have adm: "vr_admissible okey ok iok msg" "list_all (vr_admissible okey ok iok) ms" by simp_all
  show ?case
  proof (cases msg)
    case (OnboardMsg m)
    with c(1) have ret: "OnboardValidator k m ctx = (Ret (), c)" by simp
    from adm(1) OnboardMsg have "okey (mov_Index m)" "ok (onboarded_validator m)"
      by (simp_all add: vr_admissible_def)
    note o = onboard_abs [OF Cons.prems(3) this ret]
    from Cons.IH [OF adm(2) c(2) conjunct1 [OF o]] have ih: "invar (vc_store ctx')"
      "vabs (vc_store ctx') = vabs (vc_store c) ++ entries_of ms"
      "\<forall>m \<in> set (onboards ms). vk_StringToBytes k (mov_Creator m) = Inr (vk_authority k)"
      "distinct (map mov_Index (onboards ms))" "dom (vabs (vc_store c)) \<inter> dom (entries_of ms) = {}" by blast+
    from o have c': "vabs (vc_store c) = (vabs (vc_store ctx))(mov_Index m \<mapsto> onboarded_validator m)"
      "mov_Index m \<notin> dom (vabs (vc_store ctx))" by blast+
    then have dc: "dom (vabs (vc_store c)) = insert (mov_Index m) (dom (vabs (vc_store ctx)))" by simp
    have new: "mov_Index m \<notin> dom (entries_of ms)" using ih(5) unfolding dc by blast
    have auth: "vk_StringToBytes k (mov_Creator m) = Inr (vk_authority k)"
      using ret unfolding OnboardValidator_Ret_iff by blast
    have "vabs (vc_store ctx') = vabs (vc_store ctx) ++ entries_of (msg # ms)"
      using ih(2) new unfolding c'(1) OnboardMsg by (simp add: map_add_upd_left)
    moreover have "\<forall>m \<in> set (onboards (msg # ms)). vk_StringToBytes k (mov_Creator m) = Inr (vk_authority k)"
      using auth ih(3) OnboardMsg by simp
    moreover have "distinct (map mov_Index (onboards (msg # ms)))"
      using ih(4) new unfolding OnboardMsg dom_entries_of by simp
    moreover have "dom (vabs (vc_store ctx)) \<inter> dom (entries_of (msg # ms)) = {}"
    proof -
      have de: "dom (entries_of (msg # ms)) = insert (mov_Index m) (dom (entries_of ms))"
        unfolding OnboardMsg by simp
      show ?thesis using ih(5) c'(2) unfolding dc de by blast
    qed
    ultimately show ?thesis using ih(1) by blast
  next
    case (UpdateParamsMsg req)
    with c(1) have ret: "vr_UpdateParams k req ctx = (Ret (), c)" by simp
    from adm(1) UpdateParamsMsg have "iok (vmup_Params req)" by (simp add: vr_admissible_def)
    from update_params_abs [OF Cons.prems(3) this ret] Cons.IH [OF adm(2) c(2)] UpdateParamsMsg
    show ?thesis by simp
  qed
qed simp

text \<open>Whitelisting is for good.\<close>

lemma run_whitelisted:
  assumes "vr_run k (vr_admissible okey ok iok) ctx ctx'" "invar (vc_store ctx)"
    "keyed (vabs (vc_store ctx))" "IsValidatorWhitelisted k (vc_store ctx) a"
  shows "IsValidatorWhitelisted k (vc_store ctx') a"
proof -
  from assms(2,4) obtain i v where "vabs (vc_store ctx) i = Some v" "v_OperatorAddress v = a"
    by (auto simp: whitelisted_iff)
  moreover from run_abs [OF assms(1-3)] have "vabs (vc_store ctx) \<subseteq>\<^sub>m vabs (vc_store ctx')"
    and "invar (vc_store ctx')" by blast+
  ultimately show ?thesis by (auto simp: whitelisted_iff map_le_def dom_def) (metis option.simps(3))
qed

text \<open>Importing a valid genesis state and exporting it gives the same state, sorted by index.\<close>

lemma genesis_roundtrip:
  assumes "invar (vc_store ctx)" "vabs (vc_store ctx) = Map.empty"
    "vr_Genesis_Validate g = None" "iok (vgs_Params g)"
    "\<forall>v \<in> set (vgs_ValidatorMap g). okey (v_Index v) \<and> ok v"
  shows "\<exists>ctx' vs. vr_InitGenesis k g ctx = (Ret (), ctx') \<and>
    vr_ExportGenesis k (vc_store ctx') = Ret \<lparr>vgs_Params = vgs_Params g, vgs_ValidatorMap = vs\<rparr> \<and>
    set vs = set (vgs_ValidatorMap g) \<and> distinct vs \<and> sorted_wrt less (map v_Index vs)"
proof -
  let ?gs = "vgs_ValidatorMap g"
  from init_genesis_abs [OF assms(1,5,4)] obtain s' where
    s: "vr_InitGenesis k g ctx = (Ret (), ctx\<lparr>vc_store := s'\<rparr>)" "invar s'"
      "pabs s' = Some (vgs_Params g)" "vabs s' = import_map ?gs"
    using assms(2) by auto
  from export_genesis_abs [OF s(2,3)] obtain es where
    es: "vr_ExportGenesis k s' = Ret \<lparr>vgs_Params = vgs_Params g, vgs_ValidatorMap = map snd es\<rparr>"
      "map_of es = vabs s'" "sorted_wrt less (map fst es)" "distinct (map fst es)" by blast
  have d: "distinct (map v_Index ?gs)" using assms(3) by (simp add: vr_Genesis_Validate_distinct)
  let ?L = "rev (map (\<lambda>v. (v_Index v, v)) ?gs)"
  have dL: "distinct (map fst ?L)"
    using d by (simp add: rev_map [symmetric] comp_def)
  have mem: "(i, v) \<in> set es \<longleftrightarrow> v \<in> set ?gs \<and> i = v_Index v" for i v
  proof -
    have "(i, v) \<in> set es \<longleftrightarrow> map_of es i = Some v"
      by (rule map_of_eq_Some_iff [OF es(4), symmetric])
    also have "\<dots> \<longleftrightarrow> map_of ?L i = Some v"
      by (simp only: es(2) s(4) import_map_def)
    also have "\<dots> \<longleftrightarrow> (i, v) \<in> set ?L"
      by (rule map_of_eq_Some_iff [OF dL])
    finally show ?thesis by auto
  qed
  have "map fst es = map (v_Index \<circ> snd) es"
    by (rule map_cong [OF refl]) (auto simp: mem)
  then have i: "map fst es = map v_Index (map snd es)" by simp
  then have "distinct (map snd es)" using es(4) by (simp only: distinct_map)
  moreover have "set (map snd es) = set ?gs"
  proof -
    have "v \<in> set (map snd es) \<longleftrightarrow> (\<exists>i. (i, v) \<in> set es)" for v by force
    then show ?thesis unfolding set_eq_iff by (simp add: mem)
  qed
  moreover have "sorted_wrt less (map v_Index (map snd es))" using es(3) by (simp only: i)
  ultimately show ?thesis using s(1) es(1)
    by (intro exI [of _ "ctx\<lparr>vc_store := s'\<rparr>"] exI [of _ "map snd es"]) simp
qed

end

end
