(* ===== verification/VrModule.thy ===== *)
theory VrModule
  imports VrKeeper Group
begin

text \<open>
  \<open>x/validatorregistry/module\<close>: wiring (\<open>ProvideModule\<close>), the genesis entry points of the module,
  and the end blocker that executes the group proposals whose voting period is over. The group
  keeper is the parameter \<open>G\<close>; the JSON codec is a pair of parameters. Logging is not modelled.
\<close>

section \<open>Wiring\<close>

text \<open>\<open>authtypes.NewModuleAddress\<close> and \<open>NewModuleAddressOrBech32Address\<close> are SDK functions.\<close>

definition vr_ProvideModule_authority ::
    "(string \<Rightarrow> bytes) \<Rightarrow> (string \<Rightarrow> bytes) \<Rightarrow> string \<Rightarrow> bytes" where
  "vr_ProvideModule_authority newModuleAddress newModuleAddressOrBech32 config_Authority =
     (let authority = newModuleAddress vr_GovModuleName in
      if config_Authority \<noteq> '''' then newModuleAddressOrBech32 config_Authority else authority)"

section \<open>Genesis entry points\<close>

definition vr_module_DefaultGenesis :: "(VrGenesisState \<Rightarrow> go_error + 'j) \<Rightarrow> 'j outcome" where
  "vr_module_DefaultGenesis marshalJSON =
     (case marshalJSON vr_DefaultGenesis of Inl err \<Rightarrow> Panic err | Inr bz \<Rightarrow> Ret bz)"

definition vr_module_ValidateGenesis ::
    "('j \<Rightarrow> go_error + VrGenesisState) \<Rightarrow> 'j \<Rightarrow> go_error option" where
  "vr_module_ValidateGenesis unmarshalJSON bz =
     (case unmarshalJSON bz of
        Inl err \<Rightarrow> Some (Wrapf err ''failed to unmarshal %s genesis state: %w'' [ArgStr vr_ModuleName])
      | Inr genState \<Rightarrow> vr_Genesis_Validate genState)"

definition vr_module_InitGenesis ::
    "('j \<Rightarrow> go_error + VrGenesisState) \<Rightarrow> 's VrKeeper \<Rightarrow> 'j \<Rightarrow> 's VrCtx \<Rightarrow> unit outcome \<times> 's VrCtx" where
  "vr_module_InitGenesis unmarshalJSON k gs ctx =
     (case unmarshalJSON gs of
        Inl err \<Rightarrow> (Panic (Wrapf err ''failed to unmarshal %s genesis state: %w''
                     [ArgStr vr_ModuleName]), ctx)
      | Inr genState \<Rightarrow>
     (case vr_InitGenesis k genState ctx of
        (Err err, ctx') \<Rightarrow> (Panic (Wrapf err ''failed to initialize %s genesis state: %w''
                     [ArgStr vr_ModuleName]), ctx')
      | (Panic e, ctx') \<Rightarrow> (Panic e, ctx')
      | (Ret _, ctx') \<Rightarrow> (Ret (), ctx')))"

definition vr_module_ExportGenesis ::
    "(VrGenesisState \<Rightarrow> go_error + 'j) \<Rightarrow> 's VrKeeper \<Rightarrow> 's \<Rightarrow> 'j outcome" where
  "vr_module_ExportGenesis marshalJSON k s =
     (case vr_ExportGenesis k s of
        Err err \<Rightarrow> Panic (Wrapf err ''failed to export %s genesis state: %w'' [ArgStr vr_ModuleName])
      | Panic e \<Rightarrow> Panic e
      | Ret genState \<Rightarrow>
     (case marshalJSON genState of
        Inl err \<Rightarrow> Panic (Wrapf err ''failed to marshal %s genesis state: %w'' [ArgStr vr_ModuleName])
      | Inr bz \<Rightarrow> Ret bz))"

section \<open>Block hooks and the end blocker\<close>

definition vr_ConsensusVersion :: u64 where
  "vr_ConsensusVersion = 1"

definition vr_BeginBlock :: "'s VrCtx \<Rightarrow> unit outcome \<times> 's VrCtx" where
  "vr_BeginBlock ctx = (Ret (), ctx)"

definition tryExecuteProposal :: "'g group_ops \<Rightarrow> int \<Rightarrow> u64 \<Rightarrow> 'g \<Rightarrow> unit outcome \<times> 'g" where
  "tryExecuteProposal G currentTime proposalID g =
     (case g_Proposal G g proposalID of
        Inl err \<Rightarrow> (Err (Wrapf err ''failed to get proposal %d: %w'' [ArgU64 proposalID]), g)
      | Inr proposal \<Rightarrow>
     if pr_Status proposal \<noteq> PROPOSAL_STATUS_ACCEPTED then
       (Err (Errorf ''proposal %d is not in ACCEPTED status: %s''
          [ArgU64 proposalID, ArgStr (g_StatusString G (pr_Status proposal))]), g)
     else if currentTime < pr_VotingPeriodEnd proposal then
       (Err (Errorf ''proposal %d voting period hasn't ended yet'' [ArgU64 proposalID]), g)
     else
     (case g_Exec G g proposalID (pr_GroupPolicyAddress proposal) of
        (Err err, g') \<Rightarrow> (Err (Wrapf err ''failed to execute proposal %d: %w'' [ArgU64 proposalID]), g')
      | (Panic e, g') \<Rightarrow> (Panic e, g')
      | (Ret _, g') \<Rightarrow> (Ret (), g')))"

text \<open>
  The three nested loops. An error of one proposal, policy or group is logged and the loop goes on;
  a panic ends everything.
\<close>

fun exec_proposals :: "'g group_ops \<Rightarrow> int \<Rightarrow> Proposal list \<Rightarrow> 'g \<Rightarrow> unit outcome \<times> 'g" where
  "exec_proposals G currentTime [] g = (Ret (), g)"
| "exec_proposals G currentTime (proposal # rest) g =
     (if currentTime < pr_VotingPeriodEnd proposal then exec_proposals G currentTime rest g
      else if pr_ExecutorResult proposal = PROPOSAL_EXECUTOR_RESULT_SUCCESS
        then exec_proposals G currentTime rest g
      else if pr_ExecutorResult proposal = PROPOSAL_EXECUTOR_RESULT_FAILURE
        then exec_proposals G currentTime rest g
      else if pr_Status proposal = PROPOSAL_STATUS_ACCEPTED then
        (case tryExecuteProposal G currentTime (pr_Id proposal) g of
           (Panic e, g') \<Rightarrow> (Panic e, g')
         | (_, g') \<Rightarrow> exec_proposals G currentTime rest g')
      else exec_proposals G currentTime rest g)"

fun exec_policies :: "'g group_ops \<Rightarrow> int \<Rightarrow> string list \<Rightarrow> 'g \<Rightarrow> unit outcome \<times> 'g" where
  "exec_policies G currentTime [] g = (Ret (), g)"
| "exec_policies G currentTime (policy # rest) g =
     (case g_ProposalsByGroupPolicy G g policy of
        Inl err \<Rightarrow> exec_policies G currentTime rest g
      | Inr proposals \<Rightarrow>
     (case exec_proposals G currentTime proposals g of
        (Panic e, g') \<Rightarrow> (Panic e, g')
      | (_, g') \<Rightarrow> exec_policies G currentTime rest g'))"

fun exec_groups :: "'g group_ops \<Rightarrow> int \<Rightarrow> u64 list \<Rightarrow> 'g \<Rightarrow> unit outcome \<times> 'g" where
  "exec_groups G currentTime [] g = (Ret (), g)"
| "exec_groups G currentTime (grp # rest) g =
     (case g_GroupPoliciesByGroup G g grp of
        Inl err \<Rightarrow> exec_groups G currentTime rest g
      | Inr policies \<Rightarrow>
     (case exec_policies G currentTime policies g of
        (Panic e, g') \<Rightarrow> (Panic e, g')
      | (_, g') \<Rightarrow> exec_groups G currentTime rest g'))"

definition executePendingGroupProposals :: "'g group_ops \<Rightarrow> int \<Rightarrow> 'g \<Rightarrow> unit outcome \<times> 'g" where
  "executePendingGroupProposals G currentTime g =
     (case g_Groups G g of
        Inl err \<Rightarrow> (Err (Wrapf err ''failed to query groups: %w'' []), g)
      | Inr groups \<Rightarrow> exec_groups G currentTime groups g)"

definition EndBlock :: "'g group_ops \<Rightarrow> int \<Rightarrow> 'g \<Rightarrow> unit outcome \<times> 'g" where
  "EndBlock G currentTime g =
     (case executePendingGroupProposals G currentTime g of
        (Err err, g') \<Rightarrow> (Ret (), g')
      | (r, g') \<Rightarrow> (r, g'))"

section \<open>What the end blocker may do\<close>

text \<open>
  A predicate of the group state is kept by the end blocker when \<open>Exec\<close> keeps it at the calls the
  code makes: on a stored proposal that may execute, in the name of its own policy.
\<close>

definition exec_keeps :: "'g group_ops \<Rightarrow> int \<Rightarrow> ('g \<Rightarrow> bool) \<Rightarrow> bool" where
  "exec_keeps G now Q \<longleftrightarrow> (\<forall>g i p. Q g \<longrightarrow> g_Proposal G g i = Inr p \<longrightarrow> may_execute now p \<longrightarrow>
     Q (snd (g_Exec G g i (pr_GroupPolicyAddress p))))"

lemma exec_keepsD:
  "exec_keeps G now Q \<Longrightarrow> Q g \<Longrightarrow> g_Proposal G g i = Inr p \<Longrightarrow> may_execute now p \<Longrightarrow>
   g_Exec G g i (pr_GroupPolicyAddress p) = (r, g') \<Longrightarrow> Q g'"
  unfolding exec_keeps_def by (metis snd_conv)

lemma tryExecute_keeps:
  assumes "exec_keeps G now Q" "Q g"
  shows "Q (snd (tryExecuteProposal G now i g))"
proof (cases "g_Proposal G g i")
  case (Inl e)
  with assms(2) show ?thesis by (simp add: tryExecuteProposal_def)
next
  case (Inr p)
  obtain r g' where ex: "g_Exec G g i (pr_GroupPolicyAddress p) = (r, g')" by fastforce
  show ?thesis
  proof (cases "may_execute now p")
    case True
    with exec_keepsD [OF assms Inr True ex] Inr ex show ?thesis
      by (simp add: tryExecuteProposal_def may_execute_def split: outcome.split)
  next
    case False
    with assms(2) Inr show ?thesis by (auto simp: tryExecuteProposal_def may_execute_def)
  qed
qed

lemma exec_proposals_keeps:
  "exec_keeps G now Q \<Longrightarrow> Q g \<Longrightarrow> Q (snd (exec_proposals G now ps g))"
proof (induction ps arbitrary: g)
  case (Cons p ps)
  obtain r g' where run: "tryExecuteProposal G now (pr_Id p) g = (r, g')" by fastforce
  with tryExecute_keeps [OF Cons.prems, of "pr_Id p"] have "Q g'" by simp
  with run Cons.IH [OF Cons.prems(1)] Cons.prems(2) show ?case by (cases r) simp_all
qed simp

lemma exec_policies_keeps:
  "exec_keeps G now Q \<Longrightarrow> Q g \<Longrightarrow> Q (snd (exec_policies G now as g))"
proof (induction as arbitrary: g)
  case (Cons a as)
  then show ?case using exec_proposals_keeps [OF Cons.prems(1,2)]
    by (auto simp: case_prod_beta split: outcome.split sum.split)
qed simp

lemma exec_groups_keeps:
  "exec_keeps G now Q \<Longrightarrow> Q g \<Longrightarrow> Q (snd (exec_groups G now gs g))"
proof (induction gs arbitrary: g)
  case (Cons a gs)
  then show ?case using exec_policies_keeps [OF Cons.prems(1,2)]
    by (auto simp: case_prod_beta split: outcome.split sum.split)
qed simp

lemma EndBlock_snd:
  "snd (EndBlock G now g) =
     (case g_Groups G g of Inl _ \<Rightarrow> g | Inr gs \<Rightarrow> snd (exec_groups G now gs g))"
  by (auto simp: EndBlock_def executePendingGroupProposals_def split: sum.split prod.split outcome.split)

text \<open>The loop over proposals is the execution, in order, of the pending ones.\<close>

fun exec_all :: "'g group_ops \<Rightarrow> int \<Rightarrow> u64 list \<Rightarrow> 'g \<Rightarrow> unit outcome \<times> 'g" where
  "exec_all G now [] g = (Ret (), g)"
| "exec_all G now (i # is) g =
     (case tryExecuteProposal G now i g of
        (Panic e, g') \<Rightarrow> (Panic e, g') | (_, g') \<Rightarrow> exec_all G now is g')"

lemma exec_proposals_pending:
  "exec_proposals G now ps g = exec_all G now (map pr_Id (filter (pending now) ps)) g"
  by (induction ps arbitrary: g)
    (auto simp: pending_def may_execute_def split: prod.split outcome.split)

lemma exec_groups_never_errs: "fst (exec_groups G now gs g) \<noteq> Err e"
proof -
  have ps: "fst (exec_all G now is g) \<noteq> Err e" for "is" g
    by (induction "is" arbitrary: g) (auto split: prod.split outcome.split)
  have pol: "fst (exec_policies G now as g) \<noteq> Err e" for as g
    by (induction as arbitrary: g)
      (auto simp: exec_proposals_pending split: prod.split outcome.split sum.split)
  show ?thesis
    by (induction gs arbitrary: g) (auto split: prod.split outcome.split sum.split)
qed

end
