(* ===== verification/VrProps.thy ===== *)
theory VrProps
  imports VrStore VrRun VrModule
begin

text \<open>
  The properties of the validator registry, each followed by a witness on the byte store. A statement
  about a keeper whose store is abstract assumes the contract \<open>registry\<close> of that store.
\<close>

text \<open>C8. \<open>OnboardValidator\<close> succeeds exactly when the creator's address is the authority's, the four
  required fields are present, the index is not taken and the operator address parses.\<close>

theorem onboard_succeeds_iff:
  assumes "registry k invar pabs iok vabs okey ok lt" "invar (vc_store ctx)"
    "okey (mov_Index msg)" "ok (onboarded_validator msg)"
  shows "fst (OnboardValidator k msg ctx) = Ret () \<longleftrightarrow>
    vk_StringToBytes k (mov_Creator msg) = Inr (vk_authority k) \<and>
    mov_Index msg \<noteq> '''' \<and> mov_MemberId msg \<noteq> '''' \<and> mov_OperatorAddress msg \<noteq> '''' \<and>
    mov_Status msg \<noteq> '''' \<and> mov_Index msg \<notin> dom (vabs (vc_store ctx)) \<and>
    (\<exists>a. vk_ValAddressFromBech32 k (mov_OperatorAddress msg) = Inr a)" (is "_ \<longleftrightarrow> ?R")
proof
  assume "fst (OnboardValidator k msg ctx) = Ret ()"
  then obtain ctx' where r: "OnboardValidator k msg ctx = (Ret (), ctx')"
    by (cases "OnboardValidator k msg ctx") simp
  with registry.onboard_abs [OF assms r] show ?R by (auto simp: OnboardValidator_Ret_iff)
next
  assume ?R
  then show "fst (OnboardValidator k msg ctx) = Ret ()"
    using registry.onboard_succeeds [OF assms] by fastforce
qed

lemma onboard_succeeds_iff_witness: "fst (OnboardValidator sample_keeper sample_onboard sample_ctx) = Ret ()"
  using onboard_succeeds_iff [OF sample_registry, of sample_ctx sample_onboard]
  by (simp add: sample_onboard_ok)

text \<open>A successful \<open>OnboardValidator\<close> adds exactly one entry, at a free index and with the fields
  of the message, changes no other entry and no parameter, and emits one event.\<close>

theorem onboard_adds_one_entry:
  assumes "registry k invar pabs iok vabs okey ok lt" "invar (vc_store ctx)"
    "okey (mov_Index msg)" "ok (onboarded_validator msg)"
    "OnboardValidator k msg ctx = (Ret (), ctx')"
  shows "vabs (vc_store ctx) (mov_Index msg) = None \<and>
    vabs (vc_store ctx') = (vabs (vc_store ctx))(mov_Index msg \<mapsto> onboarded_validator msg) \<and>
    pabs (vc_store ctx') = pabs (vc_store ctx) \<and>
    vc_events ctx' = vc_events ctx @ [onboarded_event msg]"
  using registry.onboard_abs [OF assms] assms(5) by (auto simp: OnboardValidator_Ret_iff dom_def)

lemma onboard_adds_one_entry_witness:
  "\<exists>ctx'. OnboardValidator sample_keeper sample_onboard sample_ctx = (Ret (), ctx') \<and>
     validators_of (vc_store ctx') = [''v1'' \<mapsto> onboarded_validator sample_onboard]"
proof -
  obtain ctx' where r: "OnboardValidator sample_keeper sample_onboard sample_ctx = (Ret (), ctx')"
    using sample_onboards by blast
  from onboard_adds_one_entry [OF sample_registry _ _ _ r] r show ?thesis
    by (simp add: sample_onboard_ok)
qed

text \<open>\<open>OnboardValidator\<close> never panics, and a refused message leaves store and events untouched.\<close>

theorem onboard_refusal_changes_nothing:
  "OnboardValidator k msg ctx = (Ret (), snd (OnboardValidator k msg ctx)) \<or>
   (\<exists>err. OnboardValidator k msg ctx = (Err err, ctx))"
  using OnboardValidator_cases [of k msg ctx] by fastforce

text \<open>An operator counts as whitelisted exactly when some entry of the registry carries its
  address, whatever the entry's status and end of term.\<close>

theorem whitelisted_iff_entry:
  assumes "registry k invar pabs iok vabs okey ok lt" "invar s"
  shows "IsValidatorWhitelisted k s a \<longleftrightarrow> a \<in> v_OperatorAddress ` ran (vabs s)"
  by (rule registry.whitelisted_ran [OF assms])

lemma whitelisted_iff_entry_witness: "\<not> IsValidatorWhitelisted sample_keeper [] ''op1''"
  using whitelisted_iff_entry [OF sample_registry, of "[]"] by simp

text \<open>After a successful \<open>OnboardValidator\<close> the whitelisted operators are those of before and the
  operator of the message.\<close>

theorem onboard_whitelists:
  assumes "registry k invar pabs iok vabs okey ok lt" "invar (vc_store ctx)"
    "okey (mov_Index msg)" "ok (onboarded_validator msg)"
    "OnboardValidator k msg ctx = (Ret (), ctx')"
  shows "IsValidatorWhitelisted k (vc_store ctx') a \<longleftrightarrow>
    a = mov_OperatorAddress msg \<or> IsValidatorWhitelisted k (vc_store ctx) a"
  using registry.onboard_abs [OF assms] registry.whitelisted_ran [OF assms(1), of _ a] assms(2)
  by (auto simp: domIff)

lemma onboard_whitelists_witness:
  "\<exists>ctx'. OnboardValidator sample_keeper sample_onboard sample_ctx = (Ret (), ctx') \<and>
     IsValidatorWhitelisted sample_keeper (vc_store ctx') ''op1''"
proof -
  obtain ctx' where r: "OnboardValidator sample_keeper sample_onboard sample_ctx = (Ret (), ctx')"
    using sample_onboards by blast
  from onboard_whitelists [OF sample_registry _ _ _ r, of "''op1''"] r show ?thesis
    by (simp add: sample_onboard_ok)
qed

text \<open>Along any run of messages the registry stays keyed by the index of its entries, no entry is
  changed or removed, and a whitelisted operator stays whitelisted.\<close>

theorem registry_only_grows:
  assumes "registry k invar pabs iok vabs okey ok lt" "invar (vc_store ctx)"
    "keyed (vabs (vc_store ctx))" "vr_run k (vr_admissible okey ok iok) ctx ctx'"
  shows "keyed (vabs (vc_store ctx')) \<and> vabs (vc_store ctx) \<subseteq>\<^sub>m vabs (vc_store ctx') \<and>
    (\<forall>a. IsValidatorWhitelisted k (vc_store ctx) a \<longrightarrow> IsValidatorWhitelisted k (vc_store ctx') a)"
  using registry.run_abs [OF assms(1,4,2,3)] registry.run_whitelisted [OF assms(1,4,2,3)] by blast

lemma registry_only_grows_witness:
  "\<exists>ctx'. vr_run sample_keeper (vr_admissible (\<lambda>i. True) (co_ok validator_codec) (co_ok vr_params_codec))
       sample_ctx ctx' \<and> keyed (validators_of (vc_store ctx')) \<and> ctx' \<noteq> sample_ctx"
proof -
  let ?adm = "vr_admissible (\<lambda>i. True) (co_ok validator_codec) (co_ok vr_params_codec)"
  obtain ctx' where r: "OnboardValidator sample_keeper sample_onboard sample_ctx = (Ret (), ctx')"
    using sample_onboards by blast
  then have "vr_step sample_keeper ?adm sample_ctx ctx'"
    by (intro vr_step.handled [of _ "OnboardMsg sample_onboard"])
      (simp_all add: vr_admissible_def sample_onboard_ok)
  then have run: "vr_run sample_keeper ?adm sample_ctx ctx'"
    by (intro vr_run.step [OF vr_run.start])
  moreover have "ctx' \<noteq> sample_ctx"
    using r by (auto simp: OnboardValidator_Ret_iff sample_ctx_def dest: arg_cong [where f = vc_events])
  ultimately show ?thesis
    using registry_only_grows [OF sample_registry _ _ run] by (auto simp: keyed_def)
qed
text \<open>C17. Importing a genesis state that passes \<open>Validate\<close> into an empty registry and exporting it
  again gives the same parameters and the same entries, ordered by index.\<close>

theorem genesis_import_export:
  assumes "registry k invar pabs iok vabs okey ok lt" "invar (vc_store ctx)"
    "vabs (vc_store ctx) = Map.empty" "vr_Genesis_Validate g = None" "iok (vgs_Params g)"
    "\<forall>v \<in> set (vgs_ValidatorMap g). okey (v_Index v) \<and> ok v"
  shows "\<exists>ctx' vs. vr_InitGenesis k g ctx = (Ret (), ctx') \<and>
    vr_ExportGenesis k (vc_store ctx') = Ret \<lparr>vgs_Params = vgs_Params g, vgs_ValidatorMap = vs\<rparr> \<and>
    set vs = set (vgs_ValidatorMap g) \<and> distinct vs \<and> sorted_wrt lt (map v_Index vs)"
  by (rule registry.genesis_roundtrip [OF assms])

lemma genesis_import_export_witness:
  "\<exists>ctx' vs. vr_InitGenesis sample_keeper
       \<lparr>vgs_Params = VrParams, vgs_ValidatorMap = [onboarded_validator sample_onboard]\<rparr> sample_ctx
       = (Ret (), ctx') \<and>
     vr_ExportGenesis sample_keeper (vc_store ctx') = Ret \<lparr>vgs_Params = VrParams, vgs_ValidatorMap = vs\<rparr> \<and>
     set vs = {onboarded_validator sample_onboard}"
proof -
  let ?g = "\<lparr>vgs_Params = VrParams, vgs_ValidatorMap = [onboarded_validator sample_onboard]\<rparr>"
  have "vr_inv (vc_store sample_ctx)" "validators_of (vc_store sample_ctx) = Map.empty"
    "vr_Genesis_Validate ?g = None" "co_ok vr_params_codec (vgs_Params ?g)"
    "\<forall>v \<in> set (vgs_ValidatorMap ?g). True \<and> co_ok validator_codec v"
    by (simp_all add: vr_Genesis_Validate_distinct vr_params_codec_ok sample_onboard_ok)
  from genesis_import_export [OF sample_registry this] obtain ctx' vs where
    "vr_InitGenesis sample_keeper ?g sample_ctx = (Ret (), ctx')"
    "vr_ExportGenesis sample_keeper (vc_store ctx') =
       Ret \<lparr>vgs_Params = vgs_Params ?g, vgs_ValidatorMap = vs\<rparr>"
    "set vs = set (vgs_ValidatorMap ?g)" by blast
  then show ?thesis by (intro exI [of _ ctx'] exI [of _ vs]) simp
qed

text \<open>A genesis state of the registry passes \<open>Validate\<close> exactly when no two of its validators
  share an index.\<close>

theorem genesis_valid_iff_distinct:
  "vr_Genesis_Validate gs = None \<longleftrightarrow> distinct (map v_Index (vgs_ValidatorMap gs))"
  by (rule vr_Genesis_Validate_distinct)

text \<open>\<open>UpdateParams\<close> of the registry succeeds exactly for the authority; it then stores the new
  parameters and touches no entry, and a refused message changes nothing.\<close>

theorem vr_update_params_authority:
  assumes "registry k invar pabs iok vabs okey ok lt" "invar (vc_store ctx)" "iok (vmup_Params req)"
  shows "if vk_StringToBytes k (vmup_Authority req) = Inr (vk_authority k)
    then \<exists>ctx'. vr_UpdateParams k req ctx = (Ret (), ctx') \<and>
      pabs (vc_store ctx') = Some (vmup_Params req) \<and> vabs (vc_store ctx') = vabs (vc_store ctx)
    else \<exists>err. vr_UpdateParams k req ctx = (Err err, ctx)"
proof (cases "vk_StringToBytes k (vmup_Authority req) = Inr (vk_authority k)")
  case True
  have "item_store (vk_Params k) invar pabs iok"
    using assms(1) by (simp add: registry_def registry_store_def)
  from item_store.item_set [OF this assms(2,3)]
  obtain s where "i_set (vk_Params k) (vc_store ctx) (vmup_Params req) = Inr s" by blast
  with True have r: "vr_UpdateParams k req ctx = (Ret (), ctx\<lparr>vc_store := s\<rparr>)"
    by (simp add: vr_UpdateParams_Ret_iff)
  with True registry.update_params_abs [OF assms r] show ?thesis by auto
next
  case False
  with vr_UpdateParams_cases [of k req ctx] show ?thesis by (auto simp: vr_UpdateParams_Ret_iff)
qed

lemma vr_update_params_authority_witness:
  "\<exists>ctx'. vr_UpdateParams sample_keeper \<lparr>vmup_Authority = ''gov'', vmup_Params = VrParams\<rparr> sample_ctx
     = (Ret (), ctx') \<and> vr_params_of (vc_store ctx') = Some VrParams"
  using vr_update_params_authority [OF sample_registry, of sample_ctx
      "\<lparr>vmup_Authority = ''gov'', vmup_Params = VrParams\<rparr>"]
  by (auto simp: vr_params_codec_ok)

text \<open>The query for an index returns the entry stored under it, \<open>NotFound\<close> when there is none,
  and \<open>InvalidArgument\<close> for a nil request.\<close>

theorem get_validator_returns_entry:
  assumes "registry k invar pabs iok vabs okey ok lt" "invar s" "okey i"
  shows "GetValidator k (Some \<lparr>qgvr_Index = i\<rparr>) s = (case vabs s i of
      None \<Rightarrow> Err (StatusErr NotFound ''not found'') | Some v \<Rightarrow> Ret \<lparr>qgvs_Validator = v\<rparr>) \<and>
    GetValidator k None s = Err (StatusErr InvalidArgument ''invalid request'')"
  using registry.get_validator_abs [OF assms] by (simp add: GetValidator_def)

lemma get_validator_returns_entry_witness:
  "GetValidator sample_keeper (Some \<lparr>qgvr_Index = ''v1''\<rparr>) [] = Err (StatusErr NotFound ''not found'')"
  using get_validator_returns_entry [OF sample_registry, of "[]" "''v1''"] by simp

text \<open>C11. The end blocker calls \<open>Exec\<close> only on stored proposals that are accepted and whose voting
  period is over, in the name of their own policy: what such calls keep, the end blocker keeps.\<close>

theorem end_block_executes_only_ready:
  assumes "exec_keeps G now Q" "Q g"
  shows "Q (snd (EndBlock G now g))"
  using exec_groups_keeps [OF assms] assms(2) by (simp add: EndBlock_snd split: sum.split)

text \<open>
  The witness runs a group module whose state is the list of executed proposals and that holds one
  proposal that is ready and one whose voting period is still running.
\<close>

definition sample_group :: "u64 list group_ops" where
  "sample_group =
     (let ready = \<lparr>pr_Id = 1, pr_GroupPolicyAddress = ''pol'', pr_Status = PROPOSAL_STATUS_ACCEPTED,
            pr_ExecutorResult = Executor_Result_Other 0, pr_VotingPeriodEnd = 10\<rparr>;
          early = \<lparr>pr_Id = 2, pr_GroupPolicyAddress = ''pol'', pr_Status = PROPOSAL_STATUS_ACCEPTED,
            pr_ExecutorResult = Executor_Result_Other 0, pr_VotingPeriodEnd = 30\<rparr> in
      \<lparr>g_StatusString = (\<lambda>st. ''''), g_Groups = (\<lambda>g. Inr [1]),
       g_GroupPoliciesByGroup = (\<lambda>g i. Inr [''pol'']),
       g_ProposalsByGroupPolicy = (\<lambda>g p. Inr [early, ready]),
       g_Proposal = (\<lambda>g i. if i = 1 then Inr ready else if i = 2 then Inr early
                          else Inl (LibError ''not found'')),
       g_Exec = (\<lambda>g i a. (Ret (), g @ [i]))\<rparr>)"

lemma end_block_executes_only_ready_witness:
  "set (snd (EndBlock sample_group 20 [])) \<subseteq> {1} \<and> EndBlock sample_group 20 [] = (Ret (), [1])"
proof -
  have "exec_keeps sample_group 20 (\<lambda>g. set g \<subseteq> {1})"
    by (auto simp: exec_keeps_def sample_group_def may_execute_def Let_def split: if_splits)
  from end_block_executes_only_ready [OF this, of "[]"] show ?thesis
    by (simp add: EndBlock_def executePendingGroupProposals_def sample_group_def
        tryExecuteProposal_def Let_def)
qed

text \<open>The end blocker never returns an error: whatever the group keeper answers, the block goes
  on, unless a call panics.\<close>

theorem end_block_never_errs: "fst (EndBlock G now g) \<noteq> Err e"
  using exec_groups_never_errs [of G now _ g]
  by (auto simp: EndBlock_def executePendingGroupProposals_def split: sum.split prod.split outcome.split)

text \<open>The loop over the proposals of a policy tries exactly the pending ones, each once and in
  the order of the query; an error of one does not stop the next.\<close>

theorem proposals_run_in_order:
  "exec_proposals G now ps g = exec_all G now (map pr_Id (filter (pending now) ps)) g"
  by (rule exec_proposals_pending)

end
