(* ===== verification/RegistrySpec.thy ===== *)
theory RegistrySpec
  imports VrRun VrStore
begin

text \<open>
  The registry as its users may think of it: parameters, a map from indexes to entries and the events
  emitted so far, with messages that are accepted or refused. The keeper refines it: over any list of
  messages it accepts the same ones, and what its store and events mean is the abstract state.
\<close>

section \<open>The abstract registry\<close>

record abstract_registry =
  ar_params :: "VrParams option"
  ar_entries :: "string \<rightharpoonup> Validator"
  ar_events :: "event list"

text \<open>\<open>auth\<close> are the texts that name the authority, \<open>operator\<close> the well-formed operator addresses.\<close>

fun spec_accepts :: "(string \<Rightarrow> bool) \<Rightarrow> (string \<Rightarrow> bool) \<Rightarrow> vr_msg \<Rightarrow> abstract_registry \<Rightarrow> bool" where
  "spec_accepts auth operator (OnboardMsg m) r \<longleftrightarrow>
     auth (mov_Creator m) \<and> operator (mov_OperatorAddress m) \<and> ar_entries r (mov_Index m) = None \<and>
     mov_Index m \<noteq> '''' \<and> mov_MemberId m \<noteq> '''' \<and> mov_OperatorAddress m \<noteq> '''' \<and>
     mov_Status m \<noteq> ''''"
| "spec_accepts auth operator (UpdateParamsMsg req) r \<longleftrightarrow> auth (vmup_Authority req)"

fun spec_apply :: "vr_msg \<Rightarrow> abstract_registry \<Rightarrow> abstract_registry" where
  "spec_apply (OnboardMsg m) r = r\<lparr>ar_entries := (ar_entries r)(mov_Index m \<mapsto> onboarded_validator m),
     ar_events := ar_events r @ [onboarded_event m]\<rparr>"
| "spec_apply (UpdateParamsMsg req) r = r\<lparr>ar_params := Some (vmup_Params req)\<rparr>"

fun spec_exec :: "(string \<Rightarrow> bool) \<Rightarrow> (string \<Rightarrow> bool) \<Rightarrow> vr_msg list \<Rightarrow> abstract_registry
    \<Rightarrow> bool list \<times> abstract_registry" where
  "spec_exec auth operator [] r = ([], r)"
| "spec_exec auth operator (m # ms) r =
     (let a = spec_accepts auth operator m r;
          (as, r') = spec_exec auth operator ms (if a then spec_apply m r else r) in
      (a # as, r'))"

section \<open>The keeper over a list of messages\<close>

fun vr_exec :: "'s VrKeeper \<Rightarrow> vr_msg list \<Rightarrow> 's VrCtx \<Rightarrow> unit outcome list \<times> 's VrCtx" where
  "vr_exec k [] ctx = ([], ctx)"
| "vr_exec k (m # ms) ctx =
     (let (r, c) = vr_handle k m ctx; (rs, c') = vr_exec k ms c in (r # rs, c'))"

definition registry_meaning ::
    "('s \<Rightarrow> VrParams option) \<Rightarrow> ('s \<Rightarrow> string \<Rightarrow> Validator option) \<Rightarrow> 's VrCtx \<Rightarrow> abstract_registry" where
  "registry_meaning pabs vabs ctx = \<lparr>ar_params = pabs (vc_store ctx), ar_entries = vabs (vc_store ctx),
     ar_events = vc_events ctx\<rparr>"

definition names_authority :: "'s VrKeeper \<Rightarrow> string \<Rightarrow> bool" where
  "names_authority k a \<longleftrightarrow> vk_StringToBytes k a = Inr (vk_authority k)"

definition operator_address :: "'s VrKeeper \<Rightarrow> string \<Rightarrow> bool" where
  "operator_address k a \<longleftrightarrow> (\<exists>b. vk_ValAddressFromBech32 k a = Inr b)"

section \<open>Refinement\<close>

context registry
begin

abbreviation meaning :: "'s VrCtx \<Rightarrow> abstract_registry" where
  "meaning \<equiv> registry_meaning pabs vabs"

lemma onboard_refines:
  assumes "invar (vc_store ctx)" "okey (mov_Index m)" "ok (onboarded_validator m)"
    "OnboardValidator k m ctx = (r, ctx')"
  shows "invar (vc_store ctx') \<and>
    (r = Ret () \<longleftrightarrow> spec_accepts (names_authority k) (operator_address k) (OnboardMsg m) (meaning ctx)) \<and>
    meaning ctx' = (if r = Ret () then spec_apply (OnboardMsg m) (meaning ctx) else meaning ctx)"
proof (cases "r = Ret ()")
  case True
  with assms(4) have run: "OnboardValidator k m ctx = (Ret (), ctx')" by simp
  note o = onboard_abs [OF assms(1-3) run]
  from run have "vc_events ctx' = vc_events ctx @ [onboarded_event m]" by (auto simp: OnboardValidator_Ret_iff)
  with o run True show ?thesis
    by (auto simp: OnboardValidator_Ret_iff registry_meaning_def names_authority_def operator_address_def)
next
  case False
  with OnboardValidator_cases [of k m ctx] assms(4) have c: "ctx' = ctx" by auto
  have "\<not> spec_accepts (names_authority k) (operator_address k) (OnboardMsg m) (meaning ctx)"
  proof
    assume "spec_accepts (names_authority k) (operator_address k) (OnboardMsg m) (meaning ctx)"
    then obtain b where "vk_StringToBytes k (mov_Creator m) = Inr (vk_authority k)"
      "mov_Index m \<noteq> ''''" "mov_MemberId m \<noteq> ''''" "mov_OperatorAddress m \<noteq> ''''" "mov_Status m \<noteq> ''''"
      "mov_Index m \<notin> dom (vabs (vc_store ctx))" "vk_ValAddressFromBech32 k (mov_OperatorAddress m) = Inr b"
      by (auto simp: registry_meaning_def names_authority_def operator_address_def domIff)
    from onboard_succeeds [OF assms(1-3) this] assms(4) False show False by auto
  qed
  with False c assms(1) show ?thesis by simp
qed

lemma update_refines:
  assumes "invar (vc_store ctx)" "iok (vmup_Params req)" "vr_UpdateParams k req ctx = (r, ctx')"
  shows "invar (vc_store ctx') \<and>
    (r = Ret () \<longleftrightarrow> spec_accepts (names_authority k) (operator_address k) (UpdateParamsMsg req) (meaning ctx)) \<and>
    meaning ctx' = (if r = Ret () then spec_apply (UpdateParamsMsg req) (meaning ctx) else meaning ctx)"
proof (cases "names_authority k (vmup_Authority req)")
  case True
  obtain s where "i_set (vk_Params k) (vc_store ctx) (vmup_Params req) = Inr s"
    using item_set [OF assms(1,2)] by blast
  with True have run: "vr_UpdateParams k req ctx = (Ret (), ctx\<lparr>vc_store := s\<rparr>)"
    by (simp add: vr_UpdateParams_Ret_iff names_authority_def)
  from update_params_abs [OF assms(1,2) run] run assms(3) True show ?thesis
    by (auto simp: registry_meaning_def)
next
  case False
  then have "r \<noteq> Ret ()" using assms(3) by (auto simp: vr_UpdateParams_Ret_iff names_authority_def)
  with vr_UpdateParams_cases [of k req ctx] assms(1,3) False show ?thesis by auto
qed

lemma handle_refines:
  assumes "invar (vc_store ctx)" "vr_admissible okey ok iok m" "vr_handle k m ctx = (r, ctx')"
  shows "invar (vc_store ctx') \<and>
    (r = Ret () \<longleftrightarrow> spec_accepts (names_authority k) (operator_address k) m (meaning ctx)) \<and>
    meaning ctx' = (if r = Ret () then spec_apply m (meaning ctx) else meaning ctx)"
proof (cases m)
  case (OnboardMsg x)
  with assms(2,3) onboard_refines [OF assms(1), of x r ctx'] show ?thesis by (simp add: vr_admissible_def)
next
  case (UpdateParamsMsg req)
  with assms(2,3) update_refines [OF assms(1), of req r ctx'] show ?thesis by (simp add: vr_admissible_def)
qed

lemma exec_refines:
  assumes "invar (vc_store ctx)" "list_all (vr_admissible okey ok iok) ms" "vr_exec k ms ctx = (rs, ctx')"
  shows "spec_exec (names_authority k) (operator_address k) ms (meaning ctx) =
    (map (\<lambda>r. r = Ret ()) rs, meaning ctx')"
  using assms
proof (induction ms arbitrary: ctx rs)
  case (Cons m ms)
  obtain r c where h: "vr_handle k m ctx = (r, c)" by fastforce
  from Cons.prems(3) h obtain rs' where rs: "rs = r # rs'" "vr_exec k ms c = (rs', ctx')"
    by (auto split: prod.splits)
  from Cons.prems(2) have m: "vr_admissible okey ok iok m" and ms: "list_all (vr_admissible okey ok iok) ms"
    by simp_all
  note hr = handle_refines [OF Cons.prems(1) m h]
  with Cons.IH [OF _ ms rs(2)] show ?case by (simp add: rs(1))
qed simp

end

section \<open>The property\<close>

text \<open>C9. The keeper refines the abstract registry: over any list of messages it accepts exactly the ones
  the abstract registry accepts, refuses the others without effect, and its parameters, entries and
  events are those of the abstract registry.\<close>

theorem registry_refines_spec:
  assumes "registry k invar pabs iok vabs okey ok lt" "invar (vc_store ctx)"
    "list_all (vr_admissible okey ok iok) msgs" "vr_exec k msgs ctx = (rs, ctx')"
  shows "spec_exec (names_authority k) (operator_address k) msgs (registry_meaning pabs vabs ctx) =
    (map (\<lambda>r. r = Ret ()) rs, registry_meaning pabs vabs ctx')"
  by (rule registry.exec_refines [OF assms])

text \<open>The witness onboards an entry, repeats the message, and tries one by somebody else.\<close>

lemma registry_refines_spec_witness:
  "map (\<lambda>r. r = Ret ()) (fst (vr_exec sample_keeper
       [OnboardMsg sample_onboard, OnboardMsg sample_onboard,
        OnboardMsg (sample_onboard\<lparr>mov_Creator := ''eve'', mov_Index := ''v2''\<rparr>)] sample_ctx)) =
     [True, False, False]"
proof -
  let ?ms = "[OnboardMsg sample_onboard, OnboardMsg sample_onboard,
    OnboardMsg (sample_onboard\<lparr>mov_Creator := ''eve'', mov_Index := ''v2''\<rparr>)]"
  obtain rs ctx' where e: "vr_exec sample_keeper ?ms sample_ctx = (rs, ctx')" by fastforce
  have i: "vr_inv (vc_store sample_ctx)" by simp
  have "co_ok validator_codec (onboarded_validator (sample_onboard\<lparr>mov_Creator := ''eve'', mov_Index := ''v2''\<rparr>))"
    by (rule validator_small_ok) (simp add: onboarded_validator_def sample_onboard_def)
  then have "list_all (vr_admissible (\<lambda>i. True) (co_ok validator_codec) (co_ok vr_params_codec)) ?ms"
    by (simp add: vr_admissible_def sample_onboard_ok)
  from registry_refines_spec [OF sample_registry i this e] e show ?thesis
    by (simp add: registry_meaning_def names_authority_def operator_address_def)
qed

end
