(* ===== verification/TdTypes.thy ===== *)
theory TdTypes
  imports Store Sdk Wire
begin

text \<open>
  The data of module \<open>x/td\<close> (trust deposit): the messages of \<open>types/*.pb.go\<close>, the names and
  errors of \<open>types/keys.go\<close> and \<open>types/errors.go\<close>, the parameters and their validation
  (\<open>types/params.go\<close>) and the genesis state (\<open>types/genesis.go\<close>). The decimal type is a type
  variable \<open>'d\<close>; its operations are the parameter \<open>L\<close>.
\<close>

section \<open>Messages\<close>

record 'd TdParams =
  tp_TrustDepositShareValue :: 'd
  tp_TrustDepositValue :: u64
  tp_TrustDepositYieldRate :: 'd

record 'd DustAmount =
  da_Dust :: 'd

record 'd TdMsgUpdateParams =
  tmup_Authority :: string
  tmup_Params :: "'d TdParams"

text \<open>\<open>Amount\<close> is an \<open>int64\<close>: a 64-bit word read with its sign.\<close>

record MsgFundModule =
  mfm_Creator :: string
  mfm_Amount :: u64
  mfm_Module :: string

record 'd TdGenesisState =
  tgs_Params :: "'d TdParams"

text \<open>Responses, the query messages and the module configuration.\<close>

datatype TdMsgUpdateParamsResponse = TdMsgUpdateParamsResponse
datatype MsgFundModuleResponse = MsgFundModuleResponse
datatype TdQueryParamsRequest = TdQueryParamsRequest

record 'd TdQueryParamsResponse =
  tqpr_Params :: "'d TdParams"

record TdModuleConfig =
  tmc_Authority :: string

section \<open>Names and errors\<close>

definition td_ModuleName :: string where
  "td_ModuleName = ''td''"

definition VeranaPoolAccount :: string where
  "VeranaPoolAccount = ''verana_pool''"

definition td_ParamsKey :: bytes where
  "td_ParamsKey = bytes_of_string ''p_td''"

definition DustAmountKey :: bytes where
  "DustAmountKey = [1]"

definition td_ErrInvalidSigner :: go_error where
  "td_ErrInvalidSigner = Sentinel td_ModuleName 1100"

section \<open>Parameters\<close>

definition DefaultTrustDepositValue :: u64 where
  "DefaultTrustDepositValue = 0"

definition td_NewParams :: "'d \<Rightarrow> u64 \<Rightarrow> 'd \<Rightarrow> 'd TdParams" where
  "td_NewParams trustDepositShareValue trust_deposit_value trust_deposit_yield_rate =
     \<lparr>tp_TrustDepositShareValue = trustDepositShareValue,
      tp_TrustDepositValue = trust_deposit_value,
      tp_TrustDepositYieldRate = trust_deposit_yield_rate\<rparr>"

text \<open>\<open>DefaultParams\<close> drops the parse error; the value is then the zero value of the type.\<close>

definition dec_of_str :: "'d dec_ops \<Rightarrow> string \<Rightarrow> 'd" where
  "dec_of_str L str = (case LegacyNewDecFromStr L str of Inl _ \<Rightarrow> LegacyDecNil L | Inr d \<Rightarrow> d)"

definition td_DefaultParams :: "'d dec_ops \<Rightarrow> 'd TdParams" where
  "td_DefaultParams L =
     td_NewParams (dec_of_str L ''1.0'') DefaultTrustDepositValue (dec_of_str L ''0.15'')"

definition validateTrustDepositShareValue :: "'d \<Rightarrow> go_error option" where
  "validateTrustDepositShareValue v = None"

definition validateTrustDepositValue :: "u64 \<Rightarrow> go_error option" where
  "validateTrustDepositValue v = None"

definition validateTrustDepositYieldRate :: "'d \<Rightarrow> go_error option" where
  "validateTrustDepositYieldRate v = None"

definition td_Params_Validate :: "'d TdParams \<Rightarrow> go_error option" where
  "td_Params_Validate p =
     (case validateTrustDepositShareValue (tp_TrustDepositShareValue p) of
        Some err \<Rightarrow> Some err
      | None \<Rightarrow> (case validateTrustDepositValue (tp_TrustDepositValue p) of
        Some err \<Rightarrow> Some err
      | None \<Rightarrow> (case validateTrustDepositYieldRate (tp_TrustDepositYieldRate p) of
        Some err \<Rightarrow> Some err
      | None \<Rightarrow> None)))"

lemma td_Params_Validate_None [simp]: "td_Params_Validate p = None"
  by (simp add: td_Params_Validate_def validateTrustDepositShareValue_def
      validateTrustDepositValue_def validateTrustDepositYieldRate_def)

section \<open>Genesis state\<close>

definition td_DefaultGenesis :: "'d dec_ops \<Rightarrow> 'd TdGenesisState" where
  "td_DefaultGenesis L = \<lparr>tgs_Params = td_DefaultParams L\<rparr>"

definition td_Genesis_Validate :: "'d TdGenesisState \<Rightarrow> go_error option" where
  "td_Genesis_Validate gs = td_Params_Validate (tgs_Params gs)"

text \<open>The zero value of \<open>Params\<close>, which \<open>Get\<close> returns next to an error.\<close>

definition td_zero_params :: "'d dec_ops \<Rightarrow> 'd TdParams" where
  "td_zero_params L = \<lparr>tp_TrustDepositShareValue = LegacyDecNil L, tp_TrustDepositValue = 0,
     tp_TrustDepositYieldRate = LegacyDecNil L\<rparr>"

end
