(* ===== verification/TdKeeper.thy ===== *)
theory TdKeeper
  imports TdTypes
begin

text \<open>
  The keeper of \<open>x/td\<close>: the block-by-block yield transfer (\<open>keeper/abci.go\<close>), the dust accumulator
  (\<open>keeper/keeper.go\<close>), the messages \<open>FundModule\<close> and \<open>UpdateParams\<close>, the parameter query and the
  genesis import and export.

  State: the module's store, with the items \<open>Params\<close> and \<open>DustAmount\<close>, and the state of the bank.
  The functions return the state they leave behind also when they fail, as the Go code leaves its
  writes in the context.
\<close>

section \<open>State and dependencies\<close>

record ('s, 'b) TdCtx =
  tc_store :: 's
  tc_bank :: 'b

record ('s, 'b, 'c, 'd) TdKeeper =
  tk_StringToBytes :: "string \<Rightarrow> go_error + bytes"
  tk_BytesToString :: "bytes \<Rightarrow> go_error + string"
  tk_AccAddressFromBech32 :: "string \<Rightarrow> go_error + bytes"
  tk_authority :: bytes
  tk_Params :: "('s, 'd TdParams) item_ops"
  tk_DustAmount :: "('s, 'd DustAmount) item_ops"
  tk_bank :: "('b, 'c) bank_ops"
  tk_coins :: "'c coin_ops"
  tk_dec :: "'d dec_ops"

definition td_NewKeeper ::
    "('s, 'b, 'c, 'd) TdKeeper \<Rightarrow> go_error option \<Rightarrow> ('s, 'b, 'c, 'd) TdKeeper outcome" where
  "td_NewKeeper k build_err =
     (case tk_BytesToString k (tk_authority k) of
        Inl err \<Rightarrow> Panic (Errorf ''invalid authority address %s: %s''
          [ArgBytes (tk_authority k), ArgErr err])
      | Inr _ \<Rightarrow> (case build_err of Some err \<Rightarrow> Panic err | None \<Rightarrow> Ret k))"

definition td_GetAuthority :: "('s, 'b, 'c, 'd) TdKeeper \<Rightarrow> bytes" where
  "td_GetAuthority k = tk_authority k"

section \<open>The dust accumulator\<close>

definition GetDustAmount :: "('s, 'b, 'c, 'd) TdKeeper \<Rightarrow> 's \<Rightarrow> go_error + 'd" where
  "GetDustAmount k s =
     (case i_get (tk_DustAmount k) s of
        Inl err \<Rightarrow> if errors_Is err CollErrNotFound then Inr (LegacyZeroDec (tk_dec k)) else Inl err
      | Inr dustAmount \<Rightarrow> Inr (da_Dust dustAmount))"

definition SetDustAmount :: "('s, 'b, 'c, 'd) TdKeeper \<Rightarrow> 'd \<Rightarrow> 's \<Rightarrow> go_error + 's" where
  "SetDustAmount k amount s = i_set (tk_DustAmount k) s \<lparr>da_Dust = amount\<rparr>"

definition AddToDustAmount :: "('s, 'b, 'c, 'd) TdKeeper \<Rightarrow> 'd \<Rightarrow> 's \<Rightarrow> 's outcome" where
  "AddToDustAmount k amount s =
     (case GetDustAmount k s of
        Inl err \<Rightarrow> Err err
      | Inr currentDust \<Rightarrow>
     (case dec_Add (tk_dec k) currentDust amount of
        None \<Rightarrow> Panic (LibError ''LegacyDec.Add'')
      | Some newDust \<Rightarrow>
     (case SetDustAmount k newDust s of Inl err \<Rightarrow> Err err | Inr s' \<Rightarrow> Ret s')))"

definition ResetDustAmount :: "('s, 'b, 'c, 'd) TdKeeper \<Rightarrow> 's \<Rightarrow> go_error + 's" where
  "ResetDustAmount k s = SetDustAmount k (LegacyZeroDec (tk_dec k)) s"

section \<open>The begin blocker\<close>

definition blocksPerYear :: int where
  "blocksPerYear = 6311520"

definition veranaPool :: string where
  "veranaPool = ''cosmos1jjfey42zhnwrpv8pmpxgp2jwukcy3emfsewffz''"

text \<open>The error of the address parse is dropped; the address is then empty.\<close>

definition veranaPoolAddr :: "('s, 'b, 'c, 'd) TdKeeper \<Rightarrow> bytes" where
  "veranaPoolAddr k = (case tk_AccAddressFromBech32 k veranaPool of Inl _ \<Rightarrow> [] | Inr a \<Rightarrow> a)"

definition perBlockYield :: "'d dec_ops \<Rightarrow> 'd TdParams \<Rightarrow> 'd option" where
  "perBlockYield L params =
     do {
       let trustDepositValue = LegacyNewDecFromInt L (sint (tp_TrustDepositValue params));
       annualYield \<leftarrow> dec_Mul L trustDepositValue (tp_TrustDepositYieldRate params);
       dec_Quo L annualYield (LegacyNewDecFromInt L blocksPerYear)
     }"

definition set_dust_ctx ::
    "('s, 'b, 'c, 'd) TdKeeper \<Rightarrow> 'd \<Rightarrow> ('s, 'b) TdCtx \<Rightarrow> unit outcome \<times> ('s, 'b) TdCtx" where
  "set_dust_ctx k d ctx =
     (case SetDustAmount k d (tc_store ctx) of
        Inl err \<Rightarrow> (Err err, ctx)
      | Inr s \<Rightarrow> (Ret (), ctx\<lparr>tc_store := s\<rparr>))"

text \<open>The branch taken when at least one whole unit has accumulated.\<close>

definition transfer_yield ::
    "('s, 'b, 'c, 'd) TdKeeper \<Rightarrow> 'd \<Rightarrow> ('s, 'b) TdCtx \<Rightarrow> unit outcome \<times> ('s, 'b) TdCtx" where
  "transfer_yield k totalAmount ctx =
     (case dec_TruncateInt (tk_dec k) totalAmount of
        None \<Rightarrow> (Panic (LibError ''LegacyDec.TruncateInt''), ctx)
      | Some transferAmount \<Rightarrow>
     (case NewCoins1 (tk_coins k) ''uvna'' transferAmount of
        None \<Rightarrow> (Panic (LibError ''sdk.NewCoin''), ctx)
      | Some transferCoins \<Rightarrow>
     let veranaPoolBalance = GetAllBalances (tk_bank k) (tc_bank ctx) (veranaPoolAddr k) in
     if \<not> coins_IsAllGTE (tk_coins k) veranaPoolBalance transferCoins then (Ret (), ctx)
     else
     (case SendCoinsFromModuleToModule (tk_bank k) (tc_bank ctx) VeranaPoolAccount td_ModuleName
             transferCoins of
        Panic e \<Rightarrow> (Panic e, ctx)
      | Err err \<Rightarrow> (Err err, ctx)
      | Ret bank \<Rightarrow>
     let ctx = ctx\<lparr>tc_bank := bank\<rparr>;
         transferredAmount = LegacyNewDecFromInt (tk_dec k) transferAmount in
     (case dec_Sub (tk_dec k) totalAmount transferredAmount of
        None \<Rightarrow> (Panic (LibError ''LegacyDec.Sub''), ctx)
      | Some remainingDust \<Rightarrow> set_dust_ctx k remainingDust ctx))))"

definition SendFundsFromVeranaPool ::
    "('s, 'b, 'c, 'd) TdKeeper \<Rightarrow> ('s, 'b) TdCtx \<Rightarrow> unit outcome \<times> ('s, 'b) TdCtx" where
  "SendFundsFromVeranaPool k ctx =
     (case i_get (tk_Params k) (tc_store ctx) of
        Inl err \<Rightarrow> (Err err, ctx)
      | Inr params \<Rightarrow>
     (case perBlockYield (tk_dec k) params of
        None \<Rightarrow> (Panic (LibError ''LegacyDec.Mul/Quo''), ctx)
      | Some perBlock \<Rightarrow>
     (case GetDustAmount k (tc_store ctx) of
        Inl err \<Rightarrow> (Err err, ctx)
      | Inr currentDust \<Rightarrow>
     (case dec_Add (tk_dec k) currentDust perBlock of
        None \<Rightarrow> (Panic (LibError ''LegacyDec.Add''), ctx)
      | Some totalAmount \<Rightarrow>
     let microUnitThreshold = LegacyNewDec (tk_dec k) 1 in
     if dec_GTE (tk_dec k) totalAmount microUnitThreshold then transfer_yield k totalAmount ctx
     else set_dust_ctx k totalAmount ctx))))"

text \<open>\<open>protocolpooltypes.ModuleName\<close> is a name of the SDK module \<open>x/protocolpool\<close>.\<close>

definition protocolpool_ModuleName :: string where
  "protocolpool_ModuleName = ''protocolpool''"

definition SendFundsBackToCommunityPool ::
    "('s, 'b, 'c, 'd) TdKeeper \<Rightarrow> ('s, 'b) TdCtx \<Rightarrow> unit outcome \<times> ('s, 'b) TdCtx" where
  "SendFundsBackToCommunityPool k ctx =
     (let veranaPoolBalance = GetAllBalances (tk_bank k) (tc_bank ctx) (veranaPoolAddr k) in
      if coins_IsZero (tk_coins k) veranaPoolBalance then (Ret (), ctx)
      else
     (case SendCoinsFromModuleToModule (tk_bank k) (tc_bank ctx) VeranaPoolAccount
             protocolpool_ModuleName veranaPoolBalance of
        Panic e \<Rightarrow> (Panic e, ctx)
      | Err err \<Rightarrow> (Err err, ctx)
      | Ret bank \<Rightarrow> (Ret (), ctx\<lparr>tc_bank := bank\<rparr>)))"

definition BeginBlocker ::
    "('s, 'b, 'c, 'd) TdKeeper \<Rightarrow> ('s, 'b) TdCtx \<Rightarrow> unit outcome \<times> ('s, 'b) TdCtx" where
  "BeginBlocker k ctx =
     (case SendFundsFromVeranaPool k ctx of
        (Ret _, ctx) \<Rightarrow> (case SendFundsBackToCommunityPool k ctx of
            (Ret _, ctx) \<Rightarrow> (Ret (), ctx)
          | (r, ctx) \<Rightarrow> (r, ctx))
      | (r, ctx) \<Rightarrow> (r, ctx))"

section \<open>Message server\<close>

definition FundModule ::
    "('s, 'b, 'c, 'd) TdKeeper \<Rightarrow> MsgFundModule \<Rightarrow> ('s, 'b) TdCtx
     \<Rightarrow> unit outcome \<times> ('s, 'b) TdCtx" where
  "FundModule k msg ctx =
     (case tk_StringToBytes k (mfm_Creator msg) of
        Inl err \<Rightarrow> (Err (Wrapf err ''invalid authority address'' []), ctx)
      | Inr _ \<Rightarrow>
     let senderAcc = (case tk_AccAddressFromBech32 k (mfm_Creator msg) of Inl _ \<Rightarrow> [] | Inr a \<Rightarrow> a) in
     (case NewCoins1 (tk_coins k) ''uvna'' (sint (mfm_Amount msg)) of
        None \<Rightarrow> (Panic (LibError ''sdk.NewCoin''), ctx)
      | Some coins \<Rightarrow>
     (case SendCoinsFromAccountToModule (tk_bank k) (tc_bank ctx) senderAcc (mfm_Module msg) coins of
        Panic e \<Rightarrow> (Panic e, ctx)
      | Err err \<Rightarrow> (Err err, ctx)
      | Ret bank \<Rightarrow>
     let ctx = ctx\<lparr>tc_bank := bank\<rparr> in
     if mfm_Module msg = td_ModuleName then
       let params = (case i_get (tk_Params k) (tc_store ctx) of
                       Inl _ \<Rightarrow> td_zero_params (tk_dec k) | Inr p \<Rightarrow> p);
           params = params\<lparr>tp_TrustDepositValue := tp_TrustDepositValue params + mfm_Amount msg\<rparr> in
       (case i_set (tk_Params k) (tc_store ctx) params of
          Inl err \<Rightarrow> (Err err, ctx)
        | Inr s \<Rightarrow> (Ret (), ctx\<lparr>tc_store := s\<rparr>))
     else (Ret (), ctx))))"

definition td_UpdateParams ::
    "('s, 'b, 'c, 'd) TdKeeper \<Rightarrow> 'd TdMsgUpdateParams \<Rightarrow> ('s, 'b) TdCtx
     \<Rightarrow> unit outcome \<times> ('s, 'b) TdCtx" where
  "td_UpdateParams k req ctx =
     (case tk_StringToBytes k (tmup_Authority req) of
        Inl err \<Rightarrow> (Err (Wrapf err ''invalid authority address'' []), ctx)
      | Inr authority \<Rightarrow>
     if td_GetAuthority k \<noteq> authority then
       let expectedAuthorityStr =
             (case tk_BytesToString k (td_GetAuthority k) of Inl _ \<Rightarrow> '''' | Inr str \<Rightarrow> str) in
       (Err (Wrapf td_ErrInvalidSigner ''invalid authority; expected %s, got %s''
          [ArgStr expectedAuthorityStr, ArgStr (tmup_Authority req)]), ctx)
     else
     (case td_Params_Validate (tmup_Params req) of
        Some err \<Rightarrow> (Err err, ctx)
      | None \<Rightarrow>
     (case i_set (tk_Params k) (tc_store ctx) (tmup_Params req) of
        Inl err \<Rightarrow> (Err err, ctx)
      | Inr s \<Rightarrow> (Ret (), ctx\<lparr>tc_store := s\<rparr>))))"

section \<open>Query server and genesis\<close>

definition td_Query_Params ::
    "('s, 'b, 'c, 'd) TdKeeper \<Rightarrow> TdQueryParamsRequest option \<Rightarrow> 's
     \<Rightarrow> 'd TdQueryParamsResponse outcome" where
  "td_Query_Params k req s =
     (case req of
        None \<Rightarrow> Err (StatusErr InvalidArgument ''invalid request'')
      | Some _ \<Rightarrow>
     (case i_get (tk_Params k) s of
        Inl err \<Rightarrow> if \<not> errors_Is err CollErrNotFound
                   then Err (StatusErr Internal ''internal error'')
                   else Ret \<lparr>tqpr_Params = td_zero_params (tk_dec k)\<rparr>
      | Inr params \<Rightarrow> Ret \<lparr>tqpr_Params = params\<rparr>))"

definition td_InitGenesis ::
    "('s, 'b, 'c, 'd) TdKeeper \<Rightarrow> 'd TdGenesisState \<Rightarrow> 's \<Rightarrow> go_error + 's" where
  "td_InitGenesis k genState s = i_set (tk_Params k) s (tgs_Params genState)"

definition td_ExportGenesis ::
    "('s, 'b, 'c, 'd) TdKeeper \<Rightarrow> 's \<Rightarrow> go_error + 'd TdGenesisState" where
  "td_ExportGenesis k s =
     (let genesis = td_DefaultGenesis (tk_dec k) in
      case i_get (tk_Params k) s of
        Inl err \<Rightarrow> Inl err
      | Inr params \<Rightarrow> Inr (genesis\<lparr>tgs_Params := params\<rparr>))"

end
