(* ===== verification/TdSpec.thy ===== *)
theory TdSpec
  imports TdKeeper
begin

text \<open>
  What the trust deposit module promises, and that the keeper keeps it. The abstract block works on
  the dust (in units of \<open>10^-18\<close>) and the balances of the ledger: the yield of the block is added to
  the dust, its whole part is paid from the pool to the module when the pool can pay it, and what the
  pool still holds goes to the community pool. \<open>trust_deposit\<close> joins the contracts of the decimal,
  the bank and the two items of the store; inside it the code is shown to refine the abstract block.
\<close>

section \<open>The abstract block\<close>

type_synonym ledger = "bytes \<Rightarrow> string \<Rightarrow> nat"

definition uvna_only :: "nat \<Rightarrow> string \<Rightarrow> nat" where
  "uvna_only n = (\<lambda>d. if d = ''uvna'' then n else 0)"

lemma uvna_only_le [simp]: "(\<forall>d. uvna_only n d \<le> f d) \<longleftrightarrow> n \<le> f ''uvna''"
  by (auto simp: uvna_only_def)

definition spec_send :: "bytes \<Rightarrow> bytes \<Rightarrow> int \<Rightarrow> int \<times> ledger \<Rightarrow> int \<times> ledger" where
  "spec_send pool td y = (\<lambda>(d, bl).
     let t = d + y; n = nat (t div prec) in
     if t < prec then (t, bl)
     else if bl pool ''uvna'' < n then (d, bl)
     else (t mod prec, move bl pool td (uvna_only n)))"

definition spec_sweep :: "bytes \<Rightarrow> bytes \<Rightarrow> ledger \<Rightarrow> ledger" where
  "spec_sweep pool cp bl =
     bl(pool := (\<lambda>_. 0), cp := (\<lambda>d. bl cp d + bl pool d))"

definition spec_block :: "bytes \<Rightarrow> bytes \<Rightarrow> bytes \<Rightarrow> int \<Rightarrow> int \<times> ledger \<Rightarrow> int \<times> ledger" where
  "spec_block pool td cp y st =
     (let (d, bl) = spec_send pool td y st in (d, spec_sweep pool cp bl))"

lemma spec_send_dust_range:
  "0 \<le> d \<Longrightarrow> d < prec \<Longrightarrow> 0 \<le> y \<Longrightarrow>
   0 \<le> fst (spec_send pool td y (d, bl)) \<and> fst (spec_send pool td y (d, bl)) < prec"
  by (auto simp: spec_send_def Let_def)

lemma spec_block_dust_range:
  "0 \<le> d \<Longrightarrow> d < prec \<Longrightarrow> 0 \<le> y \<Longrightarrow>
   0 \<le> fst (spec_block pool td cp y (d, bl)) \<and> fst (spec_block pool td cp y (d, bl)) < prec"
  using spec_send_dust_range [of d y pool td bl] by (simp add: spec_block_def case_prod_beta)

text \<open>A block whose pool can pay loses nothing: what is paid and what remains as dust add up.\<close>

lemma spec_block_exact:
  assumes "0 \<le> d" "0 \<le> y" "nat ((d + y) div prec) \<le> bl pool ''uvna''"
    and "pool \<noteq> td" "cp \<noteq> td" and blk: "spec_block pool td cp y (d, bl) = (d', bl')"
  shows "prec * int (bl' td ''uvna'') + d' = prec * int (bl td ''uvna'') + d + y"
proof (cases "d + y < prec")
  case True
  with assms show ?thesis
    by (auto simp: spec_block_def spec_send_def spec_sweep_def Let_def)
next
  case False
  let ?n = "(d + y) div prec"
  have n: "0 \<le> ?n" using assms(1,2) by (simp add: pos_imp_zdiv_nonneg_iff)
  from False assms have "d' = (d + y) mod prec"
    and "int (bl' td ''uvna'') = int (bl td ''uvna'') + ?n"
    by (auto simp: spec_block_def spec_send_def spec_sweep_def move_def uvna_only_def Let_def n
        split: if_splits)
  then show ?thesis by (simp add: algebra_simps)
qed

lemma spec_block_skip:
  assumes "prec \<le> d + y" "bl pool ''uvna'' < nat ((d + y) div prec)"
  shows "spec_block pool td cp y (d, bl) = (d, spec_sweep pool cp bl)"
  using assms by (simp add: spec_block_def spec_send_def Let_def)

section \<open>The yield of a block\<close>

context legacy_dec
begin

text \<open>
  The annual yield is exact, as the deposit is a whole number; the division by the number of blocks
  is within one unit of \<open>10^-18\<close>.
\<close>

lemma per_block_yield:
  assumes lim: "\<bar>sint (tp_TrustDepositValue params) * prec * raw (tp_TrustDepositYieldRate params)\<bar> \<le> dec_limit"
  shows "\<exists>y. perBlockYield L params = Some y \<and>
    \<bar>raw y * blocksPerYear - sint (tp_TrustDepositValue params) * raw (tp_TrustDepositYieldRate params)\<bar>
      \<le> blocksPerYear \<and>
    (0 \<le> sint (tp_TrustDepositValue params) * raw (tp_TrustDepositYieldRate params) \<longrightarrow> 0 \<le> raw y)"
proof -
  let ?v = "sint (tp_TrustDepositValue params)" and ?r = "raw (tp_TrustDepositYieldRate params)"
  let ?B = "LegacyNewDecFromInt L blocksPerYear"
  have B: "raw ?B = blocksPerYear * prec" "0 < blocksPerYear"
    by (simp_all add: raw_of_int blocksPerYear_def)
  from lim have "\<bar>raw (LegacyNewDecFromInt L ?v) * ?r\<bar> \<le> dec_limit" by (simp add: raw_of_int)
  from raw_mul [OF this] obtain a where a: "dec_Mul L (LegacyNewDecFromInt L ?v) (tp_TrustDepositYieldRate params) = Some a"
    "2 * \<bar>raw a * prec - ?v * prec * ?r\<bar> \<le> prec" by (auto simp: raw_of_int)
  have "\<bar>raw a * prec - ?v * prec * ?r\<bar> = \<bar>raw a - ?v * ?r\<bar> * prec"
    by (rule abs_scaled) (simp add: algebra_simps)
  with a(2) have "2 * \<bar>raw a - ?v * ?r\<bar> * prec \<le> 1 * prec" by simp
  then have "2 * \<bar>raw a - ?v * ?r\<bar> \<le> 1" using prec_pos by (simp only: mult_le_cancel_right_pos)
  moreover have "2 * t \<le> 1 \<Longrightarrow> t < 1" for t :: int by linarith
  ultimately have "\<bar>raw a - ?v * ?r\<bar> < 1" by blast
  then have raw_a: "raw a = ?v * ?r" by (simp only: zabs_less_one_iff right_minus_eq)
  have "\<bar>raw a\<bar> * prec \<le> dec_limit"
    using lim prec_pos by (simp add: raw_a abs_mult mult.commute mult.left_commute)
  then obtain y where y: "dec_Quo L a ?B = Some y"
    "\<bar>raw y * raw ?B - raw a * prec\<bar> \<le> \<bar>raw ?B\<bar>"
    using raw_quo [of ?B a] B prec_pos by auto
  have "\<bar>raw y * raw ?B - raw a * prec\<bar> = \<bar>raw y * blocksPerYear - raw a\<bar> * prec"
    by (rule abs_scaled) (simp add: B algebra_simps)
  with y(2) B have "\<bar>raw y * blocksPerYear - raw a\<bar> * prec \<le> blocksPerYear * prec"
    by (simp add: abs_mult)
  then have "\<bar>raw y * blocksPerYear - raw a\<bar> \<le> blocksPerYear"
    using prec_pos by (simp only: mult_le_cancel_right_pos)
  moreover have "0 \<le> ?v * ?r \<longrightarrow> 0 \<le> raw y"
    using raw_quo_sign [OF y(1)] B prec_pos by (simp add: raw_a)
  ultimately show ?thesis
    using a(1) y(1) by (simp add: perBlockYield_def raw_a)
qed

end

section \<open>The code refines the abstract block\<close>

text \<open>The dust a store holds and what a block context means to the abstract block.\<close>

definition dust_of :: "('d \<Rightarrow> int) \<Rightarrow> ('s \<Rightarrow> 'd DustAmount option) \<Rightarrow> 's \<Rightarrow> int" where
  "dust_of raw dval s = (case dval s of None \<Rightarrow> 0 | Some v \<Rightarrow> raw (da_Dust v))"

text \<open>
  A run of blocks: before each one the rest of the chain (continuous funding, transactions) changes
  the bank by a function \<open>f\<close>; the run ends at the first block that fails.
\<close>

fun run_blocks :: "('s, 'b, 'c, 'd) TdKeeper \<Rightarrow> ('b \<Rightarrow> 'b) list \<Rightarrow> ('s, 'b) TdCtx
    \<Rightarrow> unit outcome \<times> ('s, 'b) TdCtx" where
  "run_blocks k [] ctx = (Ret (), ctx)"
| "run_blocks k (f # fs) ctx =
     (case BeginBlocker k (ctx\<lparr>tc_bank := f (tc_bank ctx)\<rparr>) of
        (Ret _, ctx') \<Rightarrow> run_blocks k fs ctx'
      | (r, ctx') \<Rightarrow> (r, ctx'))"

locale trust_deposit =
  legacy_dec "tk_dec k" raw +
  sdk_bank "tk_bank k" "tk_coins k" amt bal macc known +
  P: item_store "tk_Params k" invar pval pok +
  D: item_store "tk_DustAmount k" invar dval dok
  for k :: "('s, 'b, 'c, 'd) TdKeeper" and raw amt bal macc known invar pval pok dval dok +
  assumes params_frame: "invar s \<Longrightarrow> pok p \<Longrightarrow> i_set (tk_Params k) s p = Inr s' \<Longrightarrow> dval s' = dval s"
    and dust_frame: "invar s \<Longrightarrow> dok v \<Longrightarrow> i_set (tk_DustAmount k) s v = Inr s' \<Longrightarrow> pval s' = pval s"
    and dust_ok: "\<bar>raw (da_Dust v)\<bar> \<le> dec_limit \<Longrightarrow> dok v"
    and pool_addr: "tk_AccAddressFromBech32 k veranaPool = Inr (macc VeranaPoolAccount)"
    and accounts: "known VeranaPoolAccount" "known td_ModuleName" "known protocolpool_ModuleName"
    and distinct_accounts: "macc VeranaPoolAccount \<noteq> macc td_ModuleName"
      "macc VeranaPoolAccount \<noteq> macc protocolpool_ModuleName"
      "macc td_ModuleName \<noteq> macc protocolpool_ModuleName"
begin

abbreviation dust :: "'s \<Rightarrow> int" where
  "dust \<equiv> dust_of raw dval"

abbreviation absctx :: "('s, 'b) TdCtx \<Rightarrow> int \<times> ledger" where
  "absctx ctx \<equiv> (dust (tc_store ctx), bal (tc_bank ctx))"

lemmas dust_def = dust_of_def

lemma veranaPoolAddr_eq: "veranaPoolAddr k = macc VeranaPoolAccount"
  by (simp add: veranaPoolAddr_def pool_addr)

lemma get_dust: "invar s \<Longrightarrow> \<exists>d. GetDustAmount k s = Inr d \<and> raw d = dust s"
  by (auto simp: GetDustAmount_def D.item_get dust_def raw_zero split: option.splits)

lemma set_dust:
  assumes "invar (tc_store ctx)" "\<bar>raw d\<bar> \<le> dec_limit"
  shows "\<exists>s. set_dust_ctx k d ctx = (Ret (), ctx\<lparr>tc_store := s\<rparr>) \<and> invar s \<and> dust s = raw d \<and>
    pval s = pval (tc_store ctx)"
proof -
  have ok: "dok \<lparr>da_Dust = d\<rparr>" using assms(2) by (intro dust_ok) simp
  from assms(1) ok obtain s where s: "i_set (tk_DustAmount k) (tc_store ctx) \<lparr>da_Dust = d\<rparr> = Inr s"
    "invar s" "dval s = Some \<lparr>da_Dust = d\<rparr>" by (rule D.item_setE)
  with dust_frame [OF assms(1) ok s(1)] show ?thesis
    by (intro exI [of _ s]) (simp add: set_dust_ctx_def SetDustAmount_def dust_def)
qed

lemma transfer_yield_spec:
  assumes inv: "invar (tc_store ctx)" and t: "prec \<le> raw t" "raw t \<le> dec_limit"
  shows "\<exists>ctx'. transfer_yield k t ctx = (Ret (), ctx') \<and> invar (tc_store ctx') \<and>
    pval (tc_store ctx') = pval (tc_store ctx) \<and>
    absctx ctx' = (let n = nat (raw t div prec) in
      if bal (tc_bank ctx) (macc VeranaPoolAccount) ''uvna'' < n then absctx ctx
      else (raw t mod prec,
        move (bal (tc_bank ctx)) (macc VeranaPoolAccount) (macc td_ModuleName) (uvna_only n)))"
proof -
  let ?n = "raw t div prec"
  have t0: "0 \<le> raw t" using t(1) prec_pos by linarith
  have n: "0 \<le> ?n" using t0 prec_pos by (simp add: pos_imp_zdiv_nonneg_iff)
  have lim: "\<bar>raw t\<bar> \<le> dec_limit" using t t0 by simp
  have trunc: "dec_TruncateInt (tk_dec k) t = Some ?n"
    using raw_trunc [OF lim] t0 by (simp add: trunc_div_nonneg)
  obtain c where c: "NewCoins1 (tk_coins k) ''uvna'' ?n = Some c" "amt c = uvna_only (nat ?n)"
    using new_coins [OF n, of "''uvna''"] by (auto simp: uvna_only_def)
  have gte: "coins_IsAllGTE (tk_coins k)
      (GetAllBalances (tk_bank k) (tc_bank ctx) (veranaPoolAddr k)) c \<longleftrightarrow>
      \<not> bal (tc_bank ctx) (macc VeranaPoolAccount) ''uvna'' < nat ?n"
    by (auto simp: all_gte balances c uvna_only_def veranaPoolAddr_eq)
  show ?thesis
  proof (cases "bal (tc_bank ctx) (macc VeranaPoolAccount) ''uvna'' < nat ?n")
    case True
    then show ?thesis using inv gte trunc c by (simp add: transfer_yield_def)
  next
    case False
    then have "\<forall>d. amt c d \<le> bal (tc_bank ctx) (macc VeranaPoolAccount) d"
      by (simp add: c uvna_only_def)
    from send_mm [OF accounts(1,2) this] obtain b where
      b: "SendCoinsFromModuleToModule (tk_bank k) (tc_bank ctx) VeranaPoolAccount td_ModuleName c = Ret b"
        "bal b = move (bal (tc_bank ctx)) (macc VeranaPoolAccount) (macc td_ModuleName) (uvna_only (nat ?n))"
      by (auto simp: c)
    have rem: "raw t - raw (LegacyNewDecFromInt (tk_dec k) ?n) = raw t mod prec"
      by (simp add: raw_of_int minus_div_mult_eq_mod)
    have small: "\<bar>raw t mod prec\<bar> \<le> dec_limit"
      using pos_mod_sign [OF prec_pos, of "raw t"] pos_mod_bound [OF prec_pos, of "raw t"] t
      by linarith
    from raw_sub [of t "LegacyNewDecFromInt (tk_dec k) ?n"] rem small
    obtain r where r: "dec_Sub (tk_dec k) t (LegacyNewDecFromInt (tk_dec k) ?n) = Some r"
      "raw r = raw t mod prec" by auto
    obtain s where s: "set_dust_ctx k r (ctx\<lparr>tc_bank := b\<rparr>) = (Ret (), ctx\<lparr>tc_bank := b, tc_store := s\<rparr>)"
      "invar s" "dust s = raw r" "pval s = pval (tc_store ctx)"
      using set_dust [of "ctx\<lparr>tc_bank := b\<rparr>" r] inv small r(2) by auto
    show ?thesis using False gte trunc c b r s
      by (intro exI [of _ "ctx\<lparr>tc_bank := b, tc_store := s\<rparr>"])
        (simp add: transfer_yield_def Let_def)
  qed
qed

lemma send_funds_refines:
  assumes inv: "invar (tc_store ctx)" and p: "pval (tc_store ctx) = Some params"
    and y: "perBlockYield (tk_dec k) params = Some y" "0 \<le> raw y"
    and d: "0 \<le> dust (tc_store ctx)" and lim: "dust (tc_store ctx) + raw y \<le> dec_limit"
  shows "\<exists>ctx'. SendFundsFromVeranaPool k ctx = (Ret (), ctx') \<and> invar (tc_store ctx') \<and>
    pval (tc_store ctx') = Some params \<and>
    absctx ctx' = spec_send (macc VeranaPoolAccount) (macc td_ModuleName) (raw y) (absctx ctx)"
proof -
  obtain d0 where d0: "GetDustAmount k (tc_store ctx) = Inr d0" "raw d0 = dust (tc_store ctx)"
    using get_dust [OF inv] by blast
  have "\<bar>raw d0 + raw y\<bar> \<le> dec_limit" using d0(2) d y(2) lim by simp
  from raw_add [OF this] obtain t where t: "dec_Add (tk_dec k) d0 y = Some t"
    "raw t = dust (tc_store ctx) + raw y" using d0(2) by auto
  have gte: "dec_GTE (tk_dec k) t (LegacyNewDec (tk_dec k) 1) \<longleftrightarrow> prec \<le> raw t"
    by (simp add: raw_gte raw_new)
  note run = SendFundsFromVeranaPool_def P.item_get_Some [OF inv p] y(1) d0(1) t(1) gte
  show ?thesis
  proof (cases "prec \<le> raw t")
    case True
    have "raw t \<le> dec_limit" using t(2) lim by simp
    from transfer_yield_spec [OF inv True this] True p show ?thesis
      by (auto simp: run spec_send_def t(2) Let_def)
  next
    case False
    have small: "\<bar>raw t\<bar> \<le> dec_limit" using t(2) d y(2) lim by simp
    show ?thesis using set_dust [OF inv small] False p
      by (auto simp: run spec_send_def t(2) Let_def)
  qed
qed

lemma sweep_refines:
  "\<exists>ctx'. SendFundsBackToCommunityPool k ctx = (Ret (), ctx') \<and> tc_store ctx' = tc_store ctx \<and>
    bal (tc_bank ctx') =
      spec_sweep (macc VeranaPoolAccount) (macc protocolpool_ModuleName) (bal (tc_bank ctx))"
proof (cases "coins_IsZero (tk_coins k) (GetAllBalances (tk_bank k) (tc_bank ctx) (veranaPoolAddr k))")
  case True
  then have "\<forall>d. bal (tc_bank ctx) (macc VeranaPoolAccount) d = 0"
    by (simp add: is_zero balances veranaPoolAddr_eq)
  with True show ?thesis
    by (intro exI [of _ ctx]) (auto simp: SendFundsBackToCommunityPool_def spec_sweep_def fun_eq_iff)
next
  case False
  obtain b where "SendCoinsFromModuleToModule (tk_bank k) (tc_bank ctx) VeranaPoolAccount
      protocolpool_ModuleName
      (GetAllBalances (tk_bank k) (tc_bank ctx) (macc VeranaPoolAccount)) = Ret b"
    "bal b = spec_sweep (macc VeranaPoolAccount) (macc protocolpool_ModuleName) (bal (tc_bank ctx))"
    using send_all_mm [OF accounts(1,3) distinct_accounts(2)] by (auto simp: spec_sweep_def)
  with False show ?thesis
    by (intro exI [of _ "ctx\<lparr>tc_bank := b\<rparr>"])
      (simp add: SendFundsBackToCommunityPool_def veranaPoolAddr_eq)
qed

theorem begin_blocker_refines:
  assumes "invar (tc_store ctx)" "pval (tc_store ctx) = Some params"
    "perBlockYield (tk_dec k) params = Some y" "0 \<le> raw y"
    "0 \<le> dust (tc_store ctx)" "dust (tc_store ctx) + raw y \<le> dec_limit"
  shows "\<exists>ctx'. BeginBlocker k ctx = (Ret (), ctx') \<and> invar (tc_store ctx') \<and>
    pval (tc_store ctx') = Some params \<and>
    absctx ctx' = spec_block (macc VeranaPoolAccount) (macc td_ModuleName)
      (macc protocolpool_ModuleName) (raw y) (absctx ctx)"
proof -
  from send_funds_refines [OF assms] obtain c1 where
    c1: "SendFundsFromVeranaPool k ctx = (Ret (), c1)" "invar (tc_store c1)"
      "pval (tc_store c1) = Some params"
      "absctx c1 = spec_send (macc VeranaPoolAccount) (macc td_ModuleName) (raw y) (absctx ctx)"
    by blast
  from sweep_refines [of c1] obtain c2 where
    c2: "SendFundsBackToCommunityPool k c1 = (Ret (), c2)" "tc_store c2 = tc_store c1"
      "bal (tc_bank c2) =
        spec_sweep (macc VeranaPoolAccount) (macc protocolpool_ModuleName) (bal (tc_bank c1))"
    by blast
  have "absctx c2 = spec_block (macc VeranaPoolAccount) (macc td_ModuleName)
      (macc protocolpool_ModuleName) (raw y) (absctx ctx)"
    using c2 by (simp add: spec_block_def flip: c1(4))
  with c1 c2 show ?thesis by (simp add: BeginBlocker_def)
qed

text \<open>
  Over a run of blocks that all find enough in the pool, the module receives exactly the accumulated
  yield, up to the dust it keeps.
\<close>

lemma run_blocks_exact:
  assumes "invar (tc_store ctx)" "pval (tc_store ctx) = Some params"
    "perBlockYield (tk_dec k) params = Some y" "0 \<le> raw y" "raw y + prec \<le> dec_limit"
    "0 \<le> dust (tc_store ctx)" "dust (tc_store ctx) < prec"
    and funded: "\<forall>f \<in> set fs. \<forall>b. bal (f b) (macc td_ModuleName) = bal b (macc td_ModuleName) \<and>
      nat ((raw y + prec - 1) div prec) \<le> bal (f b) (macc VeranaPoolAccount) ''uvna''"
  shows "\<exists>ctx'. run_blocks k fs ctx = (Ret (), ctx') \<and>
    0 \<le> dust (tc_store ctx') \<and> dust (tc_store ctx') < prec \<and>
    prec * int (bal (tc_bank ctx') (macc td_ModuleName) ''uvna'') + dust (tc_store ctx') =
    prec * int (bal (tc_bank ctx) (macc td_ModuleName) ''uvna'') + dust (tc_store ctx)
      + int (length fs) * raw y"
  using assms
proof (induction fs arbitrary: ctx)
  case Nil
  then show ?case by simp
next
  case (Cons f fs)
  let ?c = "ctx\<lparr>tc_bank := f (tc_bank ctx)\<rparr>"
  have lim: "dust (tc_store ?c) + raw y \<le> dec_limit" using Cons.prems(5,7) by simp
  from begin_blocker_refines [of ?c, OF _ _ Cons.prems(3,4) _ lim] Cons.prems(1,2,6) obtain c' where
    c': "BeginBlocker k ?c = (Ret (), c')" "invar (tc_store c')" "pval (tc_store c') = Some params"
      "spec_block (macc VeranaPoolAccount) (macc td_ModuleName) (macc protocolpool_ModuleName)
        (raw y) (absctx ?c) = absctx c'" by auto
  have "0 \<le> fst (absctx c') \<and> fst (absctx c') < prec"
    unfolding c'(4) [symmetric] using spec_block_dust_range [OF Cons.prems(6,7,4)] by simp
  then have range: "0 \<le> dust (tc_store c') \<and> dust (tc_store c') < prec" by simp
  have "nat ((dust (tc_store ctx) + raw y) div prec) \<le> nat ((raw y + prec - 1) div prec)"
    using Cons.prems(7) by (intro nat_mono zdiv_mono1) simp_all
  also have "\<dots> \<le> bal (tc_bank ?c) (macc VeranaPoolAccount) ''uvna''" using Cons.prems(8) by simp
  finally have "prec * int (bal (tc_bank c') (macc td_ModuleName) ''uvna'') + dust (tc_store c') =
      prec * int (bal (tc_bank ?c) (macc td_ModuleName) ''uvna'') + dust (tc_store ctx) + raw y"
    using spec_block_exact [OF Cons.prems(6,4) _ distinct_accounts(1) distinct_accounts(3)[symmetric]
        c'(4) [simplified]] by simp
  moreover have "bal (tc_bank ?c) (macc td_ModuleName) = bal (tc_bank ctx) (macc td_ModuleName)"
    using Cons.prems(8) by simp
  moreover from Cons.IH [OF c'(2,3) Cons.prems(3-5)] range Cons.prems(8) obtain c'' where
    "run_blocks k fs c' = (Ret (), c'')" "0 \<le> dust (tc_store c'')" "dust (tc_store c'') < prec"
    "prec * int (bal (tc_bank c'') (macc td_ModuleName) ''uvna'') + dust (tc_store c'') =
      prec * int (bal (tc_bank c') (macc td_ModuleName) ''uvna'') + dust (tc_store c')
      + int (length fs) * raw y" by auto
  ultimately show ?case using c'(1) by (intro exI [of _ c'']) (simp add: algebra_simps)
qed

text \<open>\<open>FundModule\<close>: what it moves, when it panics, and what it does to the parameters.\<close>

lemma fund_module_negative:
  assumes "tk_StringToBytes k (mfm_Creator msg) = Inr a" "sint (mfm_Amount msg) < 0"
  shows "\<exists>e. FundModule k msg ctx = (Panic e, ctx)"
  using assms by (simp add: FundModule_def new_coins_neg)

lemma fund_module_unknown:
  assumes "tk_StringToBytes k (mfm_Creator msg) = Inr a" "\<not> known (mfm_Module msg)"
  shows "\<exists>e. FundModule k msg ctx = (Panic e, ctx)"
proof (cases "NewCoins1 (tk_coins k) ''uvna'' (sint (mfm_Amount msg))")
  case None
  then show ?thesis using assms(1) by (simp add: FundModule_def)
next
  case (Some c)
  let ?a = "case tk_AccAddressFromBech32 k (mfm_Creator msg) of Inl _ \<Rightarrow> [] | Inr a \<Rightarrow> a"
  obtain e where "SendCoinsFromAccountToModule (tk_bank k) (tc_bank ctx) ?a (mfm_Module msg) c = Panic e"
    using send_am_unknown [OF assms(2)] by blast
  then show ?thesis using assms(1) Some by (simp add: FundModule_def)
qed

lemma fund_module_Ret:
  assumes "FundModule k msg ctx = (Ret (), ctx')" "tk_AccAddressFromBech32 k (mfm_Creator msg) = Inr a"
  shows "0 \<le> sint (mfm_Amount msg) \<and> known (mfm_Module msg) \<and>
    nat (sint (mfm_Amount msg)) \<le> bal (tc_bank ctx) a ''uvna'' \<and>
    bal (tc_bank ctx') = move (bal (tc_bank ctx)) a (macc (mfm_Module msg))
      (uvna_only (nat (sint (mfm_Amount msg))))"
proof -
  have "FundModule k msg ctx \<noteq> (Ret (), ctx')" if "sint (mfm_Amount msg) < 0"
    using that by (simp add: FundModule_def new_coins_neg split: sum.split)
  with assms(1) have nonneg: "0 \<le> sint (mfm_Amount msg)" by fastforce
  obtain c where c: "NewCoins1 (tk_coins k) ''uvna'' (sint (mfm_Amount msg)) = Some c"
    "amt c = uvna_only (nat (sint (mfm_Amount msg)))"
    using new_coins [OF nonneg] by (auto simp: uvna_only_def)
  with assms obtain b where b: "SendCoinsFromAccountToModule (tk_bank k) (tc_bank ctx) a (mfm_Module msg) c
      = Ret b" "tc_bank ctx' = b"
    by (auto simp: FundModule_def Let_def split: sum.splits outcome.splits if_splits)
  from send_am [OF b(1)] nonneg show ?thesis by (simp add: c(2) b(2))
qed

lemma fund_module_params:
  assumes "FundModule k msg ctx = (Ret (), ctx')" "invar (tc_store ctx)"
    "pval (tc_store ctx) = Some p"
    "pok (p\<lparr>tp_TrustDepositValue := tp_TrustDepositValue p + mfm_Amount msg\<rparr>)"
  shows "pval (tc_store ctx') = Some (if mfm_Module msg = td_ModuleName
      then p\<lparr>tp_TrustDepositValue := tp_TrustDepositValue p + mfm_Amount msg\<rparr> else p) \<and>
    invar (tc_store ctx') \<and> dust (tc_store ctx') = dust (tc_store ctx)"
proof (cases "mfm_Module msg = td_ModuleName")
  case True
  let ?p = "p\<lparr>tp_TrustDepositValue := tp_TrustDepositValue p + mfm_Amount msg\<rparr>"
  from assms(1,2,3) True have "i_set (tk_Params k) (tc_store ctx) ?p = Inr (tc_store ctx')"
    by (auto simp: FundModule_def Let_def P.item_get_Some
        split: sum.splits option.splits outcome.splits)
  with P.item_set [OF assms(2,4)] params_frame [OF assms(2,4)] True show ?thesis
    by (auto simp: dust_of_def)
next
  case False
  with assms show ?thesis
    by (auto simp: FundModule_def Let_def split: sum.splits option.splits outcome.splits)
qed

end

end
