(* ===== verification/TdModule.thy ===== *)
theory TdModule
  imports TdKeeper
begin

text \<open>
  \<open>x/td/module\<close>: the keeper \<open>ProvideModule\<close> builds, the genesis entry points of the module over a JSON
  codec, and the block hooks. The codec is a pair of parameters, as in \<open>VrModule\<close>.
\<close>

section \<open>Wiring\<close>

definition td_GovModuleName :: string where
  "td_GovModuleName = ''gov''"

text \<open>
  \<open>mk authority\<close> is the keeper over the injected store service, codecs and keepers, \<open>build_err\<close> the
  error of the schema builder.
\<close>

definition td_ProvideModule ::
    "(string \<Rightarrow> bytes) \<Rightarrow> (string \<Rightarrow> bytes) \<Rightarrow> (bytes \<Rightarrow> ('s, 'b, 'c, 'd) TdKeeper) \<Rightarrow> go_error option
     \<Rightarrow> TdModuleConfig \<Rightarrow> ('s, 'b, 'c, 'd) TdKeeper outcome" where
  "td_ProvideModule newModuleAddress newModuleAddressOrBech32 mk build_err config =
     (let authority = newModuleAddress td_GovModuleName;
          authority = (if tmc_Authority config \<noteq> '''' then newModuleAddressOrBech32 (tmc_Authority config)
                       else authority) in
      td_NewKeeper (mk authority) build_err)"

section \<open>Genesis entry points\<close>

definition td_module_DefaultGenesis ::
    "'d dec_ops \<Rightarrow> ('d TdGenesisState \<Rightarrow> go_error + 'j) \<Rightarrow> 'j outcome" where
  "td_module_DefaultGenesis L marshalJSON =
     (case marshalJSON (td_DefaultGenesis L) of Inl err \<Rightarrow> Panic err | Inr bz \<Rightarrow> Ret bz)"

definition td_module_ValidateGenesis ::
    "('j \<Rightarrow> go_error + 'd TdGenesisState) \<Rightarrow> 'j \<Rightarrow> go_error option" where
  "td_module_ValidateGenesis unmarshalJSON bz =
     (case unmarshalJSON bz of
        Inl err \<Rightarrow> Some (Wrapf err ''failed to unmarshal %s genesis state: %w'' [ArgStr td_ModuleName])
      | Inr genState \<Rightarrow> td_Genesis_Validate genState)"

definition td_module_InitGenesis ::
    "('j \<Rightarrow> go_error + 'd TdGenesisState) \<Rightarrow> ('s, 'b, 'c, 'd) TdKeeper \<Rightarrow> 'j \<Rightarrow> ('s, 'b) TdCtx
     \<Rightarrow> unit outcome \<times> ('s, 'b) TdCtx" where
  "td_module_InitGenesis unmarshalJSON k gs ctx =
     (case unmarshalJSON gs of
        Inl err \<Rightarrow> (Panic (Wrapf err ''failed to unmarshal %s genesis state: %w''
                     [ArgStr td_ModuleName]), ctx)
      | Inr genState \<Rightarrow>
     (case td_InitGenesis k genState (tc_store ctx) of
        Inl err \<Rightarrow> (Panic (Wrapf err ''failed to initialize %s genesis state: %w''
                     [ArgStr td_ModuleName]), ctx)
      | Inr s \<Rightarrow> (Ret (), ctx\<lparr>tc_store := s\<rparr>)))"

definition td_module_ExportGenesis ::
    "('d TdGenesisState \<Rightarrow> go_error + 'j) \<Rightarrow> ('s, 'b, 'c, 'd) TdKeeper \<Rightarrow> ('s, 'b) TdCtx \<Rightarrow> 'j outcome" where
  "td_module_ExportGenesis marshalJSON k ctx =
     (case td_ExportGenesis k (tc_store ctx) of
        Inl err \<Rightarrow> Panic (Wrapf err ''failed to export %s genesis state: %w'' [ArgStr td_ModuleName])
      | Inr genState \<Rightarrow>
     (case marshalJSON genState of
        Inl err \<Rightarrow> Panic (Wrapf err ''failed to marshal %s genesis state: %w'' [ArgStr td_ModuleName])
      | Inr bz \<Rightarrow> Ret bz))"

section \<open>Block hooks\<close>

definition td_ConsensusVersion :: u64 where
  "td_ConsensusVersion = 1"

definition td_BeginBlock ::
    "('s, 'b, 'c, 'd) TdKeeper \<Rightarrow> ('s, 'b) TdCtx \<Rightarrow> unit outcome \<times> ('s, 'b) TdCtx" where
  "td_BeginBlock k ctx = BeginBlocker k ctx"

definition td_EndBlock :: "('s, 'b) TdCtx \<Rightarrow> unit outcome \<times> ('s, 'b) TdCtx" where
  "td_EndBlock ctx = (Ret (), ctx)"

section \<open>Genesis through the module\<close>

lemma td_InitGenesis_store:
  assumes "item_store (tk_Params k) invar pval pok" "invar s" "pok (tgs_Params g)"
  obtains s' where "td_InitGenesis k g s = Inr s'" "invar s'" "td_ExportGenesis k s' = Inr g"
proof -
  from item_store.item_set [OF assms] obtain s' where
    s': "i_set (tk_Params k) s (tgs_Params g) = Inr s'" "invar s'" by blast
  moreover obtain s'' where "i_set (tk_Params k) s (tgs_Params g) = Inr s''"
    "i_get (tk_Params k) s'' = Inr (tgs_Params g)" using item_store.item_setE [OF assms] by blast
  ultimately show ?thesis
    by (intro that [of s']) (simp_all add: td_InitGenesis_def td_ExportGenesis_def td_DefaultGenesis_def)
qed

text \<open>Module export right after module import gives the JSON back when the codec inverts itself.\<close>

lemma td_module_genesis:
  assumes "item_store (tk_Params k) invar pval pok" "invar (tc_store ctx)"
    "unmarshalJSON bz = Inr g" "marshalJSON g = Inr bz" "pok (tgs_Params g)"
  shows "\<exists>ctx'. td_module_InitGenesis unmarshalJSON k bz ctx = (Ret (), ctx') \<and>
    tc_bank ctx' = tc_bank ctx \<and> td_module_ExportGenesis marshalJSON k ctx' = Ret bz"
proof -
  obtain s where "td_InitGenesis k g (tc_store ctx) = Inr s" "td_ExportGenesis k s = Inr g"
    using td_InitGenesis_store [OF assms(1,2,5)] by blast
  then show ?thesis
    using assms(3,4) by (simp add: td_module_InitGenesis_def td_module_ExportGenesis_def)
qed

end
