(* ===== verification/TdRun.thy ===== *)
theory TdRun
  imports TdSpec TdModule
begin

text \<open>
  The life of the trust deposit module on a chain, as a step relation: its begin blocker, its two
  messages, and whatever the rest of the chain does to the bank, in any order. The run goes on only
  after a begin blocker that succeeds (an error of a begin blocker stops the chain); a message that
  fails is rolled back with its transaction. The facts: in every state a run reaches the begin blocker
  succeeds, and without \<open>UpdateParams\<close> the part of the deposit value that the coins of the module's
  account do not cover never grows.
\<close>

section \<open>Steps and runs\<close>

datatype 'd td_msg = FundMsg MsgFundModule | TdUpdateMsg "'d TdMsgUpdateParams"

fun td_handle :: "('s, 'b, 'c, 'd) TdKeeper \<Rightarrow> 'd td_msg \<Rightarrow> ('s, 'b) TdCtx
    \<Rightarrow> unit outcome \<times> ('s, 'b) TdCtx" where
  "td_handle k (FundMsg msg) ctx = FundModule k msg ctx"
| "td_handle k (TdUpdateMsg req) ctx = td_UpdateParams k req ctx"

inductive td_step :: "('s, 'b, 'c, 'd) TdKeeper \<Rightarrow> (('s, 'b) TdCtx \<Rightarrow> 'd td_msg \<Rightarrow> bool)
    \<Rightarrow> ('b \<Rightarrow> 'b \<Rightarrow> bool) \<Rightarrow> ('s, 'b) TdCtx \<Rightarrow> ('s, 'b) TdCtx \<Rightarrow> bool"
  for k adm others where
  begin_block: "td_BeginBlock k ctx = (Ret (), ctx') \<Longrightarrow> td_step k adm others ctx ctx'"
| delivered: "adm ctx msg \<Longrightarrow> td_handle k msg ctx = (Ret (), ctx') \<Longrightarrow> td_step k adm others ctx ctx'"
| failed: "td_handle k msg ctx = (r, ctx') \<Longrightarrow> r \<noteq> Ret () \<Longrightarrow> td_step k adm others ctx ctx"
| elsewhere: "others (tc_bank ctx) b \<Longrightarrow> td_step k adm others ctx (ctx\<lparr>tc_bank := b\<rparr>)"

inductive td_run :: "('s, 'b, 'c, 'd) TdKeeper \<Rightarrow> (('s, 'b) TdCtx \<Rightarrow> 'd td_msg \<Rightarrow> bool)
    \<Rightarrow> ('b \<Rightarrow> 'b \<Rightarrow> bool) \<Rightarrow> ('s, 'b) TdCtx \<Rightarrow> ('s, 'b) TdCtx \<Rightarrow> bool"
  for k adm others where
  start: "td_run k adm others ctx ctx"
| step: "td_run k adm others ctx c \<Longrightarrow> td_step k adm others c c' \<Longrightarrow> td_run k adm others ctx c'"

inductive_cases td_stepE: "td_step k adm others ctx ctx'"

section \<open>The supply bound\<close>

text \<open>
  No set of accounts holds \<open>2^62\<close> units of \<open>uvna\<close> together: the amounts of the messages are signed
  64-bit integers, so this leaves one bit for a deposit value that is not covered by coins. Transfers
  keep the bound.
\<close>

definition capped :: "ledger \<Rightarrow> bool" where
  "capped bl \<longleftrightarrow> (\<forall>A. finite A \<longrightarrow> (\<Sum>a\<in>A. bl a ''uvna'') < 2 ^ 62)"

lemma capped_account: "capped bl \<Longrightarrow> bl a ''uvna'' < 2 ^ 62"
  unfolding capped_def by (drule spec [of _ "{a}"]) simp

lemma capped_move:
  assumes "capped bl" "c ''uvna'' \<le> bl src ''uvna''"
  shows "capped (move bl src dst c)"
  unfolding capped_def
proof (intro allI impI)
  fix A :: "bytes set" assume A: "finite A"
  let ?A = "insert src (insert dst A)"
  have "(\<Sum>a\<in>A. move bl src dst c a ''uvna'') \<le> (\<Sum>a\<in>?A. move bl src dst c a ''uvna'')"
    using A by (intro sum_mono2) auto
  also have "\<dots> = (\<Sum>a\<in>?A. bl a ''uvna'')"
    using A assms(2) by (intro move_total) auto
  also have "\<dots> < 2 ^ 62" using assms(1) A by (simp add: capped_def)
  finally show "(\<Sum>a\<in>A. move bl src dst c a ''uvna'') < 2 ^ 62" .
qed

lemma spec_sweep_move:
  assumes "pool \<noteq> cp"
  shows "spec_sweep pool cp bl = move bl pool cp (bl pool)"
  using assms by (intro ext) (simp add: spec_sweep_def move_def)

lemma spec_send_capped: "capped bl \<Longrightarrow> capped (snd (spec_send pool td y (d, bl)))"
  by (auto simp: spec_send_def Let_def uvna_only_def intro!: capped_move)

lemma spec_block_capped:
  "capped bl \<Longrightarrow> pool \<noteq> cp \<Longrightarrow> capped (snd (spec_block pool td cp y (d, bl)))"
  using spec_send_capped [of bl pool td y d]
  by (simp add: spec_block_def case_prod_beta spec_sweep_move capped_move)

text \<open>What the module holds, in units of \<open>10^-18\<close>: its coins and the dust. A block never takes from it.\<close>

definition holdings :: "bytes \<Rightarrow> int \<times> ledger \<Rightarrow> int" where
  "holdings td st = prec * int (snd st td ''uvna'') + fst st"

lemma spec_block_holdings:
  assumes "0 \<le> d" "0 \<le> y" "pool \<noteq> td" "cp \<noteq> td"
  shows "holdings td (d, bl) \<le> holdings td (spec_block pool td cp y (d, bl)) \<and>
    bl td ''uvna'' \<le> snd (spec_block pool td cp y (d, bl)) td ''uvna''"
proof -
  obtain d' bl' where blk: "spec_block pool td cp y (d, bl) = (d', bl')" by fastforce
  have le: "bl td ''uvna'' \<le> bl' td ''uvna''"
    using blk assms by (auto simp: spec_block_def spec_send_def spec_sweep_def move_def Let_def
        split: if_splits)
  show ?thesis
  proof (cases "bl pool ''uvna'' < nat ((d + y) div prec)")
    case True
    then have "\<not> d + y < prec" using assms(1,2) by (auto simp: div_pos_pos_trivial)
    with spec_block_skip [where d = d and y = y and bl = bl and pool = pool and td = td and cp = cp]
      True assms(3,4) show ?thesis by (auto simp: holdings_def spec_sweep_def)
  next
    case False
    then have "prec * int (bl' td ''uvna'') + d' = prec * int (bl td ''uvna'') + d + y"
      using spec_block_exact [OF assms(1,2) _ assms(3,4) blk] by simp
    with le blk assms(2) show ?thesis by (simp add: holdings_def)
  qed
qed

section \<open>Safe states\<close>

text \<open>
  Parameters the begin blocker can run with: a rate between zero and \<open>2^120\<close> units of \<open>10^-18\<close> and a
  deposit value that exceeds \<open>n\<close> coins by at most \<open>2^62\<close> units. \<open>pok\<close> says that the store can hold them,
  whatever the deposit value.
\<close>

definition rate_limit :: int where
  "rate_limit = 2 ^ 120"

definition excess_limit :: int where
  "excess_limit = 2 ^ 62"

definition runnable_params :: "('d \<Rightarrow> int) \<Rightarrow> ('d TdParams \<Rightarrow> bool) \<Rightarrow> nat \<Rightarrow> 'd TdParams \<Rightarrow> bool" where
  "runnable_params raw pok n p \<longleftrightarrow>
     0 \<le> raw (tp_TrustDepositYieldRate p) \<and> raw (tp_TrustDepositYieldRate p) \<le> rate_limit \<and>
     0 \<le> sint (tp_TrustDepositValue p) \<and> sint (tp_TrustDepositValue p) \<le> int n + excess_limit \<and>
     (\<forall>v. pok (p\<lparr>tp_TrustDepositValue := v\<rparr>))"

definition td_safe :: "('d \<Rightarrow> int) \<Rightarrow> ('b \<Rightarrow> ledger) \<Rightarrow> (string \<Rightarrow> bytes) \<Rightarrow> ('s \<Rightarrow> bool)
    \<Rightarrow> ('s \<Rightarrow> 'd TdParams option) \<Rightarrow> ('d TdParams \<Rightarrow> bool) \<Rightarrow> ('s \<Rightarrow> 'd DustAmount option)
    \<Rightarrow> ('s, 'b) TdCtx \<Rightarrow> bool" where
  "td_safe raw bal macc invar pval pok dval ctx \<longleftrightarrow>
     invar (tc_store ctx) \<and> 0 \<le> dust_of raw dval (tc_store ctx) \<and>
     dust_of raw dval (tc_store ctx) < prec \<and> capped (bal (tc_bank ctx)) \<and>
     (\<exists>p. pval (tc_store ctx) = Some p \<and>
       runnable_params raw pok (bal (tc_bank ctx) (macc td_ModuleName) ''uvna'') p)"

text \<open>
  The messages of a run: \<open>FundModule\<close> is signed by an account other than the module's own, and
  \<open>UpdateParams\<close> sets a rate and a deposit value within the limits (a value up to \<open>2^62\<close>). The code
  does not check the latter, and a larger rate can stop the chain (\<open>TdProps\<close>).
\<close>

definition td_admissible :: "('s, 'b, 'c, 'd) TdKeeper \<Rightarrow> ('d \<Rightarrow> int) \<Rightarrow> ('b \<Rightarrow> ledger)
    \<Rightarrow> (string \<Rightarrow> bytes) \<Rightarrow> ('d TdParams \<Rightarrow> bool) \<Rightarrow> ('s, 'b) TdCtx \<Rightarrow> 'd td_msg \<Rightarrow> bool" where
  "td_admissible k raw bal macc pok ctx msg = (case msg of
     FundMsg m \<Rightarrow> (case tk_AccAddressFromBech32 k (mfm_Creator m) of
        Inl _ \<Rightarrow> False | Inr a \<Rightarrow> a \<noteq> macc td_ModuleName)
   | TdUpdateMsg req \<Rightarrow>
       runnable_params raw pok 0 (tmup_Params req))"

text \<open>The same without \<open>UpdateParams\<close>.\<close>

definition funding_only :: "('s, 'b, 'c, 'd) TdKeeper \<Rightarrow> (string \<Rightarrow> bytes) \<Rightarrow> ('s, 'b) TdCtx
    \<Rightarrow> 'd td_msg \<Rightarrow> bool" where
  "funding_only k macc ctx msg = (case msg of
     FundMsg m \<Rightarrow> (case tk_AccAddressFromBech32 k (mfm_Creator m) of
        Inl _ \<Rightarrow> False | Inr a \<Rightarrow> a \<noteq> macc td_ModuleName)
   | TdUpdateMsg req \<Rightarrow> False)"

lemma funding_admissible:
  "funding_only k macc ctx msg \<Longrightarrow> td_admissible k raw bal macc pok ctx msg \<and> (\<exists>m. msg = FundMsg m)"
  by (cases msg) (simp_all add: funding_only_def td_admissible_def)

text \<open>By how much the deposit value exceeds the coins of the module.\<close>

definition uncovered :: "('b \<Rightarrow> ledger) \<Rightarrow> (string \<Rightarrow> bytes) \<Rightarrow> ('s \<Rightarrow> 'd TdParams option)
    \<Rightarrow> ('s, 'b) TdCtx \<Rightarrow> int" where
  "uncovered bal macc pval ctx = (case pval (tc_store ctx) of
     None \<Rightarrow> 0
   | Some p \<Rightarrow> sint (tp_TrustDepositValue p) - int (bal (tc_bank ctx) (macc td_ModuleName) ''uvna''))"

text \<open>The rest of the chain does not debit the module's account and stays within the supply bound.\<close>

definition spares_module :: "('b \<Rightarrow> ledger) \<Rightarrow> (string \<Rightarrow> bytes) \<Rightarrow> 'b \<Rightarrow> 'b \<Rightarrow> bool" where
  "spares_module bal macc b b' \<longleftrightarrow>
     bal b (macc td_ModuleName) ''uvna'' \<le> bal b' (macc td_ModuleName) ''uvna'' \<and> capped (bal b')"

section \<open>Every step keeps a safe state safe\<close>

context trust_deposit
begin

abbreviation safe :: "('s, 'b) TdCtx \<Rightarrow> bool" where
  "safe \<equiv> td_safe raw bal macc invar pval pok dval"

abbreviation held :: "('s, 'b) TdCtx \<Rightarrow> int" where
  "held ctx \<equiv> holdings (macc td_ModuleName) (absctx ctx)"

text \<open>The yield such parameters give fits the decimal, with room for the dust.\<close>

lemma runnable_yield:
  assumes "runnable_params raw pok n p" "n < 2 ^ 62"
  shows "\<exists>y. perBlockYield (tk_dec k) p = Some y \<and> 0 \<le> raw y \<and> raw y + prec \<le> dec_limit"
proof -
  let ?v = "sint (tp_TrustDepositValue p)" and ?r = "raw (tp_TrustDepositYieldRate p)"
  from assms have v: "0 \<le> ?v" "?v \<le> 2 ^ 63" and r: "0 \<le> ?r" "?r \<le> 2 ^ 120"
    by (auto simp: runnable_params_def rate_limit_def excess_limit_def)
  have vr: "0 \<le> ?v * ?r" "?v * ?r \<le> 2 ^ 63 * 2 ^ 120"
    using v r by (simp, intro mult_mono) simp_all
  have "\<bar>?v * prec * ?r\<bar> = prec * (?v * ?r)" using v(1) r(1) by (simp add: abs_mult prec_def)
  also have "\<dots> \<le> prec * (2 ^ 63 * 2 ^ 120)" using vr(2) by (intro mult_left_mono) (simp_all add: prec_def)
  also have "\<dots> \<le> dec_limit" by (simp add: prec_def dec_limit_def)
  finally have "\<bar>?v * prec * ?r\<bar> \<le> dec_limit" .
  from per_block_yield [OF this] vr(1) obtain y where y: "perBlockYield (tk_dec k) p = Some y"
    "\<bar>raw y * blocksPerYear - ?v * ?r\<bar> \<le> blocksPerYear" "0 \<le> raw y" by blast
  have "raw y * blocksPerYear \<le> 2 ^ 63 * 2 ^ 120 + blocksPerYear" using y(2) vr(2) by linarith
  moreover have "raw y \<le> raw y * blocksPerYear" using y(3) by (simp add: blocksPerYear_def)
  moreover have "2 ^ 63 * 2 ^ 120 + blocksPerYear + prec \<le> dec_limit"
    by (simp add: blocksPerYear_def prec_def dec_limit_def)
  ultimately show ?thesis using y(1,3) by (intro exI [of _ y]) simp
qed

text \<open>Importing a genesis state with such parameters into a store without dust is a safe start.\<close>

lemma genesis_safe:
  assumes "invar s" "dval s = None" "td_InitGenesis k g s = Inr s'" "capped (bal b)"
    "runnable_params raw pok (bal b (macc td_ModuleName) ''uvna'') (tgs_Params g)"
  shows "safe \<lparr>tc_store = s', tc_bank = b\<rparr>"
proof -
  from assms(5) have "pok ((tgs_Params g)\<lparr>tp_TrustDepositValue := tp_TrustDepositValue (tgs_Params g)\<rparr>)"
    by (simp only: runnable_params_def)
  then have ok: "pok (tgs_Params g)" by simp
  from assms(3) have i: "i_set (tk_Params k) s (tgs_Params g) = Inr s'" by (simp add: td_InitGenesis_def)
  from P.item_set [OF assms(1) ok] i params_frame [OF assms(1) ok i] assms(2,4,5) show ?thesis
    by (auto simp: td_safe_def dust_of_def prec_def)
qed

lemma runnable_mono: "runnable_params raw pok n p \<Longrightarrow> n \<le> n' \<Longrightarrow> runnable_params raw pok n' p"
  by (auto simp: runnable_params_def)

lemma begin_block_safe:
  assumes "safe ctx"
  shows "\<exists>ctx'. td_BeginBlock k ctx = (Ret (), ctx') \<and> safe ctx' \<and> held ctx \<le> held ctx' \<and>
    uncovered bal macc pval ctx' \<le> uncovered bal macc pval ctx"
proof -
  let ?pool = "macc VeranaPoolAccount" and ?td = "macc td_ModuleName"
    and ?cp = "macc protocolpool_ModuleName"
  from assms obtain p where s: "invar (tc_store ctx)" "0 \<le> dust (tc_store ctx)"
    "dust (tc_store ctx) < prec" "capped (bal (tc_bank ctx))" "pval (tc_store ctx) = Some p"
    "runnable_params raw pok (bal (tc_bank ctx) ?td ''uvna'') p" by (auto simp: td_safe_def)
  from runnable_yield [OF s(6) capped_account [OF s(4)]] obtain y where
    y: "perBlockYield (tk_dec k) p = Some y" "0 \<le> raw y" "raw y + prec \<le> dec_limit" by blast
  have "dust (tc_store ctx) + raw y \<le> dec_limit" using s(3) y(3) by simp
  from begin_blocker_refines [OF s(1,5) y(1,2) s(2) this] obtain ctx' where
    c: "BeginBlocker k ctx = (Ret (), ctx')" "invar (tc_store ctx')" "pval (tc_store ctx') = Some p"
      "absctx ctx' = spec_block ?pool ?td ?cp (raw y) (absctx ctx)" by blast
  have rng: "0 \<le> dust (tc_store ctx') \<and> dust (tc_store ctx') < prec"
    using spec_block_dust_range [OF s(2,3) y(2), of ?pool ?td ?cp "bal (tc_bank ctx)"]
    by (simp flip: c(4))
  have cap: "capped (bal (tc_bank ctx'))"
    using spec_block_capped [OF s(4) distinct_accounts(2), of ?td "raw y" "dust (tc_store ctx)"]
    by (simp flip: c(4))
  have h: "held ctx \<le> held ctx' \<and> bal (tc_bank ctx) ?td ''uvna'' \<le> bal (tc_bank ctx') ?td ''uvna''"
    using spec_block_holdings [OF s(2) y(2) distinct_accounts(1) distinct_accounts(3)[symmetric],
        of "bal (tc_bank ctx)"] by (simp flip: c(4))
  from c rng cap h runnable_mono [OF s(6)] s(5) show ?thesis
    by (auto simp: td_BeginBlock_def td_safe_def uncovered_def)
qed

lemma fund_safe:
  assumes "safe ctx" "td_admissible k raw bal macc pok ctx (FundMsg m)"
    and f: "FundModule k m ctx = (Ret (), ctx')"
  shows "safe ctx' \<and> held ctx \<le> held ctx' \<and> uncovered bal macc pval ctx' \<le> uncovered bal macc pval ctx"
proof -
  let ?td = "macc td_ModuleName" and ?n = "sint (mfm_Amount m)"
  from assms(1) obtain p where s: "invar (tc_store ctx)" "0 \<le> dust (tc_store ctx)"
    "dust (tc_store ctx) < prec" "capped (bal (tc_bank ctx))" "pval (tc_store ctx) = Some p"
    "runnable_params raw pok (bal (tc_bank ctx) ?td ''uvna'') p" by (auto simp: td_safe_def)
  from assms(2) obtain a where a: "tk_AccAddressFromBech32 k (mfm_Creator m) = Inr a" "a \<noteq> ?td"
    by (auto simp: td_admissible_def split: sum.splits)
  note mv = fund_module_Ret [OF f a(1)]
  then have cap: "capped (bal (tc_bank ctx'))" by (auto simp: uvna_only_def intro!: capped_move s(4))
  have ok: "pok (p\<lparr>tp_TrustDepositValue := v\<rparr>)" for v using s(6) by (simp add: runnable_params_def)
  note par = fund_module_params [OF f s(1,5) ok]
  have bl: "bal (tc_bank ctx') ?td ''uvna'' = bal (tc_bank ctx) ?td ''uvna''
      + (if macc (mfm_Module m) = ?td then nat ?n else 0)"
    using mv a(2) by (simp add: move_def uvna_only_def)
  let ?p = "if mfm_Module m = td_ModuleName
      then p\<lparr>tp_TrustDepositValue := tp_TrustDepositValue p + mfm_Amount m\<rparr> else p"
  have v: "sint (tp_TrustDepositValue ?p) = sint (tp_TrustDepositValue p) + (if mfm_Module m = td_ModuleName then ?n else 0)"
  proof (cases "mfm_Module m = td_ModuleName")
    case True
    have "sint (tp_TrustDepositValue p) + ?n \<le> int (bal (tc_bank ctx') ?td ''uvna'') + excess_limit"
      "0 \<le> sint (tp_TrustDepositValue p) + ?n"
      using s(6) mv bl True by (auto simp: runnable_params_def)
    moreover from this have "sint (tp_TrustDepositValue p) + ?n < 2 ^ 63"
      using capped_account [OF cap, of ?td] by (simp add: excess_limit_def)
    ultimately show ?thesis using True by (simp add: sint_word_ariths signed_take_bit_int_eq_self)
  qed simp
  have "runnable_params raw pok (bal (tc_bank ctx') ?td ''uvna'') ?p"
    using s(6) mv bl v unfolding runnable_params_def by (auto split: if_splits)
  moreover have "uncovered bal macc pval ctx' \<le> uncovered bal macc pval ctx"
    using par s(5) bl v mv by (auto simp: uncovered_def)
  ultimately show ?thesis using par s cap bl by (auto simp: td_safe_def holdings_def prec_def)
qed

lemma update_safe:
  assumes "safe ctx" "td_admissible k raw bal macc pok ctx (TdUpdateMsg req)"
    and u: "td_UpdateParams k req ctx = (Ret (), ctx')"
  shows "safe ctx' \<and> held ctx \<le> held ctx'"
proof -
  let ?n = "bal (tc_bank ctx) (macc td_ModuleName) ''uvna''"
  from assms(2) have b: "runnable_params raw pok ?n (tmup_Params req)"
    by (auto simp: td_admissible_def intro: runnable_mono)
  then have "pok ((tmup_Params req)\<lparr>tp_TrustDepositValue := tp_TrustDepositValue (tmup_Params req)\<rparr>)"
    by (simp only: runnable_params_def)
  then have ok: "pok (tmup_Params req)" by simp
  from u have c: "i_set (tk_Params k) (tc_store ctx) (tmup_Params req) = Inr (tc_store ctx')"
    "tc_bank ctx' = tc_bank ctx"
    by (auto simp: td_UpdateParams_def Let_def split: sum.splits option.splits if_splits)
  from assms(1) have inv: "invar (tc_store ctx)" by (simp add: td_safe_def)
  from P.item_set [OF inv ok] c(1) params_frame [OF inv ok c(1)] c(2) b assms(1) show ?thesis
    by (auto simp: td_safe_def dust_of_def)
qed

lemma step_safe:
  assumes "td_step k (td_admissible k raw bal macc pok) (spares_module bal macc) ctx ctx'" "safe ctx"
  shows "safe ctx' \<and> held ctx \<le> held ctx'"
  using assms(1)
proof (rule td_stepE)
  assume "td_BeginBlock k ctx = (Ret (), ctx')"
  with begin_block_safe [OF assms(2)] show ?thesis by auto
next
  fix msg
  assume "td_admissible k raw bal macc pok ctx msg" "td_handle k msg ctx = (Ret (), ctx')"
  then show ?thesis using fund_safe [OF assms(2)] update_safe [OF assms(2)] by (cases msg) auto
next
  fix b
  assume "ctx' = ctx\<lparr>tc_bank := b\<rparr>" "spares_module bal macc (tc_bank ctx) b"
  with assms(2) show ?thesis
    by (auto simp: td_safe_def spares_module_def holdings_def prec_def intro: runnable_mono)
qed (use assms(2) in simp)

lemma run_safe:
  assumes "td_run k (td_admissible k raw bal macc pok) (spares_module bal macc) ctx ctx'" "safe ctx"
  shows "safe ctx' \<and> held ctx \<le> held ctx'"
  using assms
proof (induction rule: td_run.induct)
  case (step ctx c c')
  then show ?case using step_safe [OF step.hyps(2)] by auto
qed simp

text \<open>Without \<open>UpdateParams\<close> the uncovered part of the deposit value never grows.\<close>

lemma step_uncovered:
  assumes "td_step k (funding_only k macc) (spares_module bal macc) ctx ctx'" "safe ctx"
  shows "safe ctx' \<and> held ctx \<le> held ctx' \<and> uncovered bal macc pval ctx' \<le> uncovered bal macc pval ctx"
  using assms(1)
proof (rule td_stepE)
  assume "td_BeginBlock k ctx = (Ret (), ctx')"
  with begin_block_safe [OF assms(2)] show ?thesis by auto
next
  fix msg
  assume "funding_only k macc ctx msg" "td_handle k msg ctx = (Ret (), ctx')"
  then show ?thesis using fund_safe [OF assms(2)] funding_admissible by fastforce
next
  fix b
  assume b: "ctx' = ctx\<lparr>tc_bank := b\<rparr>" "spares_module bal macc (tc_bank ctx) b"
  have "safe ctx' \<and> held ctx \<le> held ctx'"
    using step_safe [OF td_step.elsewhere [where ctx = ctx and b = b and others = "spares_module bal macc", OF b(2)] assms(2)] b(1) by simp
  moreover have "uncovered bal macc pval ctx' \<le> uncovered bal macc pval ctx"
    using b by (auto simp: uncovered_def spares_module_def split: option.split)
  ultimately show ?thesis by blast
qed (use assms(2) in simp)

lemma run_uncovered:
  assumes "td_run k (funding_only k macc) (spares_module bal macc) ctx ctx'" "safe ctx"
  shows "safe ctx' \<and> held ctx \<le> held ctx' \<and> uncovered bal macc pval ctx' \<le> uncovered bal macc pval ctx"
  using assms
proof (induction rule: td_run.induct)
  case (step ctx c c')
  then show ?case using step_uncovered [OF step.hyps(2)] by auto
qed simp

end

end
