(* ===== verification/TdPb.thy ===== *)
theory TdPb
  imports TdTypes CodecLaws
begin

text \<open>
  The codecs of the messages of \<open>x/td/types\<close>, in the layout of the registry's: \<open>Size\<close>,
  \<open>MarshalToSizedBuffer\<close>, \<open>Marshal\<close>, \<open>MarshalTo\<close>, the switch of \<open>Unmarshal\<close>, \<open>Unmarshal\<close>, the zero
  value, and the encoding as a function. The decimal fields have the custom type \<open>LegacyDec\<close> of the
  SDK, whose codec is the parameter \<open>D\<close>; the messages that contain decimals are proved inside the
  locale of its contract, the others are closed. \<open>int64\<close> fields are written as their 64-bit word.
\<close>

section \<open>\<open>Params\<close>\<close>

definition TdParams_MarshalToSizedBuffer ::
    "'d dec_codec \<Rightarrow> 'd TdParams \<Rightarrow> bytes \<Rightarrow> (bytes \<times> nat) outcome" where
  "TdParams_MarshalToSizedBuffer D m = marshal_steps
     [put_custom 0x1a (dc_Size D (tp_TrustDepositYieldRate m)) (dc_MarshalTo D (tp_TrustDepositYieldRate m)),
      put_uint_field 0x10 (tp_TrustDepositValue m),
      put_custom 0x0a (dc_Size D (tp_TrustDepositShareValue m)) (dc_MarshalTo D (tp_TrustDepositShareValue m))]"

definition TdParams_Size :: "'d dec_codec \<Rightarrow> 'd TdParams \<Rightarrow> nat" where
  "TdParams_Size D m =
     len_size (dc_Size D (tp_TrustDepositShareValue m)) +
     uint_size (tp_TrustDepositValue m) +
     len_size (dc_Size D (tp_TrustDepositYieldRate m))"

definition TdParams_Marshal ::
    "'d dec_codec \<Rightarrow> 'd TdParams \<Rightarrow> bytes outcome" where
  "TdParams_Marshal D = pb_Marshal (TdParams_Size D) (TdParams_MarshalToSizedBuffer D)"

definition TdParams_MarshalTo ::
    "'d dec_codec \<Rightarrow> 'd TdParams \<Rightarrow> bytes \<Rightarrow> (bytes \<times> nat) outcome" where
  "TdParams_MarshalTo D = pb_MarshalTo (TdParams_Size D) (TdParams_MarshalToSizedBuffer D)"

definition TdParams_zero :: "'d dec_codec \<Rightarrow> 'd TdParams" where
  "TdParams_zero D =
     \<lparr>tp_TrustDepositShareValue = dc_zero D, tp_TrustDepositValue = 0, tp_TrustDepositYieldRate = dc_zero D\<rparr>"

definition TdParams_fields ::
    "'d dec_codec \<Rightarrow> (int \<times> 'd TdParams field) list" where
  "TdParams_fields D =
     [(1, MessageField ''TrustDepositShareValue'' (dc_Unmarshal D) tp_TrustDepositShareValue (\<lambda>x m. m\<lparr>tp_TrustDepositShareValue := x\<rparr>)),
      (2, VarintField ''TrustDepositValue'' (\<lambda>v m. m\<lparr>tp_TrustDepositValue := v\<rparr>)),
      (3, MessageField ''TrustDepositYieldRate'' (dc_Unmarshal D) tp_TrustDepositYieldRate (\<lambda>x m. m\<lparr>tp_TrustDepositYieldRate := x\<rparr>))]"

definition TdParams_Unmarshal ::
    "'d dec_codec \<Rightarrow> bytes \<Rightarrow> 'd TdParams \<Rightarrow> go_error + ('d TdParams)" where
  "TdParams_Unmarshal D = pb_Unmarshal ''Params'' (TdParams_fields D)"

definition TdParams_enc ::
    "('d \<Rightarrow> bytes) \<Rightarrow> 'd TdParams \<Rightarrow> bytes" where
  "TdParams_enc enc m =
     len_enc 0x0a (enc (tp_TrustDepositShareValue m)) @
     uint_enc 0x10 (tp_TrustDepositValue m) @
     len_enc 0x1a (enc (tp_TrustDepositYieldRate m))"

lemma TdParams_lookup:
  "map_of (TdParams_fields D) 1 =
     Some (MessageField ''TrustDepositShareValue'' (dc_Unmarshal D) tp_TrustDepositShareValue (\<lambda>x m. m\<lparr>tp_TrustDepositShareValue := x\<rparr>))"
  "map_of (TdParams_fields D) 2 =
     Some (VarintField ''TrustDepositValue'' (\<lambda>v m. m\<lparr>tp_TrustDepositValue := v\<rparr>))"
  "map_of (TdParams_fields D) 3 =
     Some (MessageField ''TrustDepositYieldRate'' (dc_Unmarshal D) tp_TrustDepositYieldRate (\<lambda>x m. m\<lparr>tp_TrustDepositYieldRate := x\<rparr>))"
  by (simp_all add: TdParams_fields_def)

sublocale dec_codec_laws \<subseteq> td_params_pb: pb_message "''Params''" "TdParams_fields D"
  "TdParams_Size D" "TdParams_MarshalToSizedBuffer D" "TdParams_enc enc"
  "TdParams_zero D" "\<lambda>m. valid (tp_TrustDepositShareValue m) \<and> valid (tp_TrustDepositYieldRate m)"
proof
  fix m :: "'d TdParams"
  assume v: "valid (tp_TrustDepositShareValue m) \<and> valid (tp_TrustDepositYieldRate m)"
  show "TdParams_Size D m = length (TdParams_enc enc m)"
    using v by (simp add: TdParams_Size_def TdParams_enc_def length_enc dec_size)
  show "fills (TdParams_MarshalToSizedBuffer D m) (TdParams_enc enc m)"
    unfolding TdParams_MarshalToSizedBuffer_def
    by (rule fills_marshal_steps, rule emits_to,
        (rule emits_intros emits_dec
          | (use v in \<open>simp; fail\<close>))+)
      (simp add: TdParams_enc_def)
  show "decodes ''Params'' (TdParams_fields D) (TdParams_enc enc m) (TdParams_zero D) m"
    unfolding TdParams_enc_def
    by (rule decodes_to, (rule decodes_intros TdParams_lookup
          decodes_message_field [where x = "tp_TrustDepositShareValue m"]
          decodes_message_field [where x = "tp_TrustDepositYieldRate m"]
        | (use v in \<open>simp add: TdParams_zero_def dec_unmarshal; fail\<close>))+)
qed

context dec_codec_laws
begin

lemma TdParams_Unmarshal_enc:
  "valid (tp_TrustDepositShareValue m) \<Longrightarrow> valid (tp_TrustDepositYieldRate m) \<Longrightarrow>
   length (TdParams_enc enc m) < 2 ^ 63 \<Longrightarrow>
   TdParams_Unmarshal D (TdParams_enc enc m) (TdParams_zero D) = Inr m"
  using td_params_pb.unmarshal_enc [of m] by (simp add: TdParams_Unmarshal_def)

lemmas TdParams_pb = td_params_pb.pb_message_axioms

end

section \<open>\<open>DustAmount\<close>\<close>

definition DustAmount_MarshalToSizedBuffer ::
    "'d dec_codec \<Rightarrow> 'd DustAmount \<Rightarrow> bytes \<Rightarrow> (bytes \<times> nat) outcome" where
  "DustAmount_MarshalToSizedBuffer D m = marshal_steps
     [put_custom 0x0a (dc_Size D (da_Dust m)) (dc_MarshalTo D (da_Dust m))]"

definition DustAmount_Size :: "'d dec_codec \<Rightarrow> 'd DustAmount \<Rightarrow> nat" where
  "DustAmount_Size D m =
     len_size (dc_Size D (da_Dust m))"

definition DustAmount_Marshal ::
    "'d dec_codec \<Rightarrow> 'd DustAmount \<Rightarrow> bytes outcome" where
  "DustAmount_Marshal D = pb_Marshal (DustAmount_Size D) (DustAmount_MarshalToSizedBuffer D)"

definition DustAmount_MarshalTo ::
    "'d dec_codec \<Rightarrow> 'd DustAmount \<Rightarrow> bytes \<Rightarrow> (bytes \<times> nat) outcome" where
  "DustAmount_MarshalTo D = pb_MarshalTo (DustAmount_Size D) (DustAmount_MarshalToSizedBuffer D)"

definition DustAmount_zero :: "'d dec_codec \<Rightarrow> 'd DustAmount" where
  "DustAmount_zero D = \<lparr>da_Dust = dc_zero D\<rparr>"

definition DustAmount_fields ::
    "'d dec_codec \<Rightarrow> (int \<times> 'd DustAmount field) list" where
  "DustAmount_fields D =
     [(1, MessageField ''Dust'' (dc_Unmarshal D) da_Dust (\<lambda>x m. m\<lparr>da_Dust := x\<rparr>))]"

definition DustAmount_Unmarshal ::
    "'d dec_codec \<Rightarrow> bytes \<Rightarrow> 'd DustAmount \<Rightarrow> go_error + ('d DustAmount)" where
  "DustAmount_Unmarshal D = pb_Unmarshal ''DustAmount'' (DustAmount_fields D)"

definition DustAmount_enc ::
    "('d \<Rightarrow> bytes) \<Rightarrow> 'd DustAmount \<Rightarrow> bytes" where
  "DustAmount_enc enc m =
     len_enc 0x0a (enc (da_Dust m))"

lemma DustAmount_lookup:
  "map_of (DustAmount_fields D) 1 =
     Some (MessageField ''Dust'' (dc_Unmarshal D) da_Dust (\<lambda>x m. m\<lparr>da_Dust := x\<rparr>))"
  by (simp_all add: DustAmount_fields_def)

sublocale dec_codec_laws \<subseteq> dust_pb: pb_message "''DustAmount''" "DustAmount_fields D"
  "DustAmount_Size D" "DustAmount_MarshalToSizedBuffer D" "DustAmount_enc enc"
  "DustAmount_zero D" "\<lambda>m. valid (da_Dust m)"
proof
  fix m :: "'d DustAmount"
  assume v: "valid (da_Dust m)"
  show "DustAmount_Size D m = length (DustAmount_enc enc m)"
    using v by (simp add: DustAmount_Size_def DustAmount_enc_def length_enc dec_size)
  show "fills (DustAmount_MarshalToSizedBuffer D m) (DustAmount_enc enc m)"
    unfolding DustAmount_MarshalToSizedBuffer_def
    by (rule fills_marshal_steps, rule emits_to,
        (rule emits_intros emits_dec
          | (use v in \<open>simp; fail\<close>))+)
      (simp add: DustAmount_enc_def)
  show "decodes ''DustAmount'' (DustAmount_fields D) (DustAmount_enc enc m) (DustAmount_zero D) m"
    unfolding DustAmount_enc_def
    by (rule decodes_to, (rule decodes_intros DustAmount_lookup
          decodes_message_field [where x = "da_Dust m"]
        | (use v in \<open>simp add: DustAmount_zero_def dec_unmarshal; fail\<close>))+)
qed

section \<open>\<open>GenesisState\<close>\<close>

definition TdGenesisState_MarshalToSizedBuffer ::
    "'d dec_codec \<Rightarrow> 'd TdGenesisState \<Rightarrow> bytes \<Rightarrow> (bytes \<times> nat) outcome" where
  "TdGenesisState_MarshalToSizedBuffer D m = marshal_steps
     [put_message 0x0a (TdParams_MarshalToSizedBuffer D (tgs_Params m))]"

definition TdGenesisState_Size ::
    "'d dec_codec \<Rightarrow> 'd TdGenesisState \<Rightarrow> nat" where
  "TdGenesisState_Size D m =
     len_size (TdParams_Size D (tgs_Params m))"

definition TdGenesisState_Marshal ::
    "'d dec_codec \<Rightarrow> 'd TdGenesisState \<Rightarrow> bytes outcome" where
  "TdGenesisState_Marshal D =
     pb_Marshal (TdGenesisState_Size D) (TdGenesisState_MarshalToSizedBuffer D)"

definition TdGenesisState_MarshalTo ::
    "'d dec_codec \<Rightarrow> 'd TdGenesisState \<Rightarrow> bytes \<Rightarrow> (bytes \<times> nat) outcome" where
  "TdGenesisState_MarshalTo D =
     pb_MarshalTo (TdGenesisState_Size D) (TdGenesisState_MarshalToSizedBuffer D)"

definition TdGenesisState_zero :: "'d dec_codec \<Rightarrow> 'd TdGenesisState" where
  "TdGenesisState_zero D = \<lparr>tgs_Params = TdParams_zero D\<rparr>"

definition TdGenesisState_fields ::
    "'d dec_codec \<Rightarrow> (int \<times> 'd TdGenesisState field) list" where
  "TdGenesisState_fields D =
     [(1, MessageField ''Params'' (TdParams_Unmarshal D) tgs_Params (\<lambda>x m. m\<lparr>tgs_Params := x\<rparr>))]"

definition TdGenesisState_Unmarshal ::
    "'d dec_codec \<Rightarrow> bytes \<Rightarrow> 'd TdGenesisState \<Rightarrow> go_error + ('d TdGenesisState)" where
  "TdGenesisState_Unmarshal D = pb_Unmarshal ''GenesisState'' (TdGenesisState_fields D)"

definition TdGenesisState_enc ::
    "('d \<Rightarrow> bytes) \<Rightarrow> 'd TdGenesisState \<Rightarrow> bytes" where
  "TdGenesisState_enc enc m =
     len_enc 0x0a (TdParams_enc enc (tgs_Params m))"

lemma TdGenesisState_lookup:
  "map_of (TdGenesisState_fields D) 1 =
     Some (MessageField ''Params'' (TdParams_Unmarshal D) tgs_Params (\<lambda>x m. m\<lparr>tgs_Params := x\<rparr>))"
  by (simp_all add: TdGenesisState_fields_def)

sublocale dec_codec_laws \<subseteq> td_genesis_pb: pb_message "''GenesisState''" "TdGenesisState_fields D"
  "TdGenesisState_Size D" "TdGenesisState_MarshalToSizedBuffer D" "TdGenesisState_enc enc"
  "TdGenesisState_zero D" "\<lambda>m. valid (tp_TrustDepositShareValue (tgs_Params m)) \<and>
    valid (tp_TrustDepositYieldRate (tgs_Params m))"
proof
  fix m :: "'d TdGenesisState"
  assume v: "valid (tp_TrustDepositShareValue (tgs_Params m)) \<and>
    valid (tp_TrustDepositYieldRate (tgs_Params m))"
  show "TdGenesisState_Size D m = length (TdGenesisState_enc enc m)"
    using v by (simp add: TdGenesisState_Size_def TdGenesisState_enc_def length_enc td_params_pb.size_enc)
  show "fills (TdGenesisState_MarshalToSizedBuffer D m) (TdGenesisState_enc enc m)"
    unfolding TdGenesisState_MarshalToSizedBuffer_def
    by (rule fills_marshal_steps, rule emits_to,
        (rule emits_intros td_params_pb.fills_enc
          | (use v in \<open>simp; fail\<close>))+)
      (simp add: TdGenesisState_enc_def)
  show "decodes ''GenesisState'' (TdGenesisState_fields D) (TdGenesisState_enc enc m) (TdGenesisState_zero D) m"
    unfolding TdGenesisState_enc_def
    by (rule decodes_to, (rule decodes_intros TdGenesisState_lookup
          decodes_message_field [where x = "tgs_Params m"]
        | (use v in \<open>simp add: TdGenesisState_zero_def TdParams_Unmarshal_enc; fail\<close>))+)
qed

section \<open>\<open>MsgUpdateParams\<close>\<close>

definition TdMsgUpdateParams_MarshalToSizedBuffer ::
    "'d dec_codec \<Rightarrow> 'd TdMsgUpdateParams \<Rightarrow> bytes \<Rightarrow> (bytes \<times> nat) outcome" where
  "TdMsgUpdateParams_MarshalToSizedBuffer D m = marshal_steps
     [put_message 0x12 (TdParams_MarshalToSizedBuffer D (tmup_Params m)),
      put_string_field 0x0a (tmup_Authority m)]"

definition TdMsgUpdateParams_Size ::
    "'d dec_codec \<Rightarrow> 'd TdMsgUpdateParams \<Rightarrow> nat" where
  "TdMsgUpdateParams_Size D m =
     string_size (tmup_Authority m) +
     len_size (TdParams_Size D (tmup_Params m))"

definition TdMsgUpdateParams_Marshal ::
    "'d dec_codec \<Rightarrow> 'd TdMsgUpdateParams \<Rightarrow> bytes outcome" where
  "TdMsgUpdateParams_Marshal D =
     pb_Marshal (TdMsgUpdateParams_Size D) (TdMsgUpdateParams_MarshalToSizedBuffer D)"

definition TdMsgUpdateParams_MarshalTo ::
    "'d dec_codec \<Rightarrow> 'd TdMsgUpdateParams \<Rightarrow> bytes \<Rightarrow> (bytes \<times> nat) outcome" where
  "TdMsgUpdateParams_MarshalTo D =
     pb_MarshalTo (TdMsgUpdateParams_Size D) (TdMsgUpdateParams_MarshalToSizedBuffer D)"

definition TdMsgUpdateParams_zero :: "'d dec_codec \<Rightarrow> 'd TdMsgUpdateParams" where
  "TdMsgUpdateParams_zero D = \<lparr>tmup_Authority = '''', tmup_Params = TdParams_zero D\<rparr>"

definition TdMsgUpdateParams_fields ::
    "'d dec_codec \<Rightarrow> (int \<times> 'd TdMsgUpdateParams field) list" where
  "TdMsgUpdateParams_fields D =
     [(1, StringField ''Authority'' (\<lambda>s m. m\<lparr>tmup_Authority := s\<rparr>)),
      (2, MessageField ''Params'' (TdParams_Unmarshal D) tmup_Params (\<lambda>x m. m\<lparr>tmup_Params := x\<rparr>))]"

definition TdMsgUpdateParams_Unmarshal ::
    "'d dec_codec \<Rightarrow> bytes \<Rightarrow> 'd TdMsgUpdateParams \<Rightarrow> go_error + ('d TdMsgUpdateParams)" where
  "TdMsgUpdateParams_Unmarshal D = pb_Unmarshal ''MsgUpdateParams'' (TdMsgUpdateParams_fields D)"

definition TdMsgUpdateParams_enc ::
    "('d \<Rightarrow> bytes) \<Rightarrow> 'd TdMsgUpdateParams \<Rightarrow> bytes" where
  "TdMsgUpdateParams_enc enc m =
     string_enc 0x0a (tmup_Authority m) @
     len_enc 0x12 (TdParams_enc enc (tmup_Params m))"

lemma TdMsgUpdateParams_lookup:
  "map_of (TdMsgUpdateParams_fields D) 1 =
     Some (StringField ''Authority'' (\<lambda>s m. m\<lparr>tmup_Authority := s\<rparr>))"
  "map_of (TdMsgUpdateParams_fields D) 2 =
     Some (MessageField ''Params'' (TdParams_Unmarshal D) tmup_Params (\<lambda>x m. m\<lparr>tmup_Params := x\<rparr>))"
  by (simp_all add: TdMsgUpdateParams_fields_def)

sublocale dec_codec_laws \<subseteq> td_update_pb: pb_message "''MsgUpdateParams''" "TdMsgUpdateParams_fields D"
  "TdMsgUpdateParams_Size D" "TdMsgUpdateParams_MarshalToSizedBuffer D" "TdMsgUpdateParams_enc enc"
  "TdMsgUpdateParams_zero D" "\<lambda>m. valid (tp_TrustDepositShareValue (tmup_Params m)) \<and>
    valid (tp_TrustDepositYieldRate (tmup_Params m))"
proof
  fix m :: "'d TdMsgUpdateParams"
  assume v: "valid (tp_TrustDepositShareValue (tmup_Params m)) \<and>
    valid (tp_TrustDepositYieldRate (tmup_Params m))"
  show "TdMsgUpdateParams_Size D m = length (TdMsgUpdateParams_enc enc m)"
    using v by (simp add: TdMsgUpdateParams_Size_def TdMsgUpdateParams_enc_def length_enc td_params_pb.size_enc)
  show "fills (TdMsgUpdateParams_MarshalToSizedBuffer D m) (TdMsgUpdateParams_enc enc m)"
    unfolding TdMsgUpdateParams_MarshalToSizedBuffer_def
    by (rule fills_marshal_steps, rule emits_to,
        (rule emits_intros td_params_pb.fills_enc
          | (use v in \<open>simp; fail\<close>))+)
      (simp add: TdMsgUpdateParams_enc_def)
  show "decodes ''MsgUpdateParams'' (TdMsgUpdateParams_fields D) (TdMsgUpdateParams_enc enc m) (TdMsgUpdateParams_zero D) m"
    unfolding TdMsgUpdateParams_enc_def
    by (rule decodes_to, (rule decodes_intros TdMsgUpdateParams_lookup
          decodes_message_field [where x = "tmup_Params m"]
        | (use v in \<open>simp add: TdMsgUpdateParams_zero_def TdParams_Unmarshal_enc; fail\<close>))+)
qed

section \<open>\<open>QueryParamsResponse\<close>\<close>

definition TdQueryParamsResponse_MarshalToSizedBuffer ::
    "'d dec_codec \<Rightarrow> 'd TdQueryParamsResponse \<Rightarrow> bytes \<Rightarrow> (bytes \<times> nat) outcome" where
  "TdQueryParamsResponse_MarshalToSizedBuffer D m = marshal_steps
     [put_message 0x0a (TdParams_MarshalToSizedBuffer D (tqpr_Params m))]"

definition TdQueryParamsResponse_Size ::
    "'d dec_codec \<Rightarrow> 'd TdQueryParamsResponse \<Rightarrow> nat" where
  "TdQueryParamsResponse_Size D m =
     len_size (TdParams_Size D (tqpr_Params m))"

definition TdQueryParamsResponse_Marshal ::
    "'d dec_codec \<Rightarrow> 'd TdQueryParamsResponse \<Rightarrow> bytes outcome" where
  "TdQueryParamsResponse_Marshal D =
     pb_Marshal (TdQueryParamsResponse_Size D) (TdQueryParamsResponse_MarshalToSizedBuffer D)"

definition TdQueryParamsResponse_MarshalTo ::
    "'d dec_codec \<Rightarrow> 'd TdQueryParamsResponse \<Rightarrow> bytes \<Rightarrow> (bytes \<times> nat) outcome" where
  "TdQueryParamsResponse_MarshalTo D =
     pb_MarshalTo (TdQueryParamsResponse_Size D) (TdQueryParamsResponse_MarshalToSizedBuffer D)"

definition TdQueryParamsResponse_zero :: "'d dec_codec \<Rightarrow> 'd TdQueryParamsResponse" where
  "TdQueryParamsResponse_zero D = \<lparr>tqpr_Params = TdParams_zero D\<rparr>"

definition TdQueryParamsResponse_fields ::
    "'d dec_codec \<Rightarrow> (int \<times> 'd TdQueryParamsResponse field) list" where
  "TdQueryParamsResponse_fields D =
     [(1, MessageField ''Params'' (TdParams_Unmarshal D) tqpr_Params (\<lambda>x m. m\<lparr>tqpr_Params := x\<rparr>))]"

definition TdQueryParamsResponse_Unmarshal ::
    "'d dec_codec \<Rightarrow> bytes \<Rightarrow> 'd TdQueryParamsResponse \<Rightarrow> go_error + ('d TdQueryParamsResponse)" where
  "TdQueryParamsResponse_Unmarshal D =
     pb_Unmarshal ''QueryParamsResponse'' (TdQueryParamsResponse_fields D)"

definition TdQueryParamsResponse_enc ::
    "('d \<Rightarrow> bytes) \<Rightarrow> 'd TdQueryParamsResponse \<Rightarrow> bytes" where
  "TdQueryParamsResponse_enc enc m =
     len_enc 0x0a (TdParams_enc enc (tqpr_Params m))"

lemma TdQueryParamsResponse_lookup:
  "map_of (TdQueryParamsResponse_fields D) 1 =
     Some (MessageField ''Params'' (TdParams_Unmarshal D) tqpr_Params (\<lambda>x m. m\<lparr>tqpr_Params := x\<rparr>))"
  by (simp_all add: TdQueryParamsResponse_fields_def)

sublocale dec_codec_laws \<subseteq> td_query_params_resp_pb: pb_message "''QueryParamsResponse''" "TdQueryParamsResponse_fields D"
  "TdQueryParamsResponse_Size D" "TdQueryParamsResponse_MarshalToSizedBuffer D" "TdQueryParamsResponse_enc enc"
  "TdQueryParamsResponse_zero D" "\<lambda>m. valid (tp_TrustDepositShareValue (tqpr_Params m)) \<and>
    valid (tp_TrustDepositYieldRate (tqpr_Params m))"
proof
  fix m :: "'d TdQueryParamsResponse"
  assume v: "valid (tp_TrustDepositShareValue (tqpr_Params m)) \<and>
    valid (tp_TrustDepositYieldRate (tqpr_Params m))"
  show "TdQueryParamsResponse_Size D m = length (TdQueryParamsResponse_enc enc m)"
    using v by (simp add: TdQueryParamsResponse_Size_def TdQueryParamsResponse_enc_def length_enc td_params_pb.size_enc)
  show "fills (TdQueryParamsResponse_MarshalToSizedBuffer D m) (TdQueryParamsResponse_enc enc m)"
    unfolding TdQueryParamsResponse_MarshalToSizedBuffer_def
    by (rule fills_marshal_steps, rule emits_to,
        (rule emits_intros td_params_pb.fills_enc
          | (use v in \<open>simp; fail\<close>))+)
      (simp add: TdQueryParamsResponse_enc_def)
  show "decodes ''QueryParamsResponse'' (TdQueryParamsResponse_fields D) (TdQueryParamsResponse_enc enc m) (TdQueryParamsResponse_zero D) m"
    unfolding TdQueryParamsResponse_enc_def
    by (rule decodes_to, (rule decodes_intros TdQueryParamsResponse_lookup
          decodes_message_field [where x = "tqpr_Params m"]
        | (use v in \<open>simp add: TdQueryParamsResponse_zero_def TdParams_Unmarshal_enc; fail\<close>))+)
qed

section \<open>\<open>Module\<close>\<close>

definition TdModuleConfig_MarshalToSizedBuffer ::
    "TdModuleConfig \<Rightarrow> bytes \<Rightarrow> (bytes \<times> nat) outcome" where
  "TdModuleConfig_MarshalToSizedBuffer m = marshal_steps
     [put_string_field 0x0a (tmc_Authority m)]"

definition TdModuleConfig_Size :: "TdModuleConfig \<Rightarrow> nat" where
  "TdModuleConfig_Size m =
     string_size (tmc_Authority m)"

definition TdModuleConfig_Marshal :: "TdModuleConfig \<Rightarrow> bytes outcome" where
  "TdModuleConfig_Marshal = pb_Marshal TdModuleConfig_Size TdModuleConfig_MarshalToSizedBuffer"

definition TdModuleConfig_MarshalTo ::
    "TdModuleConfig \<Rightarrow> bytes \<Rightarrow> (bytes \<times> nat) outcome" where
  "TdModuleConfig_MarshalTo = pb_MarshalTo TdModuleConfig_Size TdModuleConfig_MarshalToSizedBuffer"

definition TdModuleConfig_zero :: "TdModuleConfig" where
  "TdModuleConfig_zero = \<lparr>tmc_Authority = ''''\<rparr>"

definition TdModuleConfig_fields :: "(int \<times> TdModuleConfig field) list" where
  "TdModuleConfig_fields =
     [(1, StringField ''Authority'' (\<lambda>s m. m\<lparr>tmc_Authority := s\<rparr>))]"

definition TdModuleConfig_Unmarshal ::
    "bytes \<Rightarrow> TdModuleConfig \<Rightarrow> go_error + TdModuleConfig" where
  "TdModuleConfig_Unmarshal = pb_Unmarshal ''Module'' TdModuleConfig_fields"

definition TdModuleConfig_enc :: "TdModuleConfig \<Rightarrow> bytes" where
  "TdModuleConfig_enc m =
     string_enc 0x0a (tmc_Authority m)"

lemma TdModuleConfig_lookup:
  "map_of TdModuleConfig_fields 1 =
     Some (StringField ''Authority'' (\<lambda>s m. m\<lparr>tmc_Authority := s\<rparr>))"
  by (simp_all add: TdModuleConfig_fields_def)

interpretation td_module_pb: pb_message "''Module''" TdModuleConfig_fields TdModuleConfig_Size
  TdModuleConfig_MarshalToSizedBuffer TdModuleConfig_enc TdModuleConfig_zero "\<lambda>m. True"
proof
  fix m
  show "TdModuleConfig_Size m = length (TdModuleConfig_enc m)"
    by (simp add: TdModuleConfig_Size_def TdModuleConfig_enc_def length_enc)
  show "fills (TdModuleConfig_MarshalToSizedBuffer m) (TdModuleConfig_enc m)"
    unfolding TdModuleConfig_MarshalToSizedBuffer_def
    by (rule fills_marshal_steps, rule emits_to, (rule emits_intros)+) (simp add: TdModuleConfig_enc_def)
  show "decodes ''Module'' TdModuleConfig_fields (TdModuleConfig_enc m) TdModuleConfig_zero m"
    unfolding TdModuleConfig_enc_def
    by (rule decodes_to, (rule decodes_intros TdModuleConfig_lookup
        | (simp add: TdModuleConfig_zero_def; fail))+)
qed

lemma TdModuleConfig_Unmarshal_enc:
  "length (TdModuleConfig_enc m) < 2 ^ 63 \<Longrightarrow> TdModuleConfig_Unmarshal (TdModuleConfig_enc m) TdModuleConfig_zero = Inr m"
  using td_module_pb.unmarshal_enc [of m] by (simp add: TdModuleConfig_Unmarshal_def)

section \<open>\<open>MsgUpdateParamsResponse\<close>\<close>

definition TdMsgUpdateParamsResponse_MarshalToSizedBuffer ::
    "TdMsgUpdateParamsResponse \<Rightarrow> bytes \<Rightarrow> (bytes \<times> nat) outcome" where
  "TdMsgUpdateParamsResponse_MarshalToSizedBuffer m = marshal_steps
     []"

definition TdMsgUpdateParamsResponse_Size :: "TdMsgUpdateParamsResponse \<Rightarrow> nat" where
  "TdMsgUpdateParamsResponse_Size m = 0"

definition TdMsgUpdateParamsResponse_Marshal ::
    "TdMsgUpdateParamsResponse \<Rightarrow> bytes outcome" where
  "TdMsgUpdateParamsResponse_Marshal =
     pb_Marshal TdMsgUpdateParamsResponse_Size TdMsgUpdateParamsResponse_MarshalToSizedBuffer"

definition TdMsgUpdateParamsResponse_MarshalTo ::
    "TdMsgUpdateParamsResponse \<Rightarrow> bytes \<Rightarrow> (bytes \<times> nat) outcome" where
  "TdMsgUpdateParamsResponse_MarshalTo =
     pb_MarshalTo TdMsgUpdateParamsResponse_Size TdMsgUpdateParamsResponse_MarshalToSizedBuffer"

definition TdMsgUpdateParamsResponse_zero :: "TdMsgUpdateParamsResponse" where
  "TdMsgUpdateParamsResponse_zero = TdMsgUpdateParamsResponse"

definition TdMsgUpdateParamsResponse_fields ::
    "(int \<times> TdMsgUpdateParamsResponse field) list" where
  "TdMsgUpdateParamsResponse_fields =
     []"

definition TdMsgUpdateParamsResponse_Unmarshal ::
    "bytes \<Rightarrow> TdMsgUpdateParamsResponse \<Rightarrow> go_error + TdMsgUpdateParamsResponse" where
  "TdMsgUpdateParamsResponse_Unmarshal =
     pb_Unmarshal ''MsgUpdateParamsResponse'' TdMsgUpdateParamsResponse_fields"

definition TdMsgUpdateParamsResponse_enc :: "TdMsgUpdateParamsResponse \<Rightarrow> bytes" where
  "TdMsgUpdateParamsResponse_enc m =
     []"

interpretation td_update_resp_pb: pb_message "''MsgUpdateParamsResponse''" TdMsgUpdateParamsResponse_fields TdMsgUpdateParamsResponse_Size
  TdMsgUpdateParamsResponse_MarshalToSizedBuffer TdMsgUpdateParamsResponse_enc TdMsgUpdateParamsResponse_zero "\<lambda>m. True"
proof
  fix m
  show "TdMsgUpdateParamsResponse_Size m = length (TdMsgUpdateParamsResponse_enc m)"
    by (simp add: TdMsgUpdateParamsResponse_Size_def TdMsgUpdateParamsResponse_enc_def length_enc)
  show "fills (TdMsgUpdateParamsResponse_MarshalToSizedBuffer m) (TdMsgUpdateParamsResponse_enc m)"
    unfolding TdMsgUpdateParamsResponse_MarshalToSizedBuffer_def
    by (rule fills_marshal_steps, rule emits_to, (rule emits_intros)+) (simp add: TdMsgUpdateParamsResponse_enc_def)
  show "decodes ''MsgUpdateParamsResponse'' TdMsgUpdateParamsResponse_fields (TdMsgUpdateParamsResponse_enc m) TdMsgUpdateParamsResponse_zero m"
    by (cases m) (simp add: TdMsgUpdateParamsResponse_enc_def TdMsgUpdateParamsResponse_zero_def decodes_Nil)
qed

lemma TdMsgUpdateParamsResponse_Unmarshal_enc:
  "length (TdMsgUpdateParamsResponse_enc m) < 2 ^ 63 \<Longrightarrow> TdMsgUpdateParamsResponse_Unmarshal (TdMsgUpdateParamsResponse_enc m) TdMsgUpdateParamsResponse_zero = Inr m"
  using td_update_resp_pb.unmarshal_enc [of m] by (simp add: TdMsgUpdateParamsResponse_Unmarshal_def)

section \<open>\<open>MsgFundModule\<close>\<close>

definition MsgFundModule_MarshalToSizedBuffer ::
    "MsgFundModule \<Rightarrow> bytes \<Rightarrow> (bytes \<times> nat) outcome" where
  "MsgFundModule_MarshalToSizedBuffer m = marshal_steps
     [put_string_field 0x1a (mfm_Module m),
      put_uint_field 0x10 (mfm_Amount m),
      put_string_field 0x0a (mfm_Creator m)]"

definition MsgFundModule_Size :: "MsgFundModule \<Rightarrow> nat" where
  "MsgFundModule_Size m =
     string_size (mfm_Creator m) +
     uint_size (mfm_Amount m) +
     string_size (mfm_Module m)"

definition MsgFundModule_Marshal :: "MsgFundModule \<Rightarrow> bytes outcome" where
  "MsgFundModule_Marshal = pb_Marshal MsgFundModule_Size MsgFundModule_MarshalToSizedBuffer"

definition MsgFundModule_MarshalTo ::
    "MsgFundModule \<Rightarrow> bytes \<Rightarrow> (bytes \<times> nat) outcome" where
  "MsgFundModule_MarshalTo = pb_MarshalTo MsgFundModule_Size MsgFundModule_MarshalToSizedBuffer"

definition MsgFundModule_zero :: "MsgFundModule" where
  "MsgFundModule_zero = \<lparr>mfm_Creator = '''', mfm_Amount = 0, mfm_Module = ''''\<rparr>"

definition MsgFundModule_fields :: "(int \<times> MsgFundModule field) list" where
  "MsgFundModule_fields =
     [(1, StringField ''Creator'' (\<lambda>s m. m\<lparr>mfm_Creator := s\<rparr>)),
      (2, VarintField ''Amount'' (\<lambda>v m. m\<lparr>mfm_Amount := v\<rparr>)),
      (3, StringField ''Module'' (\<lambda>s m. m\<lparr>mfm_Module := s\<rparr>))]"

definition MsgFundModule_Unmarshal ::
    "bytes \<Rightarrow> MsgFundModule \<Rightarrow> go_error + MsgFundModule" where
  "MsgFundModule_Unmarshal = pb_Unmarshal ''MsgFundModule'' MsgFundModule_fields"

definition MsgFundModule_enc :: "MsgFundModule \<Rightarrow> bytes" where
  "MsgFundModule_enc m =
     string_enc 0x0a (mfm_Creator m) @
     uint_enc 0x10 (mfm_Amount m) @
     string_enc 0x1a (mfm_Module m)"

lemma MsgFundModule_lookup:
  "map_of MsgFundModule_fields 1 =
     Some (StringField ''Creator'' (\<lambda>s m. m\<lparr>mfm_Creator := s\<rparr>))"
  "map_of MsgFundModule_fields 2 =
     Some (VarintField ''Amount'' (\<lambda>v m. m\<lparr>mfm_Amount := v\<rparr>))"
  "map_of MsgFundModule_fields 3 =
     Some (StringField ''Module'' (\<lambda>s m. m\<lparr>mfm_Module := s\<rparr>))"
  by (simp_all add: MsgFundModule_fields_def)

interpretation fund_pb: pb_message "''MsgFundModule''" MsgFundModule_fields MsgFundModule_Size
  MsgFundModule_MarshalToSizedBuffer MsgFundModule_enc MsgFundModule_zero "\<lambda>m. True"
proof
  fix m
  show "MsgFundModule_Size m = length (MsgFundModule_enc m)"
    by (simp add: MsgFundModule_Size_def MsgFundModule_enc_def length_enc)
  show "fills (MsgFundModule_MarshalToSizedBuffer m) (MsgFundModule_enc m)"
    unfolding MsgFundModule_MarshalToSizedBuffer_def
    by (rule fills_marshal_steps, rule emits_to, (rule emits_intros)+) (simp add: MsgFundModule_enc_def)
  show "decodes ''MsgFundModule'' MsgFundModule_fields (MsgFundModule_enc m) MsgFundModule_zero m"
    unfolding MsgFundModule_enc_def
    by (rule decodes_to, (rule decodes_intros MsgFundModule_lookup
        | (simp add: MsgFundModule_zero_def; fail))+)
qed

lemma MsgFundModule_Unmarshal_enc:
  "length (MsgFundModule_enc m) < 2 ^ 63 \<Longrightarrow> MsgFundModule_Unmarshal (MsgFundModule_enc m) MsgFundModule_zero = Inr m"
  using fund_pb.unmarshal_enc [of m] by (simp add: MsgFundModule_Unmarshal_def)

section \<open>\<open>MsgFundModuleResponse\<close>\<close>

definition MsgFundModuleResponse_MarshalToSizedBuffer ::
    "MsgFundModuleResponse \<Rightarrow> bytes \<Rightarrow> (bytes \<times> nat) outcome" where
  "MsgFundModuleResponse_MarshalToSizedBuffer m = marshal_steps
     []"

definition MsgFundModuleResponse_Size :: "MsgFundModuleResponse \<Rightarrow> nat" where
  "MsgFundModuleResponse_Size m = 0"

definition MsgFundModuleResponse_Marshal ::
    "MsgFundModuleResponse \<Rightarrow> bytes outcome" where
  "MsgFundModuleResponse_Marshal =
     pb_Marshal MsgFundModuleResponse_Size MsgFundModuleResponse_MarshalToSizedBuffer"

definition MsgFundModuleResponse_MarshalTo ::
    "MsgFundModuleResponse \<Rightarrow> bytes \<Rightarrow> (bytes \<times> nat) outcome" where
  "MsgFundModuleResponse_MarshalTo =
     pb_MarshalTo MsgFundModuleResponse_Size MsgFundModuleResponse_MarshalToSizedBuffer"

definition MsgFundModuleResponse_zero :: "MsgFundModuleResponse" where
  "MsgFundModuleResponse_zero = MsgFundModuleResponse"

definition MsgFundModuleResponse_fields :: "(int \<times> MsgFundModuleResponse field) list" where
  "MsgFundModuleResponse_fields =
     []"

definition MsgFundModuleResponse_Unmarshal ::
    "bytes \<Rightarrow> MsgFundModuleResponse \<Rightarrow> go_error + MsgFundModuleResponse" where
  "MsgFundModuleResponse_Unmarshal =
     pb_Unmarshal ''MsgFundModuleResponse'' MsgFundModuleResponse_fields"

definition MsgFundModuleResponse_enc :: "MsgFundModuleResponse \<Rightarrow> bytes" where
  "MsgFundModuleResponse_enc m =
     []"

interpretation fund_resp_pb: pb_message "''MsgFundModuleResponse''" MsgFundModuleResponse_fields MsgFundModuleResponse_Size
  MsgFundModuleResponse_MarshalToSizedBuffer MsgFundModuleResponse_enc MsgFundModuleResponse_zero "\<lambda>m. True"
proof
  fix m
  show "MsgFundModuleResponse_Size m = length (MsgFundModuleResponse_enc m)"
    by (simp add: MsgFundModuleResponse_Size_def MsgFundModuleResponse_enc_def length_enc)
  show "fills (MsgFundModuleResponse_MarshalToSizedBuffer m) (MsgFundModuleResponse_enc m)"
    unfolding MsgFundModuleResponse_MarshalToSizedBuffer_def
    by (rule fills_marshal_steps, rule emits_to, (rule emits_intros)+) (simp add: MsgFundModuleResponse_enc_def)
  show "decodes ''MsgFundModuleResponse'' MsgFundModuleResponse_fields (MsgFundModuleResponse_enc m) MsgFundModuleResponse_zero m"
    by (cases m) (simp add: MsgFundModuleResponse_enc_def MsgFundModuleResponse_zero_def decodes_Nil)
qed

lemma MsgFundModuleResponse_Unmarshal_enc:
  "length (MsgFundModuleResponse_enc m) < 2 ^ 63 \<Longrightarrow> MsgFundModuleResponse_Unmarshal (MsgFundModuleResponse_enc m) MsgFundModuleResponse_zero = Inr m"
  using fund_resp_pb.unmarshal_enc [of m] by (simp add: MsgFundModuleResponse_Unmarshal_def)

section \<open>\<open>QueryParamsRequest\<close>\<close>

definition TdQueryParamsRequest_MarshalToSizedBuffer ::
    "TdQueryParamsRequest \<Rightarrow> bytes \<Rightarrow> (bytes \<times> nat) outcome" where
  "TdQueryParamsRequest_MarshalToSizedBuffer m = marshal_steps
     []"

definition TdQueryParamsRequest_Size :: "TdQueryParamsRequest \<Rightarrow> nat" where
  "TdQueryParamsRequest_Size m = 0"

definition TdQueryParamsRequest_Marshal :: "TdQueryParamsRequest \<Rightarrow> bytes outcome" where
  "TdQueryParamsRequest_Marshal =
     pb_Marshal TdQueryParamsRequest_Size TdQueryParamsRequest_MarshalToSizedBuffer"

definition TdQueryParamsRequest_MarshalTo ::
    "TdQueryParamsRequest \<Rightarrow> bytes \<Rightarrow> (bytes \<times> nat) outcome" where
  "TdQueryParamsRequest_MarshalTo =
     pb_MarshalTo TdQueryParamsRequest_Size TdQueryParamsRequest_MarshalToSizedBuffer"

definition TdQueryParamsRequest_zero :: "TdQueryParamsRequest" where
  "TdQueryParamsRequest_zero = TdQueryParamsRequest"

definition TdQueryParamsRequest_fields :: "(int \<times> TdQueryParamsRequest field) list" where
  "TdQueryParamsRequest_fields =
     []"

definition TdQueryParamsRequest_Unmarshal ::
    "bytes \<Rightarrow> TdQueryParamsRequest \<Rightarrow> go_error + TdQueryParamsRequest" where
  "TdQueryParamsRequest_Unmarshal = pb_Unmarshal ''QueryParamsRequest'' TdQueryParamsRequest_fields"

definition TdQueryParamsRequest_enc :: "TdQueryParamsRequest \<Rightarrow> bytes" where
  "TdQueryParamsRequest_enc m =
     []"

interpretation td_query_params_pb: pb_message "''QueryParamsRequest''" TdQueryParamsRequest_fields TdQueryParamsRequest_Size
  TdQueryParamsRequest_MarshalToSizedBuffer TdQueryParamsRequest_enc TdQueryParamsRequest_zero "\<lambda>m. True"
proof
  fix m
  show "TdQueryParamsRequest_Size m = length (TdQueryParamsRequest_enc m)"
    by (simp add: TdQueryParamsRequest_Size_def TdQueryParamsRequest_enc_def length_enc)
  show "fills (TdQueryParamsRequest_MarshalToSizedBuffer m) (TdQueryParamsRequest_enc m)"
    unfolding TdQueryParamsRequest_MarshalToSizedBuffer_def
    by (rule fills_marshal_steps, rule emits_to, (rule emits_intros)+) (simp add: TdQueryParamsRequest_enc_def)
  show "decodes ''QueryParamsRequest'' TdQueryParamsRequest_fields (TdQueryParamsRequest_enc m) TdQueryParamsRequest_zero m"
    by (cases m) (simp add: TdQueryParamsRequest_enc_def TdQueryParamsRequest_zero_def decodes_Nil)
qed

lemma TdQueryParamsRequest_Unmarshal_enc:
  "length (TdQueryParamsRequest_enc m) < 2 ^ 63 \<Longrightarrow> TdQueryParamsRequest_Unmarshal (TdQueryParamsRequest_enc m) TdQueryParamsRequest_zero = Inr m"
  using td_query_params_pb.unmarshal_enc [of m] by (simp add: TdQueryParamsRequest_Unmarshal_def)

end
