(* ===== verification/SdkModel.thy ===== *)
theory SdkModel
  imports Sdk CodecLaws "HOL-Library.Multiset"
begin

text \<open>
  Structures that keep the contracts of \<open>Sdk\<close> and \<open>CodecLaws\<close>: the fixed-point decimal (an integer
  of \<open>10^-18\<close> units, products and quotients rounded half to even, overflow of the representation is
  a panic), its text encoding, and a bank that is a ledger of multisets of coins. They show that the
  contracts can hold together and supply the inputs of the witnesses.
\<close>

section \<open>The fixed-point decimal\<close>

definition chop_round :: "int \<Rightarrow> int" where
  "chop_round d =
     (let a = \<bar>d\<bar>; q = a div prec; r = a mod prec;
          n = (if 2 * r < prec then q else if prec < 2 * r then q + 1
               else if even q then q else q + 1) in
      if d < 0 then - n else n)"

definition fits :: "int \<Rightarrow> int option" where
  "fits d = (if \<bar>d\<bar> < 2 ^ 315 then Some d else None)"

fun split_point :: "string \<Rightarrow> string \<times> string" where
  "split_point [] = ([], [])"
| "split_point (c # cs) =
     (if c = CHR ''.'' then ([], cs) else let (a, b) = split_point cs in (c # a, b))"

definition digit_val :: "char \<Rightarrow> int" where
  "digit_val c = int (of_char c) - 48"

definition parse_dec :: "string \<Rightarrow> go_error + int" where
  "parse_dec s =
     (let (whole, frac) = split_point s; ds = whole @ frac @ replicate (18 - length frac) CHR ''0'' in
      if whole = [] \<or> 18 < length frac \<or> list_ex (\<lambda>c. digit_val c < 0 \<or> 9 < digit_val c) ds
      then Inl (Errorf ''invalid decimal'' [ArgStr s])
      else Inr (foldl (\<lambda>a c. 10 * a + digit_val c) 0 ds))"

definition fixed18 :: "int dec_ops" where
  "fixed18 =
     \<lparr>LegacyDecNil = 0, LegacyZeroDec = 0, LegacyNewDec = (\<lambda>n. n * prec),
      LegacyNewDecFromInt = (\<lambda>n. n * prec), LegacyNewDecFromStr = parse_dec,
      dec_Add = (\<lambda>a b. fits (a + b)), dec_Sub = (\<lambda>a b. fits (a - b)),
      dec_Mul = (\<lambda>a b. fits (chop_round (a * b))),
      dec_Quo = (\<lambda>a b. if b = 0 then None else fits (chop_round (trunc_div (a * prec * prec) b))),
      dec_GTE = (\<lambda>a b. b \<le> a),
      dec_TruncateInt = (\<lambda>a. Some (trunc_div a prec))\<rparr>"

lemma chop_round_nonneg: "0 \<le> d \<Longrightarrow> 0 \<le> chop_round d"
  using pos_imp_zdiv_nonneg_iff [OF prec_pos, of d] by (simp add: chop_round_def Let_def)

lemma chop_round_error: "2 * \<bar>chop_round d * prec - d\<bar> \<le> prec"
proof -
  define q r where "q = \<bar>d\<bar> div prec" and "r = \<bar>d\<bar> mod prec"
  have d: "\<bar>d\<bar> = q * prec + r" by (simp add: q_def r_def)
  have r: "0 \<le> r" "r < prec" using prec_pos by (simp_all add: r_def)
  define n where "n = (if 2 * r < prec then q else if prec < 2 * r then q + 1
    else if even q then q else q + 1)"
  have "2 * \<bar>n * prec - (q * prec + r)\<bar> \<le> prec"
    using r by (simp add: n_def distrib_right)
  moreover have "chop_round d = (if d < 0 then - n else n)"
    by (simp only: chop_round_def Let_def q_def r_def n_def)
  ultimately have n: "2 * \<bar>n * prec - (q * prec + r)\<bar> \<le> prec"
    "chop_round d = (if d < 0 then - n else n)" by simp_all
  show ?thesis
  proof (cases "d < 0")
    case True
    then have "chop_round d * prec - d = - (n * prec - (q * prec + r))"
      using d by (simp add: n(2))
    then show ?thesis using n(1) by (simp only: abs_minus_cancel)
  next
    case False
    then show ?thesis using d n by simp
  qed
qed

lemma chop_round_abs: "\<bar>chop_round d\<bar> \<le> \<bar>d\<bar> + 1"
proof -
  have "0 \<le> \<bar>d\<bar> div prec" by (simp add: pos_imp_zdiv_nonneg_iff)
  then have "\<bar>chop_round d\<bar> \<le> \<bar>d\<bar> div prec + 1" by (simp add: chop_round_def Let_def)
  moreover have "\<bar>d\<bar> div prec \<le> \<bar>d\<bar> div 1" by (rule zdiv_mono2) (simp_all add: prec_def)
  ultimately show ?thesis by simp
qed

lemma trunc_div_error:
  assumes "b \<noteq> 0"
  shows "\<bar>trunc_div a b * b - a\<bar> < \<bar>b\<bar>"
proof -
  define q where "q = \<bar>a\<bar> div \<bar>b\<bar>"
  have "trunc_div a b * b = (if 0 \<le> a then q * \<bar>b\<bar> else - (q * \<bar>b\<bar>))"
    by (simp add: trunc_div_def Let_def flip: q_def)
  moreover have "q * \<bar>b\<bar> = \<bar>a\<bar> - \<bar>a\<bar> mod \<bar>b\<bar>"
    unfolding q_def by (rule minus_mod_eq_div_mult [symmetric])
  moreover have "0 \<le> \<bar>a\<bar> mod \<bar>b\<bar>" "\<bar>a\<bar> mod \<bar>b\<bar> < \<bar>b\<bar>" using assms by simp_all
  ultimately show ?thesis by (auto split: if_splits)
qed

lemma quo_error:
  assumes "b \<noteq> 0"
  shows "\<bar>chop_round (trunc_div (a * prec * prec) b) * b - a * prec\<bar> \<le> \<bar>b\<bar>"
proof -
  let ?t = "trunc_div (a * prec * prec) b"
  let ?c = "chop_round ?t"
  have 1: "\<bar>?t * b - a * prec * prec\<bar> < \<bar>b\<bar>" by (rule trunc_div_error [OF assms])
  have "2 * \<bar>(?c * prec - ?t) * b\<bar> = 2 * \<bar>?c * prec - ?t\<bar> * \<bar>b\<bar>" by (simp add: abs_mult)
  also have "\<dots> \<le> prec * \<bar>b\<bar>" using chop_round_error [of ?t] by (intro mult_right_mono) simp_all
  finally have 2: "2 * \<bar>(?c * prec - ?t) * b\<bar> \<le> prec * \<bar>b\<bar>" .
  define x where "x = ?c * b - a * prec"
  have "x * prec = (?c * prec - ?t) * b + (?t * b - a * prec * prec)"
    by (simp add: x_def algebra_simps)
  then have "2 * \<bar>x * prec\<bar> \<le> prec * \<bar>b\<bar> + 2 * \<bar>b\<bar>"
    using 1 2 by linarith
  also have "\<dots> \<le> prec * \<bar>b\<bar> + prec * \<bar>b\<bar>"
    by (intro add_left_mono mult_right_mono) (simp_all add: prec_def)
  finally have "\<bar>x\<bar> * prec \<le> \<bar>b\<bar> * prec"
    by (simp only: abs_mult abs_prec) (simp add: mult.commute)
  then have "\<bar>x\<bar> \<le> \<bar>b\<bar>" using prec_pos by (simp only: mult_le_cancel_right_pos)
  then show ?thesis by (simp only: x_def)
qed

lemma trunc_div_abs: "b \<noteq> 0 \<Longrightarrow> \<bar>trunc_div a b\<bar> \<le> \<bar>a\<bar>"
proof -
  assume b: "b \<noteq> 0"
  have "\<bar>trunc_div a b\<bar> \<le> \<bar>\<bar>a\<bar> div \<bar>b\<bar>\<bar>"
    by (simp add: trunc_div_def Let_def)
  also have "\<dots> = \<bar>a\<bar> div \<bar>b\<bar>" using b by (simp add: pos_imp_zdiv_nonneg_iff)
  also have "\<dots> \<le> \<bar>a\<bar> div 1" by (rule zdiv_mono2) (use b in simp_all)
  finally show ?thesis by simp
qed

lemma fits_chop: "\<bar>d\<bar> < 2 ^ 314 \<Longrightarrow> fits (chop_round d) = Some (chop_round d)"
  using chop_round_abs [of d] by (simp add: fits_def)

interpretation fixed18: legacy_dec fixed18 "\<lambda>d. d"
proof
  fix a b :: int
  show "\<exists>c. dec_Add fixed18 a b = Some c \<and> c = a + b" if "\<bar>a + b\<bar> \<le> dec_limit"
    using that by (simp add: fixed18_def fits_def dec_limit_def)
  show "\<exists>c. dec_Sub fixed18 a b = Some c \<and> c = a - b" if "\<bar>a - b\<bar> \<le> dec_limit"
    using that by (simp add: fixed18_def fits_def dec_limit_def)
  show "\<exists>c. dec_Mul fixed18 a b = Some c \<and> 2 * \<bar>c * prec - a * b\<bar> \<le> prec" if "\<bar>a * b\<bar> \<le> dec_limit"
    using that chop_round_error [of "a * b"] fits_chop [of "a * b"]
    by (simp add: fixed18_def dec_limit_def)
  show "\<exists>c. dec_Quo fixed18 a b = Some c \<and> \<bar>c * b - a * prec\<bar> \<le> \<bar>b\<bar>"
    if b: "b \<noteq> 0" and lim: "\<bar>a\<bar> * prec \<le> dec_limit"
  proof -
    have "\<bar>trunc_div (a * prec * prec) b\<bar> \<le> \<bar>a\<bar> * prec * prec"
      using trunc_div_abs [OF b, of "a * prec * prec"] by (simp add: abs_mult)
    also have "\<dots> \<le> dec_limit * prec" using lim by (intro mult_right_mono) simp_all
    also have "\<dots> < 2 ^ 314" by (simp add: dec_limit_def prec_def)
    finally have "fits (chop_round (trunc_div (a * prec * prec) b)) =
        Some (chop_round (trunc_div (a * prec * prec) b))" by (rule fits_chop)
    with b quo_error [OF b, of a] show ?thesis by (simp add: fixed18_def)
  qed
  show "0 \<le> c" if "dec_Quo fixed18 a b = Some c" "0 \<le> a" "0 < b" for c
  proof -
    have "0 \<le> trunc_div (a * prec * prec) b"
      using that(2,3) by (simp add: trunc_div_nonneg pos_imp_zdiv_nonneg_iff)
    with that chop_round_nonneg show ?thesis
      by (auto simp: fixed18_def fits_def split: if_splits)
  qed
qed (simp_all add: fixed18_def)

section \<open>The text of a decimal\<close>

text \<open>\<open>LegacyDec\<close> is stored as the decimal text of its integer (\<open>big.Int.MarshalText\<close>).\<close>

function digits :: "nat \<Rightarrow> bytes" where
  "digits n = (if n < 10 then [of_nat (48 + n)] else digits (n div 10) @ [of_nat (48 + n mod 10)])"
  by pat_completeness auto
termination by (relation "measure id") auto

declare digits.simps [simp del]

definition undigits :: "bytes \<Rightarrow> nat" where
  "undigits bs = foldl (\<lambda>a b. 10 * a + (unat b - 48)) 0 bs"

definition is_digit :: "byte \<Rightarrow> bool" where
  "is_digit b \<longleftrightarrow> 48 \<le> b \<and> b \<le> 57"

lemma unat_digit: "n < 10 \<Longrightarrow> unat (of_nat (48 + n) :: byte) = 48 + n"
  by (simp only: unat_of_nat) simp

lemma undigits_digits: "undigits (digits n) = n"
proof (induction n rule: digits.induct)
  case (1 n)
  show ?case
  proof (cases "n < 10")
    case True
    then show ?thesis using unat_digit [OF True] by (subst digits.simps) (simp add: undigits_def)
  next
    case False
    have "unat (of_nat (48 + n mod 10) :: byte) = 48 + n mod 10" by (rule unat_digit) simp
    then show ?thesis using 1 False by (subst digits.simps) (simp add: undigits_def)
  qed
qed

lemma digits_are: "b \<in> set (digits n) \<Longrightarrow> is_digit b"
proof (induction n rule: digits.induct)
  case (1 n)
  have d: "is_digit (of_nat (48 + k))" if "k < 10" for k
    using unat_digit [OF that] that by (simp add: is_digit_def word_le_nat_alt del: of_nat_add)
  show ?case
  proof (cases "n < 10")
    case True
    then show ?thesis using 1(2) d [OF True] by (subst (asm) digits.simps) simp
  next
    case False
    then have "b \<in> set (digits (n div 10)) \<or> b = of_nat (48 + n mod 10)"
      using 1(2) by (subst (asm) digits.simps) (simp, blast)
    then show ?thesis using 1(1) [OF False] d [of "n mod 10"] by auto
  qed
qed

lemma digits_neq_Nil [simp]: "digits n \<noteq> []"
  by (subst digits.simps) simp

lemma length_digits: "n < 10 ^ Suc k \<Longrightarrow> length (digits n) \<le> Suc k"
proof (induction k arbitrary: n)
  case 0
  then show ?case by (subst digits.simps) simp
next
  case (Suc k)
  then have "n div 10 < 10 ^ Suc k" by (simp add: div_less_iff_less_mult mult.commute)
  with Suc.IH [of "n div 10"] show ?case by (subst digits.simps) simp
qed

definition int_text :: "int \<Rightarrow> bytes" where
  "int_text i = (if i < 0 then 45 # digits (nat (- i)) else digits (nat i))"

definition text_int :: "bytes \<Rightarrow> go_error + int" where
  "text_int bs =
     (let neg = (bs \<noteq> [] \<and> hd bs = 45); ds = (if neg then tl bs else bs) in
      if ds = [] \<or> \<not> list_all is_digit ds then Inl (LibError ''math/big: cannot unmarshal'')
      else Inr (if neg then - int (undigits ds) else int (undigits ds)))"

lemma text_int_text: "text_int (int_text i) = Inr i"
proof -
  have all: "list_all is_digit (digits n)" for n
    by (simp add: list_all_iff digits_are)
  have "hd (digits n) \<noteq> 45" for n
    using digits_are [of "hd (digits n)" n] hd_in_set [OF digits_neq_Nil, of n]
    by (auto simp: is_digit_def)
  with all show ?thesis by (simp add: text_int_def int_text_def undigits_digits)
qed

definition fixed18_codec :: "int dec_codec" where
  "fixed18_codec =
     \<lparr>dc_Size = (\<lambda>d. length (int_text d)),
      dc_MarshalTo = (\<lambda>d buf. Ret (int_text d @ drop (length (int_text d)) buf)),
      dc_Unmarshal = (\<lambda>bs z. if bs = [] then Inr 0 else text_int bs),
      dc_zero = 0\<rparr>"

section \<open>The ledger\<close>

type_synonym coins = "string multiset"

definition multiset_coins :: "coins coin_ops" where
  "multiset_coins =
     \<lparr>NewCoins1 = (\<lambda>d n. if n < 0 then None else Some (replicate_mset (nat n) d)),
      coins_IsZero = (\<lambda>c. c = {#}),
      coins_IsAllGTE = (\<lambda>c c'. c' \<subseteq># c)\<rparr>"

definition send :: "(bytes \<Rightarrow> coins) \<Rightarrow> bytes \<Rightarrow> bytes \<Rightarrow> coins \<Rightarrow> (bytes \<Rightarrow> coins) outcome" where
  "send b src dst c =
     (if c \<subseteq># b src
      then let b' = b(src := b src - c) in Ret (b'(dst := b' dst + c))
      else Err (LibError ''insufficient funds''))"

definition ledger_bank :: "(string \<Rightarrow> bytes) \<Rightarrow> (string \<Rightarrow> bool) \<Rightarrow> (bytes \<Rightarrow> coins, coins) bank_ops" where
  "ledger_bank macc known =
     \<lparr>GetAllBalances = (\<lambda>b a. b a),
      SendCoinsFromAccountToModule = (\<lambda>b a m c.
        if known m then send b a (macc m) c else Panic (LibError ''module account does not exist'')),
      SendCoinsFromModuleToModule = (\<lambda>b m m' c.
        if known m \<and> known m' then send b (macc m) (macc m') c
        else Panic (LibError ''module account does not exist''))\<rparr>"

definition ledger_bal :: "(bytes \<Rightarrow> coins) \<Rightarrow> bytes \<Rightarrow> string \<Rightarrow> nat" where
  "ledger_bal b a d = count (b a) d"

lemma send_Ret:
  "c \<subseteq># b src \<Longrightarrow>
   \<exists>b'. send b src dst c = Ret b' \<and> ledger_bal b' = move (ledger_bal b) src dst (count c)"
  by (intro exI [of _ "(b(src := b src - c))(dst := (b(src := b src - c)) dst + c)"])
    (auto simp: send_def Let_def ledger_bal_def move_def fun_eq_iff subseteq_mset_def)

lemma subset_count: "c \<subseteq># b a \<longleftrightarrow> (\<forall>d. count c d \<le> ledger_bal b a d)"
  by (simp add: subseteq_mset_def ledger_bal_def)

interpretation ledger: sdk_bank "ledger_bank macc known" multiset_coins count ledger_bal macc known
  for macc known
proof
  fix b :: "bytes \<Rightarrow> coins" and a m m' c and b'
  let ?B = "ledger_bank macc known"
  show "\<exists>c. NewCoins1 multiset_coins d n = Some c \<and> count c = (\<lambda>x. if x = d then nat n else 0)"
    if "0 \<le> n" for d and n :: int
    using that by (auto simp: multiset_coins_def fun_eq_iff)
  show "\<exists>b'. SendCoinsFromModuleToModule ?B b m m' c = Ret b' \<and>
      ledger_bal b' = move (ledger_bal b) (macc m) (macc m') (count c)"
    if "known m" "known m'" "\<forall>d. count c d \<le> ledger_bal b (macc m) d"
    using that send_Ret [of c b "macc m" "macc m'"] by (simp add: ledger_bank_def subset_count)
  show "known m \<and> (\<forall>d. count c d \<le> ledger_bal b a d) \<and>
      ledger_bal b' = move (ledger_bal b) a (macc m) (count c)"
    if "SendCoinsFromAccountToModule ?B b a m c = Ret b'"
    using that send_Ret [of c b a "macc m"]
    by (auto simp: ledger_bank_def subset_count send_def split: if_splits)
qed (auto simp: ledger_bank_def multiset_coins_def send_def subset_count ledger_bal_def
    subseteq_mset_def multiset_eq_iff)

end
