(* ===== verification/TdStore.thy ===== *)
theory TdStore
  imports TdRun TdPb KVStore SdkModel
begin

text \<open>
  The trust deposit keeper on the byte store, the fixed-point decimal and the ledger: the two items
  \<open>NewKeeper\<close> creates, with the prefixes of \<open>types/keys.go\<close> and the protobuf codecs of the module.
  It interprets \<open>trust_deposit\<close>, so the refinement of the begin blocker holds of it.
\<close>

definition td_params_codec :: "'d dec_codec \<Rightarrow> 'd TdParams codec" where
  "td_params_codec D = CollValue (TdParams_Marshal D) (TdParams_Unmarshal D) (TdParams_zero D)"

definition dust_codec :: "'d dec_codec \<Rightarrow> 'd DustAmount codec" where
  "dust_codec D = CollValue (DustAmount_Marshal D) (DustAmount_Unmarshal D) (DustAmount_zero D)"

interpretation fixed18_pb: dec_codec_laws fixed18_codec int_text "\<lambda>d. True"
  by unfold_locales (auto simp: fixed18_codec_def text_int_text, simp add: int_text_def split: if_splits)

lemma td_params_codec_ok:
  "length (TdParams_enc int_text p) < 2 ^ 63 \<Longrightarrow> co_ok (td_params_codec fixed18_codec) p"
  using fixed18_pb.td_params_pb.marshal [of p] fixed18_pb.td_params_pb.unmarshal_enc [of p]
  by (simp add: co_ok_def td_params_codec_def CollValue_def TdParams_Marshal_def TdParams_Unmarshal_def)

lemma dust_codec_ok:
  "length (DustAmount_enc int_text p) < 2 ^ 63 \<Longrightarrow> co_ok (dust_codec fixed18_codec) p"
  using fixed18_pb.dust_pb.marshal [of p] fixed18_pb.dust_pb.unmarshal_enc [of p]
  by (simp add: co_ok_def dust_codec_def CollValue_def DustAmount_Marshal_def DustAmount_Unmarshal_def)

lemma length_int_text: "\<bar>i\<bar> < 10 ^ Suc k \<Longrightarrow> length (int_text i) \<le> k + 2"
proof -
  assume "\<bar>i\<bar> < 10 ^ Suc k"
  then have "nat \<bar>i\<bar> < 10 ^ Suc k" by (simp add: nat_less_iff)
  from length_digits [OF this] show ?thesis by (auto simp: int_text_def abs_if split: if_splits)
qed

lemma dust_small_ok:
  assumes "\<bar>da_Dust p\<bar> \<le> dec_limit"
  shows "co_ok (dust_codec fixed18_codec) p"
proof (rule dust_codec_ok)
  have "\<bar>da_Dust p\<bar> < 10 ^ Suc 79" using assms by (simp add: dec_limit_def)
  from length_int_text [OF this] have "length (int_text (da_Dust p)) \<le> 81" by simp
  then show "length (DustAmount_enc int_text p) < 2 ^ 63"
    using sov_bounds [of "of_nat (length (int_text (da_Dust p)))"]
    by (simp add: DustAmount_enc_def length_len_enc len_size_def)
qed

text \<open>
  Module accounts and addresses of the instance: the address of a module account is its name, and
  the hard-coded pool address is the one of the pool account.
\<close>

definition td_accounts :: "string list" where
  "td_accounts = [VeranaPoolAccount, td_ModuleName, protocolpool_ModuleName]"

definition td_addr :: "string \<Rightarrow> go_error + bytes" where
  "td_addr s = (if s = [] then Inl (LibError ''empty address string is not allowed'')
     else Inr (bytes_of_string (if s = veranaPool then VeranaPoolAccount else s)))"

definition td_kv_keeper :: "bytes \<Rightarrow> (kv, bytes \<Rightarrow> coins, coins, int) TdKeeper" where
  "td_kv_keeper authority =
     \<lparr>tk_StringToBytes = td_addr, tk_BytesToString = (\<lambda>b. Inr (string_of_bytes b)),
      tk_AccAddressFromBech32 = td_addr, tk_authority = authority,
      tk_Params = kv_item (td_params_codec fixed18_codec) td_ParamsKey,
      tk_DustAmount = kv_item (dust_codec fixed18_codec) DustAmountKey,
      tk_bank = ledger_bank bytes_of_string (\<lambda>m. m \<in> set td_accounts),
      tk_coins = multiset_coins, tk_dec = fixed18\<rparr>"

lemma td_kv_keeper_sel [simp]:
  "tk_StringToBytes (td_kv_keeper auth) = td_addr"
  "tk_AccAddressFromBech32 (td_kv_keeper auth) = td_addr"
  "tk_authority (td_kv_keeper auth) = auth"
  "tk_Params (td_kv_keeper auth) = kv_item (td_params_codec fixed18_codec) td_ParamsKey"
  "tk_DustAmount (td_kv_keeper auth) = kv_item (dust_codec fixed18_codec) DustAmountKey"
  "tk_bank (td_kv_keeper auth) = ledger_bank bytes_of_string (\<lambda>m. m \<in> set td_accounts)"
  "tk_coins (td_kv_keeper auth) = multiset_coins"
  "tk_dec (td_kv_keeper auth) = fixed18"
  by (simp_all add: td_kv_keeper_def)

interpretation td_store: kv_items "td_params_codec fixed18_codec" td_ParamsKey
  "dust_codec fixed18_codec" DustAmountKey
  by unfold_locales (simp add: td_ParamsKey_def DustAmountKey_def bytes_of_string_def)

abbreviation td_inv :: "kv \<Rightarrow> bool" where
  "td_inv \<equiv> items_inv (td_params_codec fixed18_codec) td_ParamsKey (dust_codec fixed18_codec) DustAmountKey"

abbreviation td_params_of :: "kv \<Rightarrow> int TdParams option" where
  "td_params_of \<equiv> item_val (td_params_codec fixed18_codec) td_ParamsKey"

abbreviation td_dust_of :: "kv \<Rightarrow> int DustAmount option" where
  "td_dust_of \<equiv> item_val (dust_codec fixed18_codec) DustAmountKey"

interpretation td_kv: trust_deposit "td_kv_keeper auth" "\<lambda>d. d" count ledger_bal bytes_of_string
  "\<lambda>m. m \<in> set td_accounts" td_inv td_params_of "co_ok (td_params_codec fixed18_codec)"
  td_dust_of "co_ok (dust_codec fixed18_codec)"
  for auth
proof (unfold trust_deposit_def td_kv_keeper_sel, intro conjI)
  show "legacy_dec fixed18 (\<lambda>d. d)" by (rule fixed18.legacy_dec_axioms)
  show "sdk_bank (ledger_bank bytes_of_string (\<lambda>m. m \<in> set td_accounts)) multiset_coins count
      ledger_bal bytes_of_string (\<lambda>m. m \<in> set td_accounts)"
    by (rule ledger.sdk_bank_axioms)
  show "item_store (kv_item (td_params_codec fixed18_codec) td_ParamsKey) td_inv td_params_of
      (co_ok (td_params_codec fixed18_codec))" by (rule td_store.P.item_store_axioms)
  show "item_store (kv_item (dust_codec fixed18_codec) DustAmountKey) td_inv td_dust_of
      (co_ok (dust_codec fixed18_codec))" by (rule td_store.Q.item_store_axioms)
  show "trust_deposit_axioms (td_kv_keeper auth) (\<lambda>d. d) bytes_of_string (\<lambda>m. m \<in> set td_accounts)
      td_inv td_params_of (co_ok (td_params_codec fixed18_codec)) td_dust_of
      (co_ok (dust_codec fixed18_codec))"
  proof
    fix s s' p and v :: "int DustAmount"
    show "td_dust_of s' = td_dust_of s"
      if "td_inv s" "co_ok (td_params_codec fixed18_codec) p"
        "i_set (tk_Params (td_kv_keeper auth)) s p = Inr s'"
      using items_set [OF that(1,2) td_store.keys] that(3) by auto
    show "td_params_of s' = td_params_of s"
      if "td_inv s" "co_ok (dust_codec fixed18_codec) v"
        "i_set (tk_DustAmount (td_kv_keeper auth)) s v = Inr s'"
      using items_set [OF items_inv_swap [OF that(1)] that(2) td_store.keys [symmetric]] that(3) by auto
  qed (simp_all add: dust_small_ok td_accounts_def td_addr_def VeranaPoolAccount_def
      td_ModuleName_def protocolpool_ModuleName_def veranaPool_def)
qed

end
