(* ===== verification/TdProps.thy ===== *)
theory TdProps
  imports TdStore
begin

text \<open>
  The properties of the trust deposit module. The statements assume \<open>trust_deposit\<close>, the joint
  contract of the decimal, the bank and the module's store; the witnesses run the keeper of
  \<open>TdStore\<close>.
\<close>

section \<open>A sample\<close>

text \<open>
  Parameters whose yield is 15000 whole units per block, and the contexts whose store holds them and
  no dust yet. Amounts are counts of coins, so the pool holds \<open>n\<close> coins of \<open>uvna\<close>.
\<close>

definition sample_params :: "int TdParams" where
  "sample_params = \<lparr>tp_TrustDepositShareValue = 10 ^ 18, tp_TrustDepositValue = 631152000000,
     tp_TrustDepositYieldRate = 15 * 10 ^ 16\<rparr>"

definition sample_yield :: int where
  "sample_yield = 15000 * 10 ^ 18"

lemma sample_perBlockYield: "perBlockYield fixed18 sample_params = Some sample_yield"
  by code_simp

definition td_ctx :: "kv \<Rightarrow> nat \<Rightarrow> (kv, bytes \<Rightarrow> coins) TdCtx" where
  "td_ctx s n = \<lparr>tc_store = s,
     tc_bank = (\<lambda>a. if a = bytes_of_string VeranaPoolAccount then replicate_mset n ''uvna'' else {#})\<rparr>"

lemma td_ctx_sel [simp]:
  "tc_store (td_ctx s n) = s"
  "ledger_bal (tc_bank (td_ctx s n)) (bytes_of_string VeranaPoolAccount) ''uvna'' = n"
  "a \<noteq> bytes_of_string VeranaPoolAccount \<Longrightarrow> ledger_bal (tc_bank (td_ctx s n)) a d = 0"
  by (simp_all add: td_ctx_def ledger_bal_def)

lemma account_names:
  "VeranaPoolAccount \<noteq> td_ModuleName" "VeranaPoolAccount \<noteq> protocolpool_ModuleName"
  "td_ModuleName \<noteq> protocolpool_ModuleName"
  by (simp_all add: VeranaPoolAccount_def td_ModuleName_def protocolpool_ModuleName_def)

lemma sample_params_ok:
  "co_ok (td_params_codec fixed18_codec) (sample_params\<lparr>tp_TrustDepositValue := v\<rparr>)"
proof (rule td_params_codec_ok)
  let ?s = "length (int_text (10 ^ 18))" and ?y = "length (int_text (15 * 10 ^ 16))"
  have l: "?s \<le> 22" "?y \<le> 22"
    using length_int_text [of "10 ^ 18" 20] length_int_text [of "15 * 10 ^ 16" 20] by simp_all
  have "uint_size v \<le> 11" using sov_bounds [of v] by (simp add: uint_size_def)
  with l show "length (TdParams_enc int_text (sample_params\<lparr>tp_TrustDepositValue := v\<rparr>)) < 2 ^ 63"
    using sov_bounds [of "of_nat ?s"] sov_bounds [of "of_nat ?y"]
    by (simp add: TdParams_enc_def length_enc len_size_def sample_params_def)
qed

lemma sample_store: "\<exists>s. td_inv s \<and> td_params_of s = Some sample_params \<and> td_dust_of s = None"
proof -
  have e: "td_inv []" "td_dust_of [] = None"
    by (simp_all add: items_inv_def item_inv_def item_val_def)
  have "co_ok (td_params_codec fixed18_codec) sample_params"
    using sample_params_ok [of "tp_TrustDepositValue sample_params"] by simp
  from items_set [OF e(1) this td_store.keys] e(2) show ?thesis by auto
qed

text \<open>The store of the witnesses.\<close>

lemma sample_storeE:
  obtains s where "td_inv s" "td_params_of s = Some sample_params"
    "dust_of (\<lambda>d. d) td_dust_of s = 0"
  using sample_store by (auto simp: dust_of_def)

section \<open>The begin blocker\<close>

text \<open>C6. The begin blocker is the abstract block: it adds the yield of the block to the dust, pays
  the whole units from the pool to the module when the pool holds them, and sends what is left in the
  pool to the community pool.\<close>

theorem begin_blocker_is_spec_block:
  assumes "trust_deposit k raw amt bal macc known invar pval pok dval dok"
    "invar (tc_store ctx)" "pval (tc_store ctx) = Some params"
    "perBlockYield (tk_dec k) params = Some y" "0 \<le> raw y"
    "0 \<le> dust_of raw dval (tc_store ctx)" "dust_of raw dval (tc_store ctx) + raw y \<le> dec_limit"
  shows "\<exists>ctx'. BeginBlocker k ctx = (Ret (), ctx') \<and> pval (tc_store ctx') = Some params \<and>
    (dust_of raw dval (tc_store ctx'), bal (tc_bank ctx')) =
      spec_block (macc VeranaPoolAccount) (macc td_ModuleName) (macc protocolpool_ModuleName) (raw y)
        (dust_of raw dval (tc_store ctx), bal (tc_bank ctx))"
  using trust_deposit.begin_blocker_refines [OF assms] by blast

lemma begin_blocker_is_spec_block_witness:
  "\<exists>ctx ctx'. BeginBlocker (td_kv_keeper []) ctx = (Ret (), ctx') \<and>
     (dust_of (\<lambda>d. d) td_dust_of (tc_store ctx'), ledger_bal (tc_bank ctx')) =
     spec_block (bytes_of_string VeranaPoolAccount) (bytes_of_string td_ModuleName)
       (bytes_of_string protocolpool_ModuleName) sample_yield (0, ledger_bal (tc_bank ctx))"
proof -
  obtain s where s: "td_inv s" "td_params_of s = Some sample_params"
    "dust_of (\<lambda>d. d) td_dust_of s = 0" by (rule sample_storeE)
  have "0 \<le> sample_yield" "sample_yield \<le> dec_limit" by (simp_all add: sample_yield_def dec_limit_def)
  with begin_blocker_is_spec_block [OF td_kv.trust_deposit_axioms [of "[]"],
      of "td_ctx s 20000" sample_params sample_yield] s
  obtain ctx' where r: "BeginBlocker (td_kv_keeper []) (td_ctx s 20000) = (Ret (), ctx')"
    "(dust_of (\<lambda>d. d) td_dust_of (tc_store ctx'), ledger_bal (tc_bank ctx')) =
     spec_block (bytes_of_string VeranaPoolAccount) (bytes_of_string td_ModuleName)
       (bytes_of_string protocolpool_ModuleName) sample_yield (0, ledger_bal (tc_bank (td_ctx s 20000)))"
    by (auto simp: sample_perBlockYield)
  then show ?thesis by blast
qed

text \<open>After a block in which the begin blocker succeeds, the pool account is empty: what the
  module did not take has gone to the community pool.\<close>

theorem pool_empty_after_block:
  assumes "trust_deposit k raw amt bal macc known invar pval pok dval dok"
    "BeginBlocker k ctx = (Ret (), ctx')"
  shows "bal (tc_bank ctx') (macc VeranaPoolAccount) d = 0"
proof -
  from assms(2) obtain c where c: "SendFundsFromVeranaPool k ctx = (Ret (), c)"
    "SendFundsBackToCommunityPool k c = (Ret (), ctx')"
    by (auto simp: BeginBlocker_def split: prod.splits outcome.splits)
  from trust_deposit.sweep_refines [OF assms(1), of c] c(2)
  have "bal (tc_bank ctx') = spec_sweep (macc VeranaPoolAccount) (macc protocolpool_ModuleName)
      (bal (tc_bank c))" by auto
  moreover have "macc VeranaPoolAccount \<noteq> macc protocolpool_ModuleName"
    using assms(1) by (simp add: trust_deposit_def trust_deposit_axioms_def)
  ultimately show ?thesis by (simp add: spec_sweep_def)
qed

lemma pool_empty_after_block_witness:
  "\<exists>ctx ctx'. BeginBlocker (td_kv_keeper []) ctx = (Ret (), ctx') \<and>
     ledger_bal (tc_bank ctx) (bytes_of_string VeranaPoolAccount) ''uvna'' = 20000 \<and>
     ledger_bal (tc_bank ctx') (bytes_of_string VeranaPoolAccount) ''uvna'' = 0"
proof -
  obtain s where s: "td_inv s" "td_params_of s = Some sample_params"
    "dust_of (\<lambda>d. d) td_dust_of s = 0" by (rule sample_storeE)
  have y: "0 \<le> sample_yield" "sample_yield \<le> dec_limit" by (simp_all add: sample_yield_def dec_limit_def)
  obtain ctx' where r: "BeginBlocker (td_kv_keeper []) (td_ctx s 20000) = (Ret (), ctx')"
    using td_kv.begin_blocker_refines [where ctx = "td_ctx s 20000" and params = sample_params
        and y = sample_yield and auth = "[]"] s y
    by (auto simp: sample_perBlockYield)
  from pool_empty_after_block [OF td_kv.trust_deposit_axioms r] r show ?thesis
    by (intro exI [of _ "td_ctx s 20000"] exI [of _ ctx']) simp
qed

text \<open>C21. A block that finds the pool underfunded pays nothing: the dust is as before, so the yield
  of the block is lost, and the whole pool goes to the community pool.\<close>

theorem underfunded_block_loses_yield:
  assumes "trust_deposit k raw amt bal macc known invar pval pok dval dok"
    "invar (tc_store ctx)" "pval (tc_store ctx) = Some params"
    "perBlockYield (tk_dec k) params = Some y" "0 \<le> raw y"
    "0 \<le> dust_of raw dval (tc_store ctx)" "dust_of raw dval (tc_store ctx) + raw y \<le> dec_limit"
    "prec \<le> dust_of raw dval (tc_store ctx) + raw y"
    "bal (tc_bank ctx) (macc VeranaPoolAccount) ''uvna'' <
       nat ((dust_of raw dval (tc_store ctx) + raw y) div prec)"
  shows "\<exists>ctx'. BeginBlocker k ctx = (Ret (), ctx') \<and>
    dust_of raw dval (tc_store ctx') = dust_of raw dval (tc_store ctx) \<and>
    bal (tc_bank ctx') = spec_sweep (macc VeranaPoolAccount) (macc protocolpool_ModuleName)
      (bal (tc_bank ctx))"
  using trust_deposit.begin_blocker_refines [OF assms(1-7)] assms(8,9)
  by (auto simp: spec_block_skip)

lemma underfunded_block_loses_yield_witness:
  "\<exists>ctx ctx'. BeginBlocker (td_kv_keeper []) ctx = (Ret (), ctx') \<and>
     ledger_bal (tc_bank ctx) (bytes_of_string VeranaPoolAccount) ''uvna'' = 100 \<and>
     dust_of (\<lambda>d. d) td_dust_of (tc_store ctx') = 0 \<and>
     ledger_bal (tc_bank ctx') (bytes_of_string td_ModuleName) ''uvna'' = 0 \<and>
     ledger_bal (tc_bank ctx') (bytes_of_string protocolpool_ModuleName) ''uvna'' = 100"
proof -
  obtain s where s: "td_inv s" "td_params_of s = Some sample_params"
    "dust_of (\<lambda>d. d) td_dust_of s = 0" by (rule sample_storeE)
  have y: "0 \<le> sample_yield" "sample_yield \<le> dec_limit" "prec \<le> sample_yield"
    "100 < nat (sample_yield div prec)" by (simp_all add: sample_yield_def dec_limit_def prec_def)
  from underfunded_block_loses_yield [OF td_kv.trust_deposit_axioms [of "[]"],
      of "td_ctx s 100" sample_params sample_yield] s y
  obtain ctx' where r: "BeginBlocker (td_kv_keeper []) (td_ctx s 100) = (Ret (), ctx')"
    "dust_of (\<lambda>d. d) td_dust_of (tc_store ctx') = 0"
    "ledger_bal (tc_bank ctx') = spec_sweep (bytes_of_string VeranaPoolAccount)
      (bytes_of_string protocolpool_ModuleName) (ledger_bal (tc_bank (td_ctx s 100)))"
    by (auto simp: sample_perBlockYield)
  have "ledger_bal (tc_bank ctx') (bytes_of_string td_ModuleName) ''uvna'' = 0"
    "ledger_bal (tc_bank ctx') (bytes_of_string protocolpool_ModuleName) ''uvna'' = 100"
    unfolding r(3) using account_names account_names [symmetric] by (simp_all add: spec_sweep_def)
  with r show ?thesis
    by (intro exI [of _ "td_ctx s 100"] exI [of _ ctx'] conjI) simp_all
qed

text \<open>C14. Over any number of blocks whose pool is funded for the yield, the module receives exactly
  the accumulated yield: what it holds and the dust grow by the yield of every block, and the dust
  stays below one unit.\<close>

theorem yield_is_exact_over_blocks:
  assumes "trust_deposit k raw amt bal macc known invar pval pok dval dok"
    "invar (tc_store ctx)" "pval (tc_store ctx) = Some params"
    "perBlockYield (tk_dec k) params = Some y" "0 \<le> raw y" "raw y + prec \<le> dec_limit"
    "0 \<le> dust_of raw dval (tc_store ctx)" "dust_of raw dval (tc_store ctx) < prec"
    "\<forall>f \<in> set fs. \<forall>b. bal (f b) (macc td_ModuleName) = bal b (macc td_ModuleName) \<and>
      nat ((raw y + prec - 1) div prec) \<le> bal (f b) (macc VeranaPoolAccount) ''uvna''"
  shows "\<exists>ctx'. run_blocks k fs ctx = (Ret (), ctx') \<and>
    0 \<le> dust_of raw dval (tc_store ctx') \<and> dust_of raw dval (tc_store ctx') < prec \<and>
    prec * int (bal (tc_bank ctx') (macc td_ModuleName) ''uvna'') + dust_of raw dval (tc_store ctx') =
    prec * int (bal (tc_bank ctx) (macc td_ModuleName) ''uvna'') + dust_of raw dval (tc_store ctx)
      + int (length fs) * raw y"
  by (rule trust_deposit.run_blocks_exact [OF assms])

lemma yield_is_exact_over_blocks_witness:
  "\<exists>ctx ctx'. run_blocks (td_kv_keeper [])
      (replicate 3 (\<lambda>b. b(bytes_of_string VeranaPoolAccount := replicate_mset 20000 ''uvna''))) ctx
      = (Ret (), ctx') \<and>
     ledger_bal (tc_bank ctx') (bytes_of_string td_ModuleName) ''uvna'' = 45000"
proof -
  obtain s where s: "td_inv s" "td_params_of s = Some sample_params"
    "dust_of (\<lambda>d. d) td_dust_of s = 0" by (rule sample_storeE)
  let ?f = "\<lambda>b. b(bytes_of_string VeranaPoolAccount := replicate_mset 20000 ''uvna'')"
  have y: "0 \<le> sample_yield" "sample_yield + prec \<le> dec_limit"
    "nat ((sample_yield + prec - 1) div prec) \<le> 20000"
    by (simp_all add: sample_yield_def dec_limit_def prec_def)
  have f: "\<forall>f \<in> set (replicate 3 ?f). \<forall>b.
      ledger_bal (f b) (bytes_of_string td_ModuleName) = ledger_bal b (bytes_of_string td_ModuleName) \<and>
      nat ((sample_yield + prec - 1) div prec) \<le>
        ledger_bal (f b) (bytes_of_string VeranaPoolAccount) ''uvna''"
    using account_names y(3) by (simp add: ledger_bal_def fun_eq_iff)
  from yield_is_exact_over_blocks [OF td_kv.trust_deposit_axioms [of "[]"],
      of "td_ctx s 0" sample_params sample_yield "replicate 3 ?f"] s y f
  obtain ctx' where r: "run_blocks (td_kv_keeper []) (replicate 3 ?f) (td_ctx s 0) = (Ret (), ctx')"
    "0 \<le> dust_of (\<lambda>d. d) td_dust_of (tc_store ctx')" "dust_of (\<lambda>d. d) td_dust_of (tc_store ctx') < prec"
    "prec * int (ledger_bal (tc_bank ctx') (bytes_of_string td_ModuleName) ''uvna'') +
       dust_of (\<lambda>d. d) td_dust_of (tc_store ctx') =
     prec * int (ledger_bal (tc_bank (td_ctx s 0)) (bytes_of_string td_ModuleName) ''uvna'') +
       int (length (replicate 3 ?f)) * sample_yield"
    by (auto simp: sample_perBlockYield)
  have "ledger_bal (tc_bank (td_ctx s 0)) (bytes_of_string td_ModuleName) ''uvna'' = 0"
    by (simp add: td_ctx_def ledger_bal_def)
  then have "ledger_bal (tc_bank ctx') (bytes_of_string td_ModuleName) ''uvna'' = 45000"
    using r(2-4) by (simp add: sample_yield_def prec_def)
  with r(1) show ?thesis by blast
qed

text \<open>C26. A positive yield is eventually paid: however small it is, after enough funded blocks the balance
  of the module has grown.\<close>

theorem yield_eventually_paid:
  assumes "trust_deposit k raw amt bal macc known invar pval pok dval dok"
    "invar (tc_store ctx)" "pval (tc_store ctx) = Some params"
    "perBlockYield (tk_dec k) params = Some y" "0 < raw y" "raw y + prec \<le> dec_limit"
    "0 \<le> dust_of raw dval (tc_store ctx)" "dust_of raw dval (tc_store ctx) < prec"
  shows "\<exists>n. \<forall>fs. n \<le> length fs \<and> (\<forall>f \<in> set fs. \<forall>b. bal (f b) (macc td_ModuleName) = bal b (macc td_ModuleName) \<and>
      nat ((raw y + prec - 1) div prec) \<le> bal (f b) (macc VeranaPoolAccount) ''uvna'') \<longrightarrow>
    (\<exists>ctx'. run_blocks k fs ctx = (Ret (), ctx') \<and>
      bal (tc_bank ctx) (macc td_ModuleName) ''uvna'' < bal (tc_bank ctx') (macc td_ModuleName) ''uvna'')"
proof (intro exI [of _ "nat prec"] allI impI)
  fix fs assume fs: "nat prec \<le> length fs \<and> (\<forall>f \<in> set fs. \<forall>b. bal (f b) (macc td_ModuleName) = bal b (macc td_ModuleName) \<and>
      nat ((raw y + prec - 1) div prec) \<le> bal (f b) (macc VeranaPoolAccount) ''uvna'')"
  from trust_deposit.run_blocks_exact [OF assms(1-4) less_imp_le [OF assms(5)] assms(6-8), of fs] fs obtain ctx' where
    run: "run_blocks k fs ctx = (Ret (), ctx')" "dust_of raw dval (tc_store ctx') < prec"
    "prec * int (bal (tc_bank ctx') (macc td_ModuleName) ''uvna'') + dust_of raw dval (tc_store ctx') =
     prec * int (bal (tc_bank ctx) (macc td_ModuleName) ''uvna'') + dust_of raw dval (tc_store ctx)
       + int (length fs) * raw y" by blast
  have "prec \<le> int (length fs)" using conjunct1 [OF fs] by (simp add: nat_le_iff)
  also have "int (length fs) * 1 \<le> int (length fs) * raw y" using assms(5) by (intro mult_left_mono) simp_all
  finally have "prec \<le> int (length fs) * raw y" by simp
  with run(2,3) assms(7) have "prec * int (bal (tc_bank ctx) (macc td_ModuleName) ''uvna'') <
      prec * int (bal (tc_bank ctx') (macc td_ModuleName) ''uvna'')" by linarith
  then have "bal (tc_bank ctx) (macc td_ModuleName) ''uvna'' < bal (tc_bank ctx') (macc td_ModuleName) ''uvna''"
    by (simp add: prec_def)
  with run(1) show "\<exists>ctx'. run_blocks k fs ctx = (Ret (), ctx') \<and>
      bal (tc_bank ctx) (macc td_ModuleName) ''uvna'' < bal (tc_bank ctx') (macc td_ModuleName) ''uvna''" by blast
qed

lemma yield_eventually_paid_witness:
  "\<exists>ctx n. \<exists>ctx'. run_blocks (td_kv_keeper [])
      (replicate n (\<lambda>b. b(bytes_of_string VeranaPoolAccount := replicate_mset 20000 ''uvna''))) ctx = (Ret (), ctx') \<and>
     ledger_bal (tc_bank ctx) (bytes_of_string td_ModuleName) ''uvna'' <
     ledger_bal (tc_bank ctx') (bytes_of_string td_ModuleName) ''uvna''"
proof -
  obtain s where s: "td_inv s" "td_params_of s = Some sample_params"
    "dust_of (\<lambda>d. d) td_dust_of s = 0" by (rule sample_storeE)
  let ?f = "\<lambda>b. b(bytes_of_string VeranaPoolAccount := replicate_mset 20000 ''uvna'')"
  have y: "0 < sample_yield" "sample_yield + prec \<le> dec_limit" "nat ((sample_yield + prec - 1) div prec) \<le> 20000"
    by (simp_all add: sample_yield_def dec_limit_def prec_def)
  have f: "\<forall>f \<in> set (replicate n ?f). \<forall>b.
      ledger_bal (f b) (bytes_of_string td_ModuleName) = ledger_bal b (bytes_of_string td_ModuleName) \<and>
      nat ((sample_yield + prec - 1) div prec) \<le>
        ledger_bal (f b) (bytes_of_string VeranaPoolAccount) ''uvna''" for n
    using account_names y(3) by (simp add: ledger_bal_def fun_eq_iff)
  from yield_eventually_paid [OF td_kv.trust_deposit_axioms [of "[]"], of "td_ctx s 0" sample_params sample_yield] s y
  obtain n where n: "\<And>fs. n \<le> length fs \<and> (\<forall>f \<in> set fs. \<forall>b.
      ledger_bal (f b) (bytes_of_string td_ModuleName) = ledger_bal b (bytes_of_string td_ModuleName) \<and>
      nat ((sample_yield + prec - 1) div prec) \<le> ledger_bal (f b) (bytes_of_string VeranaPoolAccount) ''uvna'') \<Longrightarrow>
    \<exists>ctx'. run_blocks (td_kv_keeper []) fs (td_ctx s 0) = (Ret (), ctx') \<and>
      ledger_bal (tc_bank (td_ctx s 0)) (bytes_of_string td_ModuleName) ''uvna'' <
      ledger_bal (tc_bank ctx') (bytes_of_string td_ModuleName) ''uvna''"
    by (auto simp: sample_perBlockYield prec_def)
  from n [of "replicate n ?f"] f [of n] show ?thesis by (metis length_replicate order_refl)
qed

text \<open>C38. The yield of a block times the number of blocks of a year is the annual yield up to that
  many units of \<open>10^-18\<close>, and it is not negative when deposit and rate are not.\<close>

theorem per_block_yield_rounding:
  assumes "legacy_dec L raw"
    "\<bar>sint (tp_TrustDepositValue params) * prec * raw (tp_TrustDepositYieldRate params)\<bar> \<le> dec_limit"
  shows "\<exists>y. perBlockYield L params = Some y \<and>
    \<bar>raw y * blocksPerYear - sint (tp_TrustDepositValue params) * raw (tp_TrustDepositYieldRate params)\<bar>
      \<le> blocksPerYear \<and>
    (0 \<le> sint (tp_TrustDepositValue params) * raw (tp_TrustDepositYieldRate params) \<longrightarrow> 0 \<le> raw y)"
  by (rule legacy_dec.per_block_yield [OF assms])

lemma sample_limit:
  "\<bar>sint (tp_TrustDepositValue sample_params) * prec * tp_TrustDepositYieldRate sample_params\<bar> \<le> dec_limit"
  by code_simp

lemma per_block_yield_rounding_witness:
  "\<exists>y. perBlockYield fixed18 sample_params = Some y \<and>
     \<bar>y * 6311520 - sint (tp_TrustDepositValue sample_params) * (15 * 10 ^ 16)\<bar> \<le> 6311520"
  using per_block_yield_rounding [OF fixed18.legacy_dec_axioms sample_limit]
  by (auto simp: blocksPerYear_def sample_params_def)

section \<open>Funding\<close>

text \<open>The context of the witnesses: an account holds \<open>n\<close> coins.\<close>

definition fund_ctx :: "kv \<Rightarrow> nat \<Rightarrow> (kv, bytes \<Rightarrow> coins) TdCtx" where
  "fund_ctx s n = \<lparr>tc_store = s,
     tc_bank = (\<lambda>a. if a = bytes_of_string ''alice'' then replicate_mset n ''uvna'' else {#})\<rparr>"

definition sample_fund :: "u64 \<Rightarrow> string \<Rightarrow> MsgFundModule" where
  "sample_fund n m = \<lparr>mfm_Creator = ''alice'', mfm_Amount = n, mfm_Module = m\<rparr>"

lemma sample_fund_sel [simp]:
  "mfm_Creator (sample_fund n m) = ''alice''" "mfm_Amount (sample_fund n m) = n"
  "mfm_Module (sample_fund n m) = m"
  by (simp_all add: sample_fund_def)

lemma td_addr_alice [simp]: "td_addr ''alice'' = Inr (bytes_of_string ''alice'')"
  by (simp add: td_addr_def veranaPool_def)

lemma sample_fund_runs:
  assumes "td_inv s" "td_params_of s = Some sample_params"
  shows "\<exists>ctx'. FundModule (td_kv_keeper auth) (sample_fund 30 td_ModuleName) (fund_ctx s 50) = (Ret (), ctx')"
proof -
  obtain s' where set: "i_set (kv_item (td_params_codec fixed18_codec) td_ParamsKey) s
      (sample_params\<lparr>tp_TrustDepositValue := tp_TrustDepositValue sample_params + 30\<rparr>) = Inr s'"
    using items_set [OF assms(1) sample_params_ok td_store.keys] by blast
  have get: "i_get (kv_item (td_params_codec fixed18_codec) td_ParamsKey) s = Inr sample_params"
    by (rule td_store.P.item_get_Some [OF assms])
  have bank: "\<exists>b. SendCoinsFromAccountToModule (ledger_bank bytes_of_string (\<lambda>m. m \<in> set td_accounts))
      (tc_bank (fund_ctx s 50)) (bytes_of_string ''alice'') td_ModuleName (replicate_mset 30 ''uvna'') = Ret b"
    by (simp add: ledger_bank_def td_accounts_def send_def fund_ctx_def replicate_mset_msubseteq_iff Let_def)
  have coin: "NewCoins1 multiset_coins ''uvna'' (sint (30 :: u64)) = Some (replicate_mset 30 ''uvna'')"
    by (simp add: multiset_coins_def)
  from bank obtain b where b: "SendCoinsFromAccountToModule (ledger_bank bytes_of_string (\<lambda>m. m \<in> set td_accounts))
      (tc_bank (fund_ctx s 50)) (bytes_of_string ''alice'') td_ModuleName (replicate_mset 30 ''uvna'') = Ret b"
    by blast
  have "tc_store (fund_ctx s 50) = s" by (simp add: fund_ctx_def)
  then show ?thesis using set get b coin by (simp add: FundModule_def)
qed

text \<open>C31. A successful \<open>FundModule\<close> moves exactly the amount of the message, in \<open>uvna\<close>, from its creator to
  the account of the module it names. When that is the trust deposit module it adds the amount to
  \<open>TrustDepositValue\<close>, with the sum wrapped at 64 bits; otherwise the parameters stay. The dust does not
  change.\<close>

theorem fund_module_moves_amount:
  assumes "trust_deposit k raw amt bal macc known invar pval pok dval dok"
    "FundModule k msg ctx = (Ret (), ctx')" "tk_AccAddressFromBech32 k (mfm_Creator msg) = Inr a"
    "invar (tc_store ctx)" "pval (tc_store ctx) = Some p"
    "pok (p\<lparr>tp_TrustDepositValue := tp_TrustDepositValue p + mfm_Amount msg\<rparr>)"
  shows "0 \<le> sint (mfm_Amount msg) \<and> known (mfm_Module msg) \<and>
    nat (sint (mfm_Amount msg)) \<le> bal (tc_bank ctx) a ''uvna'' \<and>
    bal (tc_bank ctx') = move (bal (tc_bank ctx)) a (macc (mfm_Module msg))
      (uvna_only (nat (sint (mfm_Amount msg)))) \<and>
    pval (tc_store ctx') = Some (if mfm_Module msg = td_ModuleName
      then p\<lparr>tp_TrustDepositValue := tp_TrustDepositValue p + mfm_Amount msg\<rparr> else p) \<and>
    dust_of raw dval (tc_store ctx') = dust_of raw dval (tc_store ctx)"
  using trust_deposit.fund_module_Ret [OF assms(1-3)] trust_deposit.fund_module_params [OF assms(1,2,4-6)]
  by blast

lemma fund_module_moves_amount_witness:
  "\<exists>ctx ctx'. FundModule (td_kv_keeper []) (sample_fund 30 td_ModuleName) ctx = (Ret (), ctx') \<and>
     ledger_bal (tc_bank ctx') = move (ledger_bal (tc_bank ctx)) (bytes_of_string ''alice'')
       (bytes_of_string td_ModuleName) (uvna_only 30) \<and>
     td_params_of (tc_store ctx') = Some (sample_params\<lparr>tp_TrustDepositValue := 631152000030\<rparr>)"
proof -
  obtain s where s: "td_inv s" "td_params_of s = Some sample_params" by (rule sample_storeE)
  obtain ctx' where r: "FundModule (td_kv_keeper []) (sample_fund 30 td_ModuleName) (fund_ctx s 50) = (Ret (), ctx')"
    using sample_fund_runs [OF s] by blast
  have "tc_store (fund_ctx s 50) = s" by (simp add: fund_ctx_def)
  moreover have "tp_TrustDepositValue sample_params + 30 = 631152000030" by (simp add: sample_params_def)
  ultimately show ?thesis
    using fund_module_moves_amount [OF td_kv.trust_deposit_axioms r] s r sample_params_ok
    by (intro exI [of _ "fund_ctx s 50"] exI [of _ ctx']) simp
qed

text \<open>C32. \<open>FundModule\<close> does not return an error for a negative amount or an unknown module: it
  panics, and changes nothing before.\<close>

theorem fund_module_panics:
  assumes "trust_deposit k raw amt bal macc known invar pval pok dval dok"
    "tk_StringToBytes k (mfm_Creator msg) = Inr a"
    "sint (mfm_Amount msg) < 0 \<or> \<not> known (mfm_Module msg)"
  shows "\<exists>e. FundModule k msg ctx = (Panic e, ctx)"
  using trust_deposit.fund_module_negative [OF assms(1,2)]
    trust_deposit.fund_module_unknown [OF assms(1,2)] assms(3) by blast

lemma fund_module_panics_witness:
  "\<exists>e. FundModule (td_kv_keeper []) (sample_fund (- 1) td_ModuleName) (fund_ctx [] 50) = (Panic e, fund_ctx [] 50)"
  using fund_module_panics [OF td_kv.trust_deposit_axioms [of "[]"], of "sample_fund (- 1) td_ModuleName"]
  by simp

section \<open>Parameters, dust and genesis\<close>

text \<open>\<open>UpdateParams\<close> of the trust deposit module succeeds exactly for the authority; it then
  stores the new parameters, whatever their values, and a refused message changes nothing.\<close>

theorem td_update_params_authority:
  assumes "item_store (tk_Params k) invar pval pok" "invar (tc_store ctx)" "pok (tmup_Params req)"
  shows "if tk_StringToBytes k (tmup_Authority req) = Inr (tk_authority k)
    then \<exists>ctx'. td_UpdateParams k req ctx = (Ret (), ctx') \<and>
      pval (tc_store ctx') = Some (tmup_Params req) \<and> tc_bank ctx' = tc_bank ctx
    else \<exists>err. td_UpdateParams k req ctx = (Err err, ctx)"
proof -
  obtain s where "i_set (tk_Params k) (tc_store ctx) (tmup_Params req) = Inr s"
    "pval s = Some (tmup_Params req)" using item_store.item_set [OF assms] by blast
  then show ?thesis
    by (auto simp: td_UpdateParams_def td_GetAuthority_def Let_def split: sum.split)
qed

lemma td_update_params_authority_witness:
  "\<exists>ctx'. td_UpdateParams (td_kv_keeper (bytes_of_string ''gov''))
      \<lparr>tmup_Authority = ''gov'', tmup_Params = sample_params\<rparr> (td_ctx [] 0) = (Ret (), ctx') \<and>
     td_params_of (tc_store ctx') = Some sample_params"
proof -
  have "td_inv (tc_store (td_ctx [] 0))" by (simp add: items_inv_def item_inv_def)
  moreover have "co_ok (td_params_codec fixed18_codec) sample_params"
    using sample_params_ok [of "tp_TrustDepositValue sample_params"] by simp
  moreover have "item_store (tk_Params (td_kv_keeper (bytes_of_string ''gov''))) td_inv td_params_of
      (co_ok (td_params_codec fixed18_codec))"
    unfolding td_kv_keeper_sel by (rule td_store.P.item_store_axioms)
  moreover have "td_addr ''gov'' = Inr (bytes_of_string ''gov'')" by (simp add: td_addr_def veranaPool_def)
  ultimately show ?thesis
    using td_update_params_authority [of "td_kv_keeper (bytes_of_string ''gov'')" td_inv td_params_of
        "co_ok (td_params_codec fixed18_codec)" "td_ctx [] 0"
        "\<lparr>tmup_Authority = ''gov'', tmup_Params = sample_params\<rparr>"] by auto
qed

text \<open>C33. \<open>UpdateParams\<close> can stop the chain: parameters whose product of deposit value and yield rate does
  not fit the decimal are accepted from the authority, and the next begin block then panics.\<close>

theorem update_params_can_stop_blocks:
  assumes "item_store (tk_Params k) invar pval pok" "invar (tc_store ctx)" "pok (tmup_Params req)"
    "tk_StringToBytes k (tmup_Authority req) = Inr (tk_authority k)"
    "dec_Mul (tk_dec k) (LegacyNewDecFromInt (tk_dec k) (sint (tp_TrustDepositValue (tmup_Params req))))
       (tp_TrustDepositYieldRate (tmup_Params req)) = None"
  shows "\<exists>ctx' e. td_UpdateParams k req ctx = (Ret (), ctx') \<and> td_BeginBlock k ctx' = (Panic e, ctx')"
proof -
  obtain s where "i_set (tk_Params k) (tc_store ctx) (tmup_Params req) = Inr s"
    "i_get (tk_Params k) s = Inr (tmup_Params req)" using item_store.item_setE [OF assms(1-3)] by blast
  moreover have "perBlockYield (tk_dec k) (tmup_Params req) = None" by (simp add: perBlockYield_def assms(5))
  ultimately show ?thesis using assms(4)
    by (simp add: td_UpdateParams_def td_GetAuthority_def td_Params_Validate_None td_BeginBlock_def
        BeginBlocker_def SendFundsFromVeranaPool_def)
qed

text \<open>The witness sets a rate of \<open>2^300\<close> units of \<open>10^-18\<close>, which the wire format can hold.\<close>

definition huge_params :: "int TdParams" where
  "huge_params = sample_params\<lparr>tp_TrustDepositYieldRate := 2 ^ 300\<rparr>"

lemma huge_params_ok: "co_ok (td_params_codec fixed18_codec) huge_params"
proof (rule td_params_codec_ok)
  let ?s = "length (int_text (10 ^ 18))" and ?y = "length (int_text (2 ^ 300))"
  have l: "?s \<le> 22" "?y \<le> 100"
    using length_int_text [of "10 ^ 18" 20] length_int_text [of "2 ^ 300" 98] by simp_all
  have "uint_size (tp_TrustDepositValue huge_params) \<le> 11"
    using sov_bounds [of "tp_TrustDepositValue huge_params"] by (simp add: uint_size_def)
  with l show "length (TdParams_enc int_text huge_params) < 2 ^ 63"
    using sov_bounds [of "of_nat ?s"] sov_bounds [of "of_nat ?y"]
    by (simp add: TdParams_enc_def length_enc len_size_def huge_params_def sample_params_def)
qed

lemma update_params_can_stop_blocks_witness:
  "\<exists>ctx e. td_UpdateParams (td_kv_keeper (bytes_of_string ''gov''))
      \<lparr>tmup_Authority = ''gov'', tmup_Params = huge_params\<rparr> (td_ctx [] 0) = (Ret (), ctx) \<and>
     td_BeginBlock (td_kv_keeper (bytes_of_string ''gov'')) ctx = (Panic e, ctx)"
proof -
  let ?k = "td_kv_keeper (bytes_of_string ''gov'')"
  have i: "item_store (tk_Params ?k) td_inv td_params_of (co_ok (td_params_codec fixed18_codec))"
    unfolding td_kv_keeper_sel by (rule td_store.P.item_store_axioms)
  have "dec_Mul fixed18 (LegacyNewDecFromInt fixed18 631152000000) (2 ^ 300) = None" by code_simp
  moreover have "sint (tp_TrustDepositValue huge_params) = 631152000000" by code_simp
  moreover have "tp_TrustDepositYieldRate huge_params = 2 ^ 300" by (simp add: huge_params_def)
  moreover have "td_inv (tc_store (td_ctx [] 0))" by (simp add: items_inv_def item_inv_def)
  moreover have "td_addr ''gov'' = Inr (bytes_of_string ''gov'')" by (simp add: td_addr_def veranaPool_def)
  ultimately show ?thesis
    using update_params_can_stop_blocks [OF i, of "td_ctx [] 0" "\<lparr>tmup_Authority = ''gov'', tmup_Params = huge_params\<rparr>"]
      huge_params_ok by simp
qed

text \<open>Exporting right after importing a genesis state of the trust deposit module gives it back.\<close>

theorem td_genesis_import_export:
  assumes "item_store (tk_Params k) invar pval pok" "invar s" "pok (tgs_Params g)"
  shows "\<exists>s'. td_InitGenesis k g s = Inr s' \<and> td_ExportGenesis k s' = Inr g"
proof -
  obtain s' where "i_set (tk_Params k) s (tgs_Params g) = Inr s'"
    "i_get (tk_Params k) s' = Inr (tgs_Params g)" using item_store.item_setE [OF assms] by blast
  then show ?thesis by (simp add: td_InitGenesis_def td_ExportGenesis_def td_DefaultGenesis_def)
qed

lemma td_genesis_import_export_witness:
  "\<exists>s'. td_InitGenesis (td_kv_keeper []) \<lparr>tgs_Params = sample_params\<rparr> [] = Inr s' \<and>
     td_ExportGenesis (td_kv_keeper []) s' = Inr \<lparr>tgs_Params = sample_params\<rparr>"
proof -
  have "item_store (tk_Params (td_kv_keeper [])) td_inv td_params_of
      (co_ok (td_params_codec fixed18_codec))"
    unfolding td_kv_keeper_sel by (rule td_store.P.item_store_axioms)
  moreover have "td_inv []" by (simp add: items_inv_def item_inv_def)
  moreover have "co_ok (td_params_codec fixed18_codec) sample_params"
    using sample_params_ok [of "tp_TrustDepositValue sample_params"] by simp
  ultimately show ?thesis
    using td_genesis_import_export [of "td_kv_keeper []" td_inv td_params_of
        "co_ok (td_params_codec fixed18_codec)" "[]" "\<lparr>tgs_Params = sample_params\<rparr>"] by simp
qed

text \<open>The dust accumulator: a fresh store holds zero, adding an amount adds it, resetting gives
  zero; the parameters do not change.\<close>

theorem dust_accumulates:
  assumes "trust_deposit k raw amt bal macc known invar pval pok dval dok" "invar s"
    "\<bar>dust_of raw dval s + raw a\<bar> \<le> dec_limit"
  shows "\<exists>s'. AddToDustAmount k a s = Ret s' \<and> dust_of raw dval s' = dust_of raw dval s + raw a \<and>
      pval s' = pval s \<and>
    (\<exists>s''. ResetDustAmount k s' = Inr s'' \<and> dust_of raw dval s'' = 0 \<and> pval s'' = pval s)"
proof -
  have dec: "legacy_dec (tk_dec k) raw" using assms(1) by (simp add: trust_deposit_def)
  obtain d where d: "GetDustAmount k s = Inr d" "raw d = dust_of raw dval s"
    using trust_deposit.get_dust [OF assms(1,2)] by blast
  then obtain n where n: "dec_Add (tk_dec k) d a = Some n" "raw n = dust_of raw dval s + raw a"
    using legacy_dec.raw_add [OF dec, of d a] assms(3) by auto
  have set: "\<exists>t'. SetDustAmount k x t = Inr t' \<and> invar t' \<and> dust_of raw dval t' = raw x \<and> pval t' = pval t"
    if "invar t" "\<bar>raw x\<bar> \<le> dec_limit" for x t
    using trust_deposit.set_dust [OF assms(1), of "\<lparr>tc_store = t, tc_bank = undefined\<rparr>" x] that
    by (auto simp: set_dust_ctx_def split: sum.splits)
  obtain s' where s': "SetDustAmount k n s = Inr s'" "invar s'" "dust_of raw dval s' = raw n" "pval s' = pval s"
    using set [OF assms(2), of n] n(2) assms(3) by auto
  have "\<bar>raw (LegacyZeroDec (tk_dec k))\<bar> \<le> dec_limit"
    by (simp add: legacy_dec.raw_zero [OF dec] dec_limit_def)
  from set [OF s'(2) this] show ?thesis
    using d n s' by (auto simp: AddToDustAmount_def ResetDustAmount_def legacy_dec.raw_zero [OF dec])
qed

lemma dust_accumulates_witness:
  "\<exists>s'. AddToDustAmount (td_kv_keeper []) 7 [] = Ret s' \<and> dust_of (\<lambda>d. d) td_dust_of s' = 7"
proof -
  have "td_inv []" "dust_of (\<lambda>d. d) td_dust_of [] = 0"
    by (simp_all add: items_inv_def item_inv_def dust_of_def item_val_def)
  then show ?thesis
    using dust_accumulates [OF td_kv.trust_deposit_axioms [of "[]"], of "[]" 7] by (auto simp: dec_limit_def)
qed

end
