(* ===== verification/TdRunProps.thy ===== *)
theory TdRunProps
  imports TdRun TdProps
begin

text \<open>
  What holds of the trust deposit module in every state of a chain: the properties over the runs of
  \<open>TdRun\<close>, with a witness that starts from a genesis state and runs a block.
\<close>

section \<open>A sample chain\<close>

text \<open>A bank whose trust deposit account covers the deposit value of the sample parameters.\<close>

definition sample_td_bank :: "bytes \<Rightarrow> coins" where
  "sample_td_bank = (\<lambda>a. if a = bytes_of_string td_ModuleName then replicate_mset 631152000000 ''uvna''
     else if a = bytes_of_string VeranaPoolAccount then replicate_mset 20000 ''uvna'' else {#})"

lemma sample_td_bal:
  "ledger_bal sample_td_bank a ''uvna'' = (if a = bytes_of_string td_ModuleName then 631152000000 else 0)
    + (if a = bytes_of_string VeranaPoolAccount then 20000 else 0)"
  by (simp add: sample_td_bank_def ledger_bal_def account_names)

lemma sample_td_capped: "capped (ledger_bal sample_td_bank)"
  unfolding capped_def by (auto simp: sample_td_bal sum.distrib)

lemma sample_runnable:
  "runnable_params (\<lambda>d. d) (co_ok (td_params_codec fixed18_codec))
     (ledger_bal sample_td_bank (bytes_of_string td_ModuleName) ''uvna'') sample_params"
proof -
  have "sint (tp_TrustDepositValue sample_params) = 631152000000" by code_simp
  then show ?thesis
    by (simp add: runnable_params_def rate_limit_def excess_limit_def sample_params_ok sample_td_bal)
      (simp add: sample_params_def)
qed

text \<open>The genesis of the sample and the state after its first block.\<close>

lemma sample_td_genesis:
  obtains s where
    "td_InitGenesis (td_kv_keeper auth) \<lparr>tgs_Params = sample_params\<rparr> [] = Inr s"
    "td_safe (\<lambda>d. d) ledger_bal bytes_of_string td_inv td_params_of
       (co_ok (td_params_codec fixed18_codec)) td_dust_of \<lparr>tc_store = s, tc_bank = sample_td_bank\<rparr>"
proof -
  have inv: "td_inv []" "td_dust_of [] = None"
    by (simp_all add: items_inv_def item_inv_def item_val_def)
  have "co_ok (td_params_codec fixed18_codec) sample_params"
    using sample_params_ok [of "tp_TrustDepositValue sample_params"] by simp
  then obtain s where s: "td_InitGenesis (td_kv_keeper auth) \<lparr>tgs_Params = sample_params\<rparr> [] = Inr s"
    using items_set [OF inv(1) _ td_store.keys] by (auto simp: td_InitGenesis_def)
  with td_kv.genesis_safe [OF inv s sample_td_capped] sample_runnable that show thesis by simp
qed

section \<open>The properties\<close>

text \<open>No begin blocker of the trust deposit module stops the chain: in every state that blocks,
  messages of the module and bank movements elsewhere can reach from a safe start, in any order, it
  returns without an error or a panic.\<close>

theorem begin_blocker_never_halts:
  assumes "trust_deposit k raw amt bal macc known invar pval pok dval dok"
    "td_safe raw bal macc invar pval pok dval ctx"
    "td_run k (td_admissible k raw bal macc pok) (spares_module bal macc) ctx ctx'"
  shows "\<exists>ctx''. td_BeginBlock k ctx' = (Ret (), ctx'')"
  using trust_deposit.run_safe [OF assms(1,3,2)] trust_deposit.begin_block_safe [OF assms(1)] by blast

lemma begin_blocker_never_halts_witness:
  "\<exists>s c c'. td_InitGenesis (td_kv_keeper []) \<lparr>tgs_Params = sample_params\<rparr> [] = Inr s \<and>
     td_BeginBlock (td_kv_keeper []) \<lparr>tc_store = s, tc_bank = sample_td_bank\<rparr> = (Ret (), c) \<and>
     td_BeginBlock (td_kv_keeper []) c = (Ret (), c')"
proof -
  obtain s where s: "td_InitGenesis (td_kv_keeper []) \<lparr>tgs_Params = sample_params\<rparr> [] = Inr s"
    "td_safe (\<lambda>d. d) ledger_bal bytes_of_string td_inv td_params_of
       (co_ok (td_params_codec fixed18_codec)) td_dust_of \<lparr>tc_store = s, tc_bank = sample_td_bank\<rparr>"
    by (rule sample_td_genesis)
  from td_kv.begin_block_safe [OF s(2)] obtain c where
    c: "td_BeginBlock (td_kv_keeper []) \<lparr>tc_store = s, tc_bank = sample_td_bank\<rparr> = (Ret (), c)" by blast
  from begin_blocker_never_halts [OF td_kv.trust_deposit_axioms s(2) td_run.step [OF td_run.start
      td_step.begin_block [OF c]]] c s(1) show ?thesis by blast
qed

text \<open>C7. Between two changes of its parameters the trust deposit module never falls behind. A run starts in a
  safe state (the store in order, the dust below one unit, no more than \<open>2^62\<close> units in supply, a rate between
  \<open>0\<close> and \<open>2^120\<close> units of \<open>10^-18\<close>, a deposit value not negative and at most \<open>2^62\<close> above the coins of the
  module) and consists of begin blocks, \<open>FundModule\<close> messages signed by other accounts, failing messages,
  and bank movements that do not debit the module, in any order. Over it the part of the deposit value
  the coins do not cover never grows, without wrap-around in \<open>FundModule\<close>, and what the module holds,
  coins and dust together, never shrinks. So a covered deposit value stays covered.\<close>

theorem deposit_stays_backed:
  assumes "trust_deposit k raw amt bal macc known invar pval pok dval dok"
    "td_safe raw bal macc invar pval pok dval ctx"
    "td_run k (funding_only k macc) (spares_module bal macc) ctx ctx'"
  shows "uncovered bal macc pval ctx' \<le> uncovered bal macc pval ctx \<and>
    holdings (macc td_ModuleName) (dust_of raw dval (tc_store ctx), bal (tc_bank ctx)) \<le>
    holdings (macc td_ModuleName) (dust_of raw dval (tc_store ctx'), bal (tc_bank ctx'))"
  using trust_deposit.run_uncovered [OF assms(1,3,2)] by blast

lemma deposit_stays_backed_witness:
  "\<exists>s c. td_InitGenesis (td_kv_keeper []) \<lparr>tgs_Params = sample_params\<rparr> [] = Inr s \<and>
     td_BeginBlock (td_kv_keeper []) \<lparr>tc_store = s, tc_bank = sample_td_bank\<rparr> = (Ret (), c) \<and>
     uncovered ledger_bal bytes_of_string td_params_of c
       \<le> uncovered ledger_bal bytes_of_string td_params_of \<lparr>tc_store = s, tc_bank = sample_td_bank\<rparr>"
proof -
  obtain s where s: "td_InitGenesis (td_kv_keeper []) \<lparr>tgs_Params = sample_params\<rparr> [] = Inr s"
    "td_safe (\<lambda>d. d) ledger_bal bytes_of_string td_inv td_params_of
       (co_ok (td_params_codec fixed18_codec)) td_dust_of \<lparr>tc_store = s, tc_bank = sample_td_bank\<rparr>"
    by (rule sample_td_genesis)
  from td_kv.begin_block_safe [OF s(2)] obtain c where
    c: "td_BeginBlock (td_kv_keeper []) \<lparr>tc_store = s, tc_bank = sample_td_bank\<rparr> = (Ret (), c)" by blast
  from deposit_stays_backed [OF td_kv.trust_deposit_axioms s(2) td_run.step [OF td_run.start
      td_step.begin_block [OF c]]] c s(1) show ?thesis by blast
qed

end
