(* ===== verification/Chain.thy ===== *)
theory Chain
  imports Ante VrRun VrModule TdRun
begin

text \<open>
  The two modules, the ante handler and the rest of the chain together. A state of the chain has the
  registry's context, the trust deposit's context (with the bank) and whatever else the chain stores;
  a step is a begin block of the trust deposit module, an end block of the registry, a transaction the
  ante handler accepted, whose messages run in order, or a change by another module. What the code of
  other modules may do to the two modules is a contract (\<open>chain_node\<close>): it reaches them through their
  messages only. Which validators it creates is not restricted, but recorded.
\<close>

section \<open>State and parameters\<close>

text \<open>
  \<open>ch_Log\<close> is a history variable: the messages to the registry that succeeded, in order, whether they
  were messages of a transaction or run by another module.
\<close>

record ('s, 'ts, 'b, 'z) chain_state =
  ch_Time :: int
  ch_Registry :: "'s VrCtx"
  ch_Log :: "vr_msg list"
  ch_Deposit :: "('ts, 'b) TdCtx"
  ch_Rest :: 'z

datatype ('d, 'm) chain_msg = RegistryMsg vr_msg | DepositMsg "'d td_msg" | ForeignMsg 'm

type_synonym ('s, 'ts, 'b, 'z, 'w) chain_ante_ctx =
  "('s, ('s, 'ts, 'b, 'z) chain_state, 'w) AnteCtx"

text \<open>
  \<open>nd_create\<close> is the handler of \<open>MsgCreateValidator\<close>, \<open>nd_foreign\<close> the one of any other foreign message,
  \<open>nd_elsewhere\<close> what fee deduction and the blocks of other modules do, \<open>nd_operators\<close> the operators
  of the validators of the staking module.
\<close>

record ('s, 'ts, 'b, 'c, 'd, 'z, 'm, 'x, 'w) node =
  nd_vr :: "'s VrKeeper"
  nd_td :: "('ts, 'b, 'c, 'd) TdKeeper"
  nd_group :: "('s, 'ts, 'b, 'z) chain_state group_ops"
  nd_ante :: "(('s, 'ts, 'b, 'z, 'w) chain_ante_ctx, (('d, 'm) chain_msg, 'x) Tx) AnteHandler"
  nd_create :: "string \<Rightarrow> ('s, 'ts, 'b, 'z) chain_state \<Rightarrow> unit outcome \<times> ('s, 'ts, 'b, 'z) chain_state"
  nd_foreign :: "'m \<Rightarrow> ('s, 'ts, 'b, 'z) chain_state \<Rightarrow> unit outcome \<times> ('s, 'ts, 'b, 'z) chain_state"
  nd_elsewhere :: "('s, 'ts, 'b, 'z) chain_state \<Rightarrow> ('s, 'ts, 'b, 'z) chain_state \<Rightarrow> bool"
  nd_operators :: "('s, 'ts, 'b, 'z) chain_state \<Rightarrow> string set"

definition ante_view :: "('s, 'ts, 'b, 'z) chain_state \<Rightarrow> 'w \<Rightarrow> ('s, 'ts, 'b, 'z, 'w) chain_ante_ctx" where
  "ante_view ch w = \<lparr>ac_BlockTime = ch_Time ch, ac_Registry = vc_store (ch_Registry ch),
     ac_Group = ch, ac_Rest = w\<rparr>"

text \<open>The operators who have a validator after a step and had none before.\<close>

definition fresh where
  "fresh nd ch ch' = nd_operators nd ch' - nd_operators nd ch"

section \<open>Steps\<close>

text \<open>
  One message that succeeds; \<open>vadm\<close> and \<open>tadm\<close> are the admissible messages of \<open>VrRun\<close> and \<open>TdRun\<close>. Each
  relation carries the set of operators whose validators came about without a \<open>MsgCreateValidator\<close> at
  the top level of a transaction.
\<close>

inductive msg_step for nd vadm tadm where
  registry_msg: "vadm m \<Longrightarrow> vr_handle (nd_vr nd) m (ch_Registry ch) = (Ret (), c) \<Longrightarrow>
    msg_step nd vadm tadm (OtherMsg (RegistryMsg m)) ch {}
      (ch\<lparr>ch_Registry := c, ch_Log := ch_Log ch @ [m]\<rparr>)"
| deposit_msg: "tadm (ch_Deposit ch) t \<Longrightarrow> td_handle (nd_td nd) t (ch_Deposit ch) = (Ret (), d) \<Longrightarrow>
    msg_step nd vadm tadm (OtherMsg (DepositMsg t)) ch {} (ch\<lparr>ch_Deposit := d\<rparr>)"
| foreign_msg: "nd_foreign nd f ch = (Ret (), ch') \<Longrightarrow>
    msg_step nd vadm tadm (OtherMsg (ForeignMsg f)) ch (fresh nd ch ch') ch'"
| exec_msg: "g_Exec (nd_group nd) ch i executor = (Ret (), ch') \<Longrightarrow>
    msg_step nd vadm tadm (MsgExec i) ch (fresh nd ch ch') ch'"
| create_msg: "nd_create nd a ch = (Ret (), ch') \<Longrightarrow>
    msg_step nd vadm tadm (MsgCreateValidator a) ch {} ch'"

inductive msgs_run for nd vadm tadm where
  no_msgs: "msgs_run nd vadm tadm [] ch {} ch"
| next_msg: "msg_step nd vadm tadm msg ch W c \<Longrightarrow> msgs_run nd vadm tadm msgs c W' ch' \<Longrightarrow>
    msgs_run nd vadm tadm (msg # msgs) ch (W \<union> W') ch'"

text \<open>
  A transaction: the ante handler accepts it on the state before it, its decorators write elsewhere
  (fees, sequence numbers), and its messages run in order. When one of them fails, only the writes of
  the ante handler are left, which is a step of the other kind.
\<close>

inductive chain_step for nd vadm tadm where
  begin_block: "td_BeginBlock (nd_td nd) (ch_Deposit ch) = (Ret (), d) \<Longrightarrow>
    chain_step nd vadm tadm ch {} (ch\<lparr>ch_Deposit := d\<rparr>)"
| transaction: "nd_ante nd (ante_view ch w) tx False = (r, Ret ()) \<Longrightarrow> nd_elsewhere nd ch c \<Longrightarrow>
    msgs_run nd vadm tadm (tx_Msgs tx) c W ch' \<Longrightarrow> chain_step nd vadm tadm ch (fresh nd ch c \<union> W) ch'"
| end_block: "EndBlock (nd_group nd) (ch_Time ch) ch = (Ret (), ch') \<Longrightarrow>
    chain_step nd vadm tadm ch (fresh nd ch ch') ch'"
| next_block: "ch_Time ch \<le> t \<Longrightarrow> chain_step nd vadm tadm ch {} (ch\<lparr>ch_Time := t\<rparr>)"
| other_module: "nd_elsewhere nd ch ch' \<Longrightarrow> chain_step nd vadm tadm ch (fresh nd ch ch') ch'"

inductive chain_run for nd vadm tadm where
  chain_start: "chain_run nd vadm tadm ch {} ch"
| chain_next: "chain_run nd vadm tadm ch W c \<Longrightarrow> chain_step nd vadm tadm c W' ch' \<Longrightarrow>
    chain_run nd vadm tadm ch (W \<union> W') ch'"

inductive_cases chain_stepE: "chain_step nd vadm tadm ch W ch'"
inductive_cases msg_stepE: "msg_step nd vadm tadm msg ch W ch'"

section \<open>What a step does to the two modules\<close>

lemma td_run_trans: "td_run k adm others b c \<Longrightarrow> td_run k adm others a b \<Longrightarrow> td_run k adm others a c"
  by (induction rule: td_run.induct) (auto intro: td_run.step)

text \<open>Seen from the modules: logged messages of the registry that succeed, and a run of the trust deposit.\<close>

definition touches where
  "touches nd vadm tadm others ch ch' \<longleftrightarrow>
     (\<exists>ms. ch_Log ch' = ch_Log ch @ ms \<and> list_all vadm ms \<and>
        vr_deliver (nd_vr nd) ms (ch_Registry ch) = Some (ch_Registry ch')) \<and>
     td_run (nd_td nd) tadm others (ch_Deposit ch) (ch_Deposit ch')"

lemma touches_refl: "touches nd vadm tadm others ch ch"
  unfolding touches_def by (auto intro: exI [of _ "[]"] td_run.start)

lemma touches_trans:
  assumes "touches nd vadm tadm others a b" "touches nd vadm tadm others b c"
  shows "touches nd vadm tadm others a c"
proof -
  from assms(1) obtain ms where m: "ch_Log b = ch_Log a @ ms" "list_all vadm ms"
    "vr_deliver (nd_vr nd) ms (ch_Registry a) = Some (ch_Registry b)" unfolding touches_def by blast
  from assms(2) obtain ms' where m': "ch_Log c = ch_Log b @ ms'" "list_all vadm ms'"
    "vr_deliver (nd_vr nd) ms' (ch_Registry b) = Some (ch_Registry c)" unfolding touches_def by blast
  have "vr_deliver (nd_vr nd) (ms @ ms') (ch_Registry a) = Some (ch_Registry c)"
    using vr_deliver_append [OF m(3)] m'(3) by simp
  moreover have "td_run (nd_td nd) tadm others (ch_Deposit a) (ch_Deposit c)"
    using assms td_run_trans unfolding touches_def by blast
  ultimately show ?thesis using m(1,2) m'(1,2) unfolding touches_def by (intro conjI exI [of _ "ms @ ms'"]) simp_all
qed

lemma touches_registry:
  "touches nd vadm tadm others ch ch' \<Longrightarrow> vr_run (nd_vr nd) vadm (ch_Registry ch) (ch_Registry ch')"
  unfolding touches_def using vr_deliver_run by blast

section \<open>The contract of the rest of the chain\<close>

text \<open>
  A module's store is open to its own keeper only, so other modules change the registry and the trust
  deposit by their messages (and the bank). The staking module creates one validator for a
  \<open>MsgCreateValidator\<close>, the one of its operator.
\<close>

locale chain_node =
  fixes nd :: "('s, 'ts, 'b, 'c, 'd, 'z, 'm, 'x, 'w) node"
    and vadm :: "vr_msg \<Rightarrow> bool" and tadm :: "('ts, 'b) TdCtx \<Rightarrow> 'd td_msg \<Rightarrow> bool"
    and others :: "'b \<Rightarrow> 'b \<Rightarrow> bool"
  assumes exec_touches: "touches nd vadm tadm others ch (snd (g_Exec (nd_group nd) ch i executor))"
    and foreign_touches: "touches nd vadm tadm others ch (snd (nd_foreign nd f ch))"
    and create_touches: "touches nd vadm tadm others ch (snd (nd_create nd a ch))"
    and elsewhere_touches: "nd_elsewhere nd ch ch' \<Longrightarrow> touches nd vadm tadm others ch ch'"
    and create_operators: "nd_operators nd (snd (nd_create nd a ch)) \<subseteq> insert a (nd_operators nd ch)"
    and own_operators: "nd_operators nd (ch\<lparr>ch_Registry := c, ch_Log := l\<rparr>) = nd_operators nd ch"
      "nd_operators nd (ch\<lparr>ch_Deposit := d\<rparr>) = nd_operators nd ch"
      "nd_operators nd (ch\<lparr>ch_Time := t\<rparr>) = nd_operators nd ch"
begin

abbreviation reaches :: "_ \<Rightarrow> _ \<Rightarrow> bool" where
  "reaches \<equiv> touches nd vadm tadm others"

lemma registry_step:
  assumes "vadm m" "vr_handle (nd_vr nd) m (ch_Registry ch) = (Ret (), c)"
  shows "reaches ch (ch\<lparr>ch_Registry := c, ch_Log := ch_Log ch @ [m]\<rparr>)"
  unfolding touches_def using assms by (auto intro: exI [of _ "[m]"] td_run.start)

lemma deposit_step:
  assumes "td_step (nd_td nd) tadm others (ch_Deposit ch) d"
  shows "reaches ch (ch\<lparr>ch_Deposit := d\<rparr>)"
  unfolding touches_def using td_run.step [OF td_run.start assms] by (auto intro: exI [of _ "[]"])

text \<open>The operators for whom the messages of a transaction create validators.\<close>

definition created :: "('d, 'm) chain_msg sdk_msg list \<Rightarrow> string set" where
  "created msgs = {a. MsgCreateValidator a \<in> set msgs}"

lemma created_simps:
  "created [] = {}" "created (msg # msgs) = created [msg] \<union> created msgs"
  "created [MsgCreateValidator a] = {a}"
  by (auto simp: created_def)

lemma msg_touches:
  assumes "msg_step nd vadm tadm msg ch W ch'"
  shows "reaches ch ch' \<and> nd_operators nd ch' \<subseteq> nd_operators nd ch \<union> W \<union> created [msg]"
  using assms
proof (rule msg_stepE)
  fix m c
  assume "ch' = ch\<lparr>ch_Registry := c, ch_Log := ch_Log ch @ [m]\<rparr>" "vadm m"
    "vr_handle (nd_vr nd) m (ch_Registry ch) = (Ret (), c)"
  then show ?thesis using registry_step [of m ch c] own_operators(1) by blast
next
  fix t d
  assume "ch' = ch\<lparr>ch_Deposit := d\<rparr>" "tadm (ch_Deposit ch) t"
    "td_handle (nd_td nd) t (ch_Deposit ch) = (Ret (), d)"
  then show ?thesis using deposit_step td_step.delivered own_operators(2) by fastforce
next
  fix f assume "W = fresh nd ch ch'" "nd_foreign nd f ch = (Ret (), ch')"
  then show ?thesis using foreign_touches [of ch f] by (auto simp: fresh_def)
next
  fix i executor assume "W = fresh nd ch ch'" "g_Exec (nd_group nd) ch i executor = (Ret (), ch')"
  then show ?thesis using exec_touches [of ch i executor] by (auto simp: fresh_def)
next
  fix a assume "msg = MsgCreateValidator a" "nd_create nd a ch = (Ret (), ch')"
  then show ?thesis using create_touches [of ch a] create_operators [of a ch] unfolding created_def by auto
qed

lemma msgs_touch:
  "msgs_run nd vadm tadm msgs ch W ch' \<Longrightarrow>
   reaches ch ch' \<and> nd_operators nd ch' \<subseteq> nd_operators nd ch \<union> W \<union> created msgs"
proof (induction rule: msgs_run.induct)
  case (no_msgs ch)
  then show ?case by (simp add: touches_refl)
next
  case (next_msg msg ch W c msgs W' ch')
  from msg_touches [OF next_msg.hyps(1)] next_msg.IH touches_trans show ?case
    unfolding created_simps(2) [of msg msgs] by blast
qed

lemma end_block_touches: "reaches ch (snd (EndBlock (nd_group nd) now ch))"
proof -
  have "exec_keeps (nd_group nd) now (reaches ch)"
    unfolding exec_keeps_def by (blast intro: touches_trans exec_touches)
  from exec_groups_keeps [OF this touches_refl] show ?thesis
    by (simp add: EndBlock_snd touches_refl split: sum.split)
qed

text \<open>
  Apart from the recorded ones, a step creates validators only for operators named at the top level of a
  transaction the ante handler accepted.
\<close>

definition let_in :: "('s, 'ts, 'b, 'z) chain_state \<Rightarrow> string set" where
  "let_in ch = {a. \<exists>w tx r. nd_ante nd (ante_view ch w) tx False = (r, Ret ()) \<and> a \<in> created (tx_Msgs tx)}"

lemma step_touches:
  assumes "chain_step nd vadm tadm ch W ch'"
  shows "reaches ch ch' \<and> nd_operators nd ch' \<subseteq> nd_operators nd ch \<union> W \<union> let_in ch"
  using assms
proof (rule chain_stepE)
  fix d assume "ch' = ch\<lparr>ch_Deposit := d\<rparr>" "td_BeginBlock (nd_td nd) (ch_Deposit ch) = (Ret (), d)"
  then show ?thesis using deposit_step [OF td_step.begin_block] own_operators(2) by auto
next
  fix w tx r c W'
  assume W: "W = fresh nd ch c \<union> W'" and tx: "nd_ante nd (ante_view ch w) tx False = (r, Ret ())"
    "nd_elsewhere nd ch c" "msgs_run nd vadm tadm (tx_Msgs tx) c W' ch'"
  from tx(1) have "created (tx_Msgs tx) \<subseteq> let_in ch" unfolding let_in_def by blast
  with msgs_touch [OF tx(3)] touches_trans [OF elsewhere_touches [OF tx(2)]] show ?thesis
    unfolding W fresh_def by blast
next
  assume "W = fresh nd ch ch'" "EndBlock (nd_group nd) (ch_Time ch) ch = (Ret (), ch')"
  then show ?thesis using end_block_touches [of ch "ch_Time ch"] by (auto simp: fresh_def)
next
  fix t assume "ch' = ch\<lparr>ch_Time := t\<rparr>"
  then show ?thesis using own_operators(3) unfolding touches_def by (auto intro: exI [of _ "[]"] td_run.start)
next
  assume "W = fresh nd ch ch'" "nd_elsewhere nd ch ch'"
  then show ?thesis using elsewhere_touches by (auto simp: fresh_def)
qed

lemma run_touches: "chain_run nd vadm tadm ch W ch' \<Longrightarrow> reaches ch ch'"
  by (induction rule: chain_run.induct) (blast intro: touches_refl touches_trans dest: step_touches)+

end

section \<open>Validators need an entry in the registry\<close>

locale whitelisting_chain =
  chain_node nd "vr_admissible okey ok iok" tadm others +
  registry "nd_vr nd" invar pabs iok vabs okey ok lt +
  sdk_chain S
  for nd :: "('s, 'ts, 'b, 'c, 'd, 'z, 'm, 'x, 'w) node" and tadm others
    and invar pabs iok vabs okey ok lt
    and S :: "(('s, 'ts, 'b, 'z, 'w) chain_ante_ctx, (('d, 'm) chain_msg, 'x) Tx, 'ak, 'bk) sdk_ante" +
  fixes ak :: 'ak and bk :: "'bk option" and smh :: "'smh option" and sgc :: 'sgc
  assumes installed: "NewAnteHandler S ak bk smh sgc (nd_vr nd) (nd_group nd) = Inr (nd_ante nd)"
begin

abbreviation listed :: "('s, 'ts, 'b, 'z) chain_state \<Rightarrow> string \<Rightarrow> bool" where
  "listed ch \<equiv> IsValidatorWhitelisted (nd_vr nd) (vc_store (ch_Registry ch))"

text \<open>The store is in order and every operator of a validator, apart from those in \<open>W\<close>, is in the registry.\<close>

definition admitted :: "string set \<Rightarrow> ('s, 'ts, 'b, 'z) chain_state \<Rightarrow> bool" where
  "admitted W ch \<longleftrightarrow> invar (vc_store (ch_Registry ch)) \<and> keyed (vabs (vc_store (ch_Registry ch))) \<and>
     (\<forall>a \<in> nd_operators nd ch - W. listed ch a)"

lemma let_in_listed: "a \<in> let_in ch \<Longrightarrow> listed ch a"
  using accepted [OF installed] by (fastforce simp: let_in_def created_def list_all_iff ante_view_def)

lemma step_admitted:
  assumes "chain_step nd (vr_admissible okey ok iok) tadm ch W' ch'" "admitted W ch"
  shows "admitted (W \<union> W') ch'"
proof -
  from assms(2) have c: "invar (vc_store (ch_Registry ch))" "keyed (vabs (vc_store (ch_Registry ch)))"
    by (simp_all add: admitted_def)
  note s = step_touches [OF assms(1)]
  note run = touches_registry [OF conjunct1 [OF s]]
  have "listed ch' a" if "a \<in> nd_operators nd ch' - (W \<union> W')" for a
  proof -
    from that s have "a \<in> nd_operators nd ch - W \<or> a \<in> let_in ch" by blast
    then have "listed ch a" using assms(2) let_in_listed unfolding admitted_def by blast
    with run_whitelisted [OF run c] show ?thesis by blast
  qed
  with run_abs [OF run c] show ?thesis unfolding admitted_def by blast
qed

lemma run_admitted:
  "chain_run nd (vr_admissible okey ok iok) tadm ch W ch' \<Longrightarrow> admitted {} ch \<Longrightarrow> admitted W ch'"
  by (induction rule: chain_run.induct) (auto dest: step_admitted)

end

section \<open>Where the entries of the registry come from\<close>

context registry
begin

text \<open>Over a run of the chain the registry gains exactly the entries of the logged messages.\<close>

lemma touches_entries:
  assumes "touches nd (vr_admissible okey ok iok) tadm others ch ch'" "nd_vr nd = k"
    "invar (vc_store (ch_Registry ch))" "ch_Log ch = []"
  shows "vabs (vc_store (ch_Registry ch')) = vabs (vc_store (ch_Registry ch)) ++ entries_of (ch_Log ch') \<and>
    (\<forall>m \<in> set (onboards (ch_Log ch')). vk_StringToBytes k (mov_Creator m) = Inr (vk_authority k)) \<and>
    distinct (map mov_Index (onboards (ch_Log ch'))) \<and>
    dom (vabs (vc_store (ch_Registry ch))) \<inter> dom (entries_of (ch_Log ch')) = {}"
  using deliver_entries [of "ch_Log ch'" "ch_Registry ch" "ch_Registry ch'"] assms
  unfolding touches_def by auto

end

end
