(* ===== verification/GroupSpec.thy ===== *)
theory GroupSpec
  imports VrModule
begin

text \<open>
  The contract of the group keeper under which the end blocker does its work: executing a stored
  proposal that may run settles it and makes no other proposal ready. Under it the end blocker leaves
  no ready proposal behind, whatever the queries of its loops saw while proposals were executed.
\<close>

text \<open>
  The proposals the loops look for: listed under a policy listed under a listed group, and pending. The
  code reads the lists without a page request, so \<open>listed\<close> means the first page of each query.
\<close>

definition ready_proposals :: "'g group_ops \<Rightarrow> int \<Rightarrow> 'g \<Rightarrow> (u64 \<times> string \<times> Proposal) set" where
  "ready_proposals G now g = {(grp, policy, p). pending now p \<and>
     (\<exists>grps. g_Groups G g = Inr grps \<and> grp \<in> set grps) \<and>
     (\<exists>policies. g_GroupPoliciesByGroup G g grp = Inr policies \<and> policy \<in> set policies) \<and>
     (\<exists>ps. g_ProposalsByGroupPolicy G g policy = Inr ps \<and> p \<in> set ps)}"

abbreviation with_ids :: "u64 set \<Rightarrow> (u64 \<times> string \<times> Proposal) set" where
  "with_ids is \<equiv> {(grp, policy, p). pr_Id p \<in> is}"

locale group_keeper =
  fixes G :: "'g group_ops" and now :: int and sound :: "'g \<Rightarrow> bool"
  assumes stored: "sound g \<Longrightarrow> (grp, policy, p) \<in> ready_proposals G now g \<Longrightarrow> g_Proposal G g (pr_Id p) = Inr p"
    and exec_settles: "sound g \<Longrightarrow> g_Proposal G g i = Inr p \<Longrightarrow> may_execute now p \<Longrightarrow>
      \<exists>g'. g_Exec G g i (pr_GroupPolicyAddress p) = (Ret (), g') \<and> sound g' \<and>
        ready_proposals G now g' \<subseteq> ready_proposals G now g - with_ids {i}"
begin

abbreviation ready :: "'g \<Rightarrow> (u64 \<times> string \<times> Proposal) set" where
  "ready \<equiv> ready_proposals G now"

lemma try_settles:
  assumes "sound g"
  shows "\<exists>r g'. tryExecuteProposal G now i g = (r, g') \<and> (\<forall>e. r \<noteq> Panic e) \<and> sound g' \<and>
    ready g' \<subseteq> ready g - with_ids {i}"
proof (cases "\<exists>p. g_Proposal G g i = Inr p \<and> may_execute now p")
  case True
  then obtain p where p: "g_Proposal G g i = Inr p" "may_execute now p" by blast
  from exec_settles [OF assms p] p show ?thesis
    by (auto simp: tryExecuteProposal_def may_execute_def)
next
  case False
  have "ready g \<inter> with_ids {i} = {}"
  proof -
    have "may_execute now p \<and> g_Proposal G g (pr_Id p) = Inr p" if "(grp, policy, p) \<in> ready g" for grp policy p
      using stored [OF assms that] that by (simp add: ready_proposals_def pending_def)
    with False show ?thesis by blast
  qed
  then have "ready g \<subseteq> ready g - with_ids {i}" by blast
  with assms False show ?thesis
    by (cases "g_Proposal G g i") (auto simp: tryExecuteProposal_def may_execute_def not_le)
qed

lemma exec_all_settles:
  "sound g \<Longrightarrow> \<exists>g'. exec_all G now is g = (Ret (), g') \<and> sound g' \<and>
    ready g' \<subseteq> ready g - with_ids (set is)"
proof (induction "is" arbitrary: g)
  case Nil
  then show ?case by auto
next
  case (Cons i "is")
  from try_settles [OF Cons.prems] obtain r g1 where
    g1: "tryExecuteProposal G now i g = (r, g1)" "\<forall>e. r \<noteq> Panic e" "sound g1"
      "ready g1 \<subseteq> ready g - with_ids {i}" by blast
  from Cons.IH [OF g1(3)] obtain g2 where
    g2: "exec_all G now is g1 = (Ret (), g2)" "sound g2" "ready g2 \<subseteq> ready g1 - with_ids (set is)" by blast
  from g1 g2 have "exec_all G now (i # is) g = (Ret (), g2)" by (cases r) simp_all
  moreover have "ready g2 \<subseteq> ready g - with_ids (set (i # is))" using g1(4) g2(3) by auto
  ultimately show ?case using g2(2) by blast
qed

text \<open>After the loop over the proposals of a policy, none is ready under the policy.\<close>

lemma policy_settled:
  assumes "sound g" "g_ProposalsByGroupPolicy G g policy = Inr ps"
  shows "\<exists>g'. exec_proposals G now ps g = (Ret (), g') \<and> sound g' \<and> ready g' \<subseteq> ready g \<and>
    (\<forall>grp p. (grp, policy, p) \<notin> ready g')"
proof -
  from exec_all_settles [OF assms(1)] obtain g' where
    g': "exec_proposals G now ps g = (Ret (), g')" "sound g'"
      "ready g' \<subseteq> ready g - with_ids (set (map pr_Id (filter (pending now) ps)))"
    unfolding exec_proposals_pending by blast
  have "(grp, policy, p) \<notin> ready g'" for grp p
  proof
    assume r: "(grp, policy, p) \<in> ready g'"
    with g'(3) have "(grp, policy, p) \<in> ready g" by blast
    with assms(2) have "p \<in> set (filter (pending now) ps)" by (simp add: ready_proposals_def)
    with g'(3) r show False by auto
  qed
  with g' show ?thesis by blast
qed

lemma policies_settled:
  "sound g \<Longrightarrow> \<exists>g'. exec_policies G now as g = (Ret (), g') \<and> sound g' \<and> ready g' \<subseteq> ready g \<and>
    (\<forall>grp policy p. policy \<in> set as \<longrightarrow> (grp, policy, p) \<notin> ready g')"
proof (induction as arbitrary: g)
  case Nil
  then show ?case by auto
next
  case (Cons a as)
  have "\<exists>g1. exec_policies G now (a # as) g = exec_policies G now as g1 \<and> sound g1 \<and>
    ready g1 \<subseteq> ready g \<and> (\<forall>grp p. (grp, a, p) \<notin> ready g1)"
  proof (cases "g_ProposalsByGroupPolicy G g a")
    case (Inl e)
    with Cons.prems show ?thesis by (intro exI [of _ g]) (simp add: ready_proposals_def)
  next
    case (Inr ps)
    from policy_settled [OF Cons.prems Inr] Inr show ?thesis by auto
  qed
  then obtain g1 where g1: "exec_policies G now (a # as) g = exec_policies G now as g1" "sound g1"
    "ready g1 \<subseteq> ready g" "\<forall>grp p. (grp, a, p) \<notin> ready g1" by blast
  from Cons.IH [OF g1(2)] obtain g2 where
    g2: "exec_policies G now as g1 = (Ret (), g2)" "sound g2" "ready g2 \<subseteq> ready g1"
      "\<forall>grp policy p. policy \<in> set as \<longrightarrow> (grp, policy, p) \<notin> ready g2" by blast
  have "(grp, policy, p) \<notin> ready g2" if "policy \<in> set (a # as)" for grp policy p
    using that g1(4) g2(3,4) by (cases "policy = a") auto
  then show ?case using g1(1,3) g2(1-3) by (intro exI [of _ g2]) (simp only:, blast)
qed

lemma groups_settled:
  "sound g \<Longrightarrow> \<exists>g'. exec_groups G now gs g = (Ret (), g') \<and> sound g' \<and> ready g' \<subseteq> ready g \<and>
    (\<forall>grp policy p. grp \<in> set gs \<longrightarrow> (grp, policy, p) \<notin> ready g')"
proof (induction gs arbitrary: g)
  case Nil
  then show ?case by auto
next
  case (Cons c gs)
  have "\<exists>g1. exec_groups G now (c # gs) g = exec_groups G now gs g1 \<and> sound g1 \<and>
    ready g1 \<subseteq> ready g \<and> (\<forall>policy p. (c, policy, p) \<notin> ready g1)"
  proof (cases "g_GroupPoliciesByGroup G g c")
    case (Inl e)
    with Cons.prems show ?thesis by (intro exI [of _ g]) (simp add: ready_proposals_def)
  next
    case (Inr as)
    from policies_settled [OF Cons.prems, of as] obtain g1 where
      g1: "exec_policies G now as g = (Ret (), g1)" "sound g1" "ready g1 \<subseteq> ready g"
        "\<forall>grp policy p. policy \<in> set as \<longrightarrow> (grp, policy, p) \<notin> ready g1" by blast
    have "policy \<in> set as" if "(c, policy, p) \<in> ready g" for policy p
      using that Inr by (simp add: ready_proposals_def)
    with g1 Inr show ?thesis by (intro exI [of _ g1]) auto
  qed
  then obtain g1 where g1: "exec_groups G now (c # gs) g = exec_groups G now gs g1" "sound g1"
    "ready g1 \<subseteq> ready g" "\<forall>policy p. (c, policy, p) \<notin> ready g1" by blast
  from Cons.IH [OF g1(2)] obtain g2 where
    g2: "exec_groups G now gs g1 = (Ret (), g2)" "sound g2" "ready g2 \<subseteq> ready g1"
      "\<forall>grp policy p. grp \<in> set gs \<longrightarrow> (grp, policy, p) \<notin> ready g2" by blast
  have "(grp, policy, p) \<notin> ready g2" if "grp \<in> set (c # gs)" for grp policy p
    using that g1(4) g2(3,4) by (cases "grp = c") auto
  then show ?case using g1(1,3) g2(1-3) by (intro exI [of _ g2]) (simp only:, blast)
qed

lemma end_block_settles:
  assumes "sound g"
  shows "\<exists>g'. EndBlock G now g = (Ret (), g') \<and> sound g' \<and> ready g' = {}"
proof (cases "g_Groups G g")
  case (Inl e)
  with assms show ?thesis
    by (simp add: EndBlock_def executePendingGroupProposals_def ready_proposals_def)
next
  case (Inr gs)
  from groups_settled [OF assms, of gs] obtain g' where
    g': "exec_groups G now gs g = (Ret (), g')" "sound g'" "ready g' \<subseteq> ready g"
      "\<forall>grp policy p. grp \<in> set gs \<longrightarrow> (grp, policy, p) \<notin> ready g'" by blast
  have "grp \<in> set gs" if "(grp, policy, p) \<in> ready g" for grp policy p
    using that Inr by (simp add: ready_proposals_def)
  with g'(3,4) have "ready g' = {}" by auto
  with g' Inr show ?thesis by (simp add: EndBlock_def executePendingGroupProposals_def)
qed

end

end
