(* ===== verification/ChainModel.thy ===== *)
theory ChainModel
  imports Chain GroupSpec VrStore TdStore
begin

text \<open>
  A chain that meets the contracts of \<open>Chain\<close>: the two keepers on the byte store, a council that keeps
  proposals to the registry and executes them through the registry's own handlers once its minimal
  execution date is past, a staking module that lists its operators, an \<open>authz\<close> module that hands the
  \<open>MsgCreateValidator\<close> inside a message on to it, and the ante handler \<open>NewAnteHandler\<close> builds.
\<close>

record hub =
  hb_Operators :: "string list"
  hb_Proposals :: "(Proposal \<times> vr_msg) list"
  hb_MinExecution :: int

text \<open>The messages of other modules: a proposal submitted, a \<open>MsgExec\<close> of \<open>authz\<close> that carries a \<open>MsgCreateValidator\<close>.\<close>

datatype hub_msg = SubmitProposal Proposal vr_msg | AuthzExec string

type_synonym council_state = "(kv, kv, bytes \<Rightarrow> coins, hub) chain_state"

text \<open>The council takes messages of ordinary size only, as a transaction that submits one must fit in a block.\<close>

definition small_msg :: "vr_msg \<Rightarrow> bool" where
  "small_msg msg = (case msg of
     OnboardMsg m \<Rightarrow> length (mov_Index m) + length (mov_MemberId m) + length (mov_OperatorAddress m) +
       length (mov_ConsensusPubkey m) + length (mov_Status m) \<le> 1000
   | UpdateParamsMsg req \<Rightarrow> True)"

abbreviation storable_msg :: "vr_msg \<Rightarrow> bool" where
  "storable_msg \<equiv> vr_admissible (\<lambda>i. True) (co_ok validator_codec) (co_ok vr_params_codec)"

lemma small_storable: "small_msg m \<Longrightarrow> storable_msg m"
  by (auto simp: small_msg_def vr_admissible_def vr_params_codec_ok onboarded_validator_def
      intro!: validator_small_ok split: vr_msg.splits)

text \<open>
  Executing a proposal runs its message and records the result. Before the minimal execution date, and
  when the message is refused, the execution fails and leaves the registry alone.
\<close>

definition settle :: "u64 \<Rightarrow> executor_result \<Rightarrow> hub \<Rightarrow> hub" where
  "settle i res h = h\<lparr>hb_Proposals := map (\<lambda>(p, m).
     (if pr_Id p = i then p\<lparr>pr_ExecutorResult := res\<rparr> else p, m)) (hb_Proposals h)\<rparr>"

definition council_exec ::
    "kv VrKeeper \<Rightarrow> council_state \<Rightarrow> u64 \<Rightarrow> string \<Rightarrow> unit outcome \<times> council_state" where
  "council_exec k ch i executor =
     (case find (\<lambda>(p, m). pr_Id p = i \<and> small_msg m) (hb_Proposals (ch_Rest ch)) of
        None \<Rightarrow> (Err (LibError ''proposal''), ch)
      | Some (p, m) \<Rightarrow>
     if ch_Time ch < hb_MinExecution (ch_Rest ch) then
       (Ret (), ch\<lparr>ch_Rest := settle i PROPOSAL_EXECUTOR_RESULT_FAILURE (ch_Rest ch)\<rparr>)
     else
     (case vr_handle k m (ch_Registry ch) of
        (Ret _, c) \<Rightarrow> (Ret (), ch\<lparr>ch_Registry := c, ch_Log := ch_Log ch @ [m],
          ch_Rest := settle i PROPOSAL_EXECUTOR_RESULT_SUCCESS (ch_Rest ch)\<rparr>)
      | (_, c) \<Rightarrow> (Ret (), ch\<lparr>ch_Rest := settle i PROPOSAL_EXECUTOR_RESULT_FAILURE (ch_Rest ch)\<rparr>)))"

definition council_group :: "kv VrKeeper \<Rightarrow> council_state group_ops" where
  "council_group k =
     \<lparr>g_StatusString = (\<lambda>s. ''status''), g_Groups = (\<lambda>ch. Inr [1]),
      g_GroupPoliciesByGroup = (\<lambda>ch i. Inr [''council'']),
      g_ProposalsByGroupPolicy = (\<lambda>ch a. Inr (map fst (hb_Proposals (ch_Rest ch)))),
      g_Proposal = (\<lambda>ch i. case find (\<lambda>p. pr_Id p = i) (map fst (hb_Proposals (ch_Rest ch))) of
         None \<Rightarrow> Inl (LibError ''proposal'') | Some p \<Rightarrow> Inr p),
      g_Exec = council_exec k\<rparr>"

text \<open>The decorators in the order of \<open>NewAnteHandler\<close>, over the SDK's own of \<open>sdk_decorators\<close>.\<close>

abbreviation council_sdk ::
    "((kv, kv, bytes \<Rightarrow> coins, hub, nat) chain_ante_ctx, ((int, hub_msg) chain_msg, unit) Tx,
      unit, unit) sdk_ante" where
  "council_sdk \<equiv> sdk_decorators Suc (\<lambda>tx. True)"

definition council_ante ::
    "kv VrKeeper \<Rightarrow> ((kv, kv, bytes \<Rightarrow> coins, hub, nat) chain_ante_ctx,
      ((int, hub_msg) chain_msg, unit) Tx) AnteHandler" where
  "council_ante k = chain_decorators
     [sa_SetUpContext council_sdk, sa_ValidateBasic council_sdk,
      GroupProposalTiming_AnteHandle (council_group k), ValidatorWhitelist_AnteHandle k,
      sa_DeductFee council_sdk () (), sa_IncrementSequence council_sdk ()]"

definition create_validator :: "string \<Rightarrow> council_state \<Rightarrow> unit outcome \<times> council_state" where
  "create_validator a ch =
     (Ret (), ch\<lparr>ch_Rest := (ch_Rest ch)\<lparr>hb_Operators := a # hb_Operators (ch_Rest ch)\<rparr>\<rparr>)"

fun hub_handle :: "hub_msg \<Rightarrow> council_state \<Rightarrow> unit outcome \<times> council_state" where
  "hub_handle (SubmitProposal p m) ch =
     (Ret (), ch\<lparr>ch_Rest := (ch_Rest ch)\<lparr>hb_Proposals := hb_Proposals (ch_Rest ch) @ [(p, m)]\<rparr>\<rparr>)"
| "hub_handle (AuthzExec a) ch = create_validator a ch"

definition council_node ::
    "kv VrKeeper \<Rightarrow> bytes
     \<Rightarrow> (kv, kv, bytes \<Rightarrow> coins, coins, int, hub, hub_msg, unit, nat) node" where
  "council_node k td_authority =
     \<lparr>nd_vr = k, nd_td = td_kv_keeper td_authority, nd_group = council_group k,
      nd_ante = council_ante k,
      nd_create = create_validator, nd_foreign = hub_handle,
      nd_elsewhere = (\<lambda>ch ch'. ch' = ch \<or> (\<exists>b. spares_module ledger_bal bytes_of_string (tc_bank (ch_Deposit ch)) b \<and>
        ch' = ch\<lparr>ch_Deposit := (ch_Deposit ch)\<lparr>tc_bank := b\<rparr>\<rparr>)),
      nd_operators = (\<lambda>ch. set (hb_Operators (ch_Rest ch)))\<rparr>"

lemma council_node_sel [simp]:
  "nd_vr (council_node k auth) = k"
  "nd_td (council_node k auth) = td_kv_keeper auth"
  "nd_group (council_node k auth) = council_group k"
  "nd_ante (council_node k auth) = council_ante k"
  "nd_create (council_node k auth) = create_validator"
  "nd_foreign (council_node k auth) = hub_handle"
  "nd_operators (council_node k auth) ch = set (hb_Operators (ch_Rest ch))"
  by (simp_all add: council_node_def)

text \<open>The contract of the rest of the chain.\<close>

abbreviation council_tadm :: "bytes \<Rightarrow> (kv, bytes \<Rightarrow> coins) TdCtx \<Rightarrow> int td_msg \<Rightarrow> bool" where
  "council_tadm auth \<equiv> td_admissible (td_kv_keeper auth) (\<lambda>d. d) ledger_bal bytes_of_string
     (co_ok (td_params_codec fixed18_codec))"

abbreviation council_touches where
  "council_touches k auth \<equiv> touches (council_node k auth) storable_msg (council_tadm auth)
     (spares_module ledger_bal bytes_of_string)"

lemma council_rest_touches: "council_touches k auth ch (ch\<lparr>ch_Rest := h\<rparr>)"
  unfolding touches_def by (auto intro: exI [of _ "[]"] td_run.start)

lemma council_exec_touches:
  "council_touches k auth ch (snd (council_exec k ch i executor))"
proof (cases "find (\<lambda>(p, m). pr_Id p = i \<and> small_msg m) (hb_Proposals (ch_Rest ch))")
  case None
  then show ?thesis by (simp add: council_exec_def touches_refl)
next
  case (Some pm)
  obtain p m where pm: "pm = (p, m)" by fastforce
  with Some have "small_msg m" by (auto simp: find_Some_iff)
  obtain r c where run: "vr_handle k m (ch_Registry ch) = (r, c)" by fastforce
  have ret: "council_touches k auth ch (ch\<lparr>ch_Registry := c, ch_Log := ch_Log ch @ [m], ch_Rest := h\<rparr>)"
    if "r = Ret ()" for h
    unfolding touches_def using run that small_storable [OF \<open>small_msg m\<close>]
    by (auto intro: exI [of _ "[m]"] td_run.start)
  have "snd (council_exec k ch i executor) =
      (if \<not> ch_Time ch < hb_MinExecution (ch_Rest ch) \<and> r = Ret ()
       then ch\<lparr>ch_Registry := c, ch_Log := ch_Log ch @ [m],
         ch_Rest := settle i PROPOSAL_EXECUTOR_RESULT_SUCCESS (ch_Rest ch)\<rparr>
       else ch\<lparr>ch_Rest := settle i PROPOSAL_EXECUTOR_RESULT_FAILURE (ch_Rest ch)\<rparr>)"
    using Some pm run by (cases r) (simp_all add: council_exec_def)
  then show ?thesis
    using ret [of "settle i PROPOSAL_EXECUTOR_RESULT_SUCCESS (ch_Rest ch)"]
      council_rest_touches [of k auth ch "settle i PROPOSAL_EXECUTOR_RESULT_FAILURE (ch_Rest ch)"]
    by (cases "\<not> ch_Time ch < hb_MinExecution (ch_Rest ch) \<and> r = Ret ()") (simp_all only: if_True if_False simp_thms)
qed

lemma council_chain_node:
  "chain_node (council_node k auth) storable_msg (council_tadm auth) (spares_module ledger_bal bytes_of_string)"
proof
  fix ch ch' :: council_state and i executor f a c d t l
  show "council_touches k auth ch (snd (g_Exec (nd_group (council_node k auth)) ch i executor))"
    by (simp add: council_group_def council_exec_touches)
  show "council_touches k auth ch (snd (nd_foreign (council_node k auth) f ch))"
    using council_rest_touches by (cases f) (simp_all add: create_validator_def)
  show "council_touches k auth ch (snd (nd_create (council_node k auth) a ch))"
    using council_rest_touches by (simp add: create_validator_def)
  show "council_touches k auth ch ch'" if "nd_elsewhere (council_node k auth) ch ch'"
  proof -
    have "td_run (td_kv_keeper auth) (council_tadm auth) (spares_module ledger_bal bytes_of_string)
        (ch_Deposit ch) (ch_Deposit ch\<lparr>tc_bank := b\<rparr>)"
      if "spares_module ledger_bal bytes_of_string (tc_bank (ch_Deposit ch)) b" for b
      using td_run.step [OF td_run.start td_step.elsewhere [where others = "spares_module ledger_bal bytes_of_string", OF that]] .
    with that show ?thesis
      by (auto simp: council_node_def touches_refl) (auto simp: touches_def intro: exI [of _ "[]"])
  qed
qed (simp_all add: create_validator_def)

interpretation council: whitelisting_chain "council_node (vr_kv_keeper sb bs va aa vr_auth) auth"
    "council_tadm auth" "spares_module ledger_bal bytes_of_string" vr_inv vr_params_of "co_ok vr_params_codec"
    validators_of "\<lambda>i. True" "co_ok validator_codec" key_less council_sdk "()" "Some ()" "Some ()" "()"
  for sb bs va aa vr_auth auth
proof (unfold whitelisting_chain_def council_node_sel, intro conjI)
  show "sdk_chain council_sdk" by (rule sdk_decorators.sdk_chain_axioms)
  show "whitelisting_chain_axioms (council_node (vr_kv_keeper sb bs va aa vr_auth) auth) council_sdk ()
      (Some ()) (Some ()) ()"
    by (simp add: whitelisting_chain_axioms_def NewAnteHandler_def council_ante_def Let_def)
      (simp add: sdk_decorators_def)
qed (rule council_chain_node vr_kv.registry_axioms)+

section \<open>The council settles its proposals\<close>

text \<open>Proposals of ordinary size with different identifiers.\<close>

definition council_sound :: "council_state \<Rightarrow> bool" where
  "council_sound ch \<longleftrightarrow> list_all (small_msg \<circ> snd) (hb_Proposals (ch_Rest ch)) \<and>
     distinct (map (pr_Id \<circ> fst) (hb_Proposals (ch_Rest ch)))"

lemma find_by_id:
  "distinct (map pr_Id ps) \<Longrightarrow> p \<in> set ps \<Longrightarrow> find (\<lambda>q. pr_Id q = pr_Id p) ps = Some p"
  by (induction ps) auto

lemma find_map_fst: "find P (map fst xs) = map_option fst (find (P \<circ> fst) xs)"
  by (induction xs) auto

lemma find_small:
  "list_all (small_msg \<circ> snd) ps \<Longrightarrow>
   find (\<lambda>(p, m). pr_Id p = i \<and> small_msg m) ps = find ((\<lambda>p. pr_Id p = i) \<circ> fst) ps"
  by (induction ps) auto

lemma settle_sound:
  "council_sound ch \<Longrightarrow> council_sound (ch\<lparr>ch_Registry := c, ch_Log := l, ch_Rest := settle i res (ch_Rest ch)\<rparr>)"
proof -
  have "map (pr_Id \<circ> fst) (hb_Proposals (settle i res h)) = map (pr_Id \<circ> fst) (hb_Proposals h)"
    "map snd (hb_Proposals (settle i res h)) = map snd (hb_Proposals h)" for h
    by (simp_all add: settle_def comp_def case_prod_beta)
  moreover have "list_all (small_msg \<circ> snd) ps \<longleftrightarrow> list_all small_msg (map snd ps)" for ps :: "(Proposal \<times> vr_msg) list"
    by (simp add: list_all_iff)
  ultimately show "council_sound ch \<Longrightarrow> ?thesis" by (simp add: council_sound_def)
qed

lemma council_ready:
  "ready_proposals (council_group k) now ch =
     {(grp, policy, p). grp = 1 \<and> policy = ''council'' \<and> pending now p \<and> p \<in> fst ` set (hb_Proposals (ch_Rest ch))}"
  by (auto simp: ready_proposals_def council_group_def)

lemma settle_ready:
  assumes "res \<in> {PROPOSAL_EXECUTOR_RESULT_SUCCESS, PROPOSAL_EXECUTOR_RESULT_FAILURE}"
  shows "ready_proposals (council_group k) now (ch\<lparr>ch_Registry := c, ch_Log := l, ch_Rest := settle i res (ch_Rest ch)\<rparr>)
    \<subseteq> ready_proposals (council_group k) now ch - with_ids {i}"
  using assms by (auto simp: council_ready settle_def pending_def split: if_splits)

lemma council_exec_runs:
  assumes "council_sound ch" "g_Proposal (council_group k) ch i = Inr p"
  shows "\<exists>c l res. council_exec k ch i executor = (Ret (), ch\<lparr>ch_Registry := c, ch_Log := l, ch_Rest := settle i res (ch_Rest ch)\<rparr>) \<and>
    res \<in> {PROPOSAL_EXECUTOR_RESULT_SUCCESS, PROPOSAL_EXECUTOR_RESULT_FAILURE}"
proof -
  from assms obtain m where f: "find (\<lambda>(p, m). pr_Id p = i \<and> small_msg m) (hb_Proposals (ch_Rest ch)) = Some (p, m)"
    by (auto simp: council_group_def find_map_fst council_sound_def find_small split: option.splits)
  obtain r c where run: "vr_handle k m (ch_Registry ch) = (r, c)" by fastforce
  show ?thesis
  proof (cases "\<not> ch_Time ch < hb_MinExecution (ch_Rest ch) \<and> r = Ret ()")
    case True
    with f run show ?thesis
      by (intro exI [of _ c] exI [of _ "ch_Log ch @ [m]"] exI [of _ PROPOSAL_EXECUTOR_RESULT_SUCCESS])
        (simp add: council_exec_def)
  next
    case False
    with f run show ?thesis
      by (intro exI [of _ "ch_Registry ch"] exI [of _ "ch_Log ch"] exI [of _ PROPOSAL_EXECUTOR_RESULT_FAILURE])
        (cases r, auto simp: council_exec_def)
  qed
qed

interpretation council_keeper: group_keeper "council_group k" now council_sound for k now
proof
  fix ch :: council_state and grp policy i p
  assume s: "council_sound ch"
  show "g_Proposal (council_group k) ch (pr_Id p) = Inr p"
    if "(grp, policy, p) \<in> ready_proposals (council_group k) now ch"
  proof -
    have "distinct (map pr_Id (map fst (hb_Proposals (ch_Rest ch))))"
      using s by (simp add: council_sound_def comp_def)
    moreover have "p \<in> set (map fst (hb_Proposals (ch_Rest ch)))" using that by (simp add: council_ready)
    ultimately show ?thesis by (simp only: find_by_id council_group_def group_ops.simps option.simps)
  qed
  assume p: "g_Proposal (council_group k) ch i = Inr p"
  from council_exec_runs [OF s p, of "pr_GroupPolicyAddress p"] obtain c l res where
    "g_Exec (council_group k) ch i (pr_GroupPolicyAddress p) =
       (Ret (), ch\<lparr>ch_Registry := c, ch_Log := l, ch_Rest := settle i res (ch_Rest ch)\<rparr>)"
    "res \<in> {PROPOSAL_EXECUTOR_RESULT_SUCCESS, PROPOSAL_EXECUTOR_RESULT_FAILURE}"
    by (auto simp: council_group_def)
  then show "\<exists>g'. g_Exec (council_group k) ch i (pr_GroupPolicyAddress p) = (Ret (), g') \<and> council_sound g' \<and>
      ready_proposals (council_group k) now g' \<subseteq> ready_proposals (council_group k) now ch - with_ids {i}"
    using settle_sound [OF s] settle_ready by blast
qed

end
