(* ===== verification/ChainProps.thy ===== *)
theory ChainProps
  imports ChainModel TdRunProps
begin

text \<open>
  The properties of the chain as a whole, over its runs. The witnesses run the chain of \<open>ChainModel\<close>: the
  council's proposal to onboard an operator is executed by an end block, a transaction creates the
  operator's validator, and another one creates a validator through \<open>authz\<close>.
\<close>

section \<open>A sample run\<close>

definition council_proposal :: Proposal where
  "council_proposal = \<lparr>pr_Id = 1, pr_GroupPolicyAddress = ''council'', pr_Status = PROPOSAL_STATUS_ACCEPTED,
     pr_ExecutorResult = Executor_Result_Other 0, pr_VotingPeriodEnd = 10\<rparr>"

definition council_start :: "(kv, bytes \<Rightarrow> coins) TdCtx \<Rightarrow> council_state" where
  "council_start d = \<lparr>ch_Time = 0, ch_Registry = sample_ctx, ch_Log = [], ch_Deposit = d,
     ch_Rest = \<lparr>hb_Operators = [], hb_Proposals = [(council_proposal, OnboardMsg sample_onboard)],
       hb_MinExecution = 15\<rparr>\<rparr>"

definition council_tx :: "((int, hub_msg) chain_msg, unit) Tx" where
  "council_tx = \<lparr>tx_Msgs = [MsgCreateValidator ''op1''], tx_Rest = ()\<rparr>"

definition authz_tx :: "string \<Rightarrow> ((int, hub_msg) chain_msg, unit) Tx" where
  "authz_tx a = \<lparr>tx_Msgs = [OtherMsg (ForeignMsg (AuthzExec a))], tx_Rest = ()\<rparr>"

abbreviation council_step :: "council_state \<Rightarrow> string set \<Rightarrow> council_state \<Rightarrow> bool" where
  "council_step \<equiv> chain_step (council_node sample_keeper []) storable_msg (council_tadm [])"

abbreviation council_run :: "council_state \<Rightarrow> string set \<Rightarrow> council_state \<Rightarrow> bool" where
  "council_run \<equiv> chain_run (council_node sample_keeper []) storable_msg (council_tadm [])"

lemma council_chain:
  "whitelisting_chain (council_node sample_keeper []) (council_tadm []) (spares_module ledger_bal bytes_of_string)
     vr_inv vr_params_of (co_ok vr_params_codec) validators_of (\<lambda>i. True) (co_ok validator_codec) key_less
     council_sdk () (Some ()) (Some ()) ()"
  unfolding sample_keeper_def by (rule council.whitelisting_chain_axioms)

lemma council_start_sel [simp]:
  "ch_Registry (council_start d) = sample_ctx" "ch_Deposit (council_start d) = d" "ch_Log (council_start d) = []"
  "ch_Time (council_start d) = 0" "hb_Operators (ch_Rest (council_start d)) = []"
  "hb_Proposals (ch_Rest (council_start d)) = [(council_proposal, OnboardMsg sample_onboard)]"
  "hb_MinExecution (ch_Rest (council_start d)) = 15"
  by (simp_all add: council_start_def)

lemma council_end_block:
  assumes "OnboardValidator sample_keeper sample_onboard sample_ctx = (Ret (), c)"
  shows "EndBlock (council_group sample_keeper) 20 (council_start d\<lparr>ch_Time := 20\<rparr>) =
    (Ret (), council_start d\<lparr>ch_Time := 20, ch_Registry := c, ch_Log := [OnboardMsg sample_onboard],
       ch_Rest := settle 1 PROPOSAL_EXECUTOR_RESULT_SUCCESS (ch_Rest (council_start d))\<rparr>)"
proof -
  have "small_msg (OnboardMsg sample_onboard)" by (simp add: small_msg_def sample_onboard_def)
  then show ?thesis using assms
    by (simp add: EndBlock_def executePendingGroupProposals_def council_group_def tryExecuteProposal_def
        council_exec_def) (simp add: council_proposal_def)
qed

text \<open>An operator of the registry creates a validator; \<open>authz\<close> creates one for anybody.\<close>

lemma council_accepts:
  assumes "\<And>i. MsgExec i \<notin> set (tx_Msgs tx)"
    "\<And>a. MsgCreateValidator a \<in> set (tx_Msgs tx) \<Longrightarrow> IsValidatorWhitelisted sample_keeper (vc_store (ch_Registry ch)) a"
  shows "nd_ante (council_node sample_keeper []) (ante_view ch 0) tx False = ((ante_view ch 0)\<lparr>ac_Rest := 1\<rparr>, Ret ())"
proof -
  have "timing_check (council_group sample_keeper) ch (ch_Time ch) (tx_Msgs tx) = None"
    unfolding timing_check_None list_all_iff using assms(1) by (auto simp: exec_allowed_def split: sdk_msg.split)
  moreover have "whitelist_check sample_keeper (vc_store (ch_Registry ch)) (tx_Msgs tx) = None"
    unfolding whitelist_check_None list_all_iff using assms(2) by (auto simp: create_allowed_def split: sdk_msg.split)
  ultimately show ?thesis
    by (simp add: council_ante_def sdk_decorators_def GroupProposalTiming_AnteHandle_def
        ValidatorWhitelist_AnteHandle_def ante_view_def)
qed

lemma create_validator_sel [simp]:
  "fst (create_validator a ch) = Ret ()"
  "hb_Operators (ch_Rest (snd (create_validator a ch))) = a # hb_Operators (ch_Rest ch)"
  "ch_Registry (snd (create_validator a ch)) = ch_Registry ch"
  "ch_Log (snd (create_validator a ch)) = ch_Log ch"
  "ch_Deposit (snd (create_validator a ch)) = ch_Deposit ch"
  by (simp_all add: create_validator_def)

lemma council_creates:
  assumes "IsValidatorWhitelisted sample_keeper (vc_store (ch_Registry ch)) ''op1''"
  shows "council_step ch {} (snd (create_validator ''op1'' ch))"
proof -
  have "council_step ch (fresh (council_node sample_keeper []) ch ch \<union> ({} \<union> {})) (snd (create_validator ''op1'' ch))"
  proof (rule chain_step.transaction [where c = ch and tx = council_tx])
    show "nd_ante (council_node sample_keeper []) (ante_view ch 0) council_tx False =
        ((ante_view ch 0)\<lparr>ac_Rest := 1\<rparr>, Ret ())" using assms by (intro council_accepts) (simp_all add: council_tx_def)
    show "msgs_run (council_node sample_keeper []) storable_msg (council_tadm []) (tx_Msgs council_tx) ch ({} \<union> {})
        (snd (create_validator ''op1'' ch))"
      unfolding council_tx_def Tx.simps
      by (rule msgs_run.next_msg [OF msg_step.create_msg msgs_run.no_msgs]) (simp add: prod_eq_iff)
  qed (simp add: council_node_def)
  then show ?thesis by (simp add: fresh_def)
qed

lemma council_slips:
  "council_step ch (fresh (council_node sample_keeper []) ch (snd (create_validator a ch))) (snd (create_validator a ch))"
proof -
  have "council_step ch (fresh (council_node sample_keeper []) ch ch \<union>
      (fresh (council_node sample_keeper []) ch (snd (create_validator a ch)) \<union> {})) (snd (create_validator a ch))"
  proof (rule chain_step.transaction [where c = ch and tx = "authz_tx a"])
    show "nd_ante (council_node sample_keeper []) (ante_view ch 0) (authz_tx a) False =
        ((ante_view ch 0)\<lparr>ac_Rest := 1\<rparr>, Ret ())" by (intro council_accepts) (simp_all add: authz_tx_def)
    show "msgs_run (council_node sample_keeper []) storable_msg (council_tadm []) (tx_Msgs (authz_tx a)) ch
        (fresh (council_node sample_keeper []) ch (snd (create_validator a ch)) \<union> {}) (snd (create_validator a ch))"
      unfolding authz_tx_def Tx.simps
      by (rule msgs_run.next_msg [OF msg_step.foreign_msg msgs_run.no_msgs]) (simp add: prod_eq_iff)
  qed (simp add: council_node_def)
  then show ?thesis by (simp add: fresh_def)
qed

lemma council_story:
  "\<exists>ch. council_run (council_start d) {''intruder''} ch \<and> hb_Operators (ch_Rest ch) = [''intruder'', ''op1''] \<and>
     ch_Deposit ch = d \<and> ch_Log ch = [OnboardMsg sample_onboard] \<and>
     validators_of (vc_store (ch_Registry ch)) = [''v1'' \<mapsto> onboarded_validator sample_onboard]"
proof -
  obtain c where onb: "OnboardValidator sample_keeper sample_onboard sample_ctx = (Ret (), c)"
    using sample_onboards by blast
  have i: "vr_inv (vc_store sample_ctx)" by simp
  note o = registry.onboard_abs [OF sample_registry i TrueI sample_onboard_ok onb]
  define ch1 where "ch1 = council_start d\<lparr>ch_Time := 20\<rparr>"
  define ch2 where "ch2 = ch1\<lparr>ch_Registry := c, ch_Log := [OnboardMsg sample_onboard],
    ch_Rest := settle 1 PROPOSAL_EXECUTOR_RESULT_SUCCESS (ch_Rest (council_start d))\<rparr>"
  define ch3 where "ch3 = snd (create_validator ''op1'' ch2)"
  define ch4 where "ch4 = snd (create_validator ''intruder'' ch3)"
  have ops: "hb_Operators (ch_Rest ch1) = []" "hb_Operators (ch_Rest ch2) = []"
    by (simp_all add: ch1_def ch2_def settle_def)
  have s1: "council_step (council_start d) {} ch1" unfolding ch1_def by (rule chain_step.next_block) simp
  have "council_step ch1 (fresh (council_node sample_keeper []) ch1 ch2) ch2"
    by (rule chain_step.end_block) (simp add: ch1_def ch2_def council_end_block [OF onb])
  then have s2: "council_step ch1 {} ch2" by (simp add: fresh_def ops)
  have "IsValidatorWhitelisted sample_keeper (vc_store c) ''op1''"
    using registry.whitelisted_ran [OF sample_registry, of "vc_store c"] o by (auto simp: onboarded_validator_def)
  then have s3: "council_step ch2 {} ch3"
    unfolding ch3_def by (intro council_creates) (simp add: ch2_def)
  have "fresh (council_node sample_keeper []) ch3 ch4 = {''intruder''}"
    by (auto simp: fresh_def ch4_def ch3_def ops)
  then have s4: "council_step ch3 {''intruder''} ch4"
    using council_slips [of ch3 "''intruder''"] by (simp flip: ch4_def)
  have "council_run (council_start d) ({} \<union> {} \<union> {} \<union> {} \<union> {''intruder''}) ch4"
    by (rule chain_run.chain_next [OF chain_run.chain_next [OF chain_run.chain_next [OF chain_run.chain_next
      [OF chain_run.chain_start s1] s2] s3] s4])
  moreover have "mov_Index sample_onboard = ''v1''" by (simp add: sample_onboard_def)
  ultimately show ?thesis using o
    by (intro exI [of _ ch4]) (simp add: ch4_def ch3_def ops, simp add: ch2_def ch1_def)
qed

section \<open>The properties\<close>

text \<open>C2. Every validator is one of an operator in the registry, in every state that blocks, transactions,
  proposals and other modules reach, in any order, if this holds at the start; the only exceptions are
  operators whose validators came about without a \<open>MsgCreateValidator\<close> at the top level of a transaction,
  through a message that carries others (\<open>authz\<close>, a proposal) or in a block of another module.\<close>

theorem every_validator_registered:
  assumes "whitelisting_chain nd tadm others invar pabs iok vabs okey ok lt S ak bk smh sgc"
    "invar (vc_store (ch_Registry ch))" "keyed (vabs (vc_store (ch_Registry ch)))"
    "\<forall>a \<in> nd_operators nd ch. IsValidatorWhitelisted (nd_vr nd) (vc_store (ch_Registry ch)) a"
    "chain_run nd (vr_admissible okey ok iok) tadm ch W ch'" "a \<in> nd_operators nd ch'" "a \<notin> W"
  shows "IsValidatorWhitelisted (nd_vr nd) (vc_store (ch_Registry ch')) a"
  using whitelisting_chain.run_admitted [OF assms(1,5)] assms(2-4,6,7)
  by (simp add: whitelisting_chain.admitted_def [OF assms(1)])

text \<open>In the witness one operator is in the registry and the other came by way of \<open>authz\<close>.\<close>

lemma every_validator_registered_witness:
  "\<exists>ch. council_run (council_start \<lparr>tc_store = [], tc_bank = \<lambda>_. {#}\<rparr>) {''intruder''} ch \<and>
     hb_Operators (ch_Rest ch) = [''intruder'', ''op1''] \<and>
     IsValidatorWhitelisted sample_keeper (vc_store (ch_Registry ch)) ''op1''"
proof -
  obtain ch where r: "council_run (council_start \<lparr>tc_store = [], tc_bank = \<lambda>_. {#}\<rparr>) {''intruder''} ch"
    "hb_Operators (ch_Rest ch) = [''intruder'', ''op1'']" using council_story by blast
  from every_validator_registered [OF council_chain _ _ _ r(1), of "''op1''"] r show ?thesis
    by (auto simp: keyed_def)
qed

text \<open>C4. The registry changes only by messages of its authority: over a run of the chain it gains exactly
  the entries of the onboarding messages that succeeded, each under its own index, which was free before;
  every one of these messages names the authority as its creator, whether it was a message of a
  transaction or run by another module, and no entry of the start is changed or removed.\<close>

theorem registry_obeys_authority:
  assumes "chain_node nd (vr_admissible okey ok iok) tadm others"
    "registry (nd_vr nd) invar pabs iok vabs okey ok lt" "invar (vc_store (ch_Registry ch))" "ch_Log ch = []"
    "chain_run nd (vr_admissible okey ok iok) tadm ch W ch'"
  shows "vabs (vc_store (ch_Registry ch')) = vabs (vc_store (ch_Registry ch)) ++ entries_of (ch_Log ch') \<and>
    (\<forall>m \<in> set (onboards (ch_Log ch')). vk_StringToBytes (nd_vr nd) (mov_Creator m) = Inr (vk_authority (nd_vr nd))) \<and>
    distinct (map mov_Index (onboards (ch_Log ch'))) \<and>
    dom (vabs (vc_store (ch_Registry ch))) \<inter> dom (entries_of (ch_Log ch')) = {}"
  using registry.touches_entries [OF assms(2) chain_node.run_touches [OF assms(1,5)] refl assms(3,4)] .

lemma registry_obeys_authority_witness:
  "\<exists>ch. council_run (council_start \<lparr>tc_store = [], tc_bank = \<lambda>_. {#}\<rparr>) {''intruder''} ch \<and>
     ch_Log ch = [OnboardMsg sample_onboard] \<and>
     validators_of (vc_store (ch_Registry ch)) = entries_of [OnboardMsg sample_onboard] \<and>
     vk_StringToBytes sample_keeper (mov_Creator sample_onboard) = Inr (vk_authority sample_keeper)"
proof -
  obtain ch where r: "council_run (council_start \<lparr>tc_store = [], tc_bank = \<lambda>_. {#}\<rparr>) {''intruder''} ch"
    "ch_Log ch = [OnboardMsg sample_onboard]" using council_story by blast
  have k: "registry (nd_vr (council_node sample_keeper [])) vr_inv vr_params_of (co_ok vr_params_codec)
      validators_of (\<lambda>i. True) (co_ok validator_codec) key_less"
    unfolding council_node_sel by (rule sample_registry)
  from registry_obeys_authority [OF council_chain_node k _ _ r(1)] r
  show ?thesis unfolding council_node_sel by (intro exI [of _ ch]) simp
qed

text \<open>C5. The begin block of the trust deposit module never stops the chain: in every state a run of the
  chain reaches from a safe start it returns without error or panic, as long as \<open>UpdateParams\<close> is only
  used for yield rates between \<open>0\<close> and \<open>2^120\<close> units of \<open>10^-18\<close> and deposit values between \<open>0\<close> and \<open>2^62\<close>,
  \<open>FundModule\<close> is signed by accounts other than the module's, other modules do not debit its account, and
  the supply stays below \<open>2^62\<close>. The code does not check the parameters itself.\<close>

theorem begin_block_never_stops_chain:
  assumes "chain_node nd vadm (td_admissible (nd_td nd) raw bal macc pok) (spares_module bal macc)"
    "trust_deposit (nd_td nd) raw amt bal macc known invar pval pok dval dok"
    "td_safe raw bal macc invar pval pok dval (ch_Deposit ch)"
    "chain_run nd vadm (td_admissible (nd_td nd) raw bal macc pok) ch W ch'"
  shows "\<exists>d. td_BeginBlock (nd_td nd) (ch_Deposit ch') = (Ret (), d)"
proof -
  have "td_run (nd_td nd) (td_admissible (nd_td nd) raw bal macc pok) (spares_module bal macc)
      (ch_Deposit ch) (ch_Deposit ch')"
    using chain_node.run_touches [OF assms(1,4)] unfolding touches_def by blast
  from trust_deposit.run_safe [OF assms(2) this assms(3)] trust_deposit.begin_block_safe [OF assms(2)]
  show ?thesis by blast
qed

lemma begin_block_never_stops_chain_witness:
  "\<exists>s ch d. td_InitGenesis (td_kv_keeper []) \<lparr>tgs_Params = sample_params\<rparr> [] = Inr s \<and>
     council_run (council_start \<lparr>tc_store = s, tc_bank = sample_td_bank\<rparr>) {''intruder''} ch \<and>
     hb_Operators (ch_Rest ch) = [''intruder'', ''op1''] \<and> td_BeginBlock (td_kv_keeper []) (ch_Deposit ch) = (Ret (), d)"
proof -
  obtain s where s: "td_InitGenesis (td_kv_keeper []) \<lparr>tgs_Params = sample_params\<rparr> [] = Inr s"
    "td_safe (\<lambda>d. d) ledger_bal bytes_of_string td_inv td_params_of
       (co_ok (td_params_codec fixed18_codec)) td_dust_of \<lparr>tc_store = s, tc_bank = sample_td_bank\<rparr>"
    by (rule sample_td_genesis)
  obtain ch where r: "council_run (council_start \<lparr>tc_store = s, tc_bank = sample_td_bank\<rparr>) {''intruder''} ch"
    "hb_Operators (ch_Rest ch) = [''intruder'', ''op1'']" using council_story by blast
  have t: "trust_deposit (nd_td (council_node sample_keeper [])) (\<lambda>d. d) count ledger_bal bytes_of_string
      (\<lambda>m. m \<in> set td_accounts) td_inv td_params_of (co_ok (td_params_codec fixed18_codec)) td_dust_of
      (co_ok (dust_codec fixed18_codec))"
    unfolding council_node_sel by (rule td_kv.trust_deposit_axioms)
  have n: "chain_node (council_node sample_keeper []) storable_msg
      (td_admissible (nd_td (council_node sample_keeper [])) (\<lambda>d. d) ledger_bal bytes_of_string
        (co_ok (td_params_codec fixed18_codec))) (spares_module ledger_bal bytes_of_string)"
    unfolding council_node_sel by (rule council_chain_node)
  from begin_block_never_stops_chain [OF n t, of "council_start \<lparr>tc_store = s, tc_bank = sample_td_bank\<rparr>"
      "{''intruder''}" ch] r s
  show ?thesis by auto
qed

text \<open>C13. The end block leaves no ready proposal behind: when executing a stored proposal settles it and
  makes no other one ready, then after the end block no accepted proposal whose voting period is over,
  listed under a policy of a listed group, waits for its execution.\<close>

theorem end_block_settles_proposals:
  assumes "group_keeper G now sound" "sound g"
  shows "\<exists>g'. EndBlock G now g = (Ret (), g') \<and> ready_proposals G now g' = {}"
  using group_keeper.end_block_settles [OF assms] by blast

lemma end_block_settles_proposals_witness:
  "\<exists>ch. EndBlock (council_group sample_keeper) 20 (council_start \<lparr>tc_store = [], tc_bank = \<lambda>_. {#}\<rparr>) = (Ret (), ch) \<and>
     (1, ''council'', council_proposal) \<in> ready_proposals (council_group sample_keeper) 20
       (council_start \<lparr>tc_store = [], tc_bank = \<lambda>_. {#}\<rparr>) \<and>
     ready_proposals (council_group sample_keeper) 20 ch = {}"
proof -
  have "council_sound (council_start \<lparr>tc_store = [], tc_bank = \<lambda>_. {#}\<rparr>)"
    by (simp add: council_sound_def small_msg_def sample_onboard_def)
  from end_block_settles_proposals [OF council_keeper.group_keeper_axioms this, of sample_keeper 20]
  show ?thesis
    by (simp add: council_ready) (simp add: council_proposal_def pending_def may_execute_def)
qed

end
