(* ===== verification/Nested.thy ===== *)
theory Nested
  imports ChainProps
begin

text \<open>
  What the ante handler does not see: messages carried inside other messages (\<open>authz.MsgExec\<close>, proposals).
  Both decorators of this chain switch on the type of the top-level messages only. A transaction of
  wrapped messages is treated as if the two decorators were not in the chain, and a chain whose \<open>authz\<close>
  module runs wrapped messages reaches a state with a validator the registry does not know.
\<close>

section \<open>Decorators that hand the transaction on\<close>

text \<open>A decorator of the SDK calls the rest of the chain on the transaction it was given, if at all.\<close>

definition threads :: "(('s, 'g, 'z) AnteCtx, ('m, 'x) Tx) AnteDecorator \<Rightarrow> bool" where
  "threads d \<longleftrightarrow> (\<forall>ctx tx sim nxt nxt'. (\<forall>c s. nxt c tx s = nxt' c tx s) \<longrightarrow>
     d ctx tx sim nxt = d ctx tx sim nxt')"

lemma threadsD: "threads d \<Longrightarrow> (\<And>c s. nxt c tx s = nxt' c tx s) \<Longrightarrow> d ctx tx sim nxt = d ctx tx sim nxt'"
  unfolding threads_def by blast

lemma wrapped_timing: "set msgs \<subseteq> range OtherMsg \<Longrightarrow> timing_check G g now msgs = None"
  by (auto simp: timing_check_None list_all_iff exec_allowed_def split: sdk_msg.split)

lemma wrapped_whitelist: "set msgs \<subseteq> range OtherMsg \<Longrightarrow> whitelist_check k s msgs = None"
  by (auto simp: whitelist_check_None list_all_iff create_allowed_def split: sdk_msg.split)

locale threading_chain = sdk_chain S
  for S :: "(('s, 'g, 'z) AnteCtx, ('m, 'x) Tx, 'ak, 'bk) sdk_ante" +
  assumes set_up_threads: "threads (sa_SetUpContext S)"
    and basic_threads: "threads (sa_ValidateBasic S)"
begin

text \<open>The SDK's own part of the chain.\<close>

abbreviation sdk_part :: "'ak \<Rightarrow> 'bk \<Rightarrow> (('s, 'g, 'z) AnteCtx, ('m, 'x) Tx) AnteHandler" where
  "sdk_part ak bk \<equiv> sa_ChainAnteDecorators S
     [sa_SetUpContext S, sa_ValidateBasic S, sa_DeductFee S ak bk, sa_IncrementSequence S ak]"

lemma wrapped_unchecked:
  assumes h: "NewAnteHandler S ak (Some bk) smh sgc k G = Inr h" and w: "set (tx_Msgs tx) \<subseteq> range OtherMsg"
  shows "h ctx tx sim = sdk_part ak bk ctx tx sim"
proof -
  let ?rest = "sa_ChainAnteDecorators S [sa_DeductFee S ak bk, sa_IncrementSequence S ak]"
  let ?own = "sa_ChainAnteDecorators S [GroupProposalTiming_AnteHandle G, ValidatorWhitelist_AnteHandle k,
    sa_DeductFee S ak bk, sa_IncrementSequence S ak]"
  from h have heq: "h = sa_ChainAnteDecorators S [sa_SetUpContext S, sa_ValidateBasic S,
      GroupProposalTiming_AnteHandle G, ValidatorWhitelist_AnteHandle k,
      sa_DeductFee S ak bk, sa_IncrementSequence S ak]"
    by (auto simp: NewAnteHandler_def Let_def split: option.splits)
  have own: "?own c tx s = ?rest c tx s" for c s
    by (simp add: chain [of "GroupProposalTiming_AnteHandle G"] chain [of "ValidatorWhitelist_AnteHandle k"]
        GroupProposalTiming_AnteHandle_def ValidatorWhitelist_AnteHandle_def wrapped_timing [OF w]
        wrapped_whitelist [OF w])
  have basic: "sa_ValidateBasic S c tx s ?own = sa_ValidateBasic S c tx s ?rest" for c s
    using threadsD [where nxt = ?own and nxt' = ?rest, OF basic_threads] own by blast
  show ?thesis
    unfolding heq chain [of "sa_SetUpContext S"]
    by (rule threadsD [OF set_up_threads]) (simp only: chain [of "sa_ValidateBasic S"] basic)
qed

end

interpretation sdk_threads: threading_chain "sdk_decorators setGas basicOk" for setGas basicOk
  by unfold_locales (simp_all add: sdk_decorators_def threads_def)

section \<open>The sample chain\<close>

text \<open>
  The chain of \<open>ChainModel\<close>, whose \<open>authz\<close> module hands the \<open>MsgCreateValidator\<close> inside a message on to the
  staking module as it is (an account needs no grant for its own messages).
\<close>

lemma council_installed:
  "NewAnteHandler council_sdk () (Some ()) (Some ()) () k (council_group k) = Inr (council_ante k)"
  by (simp add: NewAnteHandler_def council_ante_def Let_def) (simp add: sdk_decorators_def)

lemma council_sdk_threads: "threading_chain council_sdk"
  by (rule sdk_threads.threading_chain_axioms)

section \<open>The properties\<close>

text \<open>C39. The ante handler does not see messages inside other messages: on a transaction with neither a
  group \<open>MsgExec\<close> nor a \<open>MsgCreateValidator\<close> at the top level it is the SDK's own decorators, whatever the
  registry and the proposals are and whatever the messages carry.\<close>

theorem wrapped_messages_unchecked:
  assumes "threading_chain S" "NewAnteHandler S ak (Some bk) smh sgc k G = Inr h"
    "set (tx_Msgs tx) \<subseteq> range OtherMsg"
  shows "h ctx tx sim = sa_ChainAnteDecorators S [sa_SetUpContext S, sa_ValidateBasic S,
    sa_DeductFee S ak bk, sa_IncrementSequence S ak] ctx tx sim"
  using threading_chain.wrapped_unchecked [OF assms] .

lemma wrapped_messages_unchecked_witness:
  "\<forall>ctx. council_ante sample_keeper ctx (authz_tx ''intruder'') False =
     (ctx\<lparr>ac_Rest := Suc (ac_Rest ctx)\<rparr>, Ret ())"
proof -
  have "set (tx_Msgs (authz_tx ''intruder'')) \<subseteq> range OtherMsg" by (simp add: authz_tx_def)
  from wrapped_messages_unchecked [OF council_sdk_threads council_installed this]
  show ?thesis by (simp add: sdk_decorators_def)
qed

text \<open>C10. Where another module passes the \<open>MsgCreateValidator\<close> a message carries to the staking module, the
  whitelist does not bind: whenever the SDK's decorators accept the transaction, the chain steps to the
  state with the validator, for every operator, in the registry or not.\<close>

theorem wrapped_create_bypasses_whitelist:
  assumes "threading_chain S" "NewAnteHandler S ak (Some bk) smh sgc (nd_vr nd) (nd_group nd) = Inr (nd_ante nd)"
    "tx_Msgs tx = [OtherMsg (ForeignMsg f)]"
    "sa_ChainAnteDecorators S [sa_SetUpContext S, sa_ValidateBasic S, sa_DeductFee S ak bk,
       sa_IncrementSequence S ak] (ante_view ch w) tx False = (r, Ret ())"
    "nd_elsewhere nd ch c" "nd_foreign nd f c = nd_create nd a c" "nd_create nd a c = (Ret (), ch')"
  shows "chain_step nd vadm tadm ch (fresh nd ch c \<union> fresh nd c ch') ch'"
proof (rule chain_step.transaction [OF _ assms(5)])
  have "set (tx_Msgs tx) \<subseteq> range OtherMsg" by (simp add: assms(3))
  from threading_chain.wrapped_unchecked [OF assms(1,2) this] assms(4)
  show "nd_ante nd (ante_view ch w) tx False = (r, Ret ())" by simp
  have "msgs_run nd vadm tadm (tx_Msgs tx) c (fresh nd c ch' \<union> {}) ch'"
    unfolding assms(3)
    by (rule msgs_run.next_msg [OF msg_step.foreign_msg msgs_run.no_msgs]) (simp add: assms(6,7))
  then show "msgs_run nd vadm tadm (tx_Msgs tx) c (fresh nd c ch') ch'" by simp
qed

lemma wrapped_create_bypasses_whitelist_witness:
  "\<exists>ch. council_step (council_start \<lparr>tc_store = [], tc_bank = \<lambda>_. {#}\<rparr>) {''intruder''} ch \<and>
     ''intruder'' \<in> set (hb_Operators (ch_Rest ch)) \<and>
     \<not> IsValidatorWhitelisted sample_keeper (vc_store (ch_Registry ch)) ''intruder''"
proof -
  let ?start = "council_start \<lparr>tc_store = [], tc_bank = \<lambda>_. {#}\<rparr>"
  let ?final = "snd (create_validator ''intruder'' ?start)"
  let ?node = "council_node sample_keeper []"
  have n: "NewAnteHandler council_sdk () (Some ()) (Some ()) () (nd_vr ?node) (nd_group ?node) = Inr (nd_ante ?node)"
    unfolding council_node_sel by (rule council_installed)
  have a: "sa_ChainAnteDecorators council_sdk [sa_SetUpContext council_sdk, sa_ValidateBasic council_sdk,
      sa_DeductFee council_sdk () (), sa_IncrementSequence council_sdk ()] (ante_view ?start 0)
      (authz_tx ''intruder'') False = ((ante_view ?start 0)\<lparr>ac_Rest := 1\<rparr>, Ret ())"
    by (simp add: sdk_decorators_def ante_view_def)
  have t: "tx_Msgs (authz_tx ''intruder'') = [OtherMsg (ForeignMsg (AuthzExec ''intruder''))]"
    by (simp add: authz_tx_def)
  have e: "nd_elsewhere ?node ?start ?start" by (simp add: council_node_def)
  have f: "nd_foreign ?node (AuthzExec ''intruder'') ?start = nd_create ?node ''intruder'' ?start"
    "nd_create ?node ''intruder'' ?start = (Ret (), ?final)" by (simp_all add: prod_eq_iff)
  have "fresh ?node ?start ?start \<union> fresh ?node ?start ?final = {''intruder''}" by (auto simp: fresh_def)
  then have "council_step ?start {''intruder''} ?final"
    using wrapped_create_bypasses_whitelist [OF council_sdk_threads n t a e f,
      where vadm = storable_msg and tadm = "council_tadm []"] by simp
  moreover have "\<not> IsValidatorWhitelisted sample_keeper (vc_store sample_ctx) ''intruder''"
    using registry.whitelisted_ran [OF sample_registry, of "vc_store sample_ctx"] by simp
  ultimately show ?thesis by (intro exI [of _ ?final]) simp
qed

end
