(* ===== verification/Approval.thy ===== *)
theory Approval
  imports ChainProps
begin

text \<open>
  What an approved proposal to onboard an operator leads to. The contract of the group module is the one of
  \<open>GroupSpec\<close>, with what executing a proposal does to the registry: it hands messages to the handlers of the
  registry, and once the minimal execution period of the policy is over the ones the proposal carries. As
  long as another proposal is executed, a proposal waits, or that other one has it executed.
\<close>

section \<open>The contract\<close>

text \<open>The registry handles a list of messages, each with success, and they are recorded in order.\<close>

definition handles where
  "handles nd vadm ms ch ch' \<longleftrightarrow> ch_Log ch' = ch_Log ch @ ms \<and> list_all vadm ms \<and>
     vr_deliver (nd_vr nd) ms (ch_Registry ch) = Some (ch_Registry ch')"

lemma handles_none: "handles nd vadm [] ch ch"
  by (simp add: handles_def)

lemma handles_append:
  "handles nd vadm ms a b \<Longrightarrow> handles nd vadm ms' b c \<Longrightarrow> handles nd vadm (ms @ ms') a c"
  by (simp add: handles_def vr_deliver_append)

lemma touches_handles: "touches nd vadm tadm others ch ch' \<Longrightarrow> \<exists>ms. handles nd vadm ms ch ch'"
  by (auto simp: touches_def handles_def)

text \<open>
  \<open>carries\<close> is the message of a proposal that carries one message, \<open>due\<close> says that the minimal execution
  period of its policy is over. A proposal that was ready is left as it is while another one is executed,
  or its message is handled then.
\<close>

locale onboarding_council =
  registry "nd_vr nd" invar pabs iok vabs okey ok lt +
  group_keeper "nd_group nd" now sound
  for nd :: "('s, 'ts, 'b, 'c, 'd, 'z, 'm, 'x, 'w) node"
    and invar pabs iok vabs okey ok lt now sound +
  fixes carries :: "('s, 'ts, 'b, 'z) chain_state \<Rightarrow> u64 \<Rightarrow> vr_msg option"
    and due :: "('s, 'ts, 'b, 'z) chain_state \<Rightarrow> u64 \<Rightarrow> bool"
  assumes exec_handles: "sound ch \<Longrightarrow> g_Proposal (nd_group nd) ch i = Inr p \<Longrightarrow> may_execute now p \<Longrightarrow>
      \<exists>ms. handles nd (vr_admissible okey ok iok) ms ch (snd (g_Exec (nd_group nd) ch i (pr_GroupPolicyAddress p)))"
    and exec_runs: "sound ch \<Longrightarrow> g_Proposal (nd_group nd) ch i = Inr p \<Longrightarrow> may_execute now p \<Longrightarrow>
      carries ch i = Some m \<Longrightarrow> due ch i \<Longrightarrow> vr_handle (nd_vr nd) m (ch_Registry ch) = (Ret (), c) \<Longrightarrow>
      ch_Registry (snd (g_Exec (nd_group nd) ch i (pr_GroupPolicyAddress p))) = c"
    and others_wait: "sound ch \<Longrightarrow> g_Proposal (nd_group nd) ch i = Inr p \<Longrightarrow> may_execute now p \<Longrightarrow>
      (grp, policy, q) \<in> ready_proposals (nd_group nd) now ch \<Longrightarrow> pr_Id q \<noteq> i \<Longrightarrow>
      carries ch (pr_Id q) = Some m \<Longrightarrow> due ch (pr_Id q) \<Longrightarrow>
      snd (g_Exec (nd_group nd) ch i (pr_GroupPolicyAddress p)) = ch' \<Longrightarrow>
      (grp, policy, q) \<in> ready_proposals (nd_group nd) now ch' \<and> carries ch' (pr_Id q) = Some m \<and> due ch' (pr_Id q) \<or>
      (\<exists>ms ms' c r c'. list_all (vr_admissible okey ok iok) (ms @ ms') \<and>
         vr_deliver (nd_vr nd) ms (ch_Registry ch) = Some c \<and> vr_handle (nd_vr nd) m c = (r, c') \<and>
         vr_deliver (nd_vr nd) ms' c' = Some (ch_Registry ch'))"

text \<open>A message of the authority with all fields given and an operator address that parses.\<close>

definition proper_onboard :: "'s VrKeeper \<Rightarrow> MsgOnboardValidator \<Rightarrow> bool" where
  "proper_onboard k m \<longleftrightarrow> vk_StringToBytes k (mov_Creator m) = Inr (vk_authority k) \<and>
     mov_Index m \<noteq> '''' \<and> mov_MemberId m \<noteq> '''' \<and> mov_OperatorAddress m \<noteq> '''' \<and> mov_Status m \<noteq> '''' \<and>
     (\<exists>a. vk_ValAddressFromBech32 k (mov_OperatorAddress m) = Inr a)"

context registry
begin

lemma deliver_keeps_entry:
  assumes "list_all (vr_admissible okey ok iok) ms" "vr_deliver k ms ctx = Some ctx'" "invar (vc_store ctx)"
    "i \<in> dom (vabs (vc_store ctx))"
  shows "i \<in> dom (vabs (vc_store ctx'))"
  using conjunct1 [OF conjunct2 [OF deliver_entries [OF assms(1-3)]]] assms(4) by auto

lemma handle_gives_entry:
  assumes "vr_handle k (OnboardMsg m) ctx = (r, ctx')" "invar (vc_store ctx)"
    "proper_onboard k m" "okey (mov_Index m)" "ok (onboarded_validator m)"
  shows "invar (vc_store ctx') \<and> mov_Index m \<in> dom (vabs (vc_store ctx'))"
proof (cases "mov_Index m \<in> dom (vabs (vc_store ctx))")
  case True
  have "vr_step k (vr_admissible okey ok iok) ctx ctx'"
    using vr_step.handled [OF _ assms(1)] assms(4,5) by (simp add: vr_admissible_def)
  from step_abs [OF assms(2) this] True show ?thesis by (auto split: if_splits)
next
  case False
  with onboard_succeeds [OF assms(2,4,5)] assms(3) obtain c where
    c: "OnboardValidator k m ctx = (Ret (), c)" unfolding proper_onboard_def by blast
  with assms(1) onboard_abs [OF assms(2,4,5) c] show ?thesis by auto
qed

end

context onboarding_council
begin

text \<open>The state of the group module is sound and the registry has handled some messages since \<open>ch0\<close>.\<close>

definition grown :: "_ \<Rightarrow> _ \<Rightarrow> bool" where
  "grown ch0 ch \<longleftrightarrow> sound ch \<and> (\<exists>ms. handles nd (vr_admissible okey ok iok) ms ch0 ch)"

lemma grown_invar: "grown ch0 ch \<Longrightarrow> invar (vc_store (ch_Registry ch0)) \<Longrightarrow> invar (vc_store (ch_Registry ch))"
  unfolding grown_def handles_def using deliver_entries by blast

lemma exec_grows:
  assumes "grown ch0 ch" "g_Proposal (nd_group nd) ch i = Inr p" "may_execute now p"
  shows "grown ch0 (snd (g_Exec (nd_group nd) ch i (pr_GroupPolicyAddress p)))"
  using exec_settles [OF _ assms(2,3)] exec_handles [OF _ assms(2,3)] assms(1) handles_append
  unfolding grown_def by (metis snd_conv)

text \<open>The proposal still waits, or the registry has an entry under the index of its message.\<close>

definition waits where
  "waits grp policy p m ch \<longleftrightarrow> (grp, policy, p) \<in> ready_proposals (nd_group nd) now ch \<and>
     carries ch (pr_Id p) = Some (OnboardMsg m) \<and> due ch (pr_Id p)"

lemma exec_waits:
  assumes m: "proper_onboard (nd_vr nd) m" "okey (mov_Index m)" "ok (onboarded_validator m)"
    and g: "sound g" "invar (vc_store (ch_Registry g))" "g_Proposal (nd_group nd) g i = Inr q" "may_execute now q"
    and w: "waits grp policy p m g \<or> mov_Index m \<in> dom (vabs (vc_store (ch_Registry g)))"
    and g': "snd (g_Exec (nd_group nd) g i (pr_GroupPolicyAddress q)) = g'"
  shows "waits grp policy p m g' \<or> mov_Index m \<in> dom (vabs (vc_store (ch_Registry g')))"
proof (cases "mov_Index m \<in> dom (vabs (vc_store (ch_Registry g)))")
  case True
  from exec_handles [OF g(1,3,4)] obtain ms where "handles nd (vr_admissible okey ok iok) ms g g'"
    unfolding g' by blast
  with True deliver_keeps_entry [OF _ _ g(2)] show ?thesis unfolding handles_def by blast
next
  case False
  with w have p: "(grp, policy, p) \<in> ready_proposals (nd_group nd) now g"
    "carries g (pr_Id p) = Some (OnboardMsg m)" "due g (pr_Id p)" unfolding waits_def by blast+
  show ?thesis
  proof (cases "pr_Id p = i")
    case True
    from False onboard_succeeds [OF g(2) m(2,3)] m(1) obtain c where
      c: "OnboardValidator (nd_vr nd) m (ch_Registry g) = (Ret (), c)" unfolding proper_onboard_def by blast
    with exec_runs [OF g(1,3,4)] p(2,3) have "ch_Registry g' = c" unfolding True g' by simp
    with onboard_abs [OF g(2) m(2,3) c] show ?thesis by simp
  next
    case other: False
    from others_wait [OF g(1,3,4) p(1) other p(2,3) g'] show ?thesis
    proof
      assume "\<exists>ms ms' c r c'. list_all (vr_admissible okey ok iok) (ms @ ms') \<and>
         vr_deliver (nd_vr nd) ms (ch_Registry g) = Some c \<and> vr_handle (nd_vr nd) (OnboardMsg m) c = (r, c') \<and>
         vr_deliver (nd_vr nd) ms' c' = Some (ch_Registry g')"
      then obtain ms ms' c r c' where
        d: "list_all (vr_admissible okey ok iok) ms" "list_all (vr_admissible okey ok iok) ms'"
          "vr_deliver (nd_vr nd) ms (ch_Registry g) = Some c" "vr_handle (nd_vr nd) (OnboardMsg m) c = (r, c')"
          "vr_deliver (nd_vr nd) ms' c' = Some (ch_Registry g')" by auto
      from deliver_entries [OF d(1,3) g(2)] have "invar (vc_store c)" by blast
      from handle_gives_entry [OF d(4) this m] have "invar (vc_store c')" "mov_Index m \<in> dom (vabs (vc_store c'))"
        by blast+
      from deliver_keeps_entry [OF d(2,5) this] show ?thesis by blast
    qed (simp add: waits_def)
  qed
qed

lemma end_block_onboards:
  assumes start: "invar (vc_store (ch_Registry ch))" "sound ch"
    and m: "proper_onboard (nd_vr nd) m" "okey (mov_Index m)" "ok (onboarded_validator m)"
    and r: "(grp, policy, p) \<in> ready_proposals (nd_group nd) now ch" "carries ch (pr_Id p) = Some (OnboardMsg m)"
      "due ch (pr_Id p)"
  shows "\<exists>ch' ms v. EndBlock (nd_group nd) now ch = (Ret (), ch') \<and> ch_Log ch' = ch_Log ch @ ms \<and>
    vabs (vc_store (ch_Registry ch')) (mov_Index m) = Some v \<and>
    (vabs (vc_store (ch_Registry ch)) (mov_Index m) = Some v \<or>
     (\<exists>m'. OnboardMsg m' \<in> set ms \<and> vk_StringToBytes (nd_vr nd) (mov_Creator m') = Inr (vk_authority (nd_vr nd)) \<and>
        mov_Index m' = mov_Index m \<and> onboarded_validator m' = v))"
proof -
  define Q where "Q g \<longleftrightarrow> grown ch g \<and>
    (waits grp policy p m g \<or> mov_Index m \<in> dom (vabs (vc_store (ch_Registry g))))" for g
  have "Q (snd (g_Exec (nd_group nd) g i (pr_GroupPolicyAddress q)))"
    if q: "Q g" "g_Proposal (nd_group nd) g i = Inr q" "may_execute now q" for g i q
    using that exec_grows exec_waits [OF m _ grown_invar [OF _ start(1)] q(2,3) _ refl]
    unfolding Q_def by (meson grown_def)
  then have keeps: "exec_keeps (nd_group nd) now Q" unfolding exec_keeps_def by blast
  from end_block_settles [OF start(2)] obtain ch' where
    e: "EndBlock (nd_group nd) now ch = (Ret (), ch')" "ready_proposals (nd_group nd) now ch' = {}" by blast
  have "Q ch" unfolding Q_def grown_def waits_def using start(2) r handles_none by blast
  with keeps have "Q (snd (EndBlock (nd_group nd) now ch))"
    using exec_groups_keeps [of "nd_group nd" now Q ch] by (simp add: EndBlock_snd split: sum.split)
  then have "grown ch ch'" and d: "mov_Index m \<in> dom (vabs (vc_store (ch_Registry ch')))"
    unfolding e(1) Q_def waits_def using e(2) by simp_all
  then obtain ms where ms: "ch_Log ch' = ch_Log ch @ ms" "list_all (vr_admissible okey ok iok) ms"
    "vr_deliver (nd_vr nd) ms (ch_Registry ch) = Some (ch_Registry ch')" unfolding grown_def handles_def by blast
  note en = deliver_entries [OF ms(2,3) start(1)]
  from d obtain v where v: "vabs (vc_store (ch_Registry ch')) (mov_Index m) = Some v" by blast
  have "vabs (vc_store (ch_Registry ch)) (mov_Index m) = Some v \<or> entries_of ms (mov_Index m) = Some v"
    using v unfolding conjunct1 [OF conjunct2 [OF en]] by (auto simp: map_add_Some_iff)
  then show ?thesis
  proof
    assume "entries_of ms (mov_Index m) = Some v"
    from entries_of_SomeD [OF this] obtain m' where
      m': "OnboardMsg m' \<in> set ms" "mov_Index m' = mov_Index m" "onboarded_validator m' = v" by blast
    from bspec [OF conjunct1 [OF conjunct2 [OF conjunct2 [OF en]]], of m'] m'(1)
    have "vk_StringToBytes (nd_vr nd) (mov_Creator m') = Inr (vk_authority (nd_vr nd))"
      by (simp only: set_onboards)
    with m' e(1) ms(1) v show ?thesis by blast
  qed (use e(1) ms(1) v in blast)
qed

end

section \<open>The council\<close>

definition council_carries :: "council_state \<Rightarrow> u64 \<Rightarrow> vr_msg option" where
  "council_carries ch i =
     map_option snd (find (\<lambda>(p, m). pr_Id p = i \<and> small_msg m) (hb_Proposals (ch_Rest ch)))"

definition council_due :: "council_state \<Rightarrow> u64 \<Rightarrow> bool" where
  "council_due ch i \<longleftrightarrow> hb_MinExecution (ch_Rest ch) \<le> ch_Time ch"

lemma find_settle:
  "j \<noteq> i \<Longrightarrow> map_option snd (find (\<lambda>(p, m). pr_Id p = j \<and> small_msg m) (map (\<lambda>(p, m).
     (if pr_Id p = i then p\<lparr>pr_ExecutorResult := res\<rparr> else p, m)) ps)) =
   map_option snd (find (\<lambda>(p, m). pr_Id p = j \<and> small_msg m) ps)"
  by (induction ps) auto

lemma settle_others:
  fixes ch :: council_state
  assumes ch': "ch' = ch\<lparr>ch_Registry := c, ch_Log := l, ch_Rest := settle i res (ch_Rest ch)\<rparr>"
    and "(grp, policy, q) \<in> ready_proposals (council_group k) now ch" "pr_Id q \<noteq> i"
  shows "(grp, policy, q) \<in> ready_proposals (council_group k) now ch'"
    "council_carries ch' (pr_Id q) = council_carries ch (pr_Id q)" "council_due ch' j = council_due ch j"
proof -
  from assms(2) obtain m where m: "(q, m) \<in> set (hb_Proposals (ch_Rest ch))" by (auto simp: council_ready)
  from imageI [OF m, of "\<lambda>(p, m). (if pr_Id p = i then p\<lparr>pr_ExecutorResult := res\<rparr> else p, m)"]
  have "(q, m) \<in> set (hb_Proposals (settle i res (ch_Rest ch)))" by (simp add: settle_def assms(3))
  with assms(2) show "(grp, policy, q) \<in> ready_proposals (council_group k) now ch'"
    by (force simp: council_ready ch')
  show "council_carries ch' (pr_Id q) = council_carries ch (pr_Id q)"
    using find_settle [OF assms(3)] by (simp add: council_carries_def settle_def ch')
  show "council_due ch' j = council_due ch j" by (simp add: council_due_def settle_def ch')
qed

lemma council_exec_handles:
  "council_carries ch i = Some m \<Longrightarrow> council_due ch i \<Longrightarrow> vr_handle k m (ch_Registry ch) = (Ret (), c) \<Longrightarrow>
   ch_Registry (snd (council_exec k ch i executor)) = c"
  by (auto simp: council_carries_def council_exec_def council_due_def split: option.splits)

interpretation council_onboards: onboarding_council "council_node (vr_kv_keeper sb bs va aa vr_auth) auth"
    vr_inv vr_params_of "co_ok vr_params_codec"
    validators_of "\<lambda>i. True" "co_ok validator_codec" key_less now council_sound council_carries council_due
  for sb bs va aa vr_auth auth now
proof (unfold onboarding_council_def council_node_sel, intro conjI)
  show "onboarding_council_axioms (council_node (vr_kv_keeper sb bs va aa vr_auth) auth) (co_ok vr_params_codec)
      (\<lambda>i. True) (co_ok validator_codec) now council_sound council_carries council_due"
  proof
    fix ch ch' :: council_state and i p m c grp policy q
    let ?k = "vr_kv_keeper sb bs va aa vr_auth"
    let ?N = "council_node ?k auth"
    let ?G = "nd_group ?N"
    assume s: "council_sound ch" and p: "g_Proposal ?G ch i = Inr p"
    show "\<exists>ms. handles ?N storable_msg ms ch (snd (g_Exec ?G ch i (pr_GroupPolicyAddress p)))"
      using touches_handles [OF council_exec_touches] by (simp add: council_group_def)
    show "ch_Registry (snd (g_Exec ?G ch i (pr_GroupPolicyAddress p))) = c"
      if "council_carries ch i = Some m" "council_due ch i"
        "vr_handle (nd_vr ?N) m (ch_Registry ch) = (Ret (), c)"
      using council_exec_handles [OF that(1,2)] that(3) by (simp add: council_group_def)
    assume q: "(grp, policy, q) \<in> ready_proposals ?G now ch" "pr_Id q \<noteq> i"
      "council_carries ch (pr_Id q) = Some m" "council_due ch (pr_Id q)"
      "snd (g_Exec ?G ch i (pr_GroupPolicyAddress p)) = ch'"
    from council_exec_runs [OF s] p obtain c' l res where
      "council_exec ?k ch i (pr_GroupPolicyAddress p) =
         (Ret (), ch\<lparr>ch_Registry := c', ch_Log := l, ch_Rest := settle i res (ch_Rest ch)\<rparr>)" by fastforce
    then have e: "ch' = ch\<lparr>ch_Registry := c', ch_Log := l, ch_Rest := settle i res (ch_Rest ch)\<rparr>"
      using q(5) by (simp add: council_group_def)
    note w = settle_others [OF e q(1,2) [unfolded council_node_sel]]
    show "(grp, policy, q) \<in> ready_proposals ?G now ch' \<and> council_carries ch' (pr_Id q) = Some m \<and>
        council_due ch' (pr_Id q) \<or>
      (\<exists>ms ms' c r c'. list_all storable_msg (ms @ ms') \<and>
         vr_deliver (nd_vr ?N) ms (ch_Registry ch) = Some c \<and> vr_handle (nd_vr ?N) m c = (r, c') \<and>
         vr_deliver (nd_vr ?N) ms' c' = Some (ch_Registry ch'))"
      using w q(3,4) unfolding council_node_sel by simp
  qed
qed (rule vr_kv.registry_axioms council_keeper.group_keeper_axioms)+

section \<open>The property\<close>

text \<open>C12. An approved proposal to onboard an operator takes effect in the next end block: when it is ready
  (accepted, its voting period over, listed by the queries of the end blocker, which see their first page
  only), the minimal execution period of its policy is over, other proposals leave it as it is or have it
  executed, and the message it carries is one of the authority with all fields given and an operator
  address that parses, then after the block the registry has an entry under its index, which was there
  before or which a message of the authority handled in this block added.\<close>

theorem approved_onboarding_takes_effect:
  assumes "onboarding_council nd invar pabs iok vabs okey ok lt now sound carries due"
    "invar (vc_store (ch_Registry ch))" "sound ch"
    "proper_onboard (nd_vr nd) m" "okey (mov_Index m)" "ok (onboarded_validator m)"
    "(grp, policy, p) \<in> ready_proposals (nd_group nd) now ch" "carries ch (pr_Id p) = Some (OnboardMsg m)"
    "due ch (pr_Id p)"
  shows "\<exists>ch' ms v. EndBlock (nd_group nd) now ch = (Ret (), ch') \<and> ch_Log ch' = ch_Log ch @ ms \<and>
    vabs (vc_store (ch_Registry ch')) (mov_Index m) = Some v \<and>
    (vabs (vc_store (ch_Registry ch)) (mov_Index m) = Some v \<or>
     (\<exists>m'. OnboardMsg m' \<in> set ms \<and> vk_StringToBytes (nd_vr nd) (mov_Creator m') = Inr (vk_authority (nd_vr nd)) \<and>
        mov_Index m' = mov_Index m \<and> onboarded_validator m' = v))"
  by (rule onboarding_council.end_block_onboards [OF assms])

lemma council_onboarding:
  "onboarding_council (council_node sample_keeper [])
     vr_inv vr_params_of (co_ok vr_params_codec) validators_of (\<lambda>i. True) (co_ok validator_codec) key_less
     now council_sound council_carries council_due"
  unfolding sample_keeper_def by (rule council_onboards.onboarding_council_axioms)

lemma approved_onboarding_takes_effect_witness:
  "\<exists>ch m' v. EndBlock (council_group sample_keeper) 20
       (council_start \<lparr>tc_store = [], tc_bank = \<lambda>_. {#}\<rparr> \<lparr>ch_Time := 20\<rparr>) = (Ret (), ch) \<and>
     validators_of (vc_store (ch_Registry ch)) ''v1'' = Some v \<and> OnboardMsg m' \<in> set (ch_Log ch) \<and>
     mov_Index m' = ''v1'' \<and> onboarded_validator m' = v"
proof -
  let ?ch = "council_start \<lparr>tc_store = [], tc_bank = \<lambda>_. {#}\<rparr> \<lparr>ch_Time := 20\<rparr>"
  have s: "vr_inv (vc_store (ch_Registry ?ch))" by simp
  have small: "small_msg (OnboardMsg sample_onboard)" by (simp add: small_msg_def sample_onboard_def)
  then have c: "council_sound ?ch" by (simp add: council_sound_def)
  have m: "proper_onboard (nd_vr (council_node sample_keeper [])) sample_onboard"
    by (simp add: proper_onboard_def sample_onboard_def)
  have r: "(1, ''council'', council_proposal) \<in> ready_proposals (nd_group (council_node sample_keeper [])) 20 ?ch"
    by (simp add: council_ready) (simp add: council_proposal_def pending_def may_execute_def)
  have k: "council_carries ?ch (pr_Id council_proposal) = Some (OnboardMsg sample_onboard)"
    "council_due ?ch (pr_Id council_proposal)"
    by (simp_all add: council_carries_def council_due_def small)
  have v: "mov_Index sample_onboard = ''v1''" by (simp add: sample_onboard_def)
  from approved_onboarding_takes_effect [OF council_onboarding s c m TrueI sample_onboard_ok r k]
  show ?thesis unfolding v council_node_sel by auto
qed

end
