(* ===== verification/AppConfig.thy ===== *)
theory AppConfig
  imports TdTypes VrTypes
begin

text \<open>
  \<open>app/app_config.go\<close>: the permissions of the module accounts, the blocked accounts, the orders in
  which the modules run, and the list of modules with their configuration; and the two functions of
  \<open>app/app.go\<close> that read them. The names of the SDK's and IBC's modules and accounts are constants of
  those libraries: a constant is a constructor of \<open>sdk_const\<close>, its value comes from the parameter \<open>C\<close>.
\<close>

section \<open>Constants of the libraries\<close>

datatype sdk_const =
    runtime_ModuleName | authtypes_ModuleName | authtypes_FeeCollectorName | authtypes_Minter
  | authtypes_Burner | authz_ModuleName | banktypes_ModuleName | circuittypes_ModuleName
  | consensustypes_ModuleName | distrtypes_ModuleName | epochstypes_ModuleName
  | evidencetypes_ModuleName | feegrant_ModuleName | genutiltypes_ModuleName | govtypes_ModuleName
  | group_ModuleName | minttypes_ModuleName | nft_ModuleName | paramstypes_ModuleName
  | protocolpooltypes_ModuleName | protocolpooltypes_ProtocolPoolEscrowAccount
  | slashingtypes_ModuleName | stakingtypes_ModuleName | stakingtypes_BondedPoolName
  | stakingtypes_NotBondedPoolName | upgradetypes_ModuleName | vestingtypes_ModuleName
  | icatypes_ModuleName | ibctransfertypes_ModuleName | ibcexported_ModuleName

text \<open>
  The values are distinct and none is the name of a module or account of this chain. Two constants
  of \<open>sdk_const\<close> are only ever compared as module names or only as permissions.
\<close>

definition own_names :: "string list" where
  "own_names = [td_ModuleName, vr_ModuleName, VeranaPoolAccount, ''tx'']"

definition names_ok :: "(sdk_const \<Rightarrow> string) \<Rightarrow> bool" where
  "names_ok C \<longleftrightarrow> inj C \<and> (\<forall>c. C c \<notin> set own_names)"

section \<open>Module accounts\<close>

definition moduleAccPerms :: "(sdk_const \<Rightarrow> string) \<Rightarrow> (string \<times> string list) list" where
  "moduleAccPerms C =
     [(C authtypes_FeeCollectorName, []),
      (C distrtypes_ModuleName, []),
      (C minttypes_ModuleName, [C authtypes_Minter]),
      (C stakingtypes_BondedPoolName, [C authtypes_Burner, C stakingtypes_ModuleName]),
      (C stakingtypes_NotBondedPoolName, [C authtypes_Burner, C stakingtypes_ModuleName]),
      (C govtypes_ModuleName, [C authtypes_Burner]),
      (C nft_ModuleName, []),
      (C ibctransfertypes_ModuleName, [C authtypes_Minter, C authtypes_Burner]),
      (C icatypes_ModuleName, []),
      (C protocolpooltypes_ModuleName, []),
      (C protocolpooltypes_ProtocolPoolEscrowAccount, []),
      (td_ModuleName, []),
      (VeranaPoolAccount, [])]"

definition blockAccAddrs :: "(sdk_const \<Rightarrow> string) \<Rightarrow> string list" where
  "blockAccAddrs C =
     [C authtypes_FeeCollectorName,
      C distrtypes_ModuleName,
      C minttypes_ModuleName,
      C stakingtypes_BondedPoolName,
      C stakingtypes_NotBondedPoolName,
      C nft_ModuleName]"

text \<open>\<open>GetMaccPerms\<close> and \<open>BlockedAddresses\<close> of \<open>app.go\<close>; the map to \<open>true\<close> is the set of its keys.\<close>

definition GetMaccPerms :: "(sdk_const \<Rightarrow> string) \<Rightarrow> string \<rightharpoonup> string list" where
  "GetMaccPerms C = foldl (\<lambda>dup (account, permissions). dup(account \<mapsto> permissions)) Map.empty (moduleAccPerms C)"

definition BlockedAddresses :: "(sdk_const \<Rightarrow> string) \<Rightarrow> string set" where
  "BlockedAddresses C =
     (if 0 < length (blockAccAddrs C) then foldl (\<lambda>result addr. insert addr result) {} (blockAccAddrs C)
      else dom (GetMaccPerms C))"

section \<open>Orders\<close>

definition PreBlockers :: "(sdk_const \<Rightarrow> string) \<Rightarrow> string list" where
  "PreBlockers C = [C upgradetypes_ModuleName, C authtypes_ModuleName]"

definition BeginBlockers :: "(sdk_const \<Rightarrow> string) \<Rightarrow> string list" where
  "BeginBlockers C =
     [C minttypes_ModuleName,
      C distrtypes_ModuleName,
      C slashingtypes_ModuleName,
      C evidencetypes_ModuleName,
      C stakingtypes_ModuleName,
      C authz_ModuleName,
      C epochstypes_ModuleName,
      C protocolpooltypes_ModuleName,
      C ibcexported_ModuleName,
      td_ModuleName,
      vr_ModuleName]"

definition EndBlockers :: "(sdk_const \<Rightarrow> string) \<Rightarrow> string list" where
  "EndBlockers C =
     [C govtypes_ModuleName,
      C stakingtypes_ModuleName,
      C feegrant_ModuleName,
      C group_ModuleName,
      C protocolpooltypes_ModuleName,
      td_ModuleName,
      vr_ModuleName]"

definition OverrideStoreKeys :: "(sdk_const \<Rightarrow> string) \<Rightarrow> (string \<times> string) list" where
  "OverrideStoreKeys C = [(C authtypes_ModuleName, ''acc'')]"

definition InitGenesis_order :: "(sdk_const \<Rightarrow> string) \<Rightarrow> string list" where
  "InitGenesis_order C =
     [C consensustypes_ModuleName,
      C authtypes_ModuleName,
      C banktypes_ModuleName,
      C distrtypes_ModuleName,
      C stakingtypes_ModuleName,
      C slashingtypes_ModuleName,
      C govtypes_ModuleName,
      C minttypes_ModuleName,
      vr_ModuleName,
      C genutiltypes_ModuleName,
      C evidencetypes_ModuleName,
      C authz_ModuleName,
      C feegrant_ModuleName,
      C vestingtypes_ModuleName,
      C nft_ModuleName,
      C group_ModuleName,
      C upgradetypes_ModuleName,
      C circuittypes_ModuleName,
      C epochstypes_ModuleName,
      C protocolpooltypes_ModuleName,
      C ibcexported_ModuleName,
      C ibctransfertypes_ModuleName,
      C icatypes_ModuleName,
      td_ModuleName]"

definition ExportGenesis_order :: "(sdk_const \<Rightarrow> string) \<Rightarrow> string list" where
  "ExportGenesis_order C =
     [C consensustypes_ModuleName,
      C authtypes_ModuleName,
      C banktypes_ModuleName,
      C distrtypes_ModuleName,
      C stakingtypes_ModuleName,
      C slashingtypes_ModuleName,
      C govtypes_ModuleName,
      C minttypes_ModuleName,
      C genutiltypes_ModuleName,
      C evidencetypes_ModuleName,
      C authz_ModuleName,
      C feegrant_ModuleName,
      C vestingtypes_ModuleName,
      C nft_ModuleName,
      C group_ModuleName,
      C upgradetypes_ModuleName,
      C circuittypes_ModuleName,
      C epochstypes_ModuleName,
      C protocolpooltypes_ModuleName,
      C ibcexported_ModuleName,
      C ibctransfertypes_ModuleName,
      C icatypes_ModuleName,
      td_ModuleName,
      vr_ModuleName]"

section \<open>The application configuration\<close>

text \<open>\<open>Name\<close> and \<open>AccountAddressPrefix\<close> of \<open>app.go\<close>.\<close>

definition Name :: string where
  "Name = ''veranatest''"

definition AccountAddressPrefix :: string where
  "AccountAddressPrefix = ''cosmos''"

record runtime_config =
  rc_AppName :: string
  rc_PreBlockers :: "string list"
  rc_BeginBlockers :: "string list"
  rc_EndBlockers :: "string list"
  rc_OverrideStoreKeys :: "(string \<times> string) list"
  rc_InitGenesis :: "string list"
  rc_ExportGenesis :: "string list"

text \<open>The configuration message of a module; \<open>Empty_Module\<close> is one without any field set, by its type.\<close>

datatype module_config =
    Runtime_Module runtime_config
  | Auth_Module string "(string \<times> string list) list" bool
  | Bank_Module "string list"
  | Group_Module int nat
  | Td_Module TdModuleConfig
  | Vr_Module VrModuleConfig
  | Empty_Module string

definition runtimeConfig :: "(sdk_const \<Rightarrow> string) \<Rightarrow> runtime_config" where
  "runtimeConfig C =
     \<lparr>rc_AppName = Name, rc_PreBlockers = PreBlockers C, rc_BeginBlockers = BeginBlockers C,
      rc_EndBlockers = EndBlockers C, rc_OverrideStoreKeys = OverrideStoreKeys C,
      rc_InitGenesis = InitGenesis_order C, rc_ExportGenesis = ExportGenesis_order C\<rparr>"

definition councilAddress :: string where
  "councilAddress = ''cosmos1afk9zr2hn2jsac63h4hm60vl9z3e5u69gndzf7c99cqge3vzwjzsfwkgpd''"

text \<open>\<open>MaxExecutionPeriod\<close> is in seconds. The authority of the trust deposit module is left empty.\<close>

definition appConfig_modules :: "(sdk_const \<Rightarrow> string) \<Rightarrow> (string \<times> module_config) list" where
  "appConfig_modules C =
     [(C runtime_ModuleName, Runtime_Module (runtimeConfig C)),
      (C authtypes_ModuleName, Auth_Module AccountAddressPrefix (moduleAccPerms C) True),
      (C vestingtypes_ModuleName, Empty_Module ''vestingmodulev1''),
      (C banktypes_ModuleName, Bank_Module (blockAccAddrs C)),
      (C stakingtypes_ModuleName, Empty_Module ''stakingmodulev1''),
      (C slashingtypes_ModuleName, Empty_Module ''slashingmodulev1''),
      (''tx'', Empty_Module ''txconfigv1''),
      (C genutiltypes_ModuleName, Empty_Module ''genutilmodulev1''),
      (C authz_ModuleName, Empty_Module ''authzmodulev1''),
      (C upgradetypes_ModuleName, Empty_Module ''upgrademodulev1''),
      (C distrtypes_ModuleName, Empty_Module ''distrmodulev1''),
      (C evidencetypes_ModuleName, Empty_Module ''evidencemodulev1''),
      (C minttypes_ModuleName, Empty_Module ''mintmodulev1''),
      (C group_ModuleName, Group_Module 1209600 255),
      (C nft_ModuleName, Empty_Module ''nftmodulev1''),
      (C feegrant_ModuleName, Empty_Module ''feegrantmodulev1''),
      (C govtypes_ModuleName, Empty_Module ''govmodulev1''),
      (C consensustypes_ModuleName, Empty_Module ''consensusmodulev1''),
      (C circuittypes_ModuleName, Empty_Module ''circuitmodulev1''),
      (C paramstypes_ModuleName, Empty_Module ''paramsmodulev1''),
      (C epochstypes_ModuleName, Empty_Module ''epochsmodulev1''),
      (C protocolpooltypes_ModuleName, Empty_Module ''protocolpoolmodulev1''),
      (td_ModuleName, Td_Module \<lparr>tmc_Authority = ''''\<rparr>),
      (vr_ModuleName, Vr_Module \<lparr>vmc_Authority = councilAddress\<rparr>)]"

section \<open>Order of modules\<close>

text \<open>\<open>x\<close> runs before the first occurrence of \<open>y\<close>, and \<open>y\<close> runs.\<close>

definition before :: "string \<Rightarrow> string \<Rightarrow> string list \<Rightarrow> bool" where
  "before x y xs \<longleftrightarrow> x \<in> set (takeWhile (\<lambda>z. z \<noteq> y) xs) \<and> y \<in> set xs"

lemma before_split: "before x y xs \<Longrightarrow> \<exists>as bs cs. xs = as @ x # bs @ y # cs \<and> y \<notin> set as \<and> y \<notin> set bs"
proof -
  assume b: "before x y xs"
  let ?t = "takeWhile (\<lambda>z. z \<noteq> y) xs"
  from b obtain as bs where t: "?t = as @ x # bs" by (auto simp: before_def dest: split_list)
  have "dropWhile (\<lambda>z. z \<noteq> y) xs \<noteq> []" using b by (auto simp: before_def)
  then obtain cs where d: "dropWhile (\<lambda>z. z \<noteq> y) xs = y # cs"
    by (metis (mono_tags, lifting) hd_dropWhile list.collapse)
  have "y \<notin> set ?t" by (auto dest: set_takeWhileD)
  with t d have "xs = as @ x # bs @ y # cs \<and> y \<notin> set as \<and> y \<notin> set bs"
    using takeWhile_dropWhile_id [of "\<lambda>z. z \<noteq> y" xs] by auto
  then show ?thesis by blast
qed

text \<open>Under \<open>names_ok\<close> the names compare like the constants.\<close>

lemma names_eq:
  assumes "names_ok C"
  shows "C a = C b \<longleftrightarrow> a = b" "C a \<noteq> td_ModuleName" "td_ModuleName \<noteq> C a" "C a \<noteq> vr_ModuleName"
    "vr_ModuleName \<noteq> C a" "C a \<noteq> VeranaPoolAccount" "VeranaPoolAccount \<noteq> C a" "C a \<noteq> ''tx''" "''tx'' \<noteq> C a"
proof -
  have "C c \<noteq> td_ModuleName \<and> C c \<noteq> vr_ModuleName \<and> C c \<noteq> VeranaPoolAccount \<and> C c \<noteq> ''tx''" for c
    using assms by (simp add: names_ok_def own_names_def)
  then show "C a \<noteq> td_ModuleName" "td_ModuleName \<noteq> C a" "C a \<noteq> vr_ModuleName" "vr_ModuleName \<noteq> C a"
    "C a \<noteq> VeranaPoolAccount" "VeranaPoolAccount \<noteq> C a" "C a \<noteq> ''tx''" "''tx'' \<noteq> C a" by metis+
  show "C a = C b \<longleftrightarrow> a = b" using assms by (simp add: names_ok_def inj_eq)
qed

lemma own_names_eq:
  "td_ModuleName \<noteq> vr_ModuleName" "vr_ModuleName \<noteq> td_ModuleName"
  "td_ModuleName \<noteq> VeranaPoolAccount" "VeranaPoolAccount \<noteq> td_ModuleName"
  "vr_ModuleName \<noteq> VeranaPoolAccount" "VeranaPoolAccount \<noteq> vr_ModuleName"
  "td_ModuleName \<noteq> ''tx''" "vr_ModuleName \<noteq> ''tx''" "''tx'' \<noteq> td_ModuleName" "''tx'' \<noteq> vr_ModuleName"
  by (simp_all add: td_ModuleName_def vr_ModuleName_def VeranaPoolAccount_def)

lemmas config_names = names_eq own_names_eq

text \<open>The values these constants have in the SDK and in ibc-go.\<close>

fun sdk_names :: "sdk_const \<Rightarrow> string" where
  "sdk_names runtime_ModuleName = ''runtime''"
| "sdk_names authtypes_ModuleName = ''auth''"
| "sdk_names authtypes_FeeCollectorName = ''fee_collector''"
| "sdk_names authtypes_Minter = ''minter''"
| "sdk_names authtypes_Burner = ''burner''"
| "sdk_names authz_ModuleName = ''authz''"
| "sdk_names banktypes_ModuleName = ''bank''"
| "sdk_names circuittypes_ModuleName = ''circuit''"
| "sdk_names consensustypes_ModuleName = ''consensus''"
| "sdk_names distrtypes_ModuleName = ''distribution''"
| "sdk_names epochstypes_ModuleName = ''epochs''"
| "sdk_names evidencetypes_ModuleName = ''evidence''"
| "sdk_names feegrant_ModuleName = ''feegrant''"
| "sdk_names genutiltypes_ModuleName = ''genutil''"
| "sdk_names govtypes_ModuleName = ''gov''"
| "sdk_names group_ModuleName = ''group''"
| "sdk_names minttypes_ModuleName = ''mint''"
| "sdk_names nft_ModuleName = ''nft''"
| "sdk_names paramstypes_ModuleName = ''params''"
| "sdk_names protocolpooltypes_ModuleName = ''protocolpool''"
| "sdk_names protocolpooltypes_ProtocolPoolEscrowAccount = ''protocolpool_escrow''"
| "sdk_names slashingtypes_ModuleName = ''slashing''"
| "sdk_names stakingtypes_ModuleName = ''staking''"
| "sdk_names stakingtypes_BondedPoolName = ''bonded_tokens_pool''"
| "sdk_names stakingtypes_NotBondedPoolName = ''not_bonded_tokens_pool''"
| "sdk_names upgradetypes_ModuleName = ''upgrade''"
| "sdk_names vestingtypes_ModuleName = ''vesting''"
| "sdk_names icatypes_ModuleName = ''interchainaccounts''"
| "sdk_names ibctransfertypes_ModuleName = ''transfer''"
| "sdk_names ibcexported_ModuleName = ''ibc''"

lemma sdk_names_ok: "names_ok sdk_names"
proof -
  let ?tab = "[
      (''runtime'', runtime_ModuleName),
      (''auth'', authtypes_ModuleName),
      (''fee_collector'', authtypes_FeeCollectorName),
      (''minter'', authtypes_Minter),
      (''burner'', authtypes_Burner),
      (''authz'', authz_ModuleName),
      (''bank'', banktypes_ModuleName),
      (''circuit'', circuittypes_ModuleName),
      (''consensus'', consensustypes_ModuleName),
      (''distribution'', distrtypes_ModuleName),
      (''epochs'', epochstypes_ModuleName),
      (''evidence'', evidencetypes_ModuleName),
      (''feegrant'', feegrant_ModuleName),
      (''genutil'', genutiltypes_ModuleName),
      (''gov'', govtypes_ModuleName),
      (''group'', group_ModuleName),
      (''mint'', minttypes_ModuleName),
      (''nft'', nft_ModuleName),
      (''params'', paramstypes_ModuleName),
      (''protocolpool'', protocolpooltypes_ModuleName),
      (''protocolpool_escrow'', protocolpooltypes_ProtocolPoolEscrowAccount),
      (''slashing'', slashingtypes_ModuleName),
      (''staking'', stakingtypes_ModuleName),
      (''bonded_tokens_pool'', stakingtypes_BondedPoolName),
      (''not_bonded_tokens_pool'', stakingtypes_NotBondedPoolName),
      (''upgrade'', upgradetypes_ModuleName),
      (''vesting'', vestingtypes_ModuleName),
      (''interchainaccounts'', icatypes_ModuleName),
      (''transfer'', ibctransfertypes_ModuleName),
      (''ibc'', ibcexported_ModuleName)] :: (string \<times> sdk_const) list"
  have inv: "map_of ?tab (sdk_names c) = Some c" for c by (cases c) simp_all
  have "a = b" if "sdk_names a = sdk_names b" for a b
    using inv [of a] inv [of b] that by simp
  moreover have "sdk_names c \<notin> set own_names" for c
    by (cases c) (simp_all add: own_names_def td_ModuleName_def vr_ModuleName_def VeranaPoolAccount_def)
  ultimately show ?thesis by (auto simp: names_ok_def inj_def)
qed

end
