(* ===== verification/GenesisProps.thy ===== *)
theory GenesisProps
  imports AppConfig VrModule Ante VrRun VrStore
begin

text \<open>
  The start of the chain: the modules read the genesis file in the configured order, and the genutil
  module then runs the genesis transactions through the ante handler. The property ties the order of
  \<open>app_config.go\<close>, the import of the registry and the whitelist decorator together.
\<close>

lemma import_map_ran:
  assumes "distinct (map v_Index vs)"
  shows "ran (import_map vs) = set vs"
proof -
  have "distinct (map fst (rev (map (\<lambda>v. (v_Index v, v)) vs)))"
    using assms by (simp add: rev_map [symmetric] comp_def)
  from ran_distinct [OF this] show ?thesis by (simp add: import_map_def image_image)
qed

text \<open>
  \<open>init n\<close> is what \<open>InitGenesis\<close> of module \<open>n\<close> does to the registry; only the registry's own writes there.
\<close>

lemma registry_read_before_gentxs:
  assumes "names_ok C" "\<And>n c. n \<noteq> vr_ModuleName \<Longrightarrow> init n c = c"
  shows "fold init (takeWhile (\<lambda>n. n \<noteq> C genutiltypes_ModuleName) (InitGenesis_order C)) c = init vr_ModuleName c"
  using assms(1) by (simp add: InitGenesis_order_def config_names assms(2))

context registry
begin

lemma genesis_whitelists:
  assumes "invar (vc_store c)" "vabs (vc_store c) = Map.empty" "unmarshalJSON bz = Inr g"
    "vr_Genesis_Validate g = None" "iok (vgs_Params g)"
    "\<forall>v \<in> set (vgs_ValidatorMap g). okey (v_Index v) \<and> ok v"
  shows "IsValidatorWhitelisted k (vc_store (snd (vr_module_InitGenesis unmarshalJSON k bz c))) a \<longleftrightarrow>
    a \<in> v_OperatorAddress ` set (vgs_ValidatorMap g)"
proof -
  from init_genesis_abs [OF assms(1,6,5)] obtain s' where
    s: "vr_InitGenesis k g c = (Ret (), c\<lparr>vc_store := s'\<rparr>)" "invar s'"
      "vabs s' = import_map (vgs_ValidatorMap g)" using assms(2) by auto
  have "distinct (map v_Index (vgs_ValidatorMap g))"
    using assms(4) by (simp add: vr_Genesis_Validate_distinct)
  then show ?thesis
    by (simp add: vr_module_InitGenesis_def assms(3) s(1) whitelisted_ran [OF s(2)] s(3) import_map_ran)
qed

end

text \<open>C22. When the genesis transactions run, the registry is the one of the genesis file: the whitelist
  decorator hands a transaction on exactly when the file lists the operator of every validator the
  transaction creates, and otherwise refuses it.\<close>

theorem genesis_file_decides_gentxs:
  assumes "registry k invar pabs iok vabs okey ok lt" "names_ok C"
    "invar (vc_store c)" "vabs (vc_store c) = Map.empty" "unmarshalJSON bz = Inr g"
    "vr_Genesis_Validate g = None" "iok (vgs_Params g)"
    "\<forall>v \<in> set (vgs_ValidatorMap g). okey (v_Index v) \<and> ok v"
    "\<And>n c. n \<noteq> vr_ModuleName \<Longrightarrow> init n c = c"
    "\<And>c. init vr_ModuleName c = snd (vr_module_InitGenesis unmarshalJSON k bz c)"
    "ac_Registry ctx = vc_store (fold init (takeWhile (\<lambda>n. n \<noteq> C genutiltypes_ModuleName) (InitGenesis_order C)) c)"
  shows "if \<forall>a. MsgCreateValidator a \<in> set (tx_Msgs tx) \<longrightarrow> a \<in> v_OperatorAddress ` set (vgs_ValidatorMap g)
    then ValidatorWhitelist_AnteHandle k ctx tx sim nxt = nxt ctx tx sim
    else \<exists>e. ValidatorWhitelist_AnteHandle k ctx tx sim nxt = (ctx, Err e)"
proof -
  have "create_allowed k (ac_Registry ctx) msg \<longleftrightarrow>
      (\<forall>a. msg = MsgCreateValidator a \<longrightarrow> a \<in> v_OperatorAddress ` set (vgs_ValidatorMap g))" for msg :: "'e sdk_msg"
    by (cases msg) (simp_all add: assms(10,11) registry_read_before_gentxs [OF assms(2), of init, OF assms(9)]
        registry.genesis_whitelists [where unmarshalJSON = unmarshalJSON and k = k and bz = bz and c = c,
          OF assms(1,3-8)])
  then show ?thesis
    using whitelist_check_None [of k "ac_Registry ctx" "tx_Msgs tx"]
    by (auto simp: ValidatorWhitelist_AnteHandle_def list_all_iff split: option.split)
qed

text \<open>The witness reads a file that lists the operator of \<open>sample_onboard\<close>.\<close>

definition genesis_file :: VrGenesisState where
  "genesis_file = \<lparr>vgs_Params = VrParams, vgs_ValidatorMap = [onboarded_validator sample_onboard]\<rparr>"

lemma genesis_file_decides_gentxs_witness:
  "\<exists>c :: kv VrCtx. ValidatorWhitelist_AnteHandle sample_keeper
       \<lparr>ac_BlockTime = 0, ac_Registry = vc_store c, ac_Group = (), ac_Rest = ()\<rparr>
       \<lparr>tx_Msgs = [MsgCreateValidator ''op1'' :: unit sdk_msg], tx_Rest = ()\<rparr> False
       (\<lambda>ctx tx sim. (ctx, Ret ())) =
     (\<lparr>ac_BlockTime = 0, ac_Registry = vc_store c, ac_Group = (), ac_Rest = ()\<rparr>, Ret ()) \<and>
     (\<exists>e. ValidatorWhitelist_AnteHandle sample_keeper
       \<lparr>ac_BlockTime = 0, ac_Registry = vc_store c, ac_Group = (), ac_Rest = ()\<rparr>
       \<lparr>tx_Msgs = [MsgCreateValidator ''op2'' :: unit sdk_msg], tx_Rest = ()\<rparr> False
       (\<lambda>ctx tx sim. (ctx, Ret ())) =
     (\<lparr>ac_BlockTime = 0, ac_Registry = vc_store c, ac_Group = (), ac_Rest = ()\<rparr>, Err e))"
proof -
  let ?init = "\<lambda>n c. if n = vr_ModuleName then snd (vr_module_InitGenesis Inr sample_keeper genesis_file c) else c"
  define c where "c = fold ?init
    (takeWhile (\<lambda>n. n \<noteq> sdk_names genutiltypes_ModuleName) (InitGenesis_order sdk_names)) sample_ctx"
  let ?ctx = "\<lparr>ac_BlockTime = 0, ac_Registry = vc_store c, ac_Group = (), ac_Rest = ()\<rparr>"
  have i: "vr_inv (vc_store sample_ctx)" "validators_of (vc_store sample_ctx) = Map.empty" by simp_all
  have g: "vr_Genesis_Validate genesis_file = None" "co_ok vr_params_codec (vgs_Params genesis_file)"
    "\<forall>v \<in> set (vgs_ValidatorMap genesis_file). True \<and> co_ok validator_codec v"
    by (simp_all add: genesis_file_def vr_Genesis_Validate_distinct vr_params_codec_ok sample_onboard_ok)
  have op: "v_OperatorAddress ` set (vgs_ValidatorMap genesis_file) = {''op1''}"
    by (simp add: genesis_file_def onboarded_validator_def)
  have r: "ac_Registry ?ctx = vc_store (fold ?init
    (takeWhile (\<lambda>n. n \<noteq> sdk_names genutiltypes_ModuleName) (InitGenesis_order sdk_names)) sample_ctx)"
    by (simp add: c_def)
  have d: "if \<forall>a. MsgCreateValidator a \<in> set (tx_Msgs tx) \<longrightarrow> a \<in> {''op1''}
    then ValidatorWhitelist_AnteHandle sample_keeper ?ctx tx False (\<lambda>ctx tx sim. (ctx, Ret ())) = (?ctx, Ret ())
    else \<exists>e. ValidatorWhitelist_AnteHandle sample_keeper ?ctx tx False (\<lambda>ctx tx sim. (ctx, Ret ())) = (?ctx, Err e)"
    for tx :: "(unit, unit) Tx"
    unfolding op [symmetric]
    by (rule genesis_file_decides_gentxs [where init = ?init and unmarshalJSON = Inr and bz = genesis_file
          and c = sample_ctx and C = sdk_names];
        (rule sample_registry sdk_names_ok i g r refl | simp))
  have "ValidatorWhitelist_AnteHandle sample_keeper ?ctx
      \<lparr>tx_Msgs = [MsgCreateValidator ''op1'' :: unit sdk_msg], tx_Rest = ()\<rparr> False (\<lambda>ctx tx sim. (ctx, Ret ())) = (?ctx, Ret ())"
    using d [of "\<lparr>tx_Msgs = [MsgCreateValidator ''op1''], tx_Rest = ()\<rparr>"] by simp
  moreover have "\<exists>e. ValidatorWhitelist_AnteHandle sample_keeper ?ctx
      \<lparr>tx_Msgs = [MsgCreateValidator ''op2'' :: unit sdk_msg], tx_Rest = ()\<rparr> False (\<lambda>ctx tx sim. (ctx, Ret ())) = (?ctx, Err e)"
    using d [of "\<lparr>tx_Msgs = [MsgCreateValidator ''op2''], tx_Rest = ()\<rparr>"] by simp
  ultimately show ?thesis by blast
qed

end
