(* ===== verification/FromGenesis.thy ===== *)
theory FromGenesis
  imports ChainProps GenesisProps
begin

text \<open>
  The chain from its genesis file: the registry the module reads from the file, the ante handler and the
  runs of the chain composed, so that no assumption about the state of the registry at the start is left.
\<close>

lemma import_map_index: "import_map vs i = Some v \<Longrightarrow> v \<in> set vs \<and> v_Index v = i"
  by (auto simp: import_map_def dest: map_of_SomeD)

context whitelisting_chain
begin

lemma genesis_start:
  assumes "invar (vc_store c)" "vabs (vc_store c) = Map.empty" "unmarshalJSON bz = Inr g"
    "iok (vgs_Params g)" "\<forall>v \<in> set (vgs_ValidatorMap g). okey (v_Index v) \<and> ok v"
    "ch_Registry ch = snd (vr_module_InitGenesis unmarshalJSON (nd_vr nd) bz c)" "nd_operators nd ch = {}"
  shows "admitted {} ch" "vabs (vc_store (ch_Registry ch)) = import_map (vgs_ValidatorMap g)"
proof -
  from init_genesis_abs [OF assms(1,5,4)] obtain s' where
    s: "vr_InitGenesis (nd_vr nd) g c = (Ret (), c\<lparr>vc_store := s'\<rparr>)" "invar s'"
      "vabs s' = import_map (vgs_ValidatorMap g)" using assms(2) by auto
  then have r: "vc_store (ch_Registry ch) = s'" by (simp add: assms(6) vr_module_InitGenesis_def assms(3))
  with s show "vabs (vc_store (ch_Registry ch)) = import_map (vgs_ValidatorMap g)" by simp
  show "admitted {} ch"
    unfolding admitted_def assms(7) r using s(2,3) import_map_index by (simp add: keyed_def)
qed

lemma admitted_run_entry:
  assumes "admitted {} ch" "chain_run nd (vr_admissible okey ok iok) tadm ch W ch'" "ch_Log ch = []"
    "a \<in> nd_operators nd ch'" "a \<notin> W"
  shows "\<exists>i v. vabs (vc_store (ch_Registry ch')) i = Some v \<and> v_OperatorAddress v = a \<and>
    (vabs (vc_store (ch_Registry ch)) i = Some v \<or>
     (\<exists>m. OnboardMsg m \<in> set (ch_Log ch') \<and> vk_StringToBytes (nd_vr nd) (mov_Creator m) = Inr (vk_authority (nd_vr nd)) \<and>
        mov_Index m = i \<and> onboarded_validator m = v))"
proof -
  from run_admitted [OF assms(2,1)] assms(4,5) have "invar (vc_store (ch_Registry ch'))"
    "IsValidatorWhitelisted (nd_vr nd) (vc_store (ch_Registry ch')) a"
    unfolding admitted_def by blast+
  then obtain i v where
    e: "vabs (vc_store (ch_Registry ch')) i = Some v" "v_OperatorAddress v = a"
    using whitelisted_iff by blast
  from assms(1) have inv: "invar (vc_store (ch_Registry ch))" by (simp add: admitted_def)
  note t = touches_entries [OF run_touches [OF assms(2)] refl inv assms(3)]
  have "vabs (vc_store (ch_Registry ch)) i = Some v \<or> entries_of (ch_Log ch') i = Some v"
    using e(1) unfolding conjunct1 [OF t] by (auto simp: map_add_Some_iff)
  then show ?thesis
  proof
    assume "entries_of (ch_Log ch') i = Some v"
    from entries_of_SomeD [OF this] obtain m where
      m: "OnboardMsg m \<in> set (ch_Log ch')" "mov_Index m = i" "onboarded_validator m = v" by blast
    from bspec [OF conjunct1 [OF conjunct2 [OF t]], of m] m(1)
    have "vk_StringToBytes (nd_vr nd) (mov_Creator m) = Inr (vk_authority (nd_vr nd))"
      by (simp only: set_onboards)
    with m e show ?thesis by blast
  qed (use e in blast)
qed

end

text \<open>C3. From the genesis file on: when the chain starts with the registry the module reads from a file and
  without validators, then in every state it reaches, genesis transactions included, the operator of each
  validator has an entry in the registry, which the file lists or which a message of the authority among
  those the registry handled since then added. As in the statement for any start, this excepts operators
  whose validators came about without a \<open>MsgCreateValidator\<close> at the top level of a transaction.\<close>

theorem every_validator_listed_or_onboarded:
  assumes "whitelisting_chain nd tadm others invar pabs iok vabs okey ok lt S ak bk smh sgc"
    "invar (vc_store c)" "vabs (vc_store c) = Map.empty" "unmarshalJSON bz = Inr g"
    "iok (vgs_Params g)" "\<forall>v \<in> set (vgs_ValidatorMap g). okey (v_Index v) \<and> ok v"
    "ch_Registry ch = snd (vr_module_InitGenesis unmarshalJSON (nd_vr nd) bz c)" "nd_operators nd ch = {}"
    "chain_run nd (vr_admissible okey ok iok) tadm ch W ch'" "ch_Log ch = []"
    "a \<in> nd_operators nd ch'" "a \<notin> W"
  shows "\<exists>i v. vabs (vc_store (ch_Registry ch')) i = Some v \<and> v_OperatorAddress v = a \<and>
    (v \<in> set (vgs_ValidatorMap g) \<and> v_Index v = i \<or>
     (\<exists>m. OnboardMsg m \<in> set (ch_Log ch') \<and> vk_StringToBytes (nd_vr nd) (mov_Creator m) = Inr (vk_authority (nd_vr nd)) \<and>
        mov_Index m = i \<and> onboarded_validator m = v))"
  using whitelisting_chain.admitted_run_entry [OF assms(1) whitelisting_chain.genesis_start(1) [OF assms(1-8)]
      assms(9-12)]
  unfolding whitelisting_chain.genesis_start(2) [OF assms(1-8)] by (blast dest: import_map_index)

text \<open>In the witness the file lists the operator, who creates a validator, and another one comes by way of \<open>authz\<close>.\<close>

lemma every_validator_listed_or_onboarded_witness:
  "\<exists>ch i v. council_run ((council_start \<lparr>tc_store = [], tc_bank = \<lambda>_. {#}\<rparr>)
         \<lparr>ch_Registry := snd (vr_module_InitGenesis Inr sample_keeper genesis_file sample_ctx)\<rparr>) {''intruder''} ch \<and>
     hb_Operators (ch_Rest ch) = [''intruder'', ''op1''] \<and> validators_of (vc_store (ch_Registry ch)) i = Some v \<and>
     v_OperatorAddress v = ''op1'' \<and> v \<in> set (vgs_ValidatorMap genesis_file) \<and> v_Index v = i"
proof -
  define ch where "ch = (council_start \<lparr>tc_store = [], tc_bank = \<lambda>_. {#}\<rparr>)
    \<lparr>ch_Registry := snd (vr_module_InitGenesis Inr sample_keeper genesis_file sample_ctx)\<rparr>"
  define ch1 where "ch1 = snd (create_validator ''op1'' ch)"
  define ch' where "ch' = snd (create_validator ''intruder'' ch1)"
  have g: "co_ok vr_params_codec (vgs_Params genesis_file)"
    "\<forall>v \<in> set (vgs_ValidatorMap genesis_file). True \<and> co_ok validator_codec v"
    "vr_Genesis_Validate genesis_file = None"
    by (simp_all add: genesis_file_def vr_Genesis_Validate_distinct vr_params_codec_ok sample_onboard_ok)
  have i: "vr_inv (vc_store sample_ctx)" "validators_of (vc_store sample_ctx) = Map.empty" by simp_all
  have "IsValidatorWhitelisted sample_keeper (vc_store (ch_Registry ch)) ''op1''"
    using registry.genesis_whitelists [OF sample_registry i _ g(3,1,2), of Inr, OF refl]
    by (simp add: ch_def genesis_file_def onboarded_validator_def)
  then have s1: "council_step ch {} ch1" unfolding ch1_def by (rule council_creates)
  have "fresh (council_node sample_keeper []) ch1 ch' = {''intruder''}"
    by (auto simp: fresh_def ch'_def ch1_def ch_def)
  then have s2: "council_step ch1 {''intruder''} ch'"
    using council_slips [of ch1 "''intruder''"] by (simp flip: ch'_def)
  have "council_run ch ({} \<union> {} \<union> {''intruder''}) ch'"
    by (rule chain_run.chain_next [OF chain_run.chain_next [OF chain_run.chain_start s1] s2])
  then have run: "council_run ch {''intruder''} ch'" by simp
  have r: "ch_Registry ch = snd (vr_module_InitGenesis Inr (nd_vr (council_node sample_keeper [])) genesis_file sample_ctx)"
    "nd_operators (council_node sample_keeper []) ch = {}" "ch_Log ch = []"
    "''op1'' \<in> nd_operators (council_node sample_keeper []) ch'" "''op1'' \<notin> {''intruder''}"
    by (simp_all add: ch_def ch1_def ch'_def)
  note e = every_validator_listed_or_onboarded [OF council_chain i _ g(1,2) r(1,2) run r(3-5), OF refl,
      unfolded council_node_sel]
  have o: "hb_Operators (ch_Rest ch') = [''intruder'', ''op1'']" "ch_Log ch' = []"
    by (simp_all add: ch_def ch1_def ch'_def)
  from e obtain j v where "validators_of (vc_store (ch_Registry ch')) j = Some v" "v_OperatorAddress v = ''op1''"
    "v \<in> set (vgs_ValidatorMap genesis_file) \<and> v_Index v = j" unfolding o(2) by auto
  with run o(1) show ?thesis unfolding ch_def by blast
qed

end
