(* ===== verification/CodecProps.thy ===== *)
theory CodecProps
  imports VrStore TdStore
begin

text \<open>
  The properties of the wire format: varints, sizes, round trips of the messages that are stored or
  sent, unknown fields, and what \<open>MarshalTo\<close> does to the buffer it is given.
\<close>

text \<open>C27. \<open>encodeVarint\<close> writes a value before an offset so that reading at the index it returns gives
  the value back and ends at the offset; the bytes on both sides stay as they were.\<close>

theorem varint_roundtrip:
  assumes "sov v \<le> i" "i \<le> length d"
  shows "\<exists>d' j. encodeVarint d i v = Some (d', j) \<and> read_varint d' j 0 0 = Inr (v, i) \<and>
    length d' = length d \<and> take j d' = take j d \<and> drop i d' = drop i d \<and> j + sov v = i"
proof -
  let ?j = "i - sov v"
  have l: "length (take ?j d) = ?j" using assms by simp
  from read_varint_0 [of "take ?j d" v "drop i d"]
  have "read_varint (take ?j d @ varint_bytes v @ drop i d) ?j 0 0 = Inr (v, i)"
    using assms by (simp only: l) simp
  then show ?thesis
    using assms by (simp add: encodeVarint_eq length_varint_bytes)
qed

lemma varint_roundtrip_witness:
  "\<exists>d' j. encodeVarint [0, 0, 0] 2 300 = Some (d', j) \<and> read_varint d' j 0 0 = Inr (300, 2)"
proof -
  have "sov 300 = 2" by code_simp
  then show ?thesis using varint_roundtrip [of 300 2 "[0, 0, 0]"] by auto
qed

text \<open>The size of a varint is the number of groups of seven bits: at least one, at most ten.\<close>

theorem sov_counts_groups:
  "1 \<le> sov v \<and> sov v \<le> 10 \<and> (\<forall>n. sov v \<le> Suc n \<longleftrightarrow> unat v < 2 ^ (7 * Suc n))"
proof -
  have "sov v \<le> Suc n \<longleftrightarrow> unat v < 2 ^ (7 * Suc n)" for n
  proof -
    have "sov v \<le> Suc n \<longleftrightarrow> max 1 (Len64 v) \<le> 7 * Suc n" by (simp add: sov_eq) linarith
    also have "\<dots> \<longleftrightarrow> Len64 v \<le> 7 * Suc n" by simp
    finally show ?thesis by (simp only: Len64_le)
  qed
  with sov_bounds [of v] show ?thesis by blast
qed

text \<open>C30. A registry entry that fits into memory is marshalled into \<open>Size()\<close> bytes, and unmarshalling
  them gives the entry back.\<close>

theorem validator_roundtrip:
  assumes "Validator_Size v < 2 ^ 63"
  shows "\<exists>bs. Validator_Marshal v = Ret bs \<and> length bs = Validator_Size v \<and>
    Validator_Unmarshal bs Validator_zero = Inr v"
  using validator_pb.roundtrip [of v] assms by (simp add: Validator_Marshal_def Validator_Unmarshal_def)

lemma validator_roundtrip_witness:
  "\<exists>bs. Validator_Marshal (onboarded_validator sample_onboard) = Ret bs \<and>
     Validator_Unmarshal bs Validator_zero = Inr (onboarded_validator sample_onboard)"
proof -
  have "Validator_Size (onboarded_validator sample_onboard) = 27" by code_simp
  then show ?thesis using validator_roundtrip [of "onboarded_validator sample_onboard"] by auto
qed

text \<open>A genesis state of the registry survives the wire, with its entries in order.\<close>

theorem vr_genesis_roundtrip:
  assumes "VrGenesisState_Size g < 2 ^ 63"
  shows "\<exists>bs. VrGenesisState_Marshal g = Ret bs \<and> length bs = VrGenesisState_Size g \<and>
    VrGenesisState_Unmarshal bs VrGenesisState_zero = Inr g"
  using vr_genesis_pb.roundtrip [of g] assms
  by (simp add: VrGenesisState_Marshal_def VrGenesisState_Unmarshal_def)

lemma vr_genesis_roundtrip_witness:
  "\<exists>bs. VrGenesisState_Marshal
       \<lparr>vgs_Params = VrParams, vgs_ValidatorMap = [onboarded_validator sample_onboard, Validator_zero]\<rparr> = Ret bs \<and>
     length bs = 33"
proof -
  have "VrGenesisState_Size \<lparr>vgs_Params = VrParams,
      vgs_ValidatorMap = [onboarded_validator sample_onboard, Validator_zero]\<rparr> = 33" by code_simp
  then show ?thesis using vr_genesis_roundtrip [of "\<lparr>vgs_Params = VrParams,
      vgs_ValidatorMap = [onboarded_validator sample_onboard, Validator_zero]\<rparr>"] by auto
qed

text \<open>C40. The transaction messages \<open>MsgOnboardValidator\<close> and \<open>MsgFundModule\<close> survive the wire; the
  amount of the latter keeps its sign.\<close>

theorem tx_messages_roundtrip:
  assumes "MsgOnboardValidator_Size m < 2 ^ 63" "MsgFundModule_Size f < 2 ^ 63"
  shows "(\<exists>bs. MsgOnboardValidator_Marshal m = Ret bs \<and>
      MsgOnboardValidator_Unmarshal bs MsgOnboardValidator_zero = Inr m) \<and>
    (\<exists>bs. MsgFundModule_Marshal f = Ret bs \<and> MsgFundModule_Unmarshal bs MsgFundModule_zero = Inr f)"
  using onboard_pb.roundtrip [of m] fund_pb.roundtrip [of f] assms
  by (auto simp: MsgOnboardValidator_Marshal_def MsgOnboardValidator_Unmarshal_def
      MsgFundModule_Marshal_def MsgFundModule_Unmarshal_def)

lemma tx_messages_roundtrip_witness:
  "\<exists>bs. MsgFundModule_Marshal \<lparr>mfm_Creator = ''a'', mfm_Amount = - 5, mfm_Module = ''td''\<rparr> = Ret bs \<and>
     MsgFundModule_Unmarshal bs MsgFundModule_zero =
       Inr \<lparr>mfm_Creator = ''a'', mfm_Amount = - 5, mfm_Module = ''td''\<rparr>"
proof -
  have "MsgFundModule_Size \<lparr>mfm_Creator = ''a'', mfm_Amount = - 5, mfm_Module = ''td''\<rparr> = 18"
    "MsgOnboardValidator_Size sample_onboard = 32" by code_simp+
  then show ?thesis using tx_messages_roundtrip [of sample_onboard
      "\<lparr>mfm_Creator = ''a'', mfm_Amount = - 5, mfm_Module = ''td''\<rparr>"] by auto
qed

text \<open>The stored parameters of the trust deposit module survive the wire, given a codec of
  \<open>LegacyDec\<close> that inverts its own encoding.\<close>

theorem td_params_roundtrip:
  assumes "dec_codec_laws D enc valid" "valid (tp_TrustDepositShareValue p)"
    "valid (tp_TrustDepositYieldRate p)" "TdParams_Size D p < 2 ^ 63"
  shows "\<exists>bs. TdParams_Marshal D p = Ret bs \<and> length bs = TdParams_Size D p \<and>
    TdParams_Unmarshal D bs (TdParams_zero D) = Inr p"
  using pb_message.roundtrip [OF dec_codec_laws.TdParams_pb [OF assms(1)], of p] assms(2-4)
  by (simp add: TdParams_Marshal_def TdParams_Unmarshal_def)

lemma td_params_roundtrip_witness:
  "\<exists>bs. TdParams_Marshal fixed18_codec \<lparr>tp_TrustDepositShareValue = 1, tp_TrustDepositValue = 5,
       tp_TrustDepositYieldRate = - 2\<rparr> = Ret bs \<and> length bs = 9"
proof -
  let ?p = "\<lparr>tp_TrustDepositShareValue = 1, tp_TrustDepositValue = 5, tp_TrustDepositYieldRate = - 2 :: int\<rparr>"
  have s: "TdParams_Size fixed18_codec ?p = 9" by code_simp
  then have "TdParams_Size fixed18_codec ?p < 2 ^ 63" by simp
  from td_params_roundtrip [OF fixed18_pb.dec_codec_laws_axioms TrueI TrueI this] s
  show ?thesis by auto
qed

text \<open>The response of the list query survives the wire, given a codec of the SDK's page response
  that inverts its own encoding.\<close>

theorem list_response_roundtrip:
  assumes "pb_library P enc valid" "pred_option valid (qavs_Pagination r)"
    "QueryAllValidatorResponse_Size P r < 2 ^ 63"
  shows "\<exists>bs. QueryAllValidatorResponse_Marshal P r = Ret bs \<and>
    QueryAllValidatorResponse_Unmarshal P bs QueryAllValidatorResponse_zero = Inr r"
  using pb_message.roundtrip [OF pb_library.query_all_resp_pb [OF assms(1)], of r] assms(2,3)
  by (auto simp: QueryAllValidatorResponse_Marshal_def QueryAllValidatorResponse_Unmarshal_def)

text \<open>The witness takes a message of the registry in place of the SDK's page response.\<close>

definition sample_page :: "QueryGetValidatorRequest pb_codec" where
  "sample_page = \<lparr>pc_Size = QueryGetValidatorRequest_Size,
     pc_MarshalToSizedBuffer = QueryGetValidatorRequest_MarshalToSizedBuffer,
     pc_Unmarshal = pb_Unmarshal ''QueryGetValidatorRequest'' QueryGetValidatorRequest_fields,
     pc_zero = QueryGetValidatorRequest_zero\<rparr>"

interpretation sample_page: pb_library sample_page QueryGetValidatorRequest_enc "\<lambda>m. True"
  unfolding sample_page_def by (rule pb_message_library [OF query_get_pb.pb_message_axioms])

lemma list_response_roundtrip_witness:
  "\<exists>bs. QueryAllValidatorResponse_Marshal sample_page
       \<lparr>qavs_Validator = [Validator_zero], qavs_Pagination = Some \<lparr>qgvr_Index = ''k''\<rparr>\<rparr> = Ret bs"
proof -
  let ?r = "\<lparr>qavs_Validator = [Validator_zero], qavs_Pagination = Some \<lparr>qgvr_Index = ''k''\<rparr>\<rparr>"
  have "QueryAllValidatorResponse_Size sample_page ?r = 7" by code_simp
  then show ?thesis
    using list_response_roundtrip [OF sample_page.pb_library_axioms, of ?r] by auto
qed

text \<open>Fields a newer version may add do not break an old reader: a length-delimited field with a
  number the message does not use is skipped.\<close>

theorem unknown_field_skipped:
  assumes "is_tag tag n 2" "6 < n" "length (Validator_enc v @ len_enc tag bs) < 2 ^ 63"
  shows "Validator_Unmarshal (Validator_enc v @ len_enc tag bs) Validator_zero = Inr v"
proof -
  have "map_of Validator_fields n = None" using assms(2) by (simp add: Validator_fields_def)
  from decodes_unknown_field [OF assms(1) this]
  have "decodes ''Validator'' Validator_fields (Validator_enc v @ len_enc tag bs) Validator_zero v"
    by (rule decodes_append [OF validator_pb.decodes_enc [OF TrueI]])
  from decodes_unmarshal [OF this assms(3)] show ?thesis by (simp add: Validator_Unmarshal_def)
qed

lemma unknown_field_skipped_witness:
  "Validator_Unmarshal (Validator_enc Validator_zero @ len_enc 0x3a [1, 2, 3]) Validator_zero =
     Inr Validator_zero"
proof -
  have "is_tag 0x3a 7 2" by (simp add: is_tag_def field_number_def)
  moreover have "length (Validator_enc Validator_zero @ len_enc 0x3a [1, 2, 3]) = 5" by code_simp
  ultimately show ?thesis by (intro unknown_field_skipped [where n = 7]) simp_all
qed

text \<open>\<open>MarshalTo\<close> writes the encoding to the front of the buffer and leaves the rest; a buffer
  shorter than \<open>Size()\<close> makes it panic.\<close>

theorem validator_marshal_to:
  "Validator_MarshalTo v d =
     (if length d < Validator_Size v then Panic slice_out_of_range
      else Ret (Validator_enc v @ drop (Validator_Size v) d, Validator_Size v))"
  using validator_pb.marshal_to [of v d]
  by (auto simp: Validator_MarshalTo_def pb_MarshalTo_def Let_def validator_pb.size_enc)

end
