(* ===== verification/Proc.thy ===== *)
theory Proc
  imports Prelude
begin

text \<open>
  Go procedures that change a state and may fail: a procedure maps the state to its outcome and the
  state it leaves. \<open>bindP\<close> is the statement after a call whose error is returned at once; \<open>must\<close> turns
  a returned error into a panic (\<open>if err != nil { panic(err) }\<close>), \<open>ignoring\<close> drops it (\<open>_ = f()\<close>).
  \<open>each\<close> is a \<open>range\<close> loop, \<open>iterate\<close> an SDK iterator whose callback never stops it: the items are the
  ones present when the iterator is opened, and the error is the one the iterator returns at the end.
\<close>

named_theorems proc_simps \<open>unfolding of procedures\<close>

type_synonym ('s, 'a) proc = "'s \<Rightarrow> 'a outcome \<times> 's"

definition retP :: "'a \<Rightarrow> ('s, 'a) proc" where
  "retP x s = (Ret x, s)"

definition failP :: "go_error \<Rightarrow> ('s, 'a) proc" where
  "failP e s = (Err e, s)"

definition panicP :: "go_error \<Rightarrow> ('s, 'a) proc" where
  "panicP e s = (Panic e, s)"

definition bindP :: "('s, 'a) proc \<Rightarrow> ('a \<Rightarrow> ('s, 'b) proc) \<Rightarrow> ('s, 'b) proc" where
  "bindP p f s =
     (case p s of
        (Ret x, s') \<Rightarrow> f x s'
      | (Err e, s') \<Rightarrow> (Err e, s')
      | (Panic e, s') \<Rightarrow> (Panic e, s'))"

text \<open>A call that reads the state, and one that changes it and cannot fail.\<close>

definition readP :: "('s \<Rightarrow> go_error + 'a) \<Rightarrow> ('s, 'a) proc" where
  "readP f s = (case f s of Inl e \<Rightarrow> (Err e, s) | Inr x \<Rightarrow> (Ret x, s))"

definition writeP :: "('s \<Rightarrow> go_error + 's) \<Rightarrow> ('s, unit) proc" where
  "writeP f s = (case f s of Inl e \<Rightarrow> (Err e, s) | Inr s' \<Rightarrow> (Ret (), s'))"

definition changeP :: "('s \<Rightarrow> 's) \<Rightarrow> ('s, unit) proc" where
  "changeP f s = (Ret (), f s)"

definition must :: "('s, 'a) proc \<Rightarrow> ('s, 'a) proc" where
  "must p s = (case p s of (Err e, s') \<Rightarrow> (Panic e, s') | r \<Rightarrow> r)"

definition ignoring :: "('s, unit) proc \<Rightarrow> ('s, unit) proc" where
  "ignoring p s = (case p s of (Err e, s') \<Rightarrow> (Ret (), s') | r \<Rightarrow> r)"

fun seqP :: "('s, unit) proc list \<Rightarrow> ('s, unit) proc" where
  "seqP [] = retP ()"
| "seqP (p # ps) = bindP p (\<lambda>_. seqP ps)"

definition each :: "('a \<Rightarrow> ('s, unit) proc) \<Rightarrow> 'a list \<Rightarrow> ('s, unit) proc" where
  "each f xs = seqP (map f xs)"

definition iterate :: "('a \<Rightarrow> ('s, unit) proc) \<Rightarrow> ('s \<Rightarrow> 'a list \<times> go_error option) \<Rightarrow> ('s, unit) proc" where
  "iterate f items s =
     (case items s of (xs, fin) \<Rightarrow>
        bindP (each f xs) (\<lambda>_. case fin of None \<Rightarrow> retP () | Some e \<Rightarrow> failP e) s)"

text \<open>A loop that also updates variables of the enclosing function, passed as \<open>acc\<close>.\<close>

fun foldP :: "('a \<Rightarrow> 'b \<Rightarrow> ('s, 'b) proc) \<Rightarrow> 'a list \<Rightarrow> 'b \<Rightarrow> ('s, 'b) proc" where
  "foldP f [] acc = retP acc"
| "foldP f (x # xs) acc = bindP (f x acc) (foldP f xs)"

text \<open>A call that depends on no state, and one whose outcome is computed.\<close>

definition pureP :: "go_error + 'a \<Rightarrow> ('s, 'a) proc" where
  "pureP r s = (case r of Inl e \<Rightarrow> (Err e, s) | Inr x \<Rightarrow> (Ret x, s))"

definition outcomeP :: "'a outcome \<Rightarrow> ('s, 'a) proc" where
  "outcomeP r s = (r, s)"

lemma each_simps [simp]:
  "each f [] = retP ()"
  "each f (x # xs) = bindP (f x) (\<lambda>_. each f xs)"
  by (simp_all add: each_def)

lemma bindP_simps [simp]:
  "bindP (retP x) f = f x"
  "bindP (failP e) f = failP e"
  "bindP (panicP e) f = panicP e"
  by (simp_all add: bindP_def retP_def failP_def panicP_def fun_eq_iff)

lemma seqP_append: "seqP (ps @ qs) = bindP (seqP ps) (\<lambda>_. seqP qs)"
  by (induction ps) (auto simp: bindP_def fun_eq_iff split: prod.split outcome.split)

text \<open>When a composed procedure returns, all its parts do.\<close>

lemma bindP_Ret: "bindP p f s = (Ret y, s'') \<longleftrightarrow> (\<exists>x s'. p s = (Ret x, s') \<and> f x s' = (Ret y, s''))"
  by (auto simp: bindP_def split: prod.split outcome.split)

lemma retP_Ret: "retP x s = (Ret y, s') \<longleftrightarrow> x = y \<and> s = s'"
  by (simp add: retP_def)

lemma failP_Ret: "\<not> failP e s = (Ret y, s')" "\<not> panicP e s = (Ret y, s')"
  by (simp_all add: failP_def panicP_def)

lemma readP_Ret: "readP f s = (Ret x, s') \<longleftrightarrow> f s = Inr x \<and> s' = s"
  by (auto simp: readP_def split: sum.split)

lemma writeP_Ret: "writeP f s = (Ret u, s') \<longleftrightarrow> f s = Inr s'"
  by (auto simp: writeP_def split: sum.split)

lemma changeP_Ret: "changeP f s = (Ret u, s') \<longleftrightarrow> s' = f s"
  by (auto simp: changeP_def)

lemma must_Ret: "must p s = (Ret x, s') \<longleftrightarrow> p s = (Ret x, s')"
  by (auto simp: must_def split: prod.split outcome.split)

lemma must_not_Err: "must p s \<noteq> (Err e, s')"
  by (auto simp: must_def split: prod.split outcome.split)

lemma ignoring_Ret: "ignoring p s = (Ret u, s') \<longleftrightarrow> p s = (Ret (), s') \<or> (\<exists>e. p s = (Err e, s'))"
  by (auto simp: ignoring_def split: prod.split outcome.split)

lemma iterate_Ret:
  "iterate f items s = (Ret u, s') \<longleftrightarrow> each f (fst (items s)) s = (Ret (), s') \<and> snd (items s) = None"
  by (auto simp: iterate_def bindP_Ret retP_Ret failP_Ret split: prod.split option.split)

lemma pureP_Ret: "pureP r s = (Ret x, s') \<longleftrightarrow> r = Inr x \<and> s' = s"
  by (auto simp: pureP_def split: sum.split)

lemma outcomeP_Ret: "outcomeP r s = (Ret x, s') \<longleftrightarrow> r = Ret x \<and> s' = s"
  by (auto simp: outcomeP_def)

text \<open>An invariant of the accumulator of a loop that returns.\<close>

lemma foldP_Ret_inv:
  assumes "foldP f xs acc s = (Ret acc', s')" "I 0 acc"
    and "\<And>i a a' s s'. i < length xs \<Longrightarrow> I i a \<Longrightarrow> f (xs ! i) a s = (Ret a', s') \<Longrightarrow> I (Suc i) a'"
  shows "I (length xs) acc'"
  using assms
proof (induction xs arbitrary: acc s I)
  case (Cons x xs)
  from Cons.prems(1) obtain a1 s1 where 1: "f x acc s = (Ret a1, s1)" "foldP f xs a1 s1 = (Ret acc', s')"
    by (auto simp: bindP_Ret)
  have "I 1 a1" using Cons.prems(3) [of 0] Cons.prems(2) 1(1) by simp
  then show ?case using Cons.IH [OF 1(2), of "\<lambda>i. I (Suc i)"] Cons.prems(3) [of "Suc _"] by simp
qed (simp add: retP_Ret)

lemmas proc_Ret = pureP_Ret outcomeP_Ret bindP_Ret retP_Ret failP_Ret readP_Ret writeP_Ret changeP_Ret must_Ret ignoring_Ret
  iterate_Ret

text \<open>
  An invariant of every step is one of the whole: \<open>keeps Q p\<close> says that \<open>p\<close> leaves a state with \<open>Q\<close>
  when it started in one, however it ends.
\<close>

definition keeps :: "('s \<Rightarrow> bool) \<Rightarrow> ('s, 'a) proc \<Rightarrow> bool" where
  "keeps Q p \<longleftrightarrow> (\<forall>s. Q s \<longrightarrow> Q (snd (p s)))"

named_theorems keeps_intros \<open>how procedures keep invariants\<close>

lemma keepsD: "keeps Q p \<Longrightarrow> Q s \<Longrightarrow> p s = (r, s') \<Longrightarrow> Q s'"
  by (force simp: keeps_def)

lemma keeps_base [keeps_intros]:
  "keeps Q (retP x)" "keeps Q (failP e)" "keeps Q (panicP e)" "keeps Q (readP f)"
  by (simp_all add: keeps_def retP_def failP_def panicP_def readP_def split: sum.split)

lemma keeps_bindP [keeps_intros]: "keeps Q p \<Longrightarrow> (\<And>x. keeps Q (f x)) \<Longrightarrow> keeps Q (bindP p f)"
  unfolding keeps_def bindP_def by (force split: prod.split outcome.split)

lemma keeps_wrap [keeps_intros]:
  "keeps Q p \<Longrightarrow> keeps Q (must p)" "keeps Q q \<Longrightarrow> keeps Q (ignoring q)"
  unfolding keeps_def must_def ignoring_def by (force split: prod.split outcome.split)+

lemma keeps_changeP [keeps_intros]: "(\<And>s. Q s \<Longrightarrow> Q (f s)) \<Longrightarrow> keeps Q (changeP f)"
  by (simp add: keeps_def changeP_def)

lemma keeps_writeP [keeps_intros]: "(\<And>s s'. Q s \<Longrightarrow> f s = Inr s' \<Longrightarrow> Q s') \<Longrightarrow> keeps Q (writeP f)"
  by (auto simp: keeps_def writeP_def split: sum.split)

lemma keeps_seqP [keeps_intros]: "(\<And>p. p \<in> set ps \<Longrightarrow> keeps Q p) \<Longrightarrow> keeps Q (seqP ps)"
  by (induction ps) (auto intro: keeps_intros)

lemma keeps_each [keeps_intros]: "(\<And>x. x \<in> set xs \<Longrightarrow> keeps Q (f x)) \<Longrightarrow> keeps Q (each f xs)"
  unfolding each_def by (rule keeps_seqP) auto

lemma keeps_iterate [keeps_intros]:
  assumes "\<And>x. keeps Q (f x)"
  shows "keeps Q (iterate f items)"
proof -
  have "keeps Q (bindP (each f xs) (\<lambda>_. case fin of None \<Rightarrow> retP () | Some e \<Rightarrow> failP e))" for xs fin
    by (intro keeps_bindP keeps_each assms) (simp add: keeps_base split: option.split)
  then show ?thesis by (simp add: keeps_def iterate_def split: prod.split)
qed

end
