(* ===== verification/App.thy ===== *)
theory App
  imports AppConfig Ante Proc
begin

text \<open>
  \<open>app/app.go\<close>, \<open>app/config.go\<close> and \<open>app/genesis_account.go\<close>: the address prefixes, the construction of
  the application, its init chainer and the validation of a genesis account. The injected keepers, the
  runtime application and the servers are parameters.
\<close>

section \<open>Process-wide settings\<close>

definition ChainCoinType :: nat where
  "ChainCoinType = 118"

record bech32_config =
  bc_CoinType :: nat
  bc_Account :: "string \<times> string"
  bc_Validator :: "string \<times> string"
  bc_ConsensusNode :: "string \<times> string"

text \<open>\<open>init\<close> of \<open>config.go\<close>: the prefixes for addresses and public keys that are set and sealed.\<close>

definition sealed_config :: bech32_config where
  "sealed_config =
     (let accountPubKeyPrefix = AccountAddressPrefix @ ''pub'';
          validatorAddressPrefix = AccountAddressPrefix @ ''valoper'';
          validatorPubKeyPrefix = AccountAddressPrefix @ ''valoperpub'';
          consNodeAddressPrefix = AccountAddressPrefix @ ''valcons'';
          consNodePubKeyPrefix = AccountAddressPrefix @ ''valconspub'' in
      \<lparr>bc_CoinType = ChainCoinType,
       bc_Account = (AccountAddressPrefix, accountPubKeyPrefix),
       bc_Validator = (validatorAddressPrefix, validatorPubKeyPrefix),
       bc_ConsensusNode = (consNodeAddressPrefix, consNodePubKeyPrefix)\<rparr>)"

record app_globals =
  ag_DefaultBondDenom :: string
  ag_EnvPrefix :: string
  ag_DefaultNodeHome :: string

text \<open>\<open>init\<close> of \<open>app.go\<close>.\<close>

definition app_init :: "(string \<Rightarrow> go_error + string) \<Rightarrow> app_globals outcome" where
  "app_init getNodeHomeDirectory =
     (case getNodeHomeDirectory (''.'' @ Name) of
        Inl err \<Rightarrow> Panic err
      | Inr home \<Rightarrow> Ret \<lparr>ag_DefaultBondDenom = ''stake'', ag_EnvPrefix = Name, ag_DefaultNodeHome = home\<rparr>)"

section \<open>Genesis accounts\<close>

record ('c, 'b) GenesisAccount =
  ga_BaseAccount :: 'b
  ga_OriginalVesting :: 'c
  ga_DelegatedFree :: 'c
  ga_DelegatedVesting :: 'c
  ga_StartTime :: "64 word"
  ga_EndTime :: "64 word"
  ga_ModuleName :: string
  ga_ModulePermissions :: "string list"

text \<open>
  The two validations and \<open>IsZero\<close> of the SDK are parameters; the times are \<open>int64\<close>.
\<close>

definition GenesisAccount_Validate ::
    "('c \<Rightarrow> bool) \<Rightarrow> ('b \<Rightarrow> string \<Rightarrow> string list \<Rightarrow> go_error option) \<Rightarrow> ('b \<Rightarrow> go_error option)
     \<Rightarrow> ('c, 'b) GenesisAccount \<Rightarrow> go_error option" where
  "GenesisAccount_Validate isZero moduleAccountValidate baseAccountValidate sga =
     (if \<not> isZero (ga_OriginalVesting sga) \<and> sint (ga_EndTime sga) \<le> sint (ga_StartTime sga) then
        Some (Errorf ''vesting start-time cannot be before end-time'' [])
      else
      (case (if ga_ModuleName sga \<noteq> ''''
             then moduleAccountValidate (ga_BaseAccount sga) (ga_ModuleName sga) (ga_ModulePermissions sga)
             else None) of
         Some err \<Rightarrow> Some err
       | None \<Rightarrow> baseAccountValidate (ga_BaseAccount sga)))"

section \<open>Building the application\<close>

text \<open>
  What dependency injection provides, as far as \<open>New\<close> uses it: the keepers the ante handler needs and
  the sign mode handler of the transaction configuration. \<open>'a\<close> is the runtime application, with its
  ante handler and init chainer set by the operations below.
\<close>

record ('ak, 'bk, 'smh, 's, 'g) injected =
  in_AuthKeeper :: 'ak
  in_BankKeeper :: "'bk option"
  in_SignModeHandler :: "'smh option"
  in_ValidatorregistryKeeper :: "'s VrKeeper"
  in_GroupKeeper :: "'g group_ops"

type_synonym ('ctx, 'req, 'res) init_chainer = "'ctx \<Rightarrow> 'req \<Rightarrow> 'res option \<times> go_error option \<times> 'ctx"

record ('a, 'o, 'c, 't, 'ctx, 'req, 'res) runtime_ops =
  rt_SetOptimisticExecution :: 'o
  rt_Build :: "'o list \<Rightarrow> 'a"
  rt_SetAnteHandler :: "('c, 't) AnteHandler \<Rightarrow> 'a \<Rightarrow> 'a"
  rt_registerIBCModules :: "('a, unit) proc"
  rt_RegisterStoreDecoders :: "('a, unit) proc"
  rt_SetInitChainer :: "('ctx, 'req, 'res) init_chainer \<Rightarrow> 'a \<Rightarrow> 'a"
  rt_InitChainer :: "'a \<Rightarrow> ('ctx, 'req, 'res) init_chainer"
  rt_SetModuleVersionMap :: "'a \<Rightarrow> 'ctx \<Rightarrow> go_error option \<times> 'ctx"
  rt_Load :: "bool \<Rightarrow> ('a, unit) proc"

text \<open>The custom init chainer records the module versions before the runtime's own runs.\<close>

definition initChainer ::
    "('a, 'o, 'c, 't, 'ctx, 'req, 'res) runtime_ops \<Rightarrow> 'a \<Rightarrow> ('ctx, 'req, 'res) init_chainer" where
  "initChainer R app ctx req =
     (case rt_SetModuleVersionMap R app ctx of
        (Some err, ctx) \<Rightarrow> (None, Some err, ctx)
      | (None, ctx) \<Rightarrow> rt_InitChainer R app ctx req)"

definition New ::
    "('a, 'o, ('s, 'g, 'z) AnteCtx, ('m, 'x) Tx, 'ctx, 'req, 'res) runtime_ops
     \<Rightarrow> (('s, 'g, 'z) AnteCtx, ('m, 'x) Tx, 'ak, 'bk) sdk_ante \<Rightarrow> 'sgc
     \<Rightarrow> ('p \<Rightarrow> go_error + ('ak, 'bk, 'smh, 's, 'g) injected) \<Rightarrow> bool \<Rightarrow> 'p \<Rightarrow> 'o list \<Rightarrow> 'a outcome" where
  "New R S sigGasConsumer inject loadLatest appOpts baseAppOptions =
     (case inject appOpts of
        Inl err \<Rightarrow> Panic err
      | Inr deps \<Rightarrow>
     let app = rt_Build R (baseAppOptions @ [rt_SetOptimisticExecution R]) in
     (case NewAnteHandler S (in_AuthKeeper deps) (in_BankKeeper deps) (in_SignModeHandler deps)
             sigGasConsumer (in_ValidatorregistryKeeper deps) (in_GroupKeeper deps) of
        Inl err \<Rightarrow> Panic err
      | Inr anteHandler \<Rightarrow>
     (case seqP
             [changeP (rt_SetAnteHandler R anteHandler),
              must (rt_registerIBCModules R),
              rt_RegisterStoreDecoders R,
              (\<lambda>app. changeP (rt_SetInitChainer R (initChainer R app)) app),
              must (rt_Load R loadLatest)] app of
        (Ret _, app) \<Rightarrow> Ret app
      | (Err e, _) \<Rightarrow> Err e
      | (Panic e, _) \<Rightarrow> Panic e)))"

section \<open>The configuration of dependency injection\<close>

text \<open>
  \<open>depinject.Configs\<close> and \<open>depinject.Supply\<close> are parameters, and the values supplied are told apart: the
  module basics with the genutil module, whose validator of genesis messages is the default one, the
  options of the application and the logger.
\<close>

datatype ('b, 'p, 'l) supplied =
    ModuleBasics "(string \<times> 'b) list" | AppOpts 'p | Logger 'l

record ('cfg, 'v) depinject_ops =
  dj_Configs :: "'cfg list \<Rightarrow> 'cfg"
  dj_Supply :: "'v list \<Rightarrow> 'cfg"

definition AppConfig ::
    "('cfg, ('b, 'p, 'l) supplied) depinject_ops \<Rightarrow> ('v \<Rightarrow> 'b) \<Rightarrow> 'v \<Rightarrow> string \<Rightarrow> 'cfg \<Rightarrow> 'cfg" where
  "AppConfig J genutil_NewAppModuleBasic genutil_DefaultMessageValidator genutil_ModuleName appConfig =
     dj_Configs J
       [appConfig,
        dj_Supply J [ModuleBasics
          [(genutil_ModuleName, genutil_NewAppModuleBasic genutil_DefaultMessageValidator)]]]"

definition New_appConfig ::
    "('cfg, ('b, 'p, 'l) supplied) depinject_ops \<Rightarrow> 'cfg \<Rightarrow> 'l \<Rightarrow> 'p \<Rightarrow> 'cfg" where
  "New_appConfig J app_config logger appOpts =
     dj_Configs J [app_config, dj_Supply J [AppOpts appOpts, Logger logger]]"

section \<open>Accessors and routes\<close>

text \<open>The unexported fields of \<open>App\<close> and their accessors.\<close>

record ('amino, 'cdc, 'tx, 'ir, 'sim) App =
  app_legacyAmino :: 'amino
  app_appCodec :: 'cdc
  app_txConfig :: 'tx
  app_interfaceRegistry :: 'ir
  app_sm :: 'sim

definition LegacyAmino :: "('amino, 'cdc, 'tx, 'ir, 'sim) App \<Rightarrow> 'amino" where
  "LegacyAmino app = app_legacyAmino app"

definition AppCodec :: "('amino, 'cdc, 'tx, 'ir, 'sim) App \<Rightarrow> 'cdc" where
  "AppCodec app = app_appCodec app"

definition InterfaceRegistry :: "('amino, 'cdc, 'tx, 'ir, 'sim) App \<Rightarrow> 'ir" where
  "InterfaceRegistry app = app_interfaceRegistry app"

definition TxConfig :: "('amino, 'cdc, 'tx, 'ir, 'sim) App \<Rightarrow> 'tx" where
  "TxConfig app = app_txConfig app"

definition SimulationManager :: "('amino, 'cdc, 'tx, 'ir, 'sim) App \<Rightarrow> 'sim" where
  "SimulationManager app = app_sm app"

text \<open>\<open>GetKey\<close> returns the store key when it is one of a key-value store, and nil otherwise.\<close>

datatype store_key = KVStoreKey string | OtherStoreKey string

definition GetKey :: "(string \<Rightarrow> store_key option) \<Rightarrow> string \<Rightarrow> store_key option" where
  "GetKey unsafeFindStoreKey storeKey =
     (case unsafeFindStoreKey storeKey of Some (KVStoreKey n) \<Rightarrow> Some (KVStoreKey n) | _ \<Rightarrow> None)"

text \<open>\<open>GetSubspace\<close> drops the flag of the lookup: a missing subspace is the zero value.\<close>

definition GetSubspace :: "(string \<Rightarrow> 'sub option) \<Rightarrow> 'sub \<Rightarrow> string \<Rightarrow> 'sub" where
  "GetSubspace lookup zero moduleName = (case lookup moduleName of None \<Rightarrow> zero | Some s \<Rightarrow> s)"

definition RegisterAPIRoutes ::
    "('r, unit) proc \<Rightarrow> ('r, unit) proc \<Rightarrow> (string \<Rightarrow> ('r, unit) proc) \<Rightarrow> ('r, unit) proc" where
  "RegisterAPIRoutes runtimeRoutes swaggerAPI openAPIService =
     seqP [runtimeRoutes, must swaggerAPI, openAPIService Name]"

section \<open>The installed ante handler\<close>

text \<open>
  The contract of the runtime: the handler last set is the one the application runs, and nothing after
  it replaces it. \<open>ante\<close> is the handler slot.
\<close>

locale app_runtime =
  fixes R :: "('a, 'o, ('s, 'g, 'z) AnteCtx, ('m, 'x) Tx, 'ctx, 'req, 'res) runtime_ops"
    and ante :: "'a \<Rightarrow> (('s, 'g, 'z) AnteCtx, ('m, 'x) Tx) AnteHandler option"
    and chainer :: "'a \<Rightarrow> ('ctx, 'req, 'res) init_chainer option"
  assumes set_ante: "ante (rt_SetAnteHandler R h app) = Some h"
    and ibc_keeps: "keeps (\<lambda>app. ante app = slot) (rt_registerIBCModules R)"
    and decoders_keep: "keeps (\<lambda>app. ante app = slot) (rt_RegisterStoreDecoders R)"
    and chainer_keeps: "ante (rt_SetInitChainer R c app) = ante app"
    and set_chainer: "chainer (rt_SetInitChainer R c app) = Some c"
    and load_keeps: "keeps (\<lambda>app. ante app = slot \<and> chainer app = cslot) (rt_Load R latest)"
begin

lemma New_installs:
  assumes "New R S sgc inject latest opts os = Ret app"
  shows "\<exists>deps h app0. inject opts = Inr deps \<and>
    NewAnteHandler S (in_AuthKeeper deps) (in_BankKeeper deps) (in_SignModeHandler deps) sgc
      (in_ValidatorregistryKeeper deps) (in_GroupKeeper deps) = Inr h \<and>
    ante app = Some h \<and> chainer app = Some (initChainer R app0)"
proof -
  from assms obtain deps where deps: "inject opts = Inr deps" by (auto simp: New_def split: sum.splits)
  let ?app0 = "rt_Build R (os @ [rt_SetOptimisticExecution R])"
  from assms deps obtain h where h: "NewAnteHandler S (in_AuthKeeper deps) (in_BankKeeper deps)
      (in_SignModeHandler deps) sgc (in_ValidatorregistryKeeper deps) (in_GroupKeeper deps) = Inr h"
    by (auto simp: New_def Let_def split: sum.splits)
  from assms deps h obtain a1 a2 where
    a1: "rt_registerIBCModules R (rt_SetAnteHandler R h ?app0) = (Ret (), a1)" and
    a2: "rt_RegisterStoreDecoders R a1 = (Ret (), a2)" and
    load: "rt_Load R latest (rt_SetInitChainer R (initChainer R a2) a2) = (Ret (), app)"
    by (auto simp: New_def Let_def proc_Ret split: prod.splits outcome.splits)
  have "ante a1 = Some h" using keepsD [OF ibc_keeps _ a1] set_ante by blast
  then have "ante a2 = Some h" using keepsD [OF decoders_keep _ a2] by blast
  then have "ante app = Some h \<and> chainer app = Some (initChainer R a2)"
    using keepsD [OF load_keeps _ load, of "Some h" "Some (initChainer R a2)"]
    by (simp add: chainer_keeps set_chainer)
  with deps h show ?thesis by blast
qed

end

text \<open>An instance: the application is the pair of its slots, and the other calls do nothing.\<close>

definition slot_runtime ::
    "(('c, 't) AnteHandler option \<times> ('ctx, 'req, 'res) init_chainer option, unit, 'c, 't, 'ctx, 'req, 'res) runtime_ops"
  where
  "slot_runtime =
     \<lparr>rt_SetOptimisticExecution = (), rt_Build = (\<lambda>os. (None, None)),
      rt_SetAnteHandler = (\<lambda>h app. (Some h, snd app)), rt_registerIBCModules = retP (),
      rt_RegisterStoreDecoders = retP (), rt_SetInitChainer = (\<lambda>c app. (fst app, Some c)),
      rt_InitChainer = (\<lambda>app ctx req. (None, None, ctx)),
      rt_SetModuleVersionMap = (\<lambda>app ctx. (None, ctx)), rt_Load = (\<lambda>latest. retP ())\<rparr>"

interpretation slot_runtime: app_runtime slot_runtime fst snd
  by unfold_locales (simp_all add: slot_runtime_def keeps_base)

end
