(* ===== verification/Ibc.thy ===== *)
theory Ibc
  imports AppConfig Proc
begin

text \<open>
  \<open>app/ibc.go\<close>: the modules of ibc-go that are registered by hand, on the node
  (\<open>registerIBCModules\<close>) and for the client (\<open>RegisterIBC\<close>). The constants of ibc-go come from the
  parameter \<open>I\<close>, its keepers and the runtime from the operations of \<open>ibc_ops\<close>.
\<close>

datatype ibc_const =
    ibcexported_StoreKey | ibctransfertypes_StoreKey | icahosttypes_StoreKey | icacontrollertypes_StoreKey
  | icahosttypes_SubModuleName | icacontrollertypes_SubModuleName | ibctransfertypes_PortID
  | ibctm_ModuleName | solomachine_ModuleName

section \<open>The parts\<close>

text \<open>The key tables of the legacy parameter subspaces.\<close>

datatype key_table = ClientConnectionTable | TransferTable | IcaControllerTable | IcaHostTable

definition ibc_store_keys :: "(ibc_const \<Rightarrow> string) \<Rightarrow> string list" where
  "ibc_store_keys I =
     [I ibcexported_StoreKey, I ibctransfertypes_StoreKey, I icahosttypes_StoreKey, I icacontrollertypes_StoreKey]"

definition ibc_subspaces ::
    "(sdk_const \<Rightarrow> string) \<Rightarrow> (ibc_const \<Rightarrow> string) \<Rightarrow> (string \<times> key_table) list" where
  "ibc_subspaces C I =
     [(C ibcexported_ModuleName, ClientConnectionTable),
      (C ibctransfertypes_ModuleName, TransferTable),
      (I icacontrollertypes_SubModuleName, IcaControllerTable),
      (I icahosttypes_SubModuleName, IcaHostTable)]"

text \<open>
  A keeper is known by the store key and the parameter subspace it is built with and by the authority
  address; the channel keeper, the routers and the other keepers it gets are those of the application.
\<close>

record ibc_keeper =
  ik_StoreKey :: string
  ik_Subspace :: string
  ik_Authority :: string

record ibc_keepers =
  iks_IBCKeeper :: ibc_keeper
  iks_TransferKeeper :: ibc_keeper
  iks_ICAHostKeeper :: ibc_keeper
  iks_ICAControllerKeeper :: ibc_keeper

definition make_keepers ::
    "(sdk_const \<Rightarrow> string) \<Rightarrow> (ibc_const \<Rightarrow> string) \<Rightarrow> string \<Rightarrow> ibc_keepers" where
  "make_keepers C I govModuleAddr =
     \<lparr>iks_IBCKeeper = \<lparr>ik_StoreKey = I ibcexported_StoreKey, ik_Subspace = C ibcexported_ModuleName,
        ik_Authority = govModuleAddr\<rparr>,
      iks_TransferKeeper = \<lparr>ik_StoreKey = I ibctransfertypes_StoreKey,
        ik_Subspace = C ibctransfertypes_ModuleName, ik_Authority = govModuleAddr\<rparr>,
      iks_ICAHostKeeper = \<lparr>ik_StoreKey = I icahosttypes_StoreKey,
        ik_Subspace = I icahosttypes_SubModuleName, ik_Authority = govModuleAddr\<rparr>,
      iks_ICAControllerKeeper = \<lparr>ik_StoreKey = I icacontrollertypes_StoreKey,
        ik_Subspace = I icacontrollertypes_SubModuleName, ik_Authority = govModuleAddr\<rparr>\<rparr>"

text \<open>The modules behind a port, by the keeper they are built on.\<close>

datatype ibc_stack =
    TransferModule ibc_keeper | TransferModuleV2 ibc_keeper
  | IcaControllerMiddleware ibc_keeper | IcaHostModule ibc_keeper

text \<open>\<open>Router.AddRoute\<close> of ibc-go panics on a port that has a route already.\<close>

fun add_routes :: "(string \<times> ibc_stack) list \<Rightarrow> (string \<rightharpoonup> ibc_stack) \<Rightarrow> (string \<rightharpoonup> ibc_stack) outcome" where
  "add_routes [] r = Ret r"
| "add_routes ((port, m) # rest) r =
     (if r port \<noteq> None then Panic (Errorf ''route %s has already been registered'' [ArgStr port])
      else add_routes rest (r(port \<mapsto> m)))"

definition ibc_routes ::
    "(sdk_const \<Rightarrow> string) \<Rightarrow> (ibc_const \<Rightarrow> string) \<Rightarrow> ibc_keepers \<Rightarrow> (string \<times> ibc_stack) list" where
  "ibc_routes C I ks =
     [(C ibctransfertypes_ModuleName, TransferModule (iks_TransferKeeper ks)),
      (I icacontrollertypes_SubModuleName, IcaControllerMiddleware (iks_ICAControllerKeeper ks)),
      (I icahosttypes_SubModuleName, IcaHostModule (iks_ICAHostKeeper ks))]"

definition ibc_routes_v2 :: "(ibc_const \<Rightarrow> string) \<Rightarrow> ibc_keepers \<Rightarrow> (string \<times> ibc_stack) list" where
  "ibc_routes_v2 I ks = [(I ibctransfertypes_PortID, TransferModuleV2 (iks_TransferKeeper ks))]"

definition light_clients :: "(ibc_const \<Rightarrow> string) \<Rightarrow> string list" where
  "light_clients I = [I ibctm_ModuleName, I solomachine_ModuleName]"

text \<open>The names of the application modules that are registered, in order.\<close>

definition ibc_modules :: "(sdk_const \<Rightarrow> string) \<Rightarrow> (ibc_const \<Rightarrow> string) \<Rightarrow> string list" where
  "ibc_modules C I =
     [C ibcexported_ModuleName, C ibctransfertypes_ModuleName, C icatypes_ModuleName,
      I ibctm_ModuleName, I solomachine_ModuleName]"

section \<open>Registration\<close>

record 'a ibc_ops =
  io_RegisterStores :: "string list \<Rightarrow> ('a, unit) proc"
  io_Subspace :: "string \<Rightarrow> key_table \<Rightarrow> ('a, unit) proc"
  io_GovModuleAddr :: "go_error + string"
  io_SetKeepers :: "ibc_keepers \<Rightarrow> 'a \<Rightarrow> 'a"
  io_SetRouter :: "(string \<rightharpoonup> ibc_stack) \<Rightarrow> ('a, unit) proc"
  io_SetRouterV2 :: "(string \<rightharpoonup> ibc_stack) \<Rightarrow> ('a, unit) proc"
  io_AddClientRoute :: "string \<Rightarrow> ('a, unit) proc"
  io_RegisterModules :: "string list \<Rightarrow> ('a, unit) proc"

text \<open>The error of the address conversion is dropped; the authority is then empty.\<close>

definition registerIBCModules ::
    "(sdk_const \<Rightarrow> string) \<Rightarrow> (ibc_const \<Rightarrow> string) \<Rightarrow> 'a ibc_ops \<Rightarrow> ('a, unit) proc" where
  "registerIBCModules C I A =
     bindP (io_RegisterStores A (ibc_store_keys I)) (\<lambda>_.
     bindP (each (\<lambda>(name, table). io_Subspace A name table) (ibc_subspaces C I)) (\<lambda>_.
     let govModuleAddr = (case io_GovModuleAddr A of Inl _ \<Rightarrow> '''' | Inr a \<Rightarrow> a);
         ks = make_keepers C I govModuleAddr in
     bindP (changeP (io_SetKeepers A ks)) (\<lambda>_.
     bindP (\<lambda>app. (add_routes (ibc_routes C I ks) Map.empty, app)) (\<lambda>ibcRouter.
     bindP (\<lambda>app. (add_routes (ibc_routes_v2 I ks) Map.empty, app)) (\<lambda>ibcv2Router.
     seqP [io_SetRouter A ibcRouter, io_SetRouterV2 A ibcv2Router,
           each (io_AddClientRoute A) (light_clients I),
           io_RegisterModules A (ibc_modules C I)])))))"

text \<open>
  \<open>RegisterIBC\<close>: the modules of the client by name. Every module that has basic functions registers its
  interfaces; the order of the loop over the map is not fixed, so the registry gets them as a set.
\<close>

definition RegisterIBC ::
    "(sdk_const \<Rightarrow> string) \<Rightarrow> (ibc_const \<Rightarrow> string) \<Rightarrow> (string \<Rightarrow> bool) \<Rightarrow> string set \<Rightarrow> string set \<times> string set" where
  "RegisterIBC C I isBasic registry =
     (let modules = {C ibcexported_ModuleName, C ibctransfertypes_ModuleName, C icatypes_ModuleName,
            I ibctm_ModuleName, I solomachine_ModuleName} in
      (modules, registry \<union> {m \<in> modules. isBasic m}))"

section \<open>Lemmas\<close>

lemma add_routes_Ret:
  "distinct (map fst rs) \<Longrightarrow> set (map fst rs) \<inter> dom r = {} \<Longrightarrow> add_routes rs r = Ret (r ++ map_of rs)"
proof (induction rs arbitrary: r)
  case (Cons pm rs)
  obtain p m where pm: "pm = (p, m)" by (cases pm)
  with Cons.prems have "r p = None" "set (map fst rs) \<inter> dom (r(p \<mapsto> m)) = {}" by (auto simp: domIff)
  with Cons pm have "add_routes (pm # rs) r = Ret (r(p \<mapsto> m) ++ map_of rs)" by simp
  moreover have "r(p \<mapsto> m) ++ map_of rs = r ++ map_of (pm # rs)"
    using Cons.prems(1) by (simp add: pm map_add_upd_left dom_map_of_conv_image_fst)
  ultimately show ?case by (simp only:)
qed simp

text \<open>
  \<open>names_ok\<close> for ibc-go: the ports and the modules it names are distinct from one another.
\<close>

definition ibc_names_ok :: "(sdk_const \<Rightarrow> string) \<Rightarrow> (ibc_const \<Rightarrow> string) \<Rightarrow> bool" where
  "ibc_names_ok C I \<longleftrightarrow>
     distinct [C ibctransfertypes_ModuleName, I icacontrollertypes_SubModuleName, I icahosttypes_SubModuleName]"

text \<open>The values of the constants in ibc-go.\<close>

fun ibc_names :: "ibc_const \<Rightarrow> string" where
  "ibc_names ibcexported_StoreKey = ''ibc''"
| "ibc_names ibctransfertypes_StoreKey = ''transfer''"
| "ibc_names icahosttypes_StoreKey = ''icahost''"
| "ibc_names icacontrollertypes_StoreKey = ''icacontroller''"
| "ibc_names icahosttypes_SubModuleName = ''icahost''"
| "ibc_names icacontrollertypes_SubModuleName = ''icacontroller''"
| "ibc_names ibctransfertypes_PortID = ''transfer''"
| "ibc_names ibctm_ModuleName = ''07-tendermint''"
| "ibc_names solomachine_ModuleName = ''06-solomachine''"

lemma ibc_names_ok: "ibc_names_ok sdk_names ibc_names"
  by (simp add: ibc_names_ok_def)

text \<open>The routers are built without a panic.\<close>

lemma ibc_routers:
  assumes "ibc_names_ok C I"
  shows "add_routes (ibc_routes C I ks) Map.empty = Ret (map_of (ibc_routes C I ks))"
    "add_routes (ibc_routes_v2 I ks) Map.empty = Ret (map_of (ibc_routes_v2 I ks))"
  using assms
  by (simp_all only: add_routes_Ret [where r = Map.empty, simplified] ibc_names_ok_def ibc_routes_def
      ibc_routes_v2_def list.map fst_conv distinct_singleton)

text \<open>What is known of the application after a successful registration, if every call keeps it.\<close>

lemma registerIBCModules_Ret:
  assumes "registerIBCModules C I A app = (Ret (), app')" "ibc_names_ok C I"
  shows "\<exists>app1 ks. io_RegisterModules A (ibc_modules C I) app1 = (Ret (), app') \<and>
    ks = make_keepers C I (case io_GovModuleAddr A of Inl _ \<Rightarrow> '''' | Inr a \<Rightarrow> a) \<and>
    (\<exists>app2 app3. io_SetRouter A (map_of (ibc_routes C I ks)) app2 = (Ret (), app3))"
  using assms(1) by (auto simp: registerIBCModules_def Let_def proc_Ret ibc_routers [OF assms(2)])

end
