(* ===== verification/Export.thy ===== *)
theory Export
  imports Proc Store
begin

text \<open>
  \<open>app/export.go\<close>: the export of the application state, and \<open>prepForZeroHeightGenesis\<close>, which rewrites
  the state of the distribution, staking and slashing modules so that the exported genesis can start at
  height zero. The keepers of the SDK are the parameter \<open>X\<close>; every call takes the height of the context
  it is made with. An iterator is the list of the items it visits and the error it ends with.
\<close>

section \<open>The keepers\<close>

type_synonym i64 = "64 word"

text \<open>
  The structs of the SDK, with the fields the code reads or writes; the rest of a struct is opaque.
\<close>

record 'x SValidator =
  sv_Operator :: string
  sv_UnbondingHeight :: i64
  sv_Jailed :: bool
  sv_Rest :: 'x

record 'x Entry =
  en_CreationHeight :: i64
  en_Rest :: 'x

record 'x Redelegation =
  rd_Entries :: "'x Entry list"
  rd_Rest :: 'x

record 'x UnbondingDelegation =
  ub_Entries :: "'x Entry list"
  ub_Rest :: 'x

record Delegation =
  dl_DelegatorAddress :: string
  dl_ValidatorAddress :: string

record 'x SigningInfo =
  si_StartHeight :: i64
  si_Rest :: 'x

record ('c, 'x) FeePool =
  fp_CommunityPool :: 'c
  fp_Rest :: 'x

record ('s, 'c, 'x) export_ops =
  x_ValAddress :: "string \<Rightarrow> go_error + bytes"
  x_StakingValAddress :: "string \<Rightarrow> go_error + bytes"
  x_StakingValString :: "bytes \<Rightarrow> go_error + string"
  x_AccAddress :: "string \<Rightarrow> go_error + bytes"
  x_Validators :: "i64 \<Rightarrow> 's \<Rightarrow> 'x SValidator list \<times> go_error option"
  x_GetAllDelegations :: "i64 \<Rightarrow> 's \<Rightarrow> go_error + Delegation list"
  x_WithdrawValidatorCommission :: "i64 \<Rightarrow> bytes \<Rightarrow> ('s, unit) proc"
  x_WithdrawDelegationRewards :: "i64 \<Rightarrow> bytes \<Rightarrow> bytes \<Rightarrow> ('s, unit) proc"
  x_DeleteAllValidatorSlashEvents :: "i64 \<Rightarrow> 's \<Rightarrow> 's"
  x_DeleteAllValidatorHistoricalRewards :: "i64 \<Rightarrow> 's \<Rightarrow> 's"
  x_GetValidatorOutstandingRewardsCoins :: "i64 \<Rightarrow> bytes \<Rightarrow> 's \<Rightarrow> go_error + 'c"
  x_FeePool :: "i64 \<Rightarrow> ('s, ('c, 'x) FeePool) item_ops"
  x_addCoins :: "'c \<Rightarrow> 'c \<Rightarrow> 'c"
  x_AfterValidatorCreated :: "i64 \<Rightarrow> bytes \<Rightarrow> ('s, unit) proc"
  x_BeforeDelegationCreated :: "i64 \<Rightarrow> bytes \<Rightarrow> bytes \<Rightarrow> ('s, unit) proc"
  x_AfterDelegationModified :: "i64 \<Rightarrow> bytes \<Rightarrow> bytes \<Rightarrow> ('s, unit) proc"
  x_Redelegations :: "i64 \<Rightarrow> 's \<Rightarrow> 'x Redelegation list \<times> go_error option"
  x_SetRedelegation :: "i64 \<Rightarrow> 'x Redelegation \<Rightarrow> ('s, unit) proc"
  x_UnbondingDelegations :: "i64 \<Rightarrow> 's \<Rightarrow> 'x UnbondingDelegation list \<times> go_error option"
  x_SetUnbondingDelegation :: "i64 \<Rightarrow> 'x UnbondingDelegation \<Rightarrow> ('s, unit) proc"
  x_ValidatorAddrs :: "i64 \<Rightarrow> 's \<Rightarrow> bytes list"
  x_IterClose :: "'s \<Rightarrow> go_error option"
  x_GetValidator :: "i64 \<Rightarrow> bytes \<Rightarrow> 's \<Rightarrow> go_error + 'x SValidator"
  x_SetValidator :: "i64 \<Rightarrow> 'x SValidator \<Rightarrow> ('s, unit) proc"
  x_ApplyValidatorSetUpdates :: "i64 \<Rightarrow> ('s, unit) proc"
  x_SigningInfos :: "i64 \<Rightarrow> 's \<Rightarrow> (bytes \<times> 'x SigningInfo) list \<times> go_error option"
  x_SetValidatorSigningInfo :: "i64 \<Rightarrow> bytes \<Rightarrow> 'x SigningInfo \<Rightarrow> ('s, unit) proc"

section \<open>Distribution\<close>

text \<open>The addresses that need not be jailed; an address that does not parse is a panic.\<close>

fun allowed_addrs :: "('s, 'c, 'x) export_ops \<Rightarrow> string list \<Rightarrow> string set outcome" where
  "allowed_addrs X [] = Ret {}"
| "allowed_addrs X (addr # rest) =
     (case x_ValAddress X addr of
        Inl err \<Rightarrow> Panic err
      | Inr _ \<Rightarrow>
     (case allowed_addrs X rest of Ret m \<Rightarrow> Ret (insert addr m) | Err e \<Rightarrow> Err e | Panic e \<Rightarrow> Panic e))"

definition withdraw_commissions :: "('s, 'c, 'x) export_ops \<Rightarrow> i64 \<Rightarrow> ('s, unit) proc" where
  "withdraw_commissions X h =
     must (iterate
       (\<lambda>val. bindP (must (readP (\<lambda>_. x_StakingValAddress X (sv_Operator val))))
                (\<lambda>valBz. ignoring (x_WithdrawValidatorCommission X h valBz)))
       (x_Validators X h))"

definition withdraw_rewards :: "('s, 'c, 'x) export_ops \<Rightarrow> i64 \<Rightarrow> Delegation list \<Rightarrow> ('s, unit) proc" where
  "withdraw_rewards X h dels =
     each (\<lambda>delegation.
       bindP (must (readP (\<lambda>_. x_ValAddress X (dl_ValidatorAddress delegation)))) (\<lambda>valAddr.
       bindP (must (readP (\<lambda>_. x_AccAddress X (dl_DelegatorAddress delegation)))) (\<lambda>delAddr.
       ignoring (x_WithdrawDelegationRewards X h delAddr valAddr)))) dels"

text \<open>
  A validator's outstanding rewards go to the community pool, then the hook reinitialises its records.
\<close>

definition donate_rewards :: "('s, 'c, 'x) export_ops \<Rightarrow> i64 \<Rightarrow> bytes \<Rightarrow> ('s, unit) proc" where
  "donate_rewards X h valBz =
     bindP (must (readP (x_GetValidatorOutstandingRewardsCoins X h valBz))) (\<lambda>rewards.
     bindP (must (readP (i_get (x_FeePool X h)))) (\<lambda>feePool.
     must (writeP (\<lambda>s. i_set (x_FeePool X h) s
       (feePool\<lparr>fp_CommunityPool := x_addCoins X (fp_CommunityPool feePool) rewards\<rparr>)))))"

definition reinit_validator ::
    "('s, 'c, 'x) export_ops \<Rightarrow> i64 \<Rightarrow> 'x SValidator \<Rightarrow> ('s, unit) proc" where
  "reinit_validator X h val =
     bindP (must (readP (\<lambda>_. x_StakingValAddress X (sv_Operator val)))) (\<lambda>valBz.
     bindP (donate_rewards X h valBz) (\<lambda>_.
     must (x_AfterValidatorCreated X h valBz)))"

definition reinit_validators :: "('s, 'c, 'x) export_ops \<Rightarrow> i64 \<Rightarrow> ('s, unit) proc" where
  "reinit_validators X h = must (iterate (reinit_validator X h) (x_Validators X h))"

text \<open>The errors of the two hooks are wrapped before the panic.\<close>

definition must_with :: "string \<Rightarrow> ('s, unit) proc \<Rightarrow> ('s, unit) proc" where
  "must_with msg p s = (case p s of (Err e, s') \<Rightarrow> (Panic (Wrapf e msg []), s') | r \<Rightarrow> r)"

definition reinit_delegations :: "('s, 'c, 'x) export_ops \<Rightarrow> i64 \<Rightarrow> Delegation list \<Rightarrow> ('s, unit) proc" where
  "reinit_delegations X h dels =
     each (\<lambda>del.
       bindP (must (readP (\<lambda>_. x_ValAddress X (dl_ValidatorAddress del)))) (\<lambda>valAddr.
       bindP (must (readP (\<lambda>_. x_AccAddress X (dl_DelegatorAddress del)))) (\<lambda>delAddr.
       bindP (must_with ''error while incrementing period: %w''
                (x_BeforeDelegationCreated X h delAddr valAddr)) (\<lambda>_.
       must_with ''error while creating a new delegation period record: %w''
         (x_AfterDelegationModified X h delAddr valAddr))))) dels"

section \<open>Staking\<close>

definition zero_entry :: "'x Entry \<Rightarrow> 'x Entry" where
  "zero_entry e = e\<lparr>en_CreationHeight := 0\<rparr>"

definition reset_redelegations :: "('s, 'c, 'x) export_ops \<Rightarrow> i64 \<Rightarrow> ('s, unit) proc" where
  "reset_redelegations X h =
     must (iterate
       (\<lambda>red. must (x_SetRedelegation X h (red\<lparr>rd_Entries := map zero_entry (rd_Entries red)\<rparr>)))
       (x_Redelegations X h))"

definition reset_unbondings :: "('s, 'c, 'x) export_ops \<Rightarrow> i64 \<Rightarrow> ('s, unit) proc" where
  "reset_unbondings X h =
     must (iterate
       (\<lambda>ubd. must (x_SetUnbondingDelegation X h (ubd\<lparr>ub_Entries := map zero_entry (ub_Entries ubd)\<rparr>)))
       (x_UnbondingDelegations X h))"

definition expected_validator :: go_error where
  "expected_validator = Errorf ''expected validator, not found'' []"

definition reset_validator ::
    "('s, 'c, 'x) export_ops \<Rightarrow> i64 \<Rightarrow> bool \<Rightarrow> string set \<Rightarrow> bytes \<Rightarrow> ('s, unit) proc" where
  "reset_validator X h applyAllowedAddrs allowedAddrsMap addr s =
     (case x_GetValidator X h addr s of
        Inl _ \<Rightarrow> (Panic expected_validator, s)
      | Inr validator \<Rightarrow>
     (case x_StakingValString X addr of
        Inl err \<Rightarrow> (Panic err, s)
      | Inr valAddr \<Rightarrow>
     let validator = validator\<lparr>sv_UnbondingHeight := 0\<rparr>;
         validator = (if applyAllowedAddrs \<and> valAddr \<notin> allowedAddrsMap then validator\<lparr>sv_Jailed := True\<rparr>
                      else validator) in
     must (x_SetValidator X h validator) s))"

definition reset_validators ::
    "('s, 'c, 'x) export_ops \<Rightarrow> i64 \<Rightarrow> bool \<Rightarrow> string set \<Rightarrow> ('s, unit) proc" where
  "reset_validators X h applyAllowedAddrs allowedAddrsMap s =
     each (reset_validator X h applyAllowedAddrs allowedAddrsMap) (x_ValidatorAddrs X h s) s"

section \<open>Slashing\<close>

definition reset_signing_infos :: "('s, 'c, 'x) export_ops \<Rightarrow> i64 \<Rightarrow> ('s, unit) proc" where
  "reset_signing_infos X h =
     must (iterate
       (\<lambda>(addr, info). ignoring (x_SetValidatorSigningInfo X h addr (info\<lparr>si_StartHeight := 0\<rparr>)))
       (x_SigningInfos X h))"

section \<open>The preparation\<close>

text \<open>
  An iterator that fails to close is logged and ends the procedure: the validator set and the signing
  infos are then left as they are. The two reinitialisations run at height zero, the rest at the height
  \<open>h\<close> of the context.
\<close>

definition finish_staking :: "('s, 'c, 'x) export_ops \<Rightarrow> i64 \<Rightarrow> ('s, unit) proc" where
  "finish_staking X h s =
     (case x_IterClose X s of
        Some err \<Rightarrow> (Ret (), s)
      | None \<Rightarrow> seqP [must (x_ApplyValidatorSetUpdates X h), reset_signing_infos X h] s)"

definition prepForZeroHeightGenesis ::
    "('s, 'c, 'x) export_ops \<Rightarrow> i64 \<Rightarrow> string list \<Rightarrow> ('s, unit) proc" where
  "prepForZeroHeightGenesis X h jailAllowedAddrs =
     (let applyAllowedAddrs = (0 < length jailAllowedAddrs) in
      bindP (\<lambda>s. (allowed_addrs X jailAllowedAddrs, s)) (\<lambda>allowedAddrsMap.
      bindP (withdraw_commissions X h) (\<lambda>_.
      bindP (must (readP (x_GetAllDelegations X h))) (\<lambda>dels.
      seqP
        [withdraw_rewards X h dels,
         changeP (x_DeleteAllValidatorSlashEvents X h),
         changeP (x_DeleteAllValidatorHistoricalRewards X h),
         reinit_validators X 0,
         reinit_delegations X 0 dels,
         reset_redelegations X h,
         reset_unbondings X h,
         reset_validators X h applyAllowedAddrs allowedAddrsMap,
         finish_staking X h]))))"

section \<open>The export\<close>

record ('j, 'v, 'p) ExportedApp =
  ea_AppState :: 'j
  ea_Validators :: 'v
  ea_Height :: i64
  ea_ConsensusParams :: 'p

text \<open>
  \<open>exportGenesis\<close> is the module manager's export with \<open>json.MarshalIndent\<close> after it, \<open>writeValidators\<close>
  returns validators next to an error, as Go does; \<open>zero\<close> is the empty \<open>ExportedApp\<close>. The result is a
  value and an error.
\<close>

definition ExportAppStateAndValidators ::
    "('s, 'c, 'x) export_ops \<Rightarrow> (string list \<Rightarrow> 's \<Rightarrow> go_error + 'g) \<Rightarrow> ('g \<Rightarrow> go_error + 'j)
     \<Rightarrow> ('s \<Rightarrow> 'v \<times> go_error option) \<Rightarrow> ('s \<Rightarrow> 'p) \<Rightarrow> ('j, 'v, 'p) ExportedApp \<Rightarrow> i64
     \<Rightarrow> bool \<Rightarrow> string list \<Rightarrow> string list \<Rightarrow> ('s, ('j, 'v, 'p) ExportedApp \<times> go_error option) proc" where
  "ExportAppStateAndValidators X exportGenesis marshalIndent writeValidators consensusParams zero
       lastBlockHeight forZeroHeight jailAllowedAddrs modulesToExport =
     (let height = (if forZeroHeight then 0 else lastBlockHeight + 1) in
      bindP (if forZeroHeight then prepForZeroHeightGenesis X lastBlockHeight jailAllowedAddrs else retP ())
        (\<lambda>_ s.
          case exportGenesis modulesToExport s of
            Inl err \<Rightarrow> (Ret (zero, Some err), s)
          | Inr genState \<Rightarrow>
         (case marshalIndent genState of
            Inl err \<Rightarrow> (Ret (zero, Some err), s)
          | Inr appState \<Rightarrow>
         (let (validators, err) = writeValidators s in
          (Ret (\<lparr>ea_AppState = appState, ea_Validators = validators, ea_Height = height,
                ea_ConsensusParams = consensusParams s\<rparr>, err), s)))))"

end
