(* ===== verification/ExportSpec.thy ===== *)
theory ExportSpec
  imports Export
begin

text \<open>
  What \<open>prepForZeroHeightGenesis\<close> does, over an abstract view of the staking and slashing stores: four
  tables. The locale \<open>keyed_rows\<close> is the loop that replaces the rows of one table; \<open>zero_height\<close> is the
  contract of the keepers, under which the preparation implements \<open>zero_view\<close>; \<open>reward_pool\<close> is the
  contract of the distribution store under which no reward is lost.
\<close>

section \<open>Rows with a key\<close>

definition replace_row :: "('r \<Rightarrow> 'k) \<Rightarrow> 'r \<Rightarrow> 'r list \<Rightarrow> 'r list" where
  "replace_row key q rs = map (\<lambda>r. if key r = key q then q else r) rs"

lemma map_key_replace_row [simp]: "map key (replace_row key q rs) = map key rs"
  by (induction rs) (simp_all add: replace_row_def)

lemma replace_row_eq:
  assumes "distinct (map key rs)" "r \<in> set rs" "key (f r) = key r"
  shows "replace_row key (f r) rs = map (\<lambda>q. if key q = key r then f q else q) rs"
  unfolding replace_row_def
proof (rule map_cong [OF refl])
  fix q assume "q \<in> set rs"
  with assms(1,2) have "key q = key r \<Longrightarrow> q = r" by (auto simp: distinct_map dest: inj_onD)
  with assms(3) show "(if key q = key (f r) then f r else q) = (if key q = key r then f q else q)" by auto
qed

locale keyed_rows =
  fixes invar :: "'s \<Rightarrow> bool"
    and rows :: "'s \<Rightarrow> 'r list"
    and key :: "'r \<Rightarrow> 'k"
    and rest :: "'s \<Rightarrow> 'z"
    and f :: "'r \<Rightarrow> 'r"
  assumes distinct_rows: "invar s \<Longrightarrow> distinct (map key (rows s))"
    and key_f: "key (f r) = key r"
begin

text \<open>
  A loop whose step replaces the row of its item by its image under \<open>f\<close> maps \<open>f\<close> over the rows of all
  items. \<open>good i r\<close> relates the item the iterator read to the row present when its turn comes.
\<close>

lemma each_replaces:
  assumes step: "\<And>i r s. invar s \<Longrightarrow> r \<in> set (rows s) \<Longrightarrow> key r = kf i \<Longrightarrow> good i r \<Longrightarrow>
      \<exists>s'. step i s = (Ret (), s') \<and> invar s' \<and> rows s' = replace_row key (f r) (rows s) \<and> rest s' = rest s"
    and "invar s" "distinct (map kf xs)"
    and "\<forall>i \<in> set xs. \<exists>r \<in> set (rows s). key r = kf i \<and> good i r"
  shows "\<exists>s'. each step xs s = (Ret (), s') \<and> invar s' \<and> rest s' = rest s \<and>
    rows s' = map (\<lambda>r. if key r \<in> kf ` set xs then f r else r) (rows s)"
  using assms(2-4)
proof (induction xs arbitrary: s)
  case Nil
  then show ?case by (simp add: retP_def)
next
  case (Cons i xs)
  then obtain r where r: "r \<in> set (rows s)" "key r = kf i" "good i r" by auto
  then obtain s' where s': "step i s = (Ret (), s')" "invar s'"
    "rows s' = replace_row key (f r) (rows s)" "rest s' = rest s"
    using step Cons.prems(1) by blast
  have eq: "rows s' = map (\<lambda>q. if key q = kf i then f q else q) (rows s)"
    unfolding s'(3) using replace_row_eq [of key "rows s" r f] distinct_rows [OF Cons.prems(1)] r(1,2) key_f by simp
  have "\<forall>j \<in> set xs. \<exists>q \<in> set (rows s'). key q = kf j \<and> good j q"
  proof
    fix j assume j: "j \<in> set xs"
    then obtain q where "q \<in> set (rows s)" "key q = kf j" "good j q" using Cons.prems(3) by auto
    moreover have "kf j \<noteq> kf i" using Cons.prems(2) j by (auto simp: image_iff)
    ultimately show "\<exists>q \<in> set (rows s'). key q = kf j \<and> good j q" unfolding eq by force
  qed
  with Cons.IH [of s'] s'(2) Cons.prems(2) obtain s'' where
    s'': "each step xs s' = (Ret (), s'')" "invar s''" "rest s'' = rest s'"
      "rows s'' = map (\<lambda>r. if key r \<in> kf ` set xs then f r else r) (rows s')" by auto
  have "rows s'' = map (\<lambda>r. if key r \<in> kf ` set (i # xs) then f r else r) (rows s)"
    using Cons.prems(2) unfolding s''(4) eq by (auto simp: key_f)
  with s' s'' show ?case by (simp add: bindP_def)
qed

text \<open>Iterating over the rows themselves, or over all their keys, changes every row.\<close>

lemma each_row_replaces:
  assumes "\<And>r s. invar s \<Longrightarrow> r \<in> set (rows s) \<Longrightarrow>
      \<exists>s'. step r s = (Ret (), s') \<and> invar s' \<and> rows s' = replace_row key (f r) (rows s) \<and> rest s' = rest s"
    and "invar s"
  shows "\<exists>s'. each step (rows s) s = (Ret (), s') \<and> invar s' \<and> rest s' = rest s \<and> rows s' = map f (rows s)"
proof -
  from each_replaces [where good = "\<lambda>i r. i = r" and kf = key and step = step and s = s and xs = "rows s"]
  obtain s' where "each step (rows s) s = (Ret (), s')" "invar s'" "rest s' = rest s"
    "rows s' = map (\<lambda>r. if key r \<in> key ` set (rows s) then f r else r) (rows s)"
    using assms distinct_rows [of s] by blast
  then show ?thesis by auto
qed

lemma each_key_replaces:
  assumes "\<And>i r s. invar s \<Longrightarrow> r \<in> set (rows s) \<Longrightarrow> key r = i \<Longrightarrow>
      \<exists>s'. step i s = (Ret (), s') \<and> invar s' \<and> rows s' = replace_row key (f r) (rows s) \<and> rest s' = rest s"
    and "invar s" "distinct ks" "set ks = key ` set (rows s)"
  shows "\<exists>s'. each step ks s = (Ret (), s') \<and> invar s' \<and> rest s' = rest s \<and> rows s' = map f (rows s)"
proof -
  from each_replaces [where good = "\<lambda>i r. True" and kf = "\<lambda>i. i" and step = step and s = s and xs = ks]
  obtain s' where "each step ks s = (Ret (), s')" "invar s'" "rest s' = rest s"
    "rows s' = map (\<lambda>r. if key r \<in> (\<lambda>i. i) ` set ks then f r else r) (rows s)"
    using assms by fastforce
  then show ?thesis using assms(4) by auto
qed

end

section \<open>Steps that leave the view alone\<close>

definition stays :: "('s \<Rightarrow> bool) \<Rightarrow> ('s \<Rightarrow> 'v) \<Rightarrow> ('v \<Rightarrow> bool) \<Rightarrow> ('s, unit) proc \<Rightarrow> bool" where
  "stays invar view P p \<longleftrightarrow>
     (\<forall>s. invar s \<and> P (view s) \<longrightarrow> (\<exists>s'. p s = (Ret (), s') \<and> invar s' \<and> view s' = view s))"

named_theorems stays_intros \<open>composition of steps that leave the view alone\<close>

lemma staysD:
  assumes "stays invar view P p" "invar s" "P (view s)"
  obtains s' where "p s = (Ret (), s')" "invar s'" "view s' = view s"
  using assms unfolding stays_def by blast

lemma stays_retP [stays_intros]: "stays invar view P (retP ())"
  by (simp add: stays_def retP_def)

lemma stays_bindP [stays_intros]:
  "stays invar view P p \<Longrightarrow> stays invar view P q \<Longrightarrow> stays invar view P (bindP p (\<lambda>_. q))"
  unfolding stays_def bindP_def by fastforce

lemma stays_must [stays_intros]: "stays invar view P p \<Longrightarrow> stays invar view P (must p)"
  unfolding stays_def must_def by fastforce

lemma stays_must_with [stays_intros]: "stays invar view P p \<Longrightarrow> stays invar view P (must_with m p)"
  unfolding stays_def must_with_def by fastforce

lemma stays_each [stays_intros]:
  "(\<And>x. x \<in> set xs \<Longrightarrow> stays invar view P (f x)) \<Longrightarrow> stays invar view P (each f xs)"
  by (induction xs) (auto intro!: stays_intros)

lemma stays_seqP [stays_intros]:
  "(\<And>p. p \<in> set ps \<Longrightarrow> stays invar view P p) \<Longrightarrow> stays invar view P (seqP ps)"
  by (induction ps) (auto intro!: stays_intros)

lemma stays_read [stays_intros]:
  assumes "\<And>s. invar s \<Longrightarrow> P (view s) \<Longrightarrow> \<exists>x. f s = Inr x \<and> stays invar view P (g x)"
  shows "stays invar view P (bindP (must (readP f)) g)"
  using assms unfolding stays_def bindP_def must_def readP_def
  by (fastforce split: sum.splits)

lemma stays_const:
  "c = Inr x \<Longrightarrow> stays invar view P (g x) \<Longrightarrow> stays invar view P (bindP (must (readP (\<lambda>_. c))) g)"
  by (rule stays_read) auto

lemma stays_iterate [stays_intros]:
  assumes "\<And>s. invar s \<Longrightarrow> P (view s) \<Longrightarrow> \<exists>xs. items s = (xs, None) \<and> (\<forall>x \<in> set xs. stays invar view P (f x))"
  shows "stays invar view P (iterate f items)"
  unfolding stays_def
proof (intro allI impI)
  fix s assume s: "invar s \<and> P (view s)"
  then obtain xs where xs: "items s = (xs, None)" "\<forall>x \<in> set xs. stays invar view P (f x)"
    using assms by blast
  have "stays invar view P (each f xs)" by (rule stays_each) (use xs(2) in blast)
  with s xs(1) show "\<exists>s'. iterate f items s = (Ret (), s') \<and> invar s' \<and> view s' = view s"
    unfolding stays_def iterate_def bindP_def by (fastforce simp: retP_def)
qed

section \<open>The abstract preparation\<close>

record 'x staking_view =
  vw_validators :: "(bytes \<times> 'x SValidator) list"
  vw_delegations :: "Delegation list"
  vw_redelegations :: "'x Redelegation list"
  vw_unbondings :: "'x UnbondingDelegation list"
  vw_infos :: "(bytes \<times> 'x SigningInfo) list"

definition zero_validator :: "bool \<Rightarrow> string set \<Rightarrow> 'x SValidator \<Rightarrow> 'x SValidator" where
  "zero_validator applyAllowed allowed v =
     v\<lparr>sv_UnbondingHeight := 0, sv_Jailed := sv_Jailed v \<or> applyAllowed \<and> sv_Operator v \<notin> allowed\<rparr>"

definition zero_redelegation :: "'x Redelegation \<Rightarrow> 'x Redelegation" where
  "zero_redelegation r = r\<lparr>rd_Entries := map zero_entry (rd_Entries r)\<rparr>"

definition zero_unbonding :: "'x UnbondingDelegation \<Rightarrow> 'x UnbondingDelegation" where
  "zero_unbonding u = u\<lparr>ub_Entries := map zero_entry (ub_Entries u)\<rparr>"

definition zero_info :: "'x SigningInfo \<Rightarrow> 'x SigningInfo" where
  "zero_info i = i\<lparr>si_StartHeight := 0\<rparr>"

text \<open>The staking part, which precedes the update of the validator set, and the slashing part.\<close>

definition zero_staking :: "bool \<Rightarrow> string set \<Rightarrow> 'x staking_view \<Rightarrow> 'x staking_view" where
  "zero_staking applyAllowed allowed v =
     v\<lparr>vw_validators := map (\<lambda>(a, val). (a, zero_validator applyAllowed allowed val)) (vw_validators v),
       vw_redelegations := map zero_redelegation (vw_redelegations v),
       vw_unbondings := map zero_unbonding (vw_unbondings v)\<rparr>"

definition zero_slashing :: "'x staking_view \<Rightarrow> 'x staking_view" where
  "zero_slashing v = v\<lparr>vw_infos := map (\<lambda>(a, i). (a, zero_info i)) (vw_infos v)\<rparr>"

lemma view_eqI:
  fixes v w :: "'x staking_view"
  shows "v\<lparr>vw_validators := []\<rparr> = w\<lparr>vw_validators := []\<rparr> \<Longrightarrow> vw_validators v = vs \<Longrightarrow> v = w\<lparr>vw_validators := vs\<rparr>"
    "v\<lparr>vw_redelegations := []\<rparr> = w\<lparr>vw_redelegations := []\<rparr> \<Longrightarrow> vw_redelegations v = rs \<Longrightarrow>
       v = w\<lparr>vw_redelegations := rs\<rparr>"
    "v\<lparr>vw_unbondings := []\<rparr> = w\<lparr>vw_unbondings := []\<rparr> \<Longrightarrow> vw_unbondings v = us \<Longrightarrow> v = w\<lparr>vw_unbondings := us\<rparr>"
    "v\<lparr>vw_infos := []\<rparr> = w\<lparr>vw_infos := []\<rparr> \<Longrightarrow> vw_infos v = is \<Longrightarrow> v = w\<lparr>vw_infos := is\<rparr>"
  by (cases v; cases w; simp)+

section \<open>The contract of the keepers\<close>

text \<open>
  The iterators visit the rows of the view; a redelegation and an unbonding delegation are keyed by the
  addresses in them, all their fields but the entries. The calls of the distribution keeper do not touch
  the view. Of the update of the validator set nothing is assumed but that it leaves the tables in order when
  it returns: it may fail, panic (on a jailed validator that still has power) and change any row.
\<close>

locale zero_height =
  fixes X :: "('s, 'c, 'x) export_ops"
    and invar :: "'s \<Rightarrow> bool"
    and view :: "'s \<Rightarrow> 'x staking_view"
  assumes validators: "invar s \<Longrightarrow> x_Validators X h s = (map snd (vw_validators (view s)), None)"
    and addrs: "invar s \<Longrightarrow> x_ValidatorAddrs X h s = rev (map fst (vw_validators (view s)))"
    and delegations: "invar s \<Longrightarrow> x_GetAllDelegations X h s = Inr (vw_delegations (view s))"
    and redelegations: "invar s \<Longrightarrow> x_Redelegations X h s = (vw_redelegations (view s), None)"
    and unbondings: "invar s \<Longrightarrow> x_UnbondingDelegations X h s = (vw_unbondings (view s), None)"
    and infos: "invar s \<Longrightarrow> x_SigningInfos X h s = (vw_infos (view s), None)"
    and keys: "invar s \<Longrightarrow> distinct (map fst (vw_validators (view s)))"
      "invar s \<Longrightarrow> distinct (map rd_Rest (vw_redelegations (view s)))"
      "invar s \<Longrightarrow> distinct (map ub_Rest (vw_unbondings (view s)))"
      "invar s \<Longrightarrow> distinct (map fst (vw_infos (view s)))"
    and operator: "invar s \<Longrightarrow> (a, v) \<in> set (vw_validators (view s)) \<Longrightarrow>
      x_StakingValAddress X (sv_Operator v) = Inr a \<and> x_StakingValString X a = Inr (sv_Operator v)"
    and delegation: "invar s \<Longrightarrow> d \<in> set (vw_delegations (view s)) \<Longrightarrow>
      \<exists>va da. x_ValAddress X (dl_ValidatorAddress d) = Inr va \<and> x_AccAddress X (dl_DelegatorAddress d) = Inr da \<and>
        va \<in> fst ` set (vw_validators (view s))"
    and get_validator: "invar s \<Longrightarrow> (a, v) \<in> set (vw_validators (view s)) \<Longrightarrow> x_GetValidator X h a s = Inr v"
    and set_validator: "invar s \<Longrightarrow> x_StakingValAddress X (sv_Operator v) = Inr a \<Longrightarrow>
      a \<in> fst ` set (vw_validators (view s)) \<Longrightarrow> \<exists>s'. x_SetValidator X h v s = (Ret (), s') \<and> invar s' \<and>
        view s' = (view s)\<lparr>vw_validators := replace_row fst (a, v) (vw_validators (view s))\<rparr>"
    and set_redelegation: "invar s \<Longrightarrow> rd_Rest r \<in> rd_Rest ` set (vw_redelegations (view s)) \<Longrightarrow>
      \<exists>s'. x_SetRedelegation X h r s = (Ret (), s') \<and> invar s' \<and>
        view s' = (view s)\<lparr>vw_redelegations := replace_row rd_Rest r (vw_redelegations (view s))\<rparr>"
    and set_unbonding: "invar s \<Longrightarrow> ub_Rest u \<in> ub_Rest ` set (vw_unbondings (view s)) \<Longrightarrow>
      \<exists>s'. x_SetUnbondingDelegation X h u s = (Ret (), s') \<and> invar s' \<and>
        view s' = (view s)\<lparr>vw_unbondings := replace_row ub_Rest u (vw_unbondings (view s))\<rparr>"
    and set_info: "invar s \<Longrightarrow> a \<in> fst ` set (vw_infos (view s)) \<Longrightarrow>
      \<exists>s'. x_SetValidatorSigningInfo X h a i s = (Ret (), s') \<and> invar s' \<and>
        view s' = (view s)\<lparr>vw_infos := replace_row fst (a, i) (vw_infos (view s))\<rparr>"
    and withdraw: "stays invar view (\<lambda>_. True) (ignoring (x_WithdrawValidatorCommission X h va))"
      "stays invar view (\<lambda>_. True) (ignoring (x_WithdrawDelegationRewards X h da va))"
    and delete: "stays invar view (\<lambda>_. True) (changeP (x_DeleteAllValidatorSlashEvents X h))"
      "stays invar view (\<lambda>_. True) (changeP (x_DeleteAllValidatorHistoricalRewards X h))"
    and outstanding: "invar s \<Longrightarrow> \<exists>c. x_GetValidatorOutstandingRewardsCoins X h va s = Inr c"
    and get_pool: "invar s \<Longrightarrow> \<exists>p. i_get (x_FeePool X h) s = Inr p"
    and set_pool: "stays invar view (\<lambda>_. True) (writeP (\<lambda>s. i_set (x_FeePool X h) s p))"
    and created: "stays invar view (\<lambda>v. va \<in> fst ` set (vw_validators v)) (x_AfterValidatorCreated X h va)"
    and delegated:
      "stays invar view (\<lambda>v. va \<in> fst ` set (vw_validators v)) (x_BeforeDelegationCreated X h da va)"
      "stays invar view (\<lambda>v. va \<in> fst ` set (vw_validators v)) (x_AfterDelegationModified X h da va)"
    and closes: "invar s \<Longrightarrow> x_IterClose X s = None"
    and updates: "invar s \<Longrightarrow> x_ApplyValidatorSetUpdates X h s = (Ret (), s') \<Longrightarrow> invar s'"
begin

text \<open>The distribution part leaves the view alone. The steps are judged in the states with view \<open>V\<close>.\<close>

abbreviation at :: "'x staking_view \<Rightarrow> ('s, unit) proc \<Rightarrow> bool" where
  "at V p \<equiv> stays invar view (\<lambda>v. v = V) p"

lemma at_imp: "stays invar view P p \<Longrightarrow> P V \<Longrightarrow> at V p"
  by (auto simp: stays_def)

lemma commissions_at: "at V (withdraw_commissions X h)"
  unfolding withdraw_commissions_def
proof (intro stays_must stays_iterate exI conjI)
  fix s assume s: "invar s" "view s = V"
  then show "x_Validators X h s = (map snd (vw_validators V), None)" using validators by simp
  have "at V (bindP (must (readP (\<lambda>_. x_StakingValAddress X (sv_Operator val))))
      (\<lambda>valBz. ignoring (x_WithdrawValidatorCommission X h valBz)))"
    if "(a, val) \<in> set (vw_validators V)" for a val
    using operator [OF s(1)] s(2) that
    by (intro stays_const [of _ a] at_imp [OF withdraw(1)]) simp_all
  then show "\<forall>val \<in> set (map snd (vw_validators V)).
      at V (bindP (must (readP (\<lambda>_. x_StakingValAddress X (sv_Operator val))))
      (\<lambda>valBz. ignoring (x_WithdrawValidatorCommission X h valBz)))" by auto
qed

lemma rewards_at:
  assumes "\<And>d. d \<in> set dels \<Longrightarrow> \<exists>va da. x_ValAddress X (dl_ValidatorAddress d) = Inr va \<and>
      x_AccAddress X (dl_DelegatorAddress d) = Inr da"
  shows "at V (withdraw_rewards X h dels)"
  unfolding withdraw_rewards_def
proof (rule stays_each)
  fix d assume "d \<in> set dels"
  with assms obtain va da where "x_ValAddress X (dl_ValidatorAddress d) = Inr va"
    "x_AccAddress X (dl_DelegatorAddress d) = Inr da" by blast
  then show "at V (bindP (must (readP (\<lambda>_. x_ValAddress X (dl_ValidatorAddress d)))) (\<lambda>valAddr.
      bindP (must (readP (\<lambda>_. x_AccAddress X (dl_DelegatorAddress d)))) (\<lambda>delAddr.
      ignoring (x_WithdrawDelegationRewards X h delAddr valAddr))))"
    by (intro stays_const [OF _ stays_const] at_imp [OF withdraw(2)]) simp_all
qed

lemma donate_at: "at V (donate_rewards X h va)"
  unfolding donate_rewards_def
proof (intro stays_read)
  fix s assume s: "invar s"
  have set: "at V (must (writeP (\<lambda>s. i_set (x_FeePool X h) s p)))" for p
    by (intro stays_must at_imp [OF set_pool]) simp
  have "at V (bindP (must (readP (i_get (x_FeePool X h)))) (\<lambda>feePool. must (writeP (\<lambda>s. i_set (x_FeePool X h) s
      (feePool\<lparr>fp_CommunityPool := x_addCoins X (fp_CommunityPool feePool) c\<rparr>)))))" for c
    using get_pool set by (intro stays_read) blast
  with outstanding [OF s] show "\<exists>c. x_GetValidatorOutstandingRewardsCoins X h va s = Inr c \<and>
      at V (bindP (must (readP (i_get (x_FeePool X h)))) (\<lambda>feePool. must (writeP (\<lambda>s. i_set (x_FeePool X h) s
      (feePool\<lparr>fp_CommunityPool := x_addCoins X (fp_CommunityPool feePool) c\<rparr>)))))" by blast
qed

lemma reinit_validators_at: "at V (reinit_validators X h)"
  unfolding reinit_validators_def
proof (intro stays_must stays_iterate exI conjI)
  fix s assume s: "invar s" "view s = V"
  then show "x_Validators X h s = (map snd (vw_validators V), None)" using validators by simp
  have "at V (reinit_validator X h val)"
    if "(a, val) \<in> set (vw_validators V)" for a val
  proof -
    have "at V (x_AfterValidatorCreated X h a)" using that by (intro at_imp [OF created]) force
    then show ?thesis
      using operator [OF s(1)] s(2) that
      unfolding reinit_validator_def
      by (intro stays_const [of _ a] stays_bindP donate_at stays_must) simp_all
  qed
  then show "\<forall>val \<in> set (map snd (vw_validators V)). at V (reinit_validator X h val)" by auto
qed

lemma reinit_delegations_at:
  assumes "\<And>d. d \<in> set dels \<Longrightarrow> \<exists>va da. x_ValAddress X (dl_ValidatorAddress d) = Inr va \<and>
      x_AccAddress X (dl_DelegatorAddress d) = Inr da \<and> va \<in> fst ` set (vw_validators V)"
  shows "at V (reinit_delegations X h dels)"
  unfolding reinit_delegations_def
proof (rule stays_each)
  fix d assume "d \<in> set dels"
  with assms obtain va da where d: "x_ValAddress X (dl_ValidatorAddress d) = Inr va"
    "x_AccAddress X (dl_DelegatorAddress d) = Inr da" "va \<in> fst ` set (vw_validators V)" by blast
  from d show "at V (bindP (must (readP (\<lambda>_. x_ValAddress X (dl_ValidatorAddress d)))) (\<lambda>valAddr.
      bindP (must (readP (\<lambda>_. x_AccAddress X (dl_DelegatorAddress d)))) (\<lambda>delAddr.
      bindP (must_with ''error while incrementing period: %w''
               (x_BeforeDelegationCreated X h delAddr valAddr)) (\<lambda>_.
      must_with ''error while creating a new delegation period record: %w''
        (x_AfterDelegationModified X h delAddr valAddr)))))"
    by - (rule stays_const [of _ va], simp, rule stays_const [of _ da], simp,
      intro stays_bindP stays_must_with at_imp [OF delegated(1)] at_imp [OF delegated(2)], simp_all)
qed

text \<open>The staking part resets the three tables, the slashing part the signing infos.\<close>

lemma redelegations_reset:
  assumes "invar s"
  shows "\<exists>s'. reset_redelegations X h s = (Ret (), s') \<and> invar s' \<and>
    view s' = (view s)\<lparr>vw_redelegations := map zero_redelegation (vw_redelegations (view s))\<rparr>"
proof -
  let ?rest = "\<lambda>s. (view s)\<lparr>vw_redelegations := []\<rparr>"
  let ?step = "\<lambda>r. must (x_SetRedelegation X h (zero_redelegation r))"
  have K: "keyed_rows invar (\<lambda>s. vw_redelegations (view s)) rd_Rest zero_redelegation"
    by unfold_locales (simp_all add: keys zero_redelegation_def)
  have "\<exists>s'. ?step r s = (Ret (), s') \<and> invar s' \<and> ?rest s' = ?rest s \<and>
      vw_redelegations (view s') = replace_row rd_Rest (zero_redelegation r) (vw_redelegations (view s))"
    if s: "invar s" "r \<in> set (vw_redelegations (view s))" for r s
  proof -
    have "rd_Rest (zero_redelegation r) \<in> rd_Rest ` set (vw_redelegations (view s))"
      using s(2) by (auto simp: zero_redelegation_def)
    from set_redelegation [OF s(1) this, of h] show ?thesis by (auto simp: must_def)
  qed
  with keyed_rows.each_row_replaces [OF K, of ?step ?rest s] assms obtain s' where
    "each ?step (vw_redelegations (view s)) s = (Ret (), s')" "invar s'" "?rest s' = ?rest s"
    "vw_redelegations (view s') = map zero_redelegation (vw_redelegations (view s))" by blast
  then show ?thesis
    using view_eqI(2) [OF \<open>?rest s' = ?rest s\<close> refl]
    by (intro exI [of _ s']) (simp add: reset_redelegations_def must_def iterate_def
        redelegations [OF assms] bindP_def retP_def flip: zero_redelegation_def)
qed

lemma unbondings_reset:
  assumes "invar s"
  shows "\<exists>s'. reset_unbondings X h s = (Ret (), s') \<and> invar s' \<and>
    view s' = (view s)\<lparr>vw_unbondings := map zero_unbonding (vw_unbondings (view s))\<rparr>"
proof -
  let ?rest = "\<lambda>s. (view s)\<lparr>vw_unbondings := []\<rparr>"
  let ?step = "\<lambda>u. must (x_SetUnbondingDelegation X h (zero_unbonding u))"
  have K: "keyed_rows invar (\<lambda>s. vw_unbondings (view s)) ub_Rest zero_unbonding"
    by unfold_locales (simp_all add: keys zero_unbonding_def)
  have "\<exists>s'. ?step u s = (Ret (), s') \<and> invar s' \<and> ?rest s' = ?rest s \<and>
      vw_unbondings (view s') = replace_row ub_Rest (zero_unbonding u) (vw_unbondings (view s))"
    if s: "invar s" "u \<in> set (vw_unbondings (view s))" for u s
  proof -
    have "ub_Rest (zero_unbonding u) \<in> ub_Rest ` set (vw_unbondings (view s))"
      using s(2) by (auto simp: zero_unbonding_def)
    from set_unbonding [OF s(1) this, of h] show ?thesis by (auto simp: must_def)
  qed
  with keyed_rows.each_row_replaces [OF K, of ?step ?rest s] assms obtain s' where
    "each ?step (vw_unbondings (view s)) s = (Ret (), s')" "invar s'" "?rest s' = ?rest s"
    "vw_unbondings (view s') = map zero_unbonding (vw_unbondings (view s))" by blast
  then show ?thesis
    using view_eqI(3) [OF \<open>?rest s' = ?rest s\<close> refl]
    by (intro exI [of _ s']) (simp add: reset_unbondings_def must_def iterate_def
        unbondings [OF assms] bindP_def retP_def flip: zero_unbonding_def)
qed

lemma infos_reset:
  assumes "invar s"
  shows "\<exists>s'. reset_signing_infos X h s = (Ret (), s') \<and> invar s' \<and> view s' = zero_slashing (view s)"
proof -
  let ?rest = "\<lambda>s. (view s)\<lparr>vw_infos := []\<rparr>"
  let ?f = "\<lambda>(a, i). (a, zero_info i)"
  let ?step = "\<lambda>(a, i). ignoring (x_SetValidatorSigningInfo X h a (zero_info i))"
  have K: "keyed_rows invar (\<lambda>s. vw_infos (view s)) fst ?f"
    by unfold_locales (auto simp: keys)
  have "\<exists>s'. ?step r s = (Ret (), s') \<and> invar s' \<and> ?rest s' = ?rest s \<and>
      vw_infos (view s') = replace_row fst (?f r) (vw_infos (view s))"
    if s: "invar s" "r \<in> set (vw_infos (view s))" for r s
  proof -
    obtain a i where r: "r = (a, i)" by (cases r)
    then have "a \<in> fst ` set (vw_infos (view s))" using s(2) by force
    from set_info [OF s(1) this, of h "zero_info i"] show ?thesis by (auto simp: r ignoring_def)
  qed
  with keyed_rows.each_row_replaces [OF K, of ?step ?rest s] assms obtain s' where
    "each ?step (vw_infos (view s)) s = (Ret (), s')" "invar s'" "?rest s' = ?rest s"
    "vw_infos (view s') = map ?f (vw_infos (view s))" by blast
  then show ?thesis
    using view_eqI(4) [OF \<open>?rest s' = ?rest s\<close> refl]
    by (intro exI [of _ s']) (simp add: reset_signing_infos_def must_def iterate_def zero_slashing_def
        infos [OF assms] bindP_def retP_def flip: zero_info_def)
qed

lemma validators_reset:
  assumes "invar s"
  shows "\<exists>s'. reset_validators X h b allowed s = (Ret (), s') \<and> invar s' \<and>
    view s' = (view s)\<lparr>vw_validators := map (\<lambda>(a, v). (a, zero_validator b allowed v)) (vw_validators (view s))\<rparr>"
proof -
  let ?rest = "\<lambda>s. (view s)\<lparr>vw_validators := []\<rparr>"
  let ?f = "\<lambda>(a, v). (a, zero_validator b allowed v)"
  have K: "keyed_rows invar (\<lambda>s. vw_validators (view s)) fst ?f"
    by unfold_locales (auto simp: keys)
  have "\<exists>s'. reset_validator X h b allowed a s = (Ret (), s') \<and> invar s' \<and> ?rest s' = ?rest s \<and>
      vw_validators (view s') = replace_row fst (?f r) (vw_validators (view s))"
    if s: "invar s" "r \<in> set (vw_validators (view s))" "fst r = a" for a r s
  proof -
    obtain v where r: "r = (a, v)" using s(3) by (cases r) simp
    note o = operator [OF s(1), of a v] get_validator [OF s(1), of a v h]
    have "sv_Operator (zero_validator b allowed v) = sv_Operator v" by (simp add: zero_validator_def)
    moreover have "a \<in> fst ` set (vw_validators (view s))" using s(2) r by force
    ultimately obtain s' where "x_SetValidator X h (zero_validator b allowed v) s = (Ret (), s')" "invar s'"
      "view s' = (view s)\<lparr>vw_validators := replace_row fst (a, zero_validator b allowed v) (vw_validators (view s))\<rparr>"
      using set_validator [OF s(1), of "zero_validator b allowed v" a h] o s(2) r by auto
    moreover have "zero_validator b allowed v = (let w = v\<lparr>sv_UnbondingHeight := 0\<rparr> in
        if b \<and> sv_Operator v \<notin> allowed then w\<lparr>sv_Jailed := True\<rparr> else w)"
      by (cases v) (auto simp: zero_validator_def Let_def)
    ultimately show ?thesis
      using o s(2) r by (intro exI [of _ s']) (auto simp: reset_validator_def must_def Let_def)
  qed
  moreover have "distinct (x_ValidatorAddrs X h s)"
    "set (x_ValidatorAddrs X h s) = fst ` set (vw_validators (view s))"
    using keys(1) [OF assms] by (simp_all add: addrs [OF assms])
  ultimately obtain s' where
    "each (reset_validator X h b allowed) (x_ValidatorAddrs X h s) s = (Ret (), s')" "invar s'" "?rest s' = ?rest s"
    "vw_validators (view s') = map ?f (vw_validators (view s))"
    using keyed_rows.each_key_replaces [OF K, of "reset_validator X h b allowed" ?rest s "x_ValidatorAddrs X h s"]
      assms by blast
  then show ?thesis
    using view_eqI(1) [OF \<open>?rest s' = ?rest s\<close> refl]
    by (intro exI [of _ s']) (simp add: reset_validators_def)
qed

text \<open>
  The whole preparation returns. Just before the validator set is updated, the view is \<open>zero_staking\<close>
  of the view at the start; the update may then change validators only, and the signing infos end at
  height zero.
\<close>

lemma allowed_addrs_Ret:
  "\<forall>a \<in> set addrs. \<exists>bz. x_ValAddress X a = Inr bz \<Longrightarrow> allowed_addrs X addrs = Ret (set addrs)"
  by (induction addrs) auto

lemma at_runs: "at (view s) p \<Longrightarrow> invar s \<Longrightarrow> \<exists>s'. p s = (Ret (), s') \<and> invar s' \<and> view s' = view s"
  by (auto simp: stays_def)

lemma prep_runs:
  assumes inv: "invar s" and parse: "\<forall>a \<in> set addrs. \<exists>bz. x_ValAddress X a = Inr bz"
  shows "\<exists>s1. prepForZeroHeightGenesis X h addrs s = finish_staking X h s1 \<and> invar s1 \<and>
    view s1 = zero_staking (0 < length addrs) (set addrs) (view s)"
proof -
  let ?V = "view s" and ?b = "0 < length addrs" and ?A = "set addrs"
  let ?dels = "vw_delegations ?V"
  have d: "\<exists>va da. x_ValAddress X (dl_ValidatorAddress d) = Inr va \<and> x_AccAddress X (dl_DelegatorAddress d) = Inr da \<and>
      va \<in> fst ` set (vw_validators ?V)" if "d \<in> set ?dels" for d
    using delegation [OF inv that] .
  obtain s0 where s0: "withdraw_commissions X h s = (Ret (), s0)" "invar s0" "view s0 = ?V"
    using at_runs [OF commissions_at inv] by blast
  let ?dist = "[withdraw_rewards X h ?dels, changeP (x_DeleteAllValidatorSlashEvents X h),
      changeP (x_DeleteAllValidatorHistoricalRewards X h), reinit_validators X 0, reinit_delegations X 0 ?dels]"
  have "at ?V (seqP ?dist)"
  proof (rule stays_seqP)
    fix p assume "p \<in> set ?dist"
    then consider "p = withdraw_rewards X h ?dels" | "p = changeP (x_DeleteAllValidatorSlashEvents X h)" |
      "p = changeP (x_DeleteAllValidatorHistoricalRewards X h)" | "p = reinit_validators X 0" |
      "p = reinit_delegations X 0 ?dels" by auto
    then show "at ?V p"
      using rewards_at [of ?dels ?V h] reinit_delegations_at [of ?dels ?V 0] d reinit_validators_at [of ?V 0]
        at_imp [OF delete(1)] at_imp [OF delete(2)] by cases blast+
  qed
  with at_runs [of s0 "seqP ?dist"] s0 obtain sd where
    sd: "seqP ?dist s0 = (Ret (), sd)" "invar sd" "view sd = ?V" by auto
  obtain sr where sr: "reset_redelegations X h sd = (Ret (), sr)" "invar sr"
    "view sr = ?V\<lparr>vw_redelegations := map zero_redelegation (vw_redelegations ?V)\<rparr>"
    using redelegations_reset [OF sd(2), of h] sd(3) by auto
  obtain su where su: "reset_unbondings X h sr = (Ret (), su)" "invar su"
    "view su = (view sr)\<lparr>vw_unbondings := map zero_unbonding (vw_unbondings (view sr))\<rparr>"
    using unbondings_reset [OF sr(2), of h] by auto
  obtain s1 where s1: "reset_validators X h ?b ?A su = (Ret (), s1)" "invar s1"
    "view s1 = (view su)\<lparr>vw_validators := map (\<lambda>(a, v). (a, zero_validator ?b ?A v)) (vw_validators (view su))\<rparr>"
    using validators_reset [OF su(2), of h ?b ?A] by auto
  have v1: "view s1 = zero_staking ?b ?A ?V" using s1(3) su(3) sr(3) by (simp add: zero_staking_def)
  let ?tail = "[reset_redelegations X h, reset_unbondings X h, reset_validators X h ?b ?A, finish_staking X h]"
  have "seqP ?tail sd = finish_staking X h s1"
    using sr(1) su(1) s1(1) by (simp add: bindP_def retP_def split: prod.split outcome.split)
  then have "seqP (?dist @ ?tail) s0 = finish_staking X h s1"
    by (simp only: seqP_append bindP_def sd(1) prod.case outcome.case)
  then have "prepForZeroHeightGenesis X h addrs s = finish_staking X h s1"
    using s0(1) delegations [OF s0(2), of h] s0(3)
    by (simp add: prepForZeroHeightGenesis_def Let_def bindP_def allowed_addrs_Ret [OF parse] must_def readP_def)
  with v1 s1(2) show ?thesis by blast
qed

text \<open>The last steps: the update of the validator set, and if it returns the signing infos.\<close>

lemma finish_runs:
  assumes "invar s"
  shows "case x_ApplyValidatorSetUpdates X h s of
      (Ret _, s2) \<Rightarrow> \<exists>s'. finish_staking X h s = (Ret (), s') \<and> invar s' \<and> view s' = zero_slashing (view s2)
    | (Err e, s2) \<Rightarrow> finish_staking X h s = (Panic e, s2)
    | (Panic e, s2) \<Rightarrow> finish_staking X h s = (Panic e, s2)"
proof (cases "x_ApplyValidatorSetUpdates X h s")
  case (Pair r s2)
  show ?thesis
  proof (cases r)
    case (Ret u)
    then have "x_ApplyValidatorSetUpdates X h s = (Ret (), s2)" using Pair by simp
    with infos_reset [OF updates [OF assms this], of h] show ?thesis
      by (auto simp: finish_staking_def closes [OF assms] must_def bindP_def retP_def)
  qed (simp_all add: Pair finish_staking_def closes [OF assms] must_def bindP_def)
qed

end

section \<open>No reward is lost\<close>

text \<open>
  \<open>pool\<close> is the community pool, \<open>owed\<close> what each validator still holds; the hook that reinitialises a
  validator clears its outstanding rewards.
\<close>

locale reward_pool =
  fixes X :: "('s, 'c :: comm_monoid_add, 'x) export_ops"
    and h :: i64
    and invar :: "'s \<Rightarrow> bool"
    and ops :: "'s \<Rightarrow> 'x SValidator list"
    and pool :: "'s \<Rightarrow> 'c"
    and owed :: "'s \<Rightarrow> bytes \<Rightarrow> 'c"
  assumes visits: "invar s \<Longrightarrow> x_Validators X h s = (ops s, None)"
    and adds: "x_addCoins X = (+)"
    and owes: "invar s \<Longrightarrow> x_GetValidatorOutstandingRewardsCoins X h a s = Inr (owed s a)"
    and pool_get: "invar s \<Longrightarrow> \<exists>p. i_get (x_FeePool X h) s = Inr p \<and> fp_CommunityPool p = pool s"
    and pool_set: "invar s \<Longrightarrow> \<exists>s'. i_set (x_FeePool X h) s p = Inr s' \<and> invar s' \<and> ops s' = ops s \<and>
      pool s' = fp_CommunityPool p \<and> owed s' = owed s"
    and clears: "invar s \<Longrightarrow> \<exists>s'. x_AfterValidatorCreated X h a s = (Ret (), s') \<and> invar s' \<and> ops s' = ops s \<and>
      pool s' = pool s \<and> owed s' = (owed s)(a := 0)"
begin

lemma donate_runs:
  assumes "invar s"
  shows "\<exists>s'. donate_rewards X h a s = (Ret (), s') \<and> invar s' \<and> ops s' = ops s \<and>
    pool s' = pool s + owed s a \<and> owed s' = owed s"
proof -
  obtain p where p: "i_get (x_FeePool X h) s = Inr p" "fp_CommunityPool p = pool s"
    using pool_get [OF assms] by blast
  obtain s' where "i_set (x_FeePool X h) s (p\<lparr>fp_CommunityPool := fp_CommunityPool p + owed s a\<rparr>) = Inr s'"
    "invar s'" "ops s' = ops s" "pool s' = pool s + owed s a" "owed s' = owed s"
    using pool_set [OF assms, of "p\<lparr>fp_CommunityPool := fp_CommunityPool p + owed s a\<rparr>"] p(2) by auto
  then show ?thesis
    using p(1) owes [OF assms, of a]
    by (simp add: donate_rewards_def bindP_def must_def readP_def writeP_def adds)
qed

lemma each_donates:
  assumes "invar s" "\<forall>v \<in> set vs. x_StakingValAddress X (sv_Operator v) = Inr (ad v)" "distinct (map ad vs)"
  shows "\<exists>s'. each (reinit_validator X h) vs s = (Ret (), s') \<and>
    invar s' \<and> ops s' = ops s \<and> pool s' = pool s + (\<Sum>v\<leftarrow>vs. owed s (ad v)) \<and>
    owed s' = (\<lambda>a. if a \<in> ad ` set vs then 0 else owed s a)"
  using assms
proof (induction vs arbitrary: s)
  case Nil
  then show ?case by (simp add: retP_def)
next
  case (Cons v vs)
  obtain s1 where s1: "donate_rewards X h (ad v) s = (Ret (), s1)" "invar s1" "ops s1 = ops s"
    "pool s1 = pool s + owed s (ad v)" "owed s1 = owed s" using donate_runs [OF Cons.prems(1)] by blast
  obtain s2 where s2: "x_AfterValidatorCreated X h (ad v) s1 = (Ret (), s2)" "invar s2" "ops s2 = ops s1"
    "pool s2 = pool s1" "owed s2 = (owed s1)(ad v := 0)" using clears [OF s1(2)] by blast
  have "\<forall>v \<in> set vs. x_StakingValAddress X (sv_Operator v) = Inr (ad v)" "distinct (map ad vs)"
    using Cons.prems by simp_all
  from Cons.IH [OF s2(2) this] obtain s3 where s3:
    "each (reinit_validator X h) vs s2 = (Ret (), s3)"
    "invar s3" "ops s3 = ops s2" "pool s3 = pool s2 + (\<Sum>w\<leftarrow>vs. owed s2 (ad w))"
    "owed s3 = (\<lambda>a. if a \<in> ad ` set vs then 0 else owed s2 a)" by blast
  have "(\<Sum>w\<leftarrow>vs. owed s2 (ad w)) = (\<Sum>w\<leftarrow>vs. owed s (ad w))"
  proof (intro arg_cong [where f = sum_list] map_cong refl)
    fix w assume "w \<in> set vs"
    then have "ad w \<in> ad ` set vs" by simp
    then have "ad w \<noteq> ad v" using Cons.prems(3) by auto
    then show "owed s2 (ad w) = owed s (ad w)" using s1(5) s2(5) by simp
  qed
  moreover have "owed s3 = (\<lambda>a. if a \<in> ad ` set (v # vs) then 0 else owed s a)"
    using s1(5) s2(5) s3(5) by (simp add: fun_eq_iff)
  moreover have "reinit_validator X h v s = (Ret (), s2)"
    using s1(1) s2(1) Cons.prems(2) by (simp add: reinit_validator_def bindP_def must_def readP_def)
  ultimately show ?case
    using s1(3,4) s2(3,4) s3 by (intro exI [of _ s3]) (simp add: bindP_def add.assoc)
qed

lemma reinit_donates:
  assumes "invar s" "\<forall>v \<in> set (ops s). x_StakingValAddress X (sv_Operator v) = Inr (ad v)"
    "distinct (map ad (ops s))"
  shows "\<exists>s'. reinit_validators X h s = (Ret (), s') \<and>
    pool s' = pool s + (\<Sum>v\<leftarrow>ops s. owed s (ad v)) \<and> (\<forall>v \<in> set (ops s). owed s' (ad v) = 0)"
proof -
  from each_donates [OF assms] obtain s' where s': "each (reinit_validator X h) (ops s) s = (Ret (), s')"
    "pool s' = pool s + (\<Sum>v\<leftarrow>ops s. owed s (ad v))"
    "owed s' = (\<lambda>a. if a \<in> ad ` set (ops s) then 0 else owed s a)" by blast
  then show ?thesis
    by (intro exI [of _ s']) (auto simp: reinit_validators_def must_def iterate_def visits [OF assms(1)]
        bindP_def retP_def)
qed

end

end
