(* ===== verification/ExportModel.thy ===== *)
theory ExportModel
  imports ExportSpec Wire
begin

text \<open>
  An instance of the keepers \<open>prepForZeroHeightGenesis\<close> calls: the four tables as lists, a community pool
  and outstanding rewards as integers, addresses as the bytes of their text. The update of the validator set
  goes through the validators with the most power (\<open>cs_top\<close>) and, as in the SDK, panics when it meets a
  jailed one, as jailing is expected to take the power away. It shows that the contracts
  \<open>zero_height\<close> and \<open>reward_pool\<close> can hold together, and the witnesses run it.
\<close>

record 'x chain_state =
  cs_view :: "'x staking_view"
  cs_top :: "bytes list"
  cs_pool :: int
  cs_owed :: "bytes \<Rightarrow> int"
  cs_rest :: 'x

definition upsert :: "('r \<Rightarrow> 'k) \<Rightarrow> 'r \<Rightarrow> 'r list \<Rightarrow> 'r list" where
  "upsert key r rows = (if key r \<in> key ` set rows then replace_row key r rows else rows @ [r])"

definition text_addr :: "string \<Rightarrow> go_error + bytes" where
  "text_addr s = (if s = '''' then Inl (LibError ''empty address string is not allowed'') else Inr (bytes_of_string s))"

definition jailed_in_power_store :: go_error where
  "jailed_in_power_store = LibError ''should never retrieve a jailed validator from the power store''"

definition update_validators :: "('x chain_state, unit) proc" where
  "update_validators s =
     (if list_ex (\<lambda>a. case map_of (vw_validators (cs_view s)) a of Some v \<Rightarrow> sv_Jailed v | None \<Rightarrow> False) (cs_top s)
      then (Panic jailed_in_power_store, s) else (Ret (), s))"

definition chain_ops :: "('x chain_state, int, 'x) export_ops" where
  "chain_ops =
     \<lparr>x_ValAddress = text_addr, x_StakingValAddress = text_addr,
      x_StakingValString = (\<lambda>bz. Inr (string_of_bytes bz)), x_AccAddress = text_addr,
      x_Validators = (\<lambda>h s. (map snd (vw_validators (cs_view s)), None)),
      x_GetAllDelegations = (\<lambda>h s. Inr (vw_delegations (cs_view s))),
      x_WithdrawValidatorCommission = (\<lambda>h va. retP ()),
      x_WithdrawDelegationRewards = (\<lambda>h da va. retP ()),
      x_DeleteAllValidatorSlashEvents = (\<lambda>h s. s),
      x_DeleteAllValidatorHistoricalRewards = (\<lambda>h s. s),
      x_GetValidatorOutstandingRewardsCoins = (\<lambda>h va s. Inr (cs_owed s va)),
      x_FeePool = (\<lambda>h. \<lparr>i_get = (\<lambda>s. Inr \<lparr>fp_CommunityPool = cs_pool s, fp_Rest = cs_rest s\<rparr>),
        i_set = (\<lambda>s p. Inr (s\<lparr>cs_pool := fp_CommunityPool p, cs_rest := fp_Rest p\<rparr>))\<rparr>),
      x_addCoins = (+),
      x_AfterValidatorCreated = (\<lambda>h va. changeP (\<lambda>s. s\<lparr>cs_owed := (cs_owed s)(va := 0)\<rparr>)),
      x_BeforeDelegationCreated = (\<lambda>h da va. retP ()),
      x_AfterDelegationModified = (\<lambda>h da va. retP ()),
      x_Redelegations = (\<lambda>h s. (vw_redelegations (cs_view s), None)),
      x_SetRedelegation = (\<lambda>h r. changeP (\<lambda>s. s\<lparr>cs_view :=
        (cs_view s)\<lparr>vw_redelegations := upsert rd_Rest r (vw_redelegations (cs_view s))\<rparr>\<rparr>)),
      x_UnbondingDelegations = (\<lambda>h s. (vw_unbondings (cs_view s), None)),
      x_SetUnbondingDelegation = (\<lambda>h u. changeP (\<lambda>s. s\<lparr>cs_view :=
        (cs_view s)\<lparr>vw_unbondings := upsert ub_Rest u (vw_unbondings (cs_view s))\<rparr>\<rparr>)),
      x_ValidatorAddrs = (\<lambda>h s. rev (map fst (vw_validators (cs_view s)))),
      x_IterClose = (\<lambda>s. None),
      x_GetValidator = (\<lambda>h a s. case map_of (vw_validators (cs_view s)) a of
        None \<Rightarrow> Inl (LibError ''validator does not exist'') | Some v \<Rightarrow> Inr v),
      x_SetValidator = (\<lambda>h v. bindP (readP (\<lambda>_. text_addr (sv_Operator v))) (\<lambda>a. changeP (\<lambda>s. s\<lparr>cs_view :=
        (cs_view s)\<lparr>vw_validators := upsert fst (a, v) (vw_validators (cs_view s))\<rparr>\<rparr>))),
      x_ApplyValidatorSetUpdates = (\<lambda>h. update_validators),
      x_SigningInfos = (\<lambda>h s. (vw_infos (cs_view s), None)),
      x_SetValidatorSigningInfo = (\<lambda>h a i. changeP (\<lambda>s. s\<lparr>cs_view :=
        (cs_view s)\<lparr>vw_infos := upsert fst (a, i) (vw_infos (cs_view s))\<rparr>\<rparr>))\<rparr>"

definition view_ok :: "'x staking_view \<Rightarrow> bool" where
  "view_ok v \<longleftrightarrow>
     distinct (map fst (vw_validators v)) \<and> distinct (map rd_Rest (vw_redelegations v)) \<and>
     distinct (map ub_Rest (vw_unbondings v)) \<and> distinct (map fst (vw_infos v)) \<and>
     (\<forall>(a, val) \<in> set (vw_validators v). text_addr (sv_Operator val) = Inr a) \<and>
     (\<forall>d \<in> set (vw_delegations v). dl_DelegatorAddress d \<noteq> '''' \<and>
        (\<exists>va. text_addr (dl_ValidatorAddress d) = Inr va \<and> va \<in> fst ` set (vw_validators v)))"

lemma text_addr_Inr: "text_addr s = Inr a \<longleftrightarrow> s \<noteq> '''' \<and> a = bytes_of_string s"
  by (auto simp: text_addr_def)

lemma replace_row_ok:
  "\<forall>(a, val) \<in> set rows. P a val \<Longrightarrow> P a v \<Longrightarrow> \<forall>(b, val) \<in> set (replace_row fst (a, v) rows). P b val"
  by (auto simp: replace_row_def split: if_splits)

lemma fst_replace_row [simp]: "fst ` set (replace_row fst q rows) = fst ` set rows"
  unfolding set_map [symmetric] map_key_replace_row ..

interpretation chain: zero_height chain_ops "\<lambda>s. view_ok (cs_view s) \<and> cs_top s = top" cs_view for top
proof (unfold_locales, goal_cases)
  case (11 s a v)
  then show ?case by (auto simp: chain_ops_def view_ok_def text_addr_Inr string_of_bytes_of_string)
next
  case (12 s d)
  then show ?case by (auto simp: chain_ops_def view_ok_def text_addr_def)
next
  case (13 s a v h)
  then show ?case by (auto simp: chain_ops_def view_ok_def)
next
  case (14 s v a h)
  let ?rows = "replace_row fst (a, v) (vw_validators (cs_view s))"
  have "\<forall>(b, val) \<in> set ?rows. text_addr (sv_Operator val) = Inr b"
    using 14 by (intro replace_row_ok) (simp_all add: view_ok_def chain_ops_def)
  with 14 show ?case
    by (auto simp: chain_ops_def view_ok_def upsert_def bindP_def readP_def changeP_def)
next
  case (15 s r h)
  then show ?case by (auto simp: chain_ops_def view_ok_def upsert_def changeP_def)
next
  case (16 s u h)
  then show ?case by (auto simp: chain_ops_def view_ok_def upsert_def changeP_def)
next
  case (17 s a h i)
  then show ?case by (auto simp: chain_ops_def view_ok_def upsert_def changeP_def)
next
  case (29 s h s')
  then show ?case by (auto simp: chain_ops_def update_validators_def split: if_splits)
qed (auto simp: chain_ops_def view_ok_def stays_def ignoring_def changeP_def retP_def writeP_def)

interpretation chain_pool: reward_pool chain_ops h "\<lambda>s. True" "\<lambda>s. map snd (vw_validators (cs_view s))"
  cs_pool cs_owed for h
  by unfold_locales (auto simp: chain_ops_def changeP_def)

section \<open>A sample\<close>

text \<open>Two validators, of which one is among the powerful, a redelegation and a signing info.\<close>

definition sample_validator :: "string \<Rightarrow> unit SValidator" where
  "sample_validator op = \<lparr>sv_Operator = op, sv_UnbondingHeight = 7, sv_Jailed = False, sv_Rest = ()\<rparr>"

definition sample_view :: "unit staking_view" where
  "sample_view =
     \<lparr>vw_validators = [(bytes_of_string ''v1'', sample_validator ''v1''), (bytes_of_string ''v2'', sample_validator ''v2'')],
      vw_delegations = [\<lparr>dl_DelegatorAddress = ''d'', dl_ValidatorAddress = ''v2''\<rparr>],
      vw_redelegations = [\<lparr>rd_Entries = [\<lparr>en_CreationHeight = 5, en_Rest = ()\<rparr>], rd_Rest = ()\<rparr>],
      vw_unbondings = [], vw_infos = [([1], \<lparr>si_StartHeight = 3, si_Rest = ()\<rparr>)]\<rparr>"

definition sample_chain :: "unit chain_state" where
  "sample_chain = \<lparr>cs_view = sample_view, cs_top = [bytes_of_string ''v2''], cs_pool = 10,
     cs_owed = (\<lambda>a. if a = bytes_of_string ''v1'' then 3 else 4), cs_rest = ()\<rparr>"

lemma sample_view_ok: "view_ok sample_view"
  by (simp add: view_ok_def sample_view_def sample_validator_def text_addr_def bytes_of_string_def)

end
