(* ===== verification/AppProps.thy ===== *)
theory AppProps
  imports App Ibc ExportModel TdModule VrModule
begin

text \<open>
  The properties of the application package: what its configuration promises the two modules of this
  chain, what the application \<open>New\<close> builds runs, the routes of IBC, and the export for height zero.
\<close>

section \<open>Configuration\<close>

text \<open>The genesis transactions run after the registry, the staking and the auth module have been
  initialised, so the whitelist decorator sees the registry of the genesis file.\<close>

theorem whitelist_before_gentxs:
  assumes "names_ok C"
  shows "before vr_ModuleName (C genutiltypes_ModuleName) (InitGenesis_order C) \<and>
    before (C stakingtypes_ModuleName) (C genutiltypes_ModuleName) (InitGenesis_order C) \<and>
    before (C authtypes_ModuleName) (C genutiltypes_ModuleName) (InitGenesis_order C)"
  using assms by (simp_all add: before_def InitGenesis_order_def config_names)

lemma whitelist_before_gentxs_witness:
  "before ''validatorregistry'' ''genutil'' (InitGenesis_order sdk_names)"
  using whitelist_before_gentxs [OF sdk_names_ok] by (simp add: vr_ModuleName_def)

text \<open>Import and export of the genesis run the same modules, each once, and every module with a
  block hook is among them.\<close>

theorem genesis_orders_agree:
  assumes "names_ok C"
  shows "distinct (InitGenesis_order C) \<and> distinct (ExportGenesis_order C) \<and>
    set (InitGenesis_order C) = set (ExportGenesis_order C) \<and>
    set (PreBlockers C) \<union> set (BeginBlockers C) \<union> set (EndBlockers C) \<subseteq> set (InitGenesis_order C)"
  using assms
  by (intro conjI) (simp add: InitGenesis_order_def config_names, simp add: ExportGenesis_order_def config_names,
      auto simp: InitGenesis_order_def ExportGenesis_order_def PreBlockers_def BeginBlockers_def EndBlockers_def)

lemma genesis_orders_agree_witness: "distinct (InitGenesis_order sdk_names)"
  using genesis_orders_agree [OF sdk_names_ok] by blast

text \<open>Every module that takes part in the genesis is configured once, or is one of the three
  modules \<open>registerIBCModules\<close> registers by hand.\<close>

theorem genesis_modules_exist:
  assumes "names_ok C"
  shows "distinct (map fst (appConfig_modules C)) \<and>
    set (InitGenesis_order C) \<subseteq> set (map fst (appConfig_modules C)) \<union> set (ibc_modules C I)"
  using assms
  by (intro conjI) (simp add: appConfig_modules_def config_names,
      auto simp: InitGenesis_order_def appConfig_modules_def ibc_modules_def)

lemma genesis_modules_exist_witness: "distinct (map fst (appConfig_modules sdk_names))"
  using genesis_modules_exist [OF sdk_names_ok] by blast

text \<open>The accounts the trust deposit module pays into and out of are module accounts without
  permissions that may receive funds, and its begin blocker runs after coins are minted and
  distributed; the blocked addresses are module accounts.\<close>

theorem trust_deposit_accounts_open:
  assumes "names_ok C"
  shows "(\<forall>a \<in> {td_ModuleName, VeranaPoolAccount, C protocolpooltypes_ModuleName}.
      GetMaccPerms C a = Some [] \<and> a \<notin> BlockedAddresses C) \<and>
    BlockedAddresses C \<subseteq> dom (GetMaccPerms C) \<and>
    before (C minttypes_ModuleName) td_ModuleName (BeginBlockers C) \<and>
    before (C distrtypes_ModuleName) td_ModuleName (BeginBlockers C) \<and>
    before (C protocolpooltypes_ModuleName) td_ModuleName (BeginBlockers C)"
  using assms
  by (intro conjI)
    (auto simp: GetMaccPerms_def moduleAccPerms_def BlockedAddresses_def blockAccAddrs_def before_def
      BeginBlockers_def config_names)

lemma trust_deposit_accounts_open_witness: "VeranaPoolAccount \<notin> BlockedAddresses sdk_names"
  using trust_deposit_accounts_open [OF sdk_names_ok] by blast

text \<open>As configured, the registry obeys the council and the trust deposit module the governance
  module: its configuration leaves the authority empty.\<close>

theorem configured_authorities:
  assumes "names_ok C"
  shows "\<exists>rc dc. map_of (appConfig_modules C) vr_ModuleName = Some (Vr_Module rc) \<and>
    map_of (appConfig_modules C) td_ModuleName = Some (Td_Module dc) \<and>
    vr_ProvideModule_authority newAddr newAddrOrBech32 (vmc_Authority rc) = newAddrOrBech32 councilAddress \<and>
    td_ProvideModule newAddr newAddrOrBech32 mk err dc = td_NewKeeper (mk (newAddr ''gov'')) err"
  using assms
  by (simp add: appConfig_modules_def config_names vr_ProvideModule_authority_def councilAddress_def
      td_ProvideModule_def td_GovModuleName_def)

lemma configured_authorities_witness:
  "\<exists>rc. map_of (appConfig_modules sdk_names) vr_ModuleName = Some (Vr_Module rc) \<and>
    vr_ProvideModule_authority (\<lambda>n. [0]) (\<lambda>n. [1]) (vmc_Authority rc) = [1]"
  using configured_authorities [OF sdk_names_ok, of "\<lambda>n. [0]" "\<lambda>n. [1]"] by blast

section \<open>IBC\<close>

text \<open>When the registration of IBC succeeds it has installed the router whose ports lead to the module
  over the keeper of that port, and it ends with the registration of the modules.\<close>

theorem ibc_routes_installed:
  assumes "ibc_names_ok C I" "registerIBCModules C I A app = (Ret (), app')"
  shows "\<exists>ks app1 app2 app3. ks = make_keepers C I (case io_GovModuleAddr A of Inl _ \<Rightarrow> '''' | Inr a \<Rightarrow> a) \<and>
    io_SetRouter A [C ibctransfertypes_ModuleName \<mapsto> TransferModule (iks_TransferKeeper ks),
      I icacontrollertypes_SubModuleName \<mapsto> IcaControllerMiddleware (iks_ICAControllerKeeper ks),
      I icahosttypes_SubModuleName \<mapsto> IcaHostModule (iks_ICAHostKeeper ks)] app1 = (Ret (), app2) \<and>
    io_RegisterModules A (ibc_modules C I) app3 = (Ret (), app')"
proof -
  have "map_of (ibc_routes C I ks) =
      [C ibctransfertypes_ModuleName \<mapsto> TransferModule (iks_TransferKeeper ks),
       I icacontrollertypes_SubModuleName \<mapsto> IcaControllerMiddleware (iks_ICAControllerKeeper ks),
       I icahosttypes_SubModuleName \<mapsto> IcaHostModule (iks_ICAHostKeeper ks)]" for ks
    using assms(1) by (auto simp: ibc_routes_def ibc_names_ok_def fun_eq_iff)
  with registerIBCModules_Ret [OF assms(2,1)] show ?thesis by metis
qed

text \<open>The witness runs the registration on an application that only records the modules.\<close>

definition recording_ibc :: "string list ibc_ops" where
  "recording_ibc =
     \<lparr>io_RegisterStores = (\<lambda>_. retP ()), io_Subspace = (\<lambda>_ _. retP ()), io_GovModuleAddr = Inr ''cosmos1gov'',
      io_SetKeepers = (\<lambda>_ app. app), io_SetRouter = (\<lambda>_. retP ()), io_SetRouterV2 = (\<lambda>_. retP ()),
      io_AddClientRoute = (\<lambda>_. retP ()), io_RegisterModules = (\<lambda>ms. changeP (\<lambda>app. app @ ms))\<rparr>"

lemma ibc_routes_installed_witness:
  "\<exists>app3. registerIBCModules sdk_names ibc_names recording_ibc [] = (Ret (), ibc_modules sdk_names ibc_names) \<and>
   io_RegisterModules recording_ibc (ibc_modules sdk_names ibc_names) app3 = (Ret (), ibc_modules sdk_names ibc_names)"
proof -
  have run: "registerIBCModules sdk_names ibc_names recording_ibc [] = (Ret (), ibc_modules sdk_names ibc_names)"
    by (simp add: registerIBCModules_def recording_ibc_def ibc_routers [OF ibc_names_ok] ibc_subspaces_def
        light_clients_def bindP_def retP_def changeP_def Let_def)
  with ibc_routes_installed [OF ibc_names_ok run] show ?thesis by metis
qed

section \<open>Export\<close>

text \<open>C20. Under the contract of the keepers, \<open>prepForZeroHeightGenesis\<close> for allowed addresses that parse
  resets the staking tables (every creation and unbonding height is zero, and when addresses are given
  every validator that is not among them is jailed, all else as before) and updates the validator set in
  this state. If the update returns, the preparation returns with the start heights of the signing infos
  set to zero and nothing else changed since the update; if it fails or panics, the preparation panics.\<close>

theorem prep_resets_heights:
  assumes "zero_height X invar view" "invar s" "\<forall>a \<in> set addrs. \<exists>bz. x_ValAddress X a = Inr bz"
  shows "\<exists>s1. invar s1 \<and> view s1 = zero_staking (addrs \<noteq> []) (set addrs) (view s) \<and>
    prepForZeroHeightGenesis X h addrs s = finish_staking X h s1 \<and>
    (case x_ApplyValidatorSetUpdates X h s1 of
       (Ret _, s2) \<Rightarrow> \<exists>s'. prepForZeroHeightGenesis X h addrs s = (Ret (), s') \<and> invar s' \<and> view s' = zero_slashing (view s2)
     | (Err e, s2) \<Rightarrow> prepForZeroHeightGenesis X h addrs s = (Panic e, s2)
     | (Panic e, s2) \<Rightarrow> prepForZeroHeightGenesis X h addrs s = (Panic e, s2))"
proof -
  from zero_height.prep_runs [OF assms, of h] obtain s1 where
    s1: "prepForZeroHeightGenesis X h addrs s = finish_staking X h s1" "invar s1"
      "view s1 = zero_staking (addrs \<noteq> []) (set addrs) (view s)" by auto
  note f = zero_height.finish_runs [OF assms(1) s1(2), of h, folded s1(1)]
  show ?thesis by (intro exI [of _ s1] conjI s1 f)
qed

text \<open>In the sample the validator to be jailed still has power: the export of the chain stops.\<close>

lemma prep_resets_heights_witness:
  "(\<exists>s'. prepForZeroHeightGenesis chain_ops 9 [''v2''] sample_chain = (Ret (), s') \<and>
     cs_view s' = zero_slashing (zero_staking True {''v2''} sample_view) \<and>
     map (sv_Jailed \<circ> snd) (vw_validators (cs_view s')) = [True, False]) \<and>
   (\<exists>s'. prepForZeroHeightGenesis chain_ops 9 [''v1''] sample_chain = (Panic jailed_in_power_store, s'))"
proof -
  let ?top = "[bytes_of_string ''v2'']"
  let ?view = "\<lambda>A. zero_staking True A sample_view"
  have ok: "view_ok (cs_view sample_chain) \<and> cs_top sample_chain = ?top"
    by (simp add: sample_chain_def sample_view_ok)
  have a: "\<forall>a \<in> set [addr]. \<exists>bz. x_ValAddress chain_ops a = Inr bz" if "addr \<noteq> []" for addr
    using that by (simp add: chain_ops_def text_addr_def)
  have view: "cs_view sample_chain = sample_view" by (simp add: sample_chain_def)
  have upd: "x_ApplyValidatorSetUpdates chain_ops 9 s1 =
      (if ''v2'' \<in> A then (Ret (), s1) else (Panic jailed_in_power_store, s1))"
    if "cs_view s1 = ?view A" "cs_top s1 = ?top" for s1 A
    using that by (simp add: chain_ops_def update_validators_def zero_staking_def sample_view_def
        sample_validator_def zero_validator_def bytes_of_string_def)
  obtain s1 where s1: "cs_view s1 = ?view {''v2''}" "cs_top s1 = ?top"
    "case x_ApplyValidatorSetUpdates chain_ops 9 s1 of
       (Ret _, s2) \<Rightarrow> \<exists>s'. prepForZeroHeightGenesis chain_ops 9 [''v2''] sample_chain = (Ret (), s') \<and>
         (view_ok (cs_view s') \<and> cs_top s' = ?top) \<and> cs_view s' = zero_slashing (cs_view s2)
     | (Err e, s2) \<Rightarrow> prepForZeroHeightGenesis chain_ops 9 [''v2''] sample_chain = (Panic e, s2)
     | (Panic e, s2) \<Rightarrow> prepForZeroHeightGenesis chain_ops 9 [''v2''] sample_chain = (Panic e, s2)"
    using prep_resets_heights [OF chain.zero_height_axioms ok a [of "''v2''"], of 9] by (auto simp: view)
  obtain s2 where s2: "cs_view s2 = ?view {''v1''}" "cs_top s2 = ?top"
    "case x_ApplyValidatorSetUpdates chain_ops 9 s2 of
       (Ret _, s2) \<Rightarrow> \<exists>s'. prepForZeroHeightGenesis chain_ops 9 [''v1''] sample_chain = (Ret (), s') \<and>
         (view_ok (cs_view s') \<and> cs_top s' = ?top) \<and> cs_view s' = zero_slashing (cs_view s2)
     | (Err e, s2) \<Rightarrow> prepForZeroHeightGenesis chain_ops 9 [''v1''] sample_chain = (Panic e, s2)
     | (Panic e, s2) \<Rightarrow> prepForZeroHeightGenesis chain_ops 9 [''v1''] sample_chain = (Panic e, s2)"
    using prep_resets_heights [OF chain.zero_height_axioms ok a [of "''v1''"], of 9] by (auto simp: view)
  have "map (sv_Jailed \<circ> snd) (vw_validators (zero_slashing (?view {''v2''}))) = [True, False]"
    by (simp add: zero_slashing_def zero_staking_def sample_view_def sample_validator_def zero_validator_def)
  then show ?thesis
    using s1(3) s2(3) upd [OF s1(1,2)] upd [OF s2(1,2)] s1(1) by auto
qed

text \<open>An allowed address that does not parse stops the export with a panic before anything is
  written.\<close>

theorem prep_refuses_bad_address:
  assumes "a \<in> set addrs" "x_ValAddress X a = Inl e"
  shows "\<exists>e'. prepForZeroHeightGenesis X h addrs s = (Panic e', s)"
proof -
  have "\<exists>e'. allowed_addrs X addrs = Panic e'" using assms
    by (induction addrs) (auto split: sum.splits outcome.splits)
  then show ?thesis by (auto simp: prepForZeroHeightGenesis_def Let_def bindP_def)
qed

lemma prep_refuses_bad_address_witness:
  "\<exists>e. prepForZeroHeightGenesis chain_ops 9 [''v1'', ''''] sample_chain = (Panic e, sample_chain)"
  by (rule prep_refuses_bad_address [where a = "''''" and e = "LibError ''empty address string is not allowed''"])
    (simp_all add: chain_ops_def text_addr_def)

text \<open>C24. Reinitialising the validators loses no reward: the community pool grows by exactly what the
  validators were owed, and they are owed nothing afterwards.\<close>

theorem reinit_keeps_rewards:
  assumes "reward_pool X h invar ops pool owed" "invar s"
    "\<forall>v \<in> set (ops s). x_StakingValAddress X (sv_Operator v) = Inr (ad v)" "distinct (map ad (ops s))"
  shows "\<exists>s'. reinit_validators X h s = (Ret (), s') \<and>
    pool s' = pool s + (\<Sum>v\<leftarrow>ops s. owed s (ad v)) \<and> (\<forall>v \<in> set (ops s). owed s' (ad v) = 0)"
  using reward_pool.reinit_donates [OF assms] .

lemma reinit_keeps_rewards_witness:
  "\<exists>s'. reinit_validators chain_ops 0 sample_chain = (Ret (), s') \<and> cs_pool s' = 17"
proof -
  let ?ad = "\<lambda>v :: unit SValidator. bytes_of_string (sv_Operator v)"
  have vals: "map snd (vw_validators (cs_view sample_chain)) = [sample_validator ''v1'', sample_validator ''v2'']"
    by (simp add: sample_chain_def sample_view_def)
  have "\<forall>v \<in> set (map snd (vw_validators (cs_view sample_chain))).
      x_StakingValAddress chain_ops (sv_Operator v) = Inr (?ad v)"
    unfolding vals by (simp add: sample_validator_def chain_ops_def text_addr_def)
  moreover have "distinct (map ?ad (map snd (vw_validators (cs_view sample_chain))))"
    unfolding vals by (simp add: sample_validator_def bytes_of_string_def)
  moreover have "cs_pool sample_chain + (\<Sum>v\<leftarrow>map snd (vw_validators (cs_view sample_chain)).
      cs_owed sample_chain (?ad v)) = 17"
    unfolding vals by (simp add: sample_chain_def sample_validator_def bytes_of_string_def)
  ultimately show ?thesis
    using reinit_keeps_rewards [OF chain_pool.reward_pool_axioms, of sample_chain ?ad 0] by force
qed

text \<open>An export that returns without an error carries the height zero when it was prepared for
  height zero and the height after the last block otherwise; the state it exports is then the
  unchanged one.\<close>

theorem export_height:
  assumes "ExportAppStateAndValidators X gen marshal vals params zero h forZero allowed mods s = (Ret (a, None), s')"
  shows "ea_Height a = (if forZero then 0 else h + 1) \<and> (\<not> forZero \<longrightarrow> s' = s) \<and>
    (\<exists>g. gen mods s' = Inr g \<and> marshal g = Inr (ea_AppState a) \<and> vals s' = (ea_Validators a, None))"
proof -
  obtain s1 where s1: "(if forZero then prepForZeroHeightGenesis X h allowed else retP ()) s = (Ret (), s1)"
    and ex: "(case gen mods s1 of Inl err \<Rightarrow> (Ret (zero, Some err), s1) | Inr g \<Rightarrow>
      (case marshal g of Inl err \<Rightarrow> (Ret (zero, Some err), s1) | Inr j \<Rightarrow>
        (let (vs, err) = vals s1 in (Ret (\<lparr>ea_AppState = j, ea_Validators = vs,
          ea_Height = if forZero then 0 else h + 1, ea_ConsensusParams = params s1\<rparr>, err), s1)))) =
      (Ret (a, None), s')"
    using assms unfolding ExportAppStateAndValidators_def Let_def bindP_Ret by auto
  from s1 have "\<not> forZero \<longrightarrow> s1 = s" by (auto simp: retP_def)
  with ex show ?thesis by (auto simp: Let_def split: sum.splits prod.splits)
qed

lemma export_height_witness:
  "ea_Height \<lparr>ea_AppState = (), ea_Validators = (), ea_Height = 8, ea_ConsensusParams = ()\<rparr> = (7 + 1 :: i64)"
  using export_height [of chain_ops "\<lambda>_ _. Inr ()" Inr "\<lambda>_. ((), None)" "\<lambda>_. ()"
      "\<lparr>ea_AppState = (), ea_Validators = (), ea_Height = 0, ea_ConsensusParams = ()\<rparr>" 7 False "[]" "[]" sample_chain
      "\<lparr>ea_AppState = (), ea_Validators = (), ea_Height = 8, ea_ConsensusParams = ()\<rparr>" sample_chain]
  by (simp add: ExportAppStateAndValidators_def bindP_def retP_def)

end
