(* ===== verification/GoStd.thy ===== *)
theory GoStd
  imports Prelude
begin

text \<open>
  The functions of Go's standard library that the commands use on text: \<open>strconv.Itoa\<close>,
  \<open>strings.Split\<close>, \<open>Join\<close>, \<open>HasPrefix\<close>, and the lexical functions of \<open>path/filepath\<close> on Unix
  (\<open>Clean\<close>, \<open>Join\<close>, \<open>Base\<close>, \<open>Abs\<close>, \<open>Rel\<close>). A path is read as the list of its elements; \<open>walk_elems\<close> is
  the loop of \<open>Clean\<close> over them.
\<close>

section \<open>Decimal numbers\<close>

fun itoa_nat :: "nat \<Rightarrow> string" where
  "itoa_nat n =
     (if n < 10 then [char_of (48 + n)] else itoa_nat (n div 10) @ [char_of (48 + n mod 10)])"

declare itoa_nat.simps [simp del]

definition Itoa :: "int \<Rightarrow> string" where
  "Itoa i = (if i < 0 then ''-'' @ itoa_nat (nat (- i)) else itoa_nat (nat i))"

definition digit_value :: "char \<Rightarrow> nat" where
  "digit_value c = of_char c - 48"

definition atoi_nat :: "string \<Rightarrow> nat" where
  "atoi_nat s = foldl (\<lambda>n c. 10 * n + digit_value c) 0 s"

lemma digit_value: "n < 10 \<Longrightarrow> digit_value (char_of (48 + n)) = n"
  by (simp add: digit_value_def)

lemma atoi_itoa [simp]: "atoi_nat (itoa_nat n) = n"
proof (induction n rule: itoa_nat.induct)
  case (1 n)
  show ?case
  proof (cases "n < 10")
    case True
    then show ?thesis by (subst itoa_nat.simps) (simp add: atoi_nat_def digit_value)
  next
    case False
    with 1 have "atoi_nat (itoa_nat n) = 10 * (n div 10) + n mod 10"
      by (subst itoa_nat.simps) (simp add: atoi_nat_def digit_value)
    then show ?thesis by simp
  qed
qed

definition is_digit :: "char \<Rightarrow> bool" where
  "is_digit c \<longleftrightarrow> 48 \<le> (of_char c :: nat) \<and> (of_char c :: nat) < 58"

lemma itoa_nat_digits: "\<forall>c \<in> set (itoa_nat n). is_digit c"
  by (induction n rule: itoa_nat.induct, subst itoa_nat.simps) (auto simp: is_digit_def)

lemma itoa_nat_not_Nil [simp]: "itoa_nat n \<noteq> []"
  by (subst itoa_nat.simps) simp

lemma Itoa_not_Nil: "Itoa i \<noteq> []"
  by (simp add: Itoa_def)

lemma Itoa_inj: "Itoa i = Itoa j \<longleftrightarrow> i = j"
proof
  assume eq: "Itoa i = Itoa j"
  have minus: "itoa_nat n \<noteq> CHR ''-'' # s" for n s
    using itoa_nat_digits [of n] by (auto simp: is_digit_def of_char_def)
  from eq show "i = j"
    using arg_cong [of _ _ atoi_nat] minus minus [symmetric]
    by (auto simp: Itoa_def nat_eq_iff2 dest!: arg_cong [of "itoa_nat _" _ atoi_nat] split: if_splits)
qed simp

lemma digit_chars:
  "char_of (48 :: nat) = CHR ''0''" "char_of (49 :: nat) = CHR ''1''" "char_of (50 :: nat) = CHR ''2''"
  "char_of (51 :: nat) = CHR ''3''" "char_of (52 :: nat) = CHR ''4''" "char_of (53 :: nat) = CHR ''5''"
  "char_of (54 :: nat) = CHR ''6''" "char_of (55 :: nat) = CHR ''7''" "char_of (56 :: nat) = CHR ''8''"
  "char_of (57 :: nat) = CHR ''9''"
  by code_simp+

lemmas itoa_eval = Itoa_def itoa_nat.simps digit_chars

section \<open>Splitting and joining\<close>

fun split_on :: "char \<Rightarrow> string \<Rightarrow> string list" where
  "split_on c [] = [[]]"
| "split_on c (x # xs) =
     (if x = c then [] # split_on c xs
      else (case split_on c xs of w # ws \<Rightarrow> (x # w) # ws | [] \<Rightarrow> [[x]]))"

fun join_with :: "char \<Rightarrow> string list \<Rightarrow> string" where
  "join_with c [] = []"
| "join_with c [w] = w"
| "join_with c (w # ws) = w @ c # join_with c ws"

text \<open>\<open>strings.Split(s, sep)\<close> for a separator of one character, and \<open>strings.HasPrefix\<close>.\<close>

definition strings_Split :: "string \<Rightarrow> char \<Rightarrow> string list" where
  "strings_Split s sep = split_on sep s"

definition HasPrefix :: "string \<Rightarrow> string \<Rightarrow> bool" where
  "HasPrefix s p \<longleftrightarrow> take (length p) s = p"

lemma split_on_not_Nil [simp]: "split_on c s \<noteq> []"
  by (induction s) (auto split: list.split)

lemma split_on_Cons: "split_on c s = hd (split_on c s) # tl (split_on c s)"
  by simp

lemma join_split [simp]: "join_with c (split_on c s) = s"
proof (induction s)
  case (Cons x xs)
  obtain w ws where "split_on c xs = w # ws" using split_on_Cons by blast
  with Cons show ?case by (cases ws) auto
qed simp

lemma split_on_pieces: "w \<in> set (split_on c s) \<Longrightarrow> c \<notin> set w"
proof (induction s arbitrary: w)
  case (Cons x xs)
  obtain v ws where "split_on c xs = v # ws" using split_on_Cons by blast
  with Cons show ?case by (auto split: if_splits)
qed simp

lemma split_on_none: "c \<notin> set s \<Longrightarrow> split_on c s = [s]"
  by (induction s) auto

lemma split_on_sep: "split_on c (s @ c # t) = split_on c s @ split_on c t"
proof (induction s)
  case (Cons x xs)
  obtain v ws where "split_on c xs = v # ws" using split_on_Cons by blast
  with Cons show ?case by simp
qed simp

lemma split_on_append: "split_on c (s @ t) = butlast (split_on c s) @ (last (split_on c s) @ hd (split_on c t)) # tl (split_on c t)"
proof (induction s)
  case (Cons x xs)
  obtain v ws where v: "split_on c xs = v # ws" using split_on_Cons by blast
  with Cons show ?case by (cases ws) simp_all
qed simp

lemma split_join:
  "ws \<noteq> [] \<Longrightarrow> \<forall>w \<in> set ws. c \<notin> set w \<Longrightarrow> split_on c (join_with c ws) = ws"
proof (induction ws rule: induct_list012)
  case (3 v w ws)
  then show ?case by (simp add: split_on_sep split_on_none)
qed (simp_all add: split_on_none)

text \<open>The default of a flag with a comma-separated list is one empty piece.\<close>

lemma split_empty: "strings_Split '''' sep = ['''']"
  by (simp add: strings_Split_def)

lemma length_split: "length (split_on c s) = Suc (count_list s c)"
proof (induction s)
  case (Cons x xs)
  obtain v ws where "split_on c xs = v # ws" using split_on_Cons by blast
  with Cons show ?case by auto
qed simp

end
