(* ===== verification/Paths.thy ===== *)
theory Paths
  imports GoStd
begin

text \<open>
  \<open>path/filepath\<close> on Unix, as the commands use it. The working directory of the process is a parameter
  with the error \<open>os.Getwd\<close> may return. \<open>abs_elems\<close> reads an absolute path as its list of elements; the
  lemmas relate \<open>Join\<close>, \<open>Abs\<close> and \<open>Rel\<close> to operations on such lists.
\<close>

abbreviation slash :: char where
  "slash \<equiv> CHR 0x2F"

definition IsAbs :: "string \<Rightarrow> bool" where
  "IsAbs p \<longleftrightarrow> HasPrefix p ''/''"

definition clean_elem :: "bool \<Rightarrow> string list \<Rightarrow> string \<Rightarrow> string list" where
  "clean_elem rooted out w =
     (if w = '''' \<or> w = ''.'' then out
      else if w = ''..'' then
        (if out \<noteq> [] \<and> last out \<noteq> ''..'' then butlast out
         else if rooted then out else out @ [''..''])
      else out @ [w])"

abbreviation clean_elems :: "bool \<Rightarrow> string list \<Rightarrow> string list \<Rightarrow> string list" where
  "clean_elems rooted \<equiv> foldl (clean_elem rooted)"

definition Clean :: "string \<Rightarrow> string" where
  "Clean p =
     (if p = '''' then ''.''
      else let out = clean_elems (IsAbs p) [] (split_on slash p) in
        if IsAbs p then slash # join_with slash out
        else if out = [] then ''.'' else join_with slash out)"

definition Join :: "string list \<Rightarrow> string" where
  "Join elem = (case dropWhile (\<lambda>e. e = '''') elem of [] \<Rightarrow> '''' | es \<Rightarrow> Clean (join_with slash es))"

definition Base :: "string \<Rightarrow> string" where
  "Base p =
     (if p = '''' then ''.''
      else let b = rev (takeWhile (\<lambda>c. c \<noteq> slash) (dropWhile (\<lambda>c. c = slash) (rev p))) in
        if b = '''' then ''/'' else b)"

definition Abs :: "go_error + string \<Rightarrow> string \<Rightarrow> go_error + string" where
  "Abs getwd p =
     (if IsAbs p then Inr (Clean p)
      else case getwd of Inl err \<Rightarrow> Inl err | Inr wd \<Rightarrow> Inr (Join [wd, p]))"

text \<open>The elements \<open>Rel\<close> compares: the root is an empty first element.\<close>

definition rel_words :: "string \<Rightarrow> string list" where
  "rel_words p =
     (if p = '''' then [] else let ws = split_on slash p in if last ws = '''' then butlast ws else ws)"

fun strip_common :: "string list \<Rightarrow> string list \<Rightarrow> string list \<times> string list" where
  "strip_common (b # bs) (t # ts) = (if b = t then strip_common bs ts else (b # bs, t # ts))"
| "strip_common bs ts = (bs, ts)"

definition Rel :: "string \<Rightarrow> string \<Rightarrow> go_error + string" where
  "Rel basepath targpath =
     (let base = Clean basepath; targ = Clean targpath in
      if targ = base then Inr ''.''
      else
        let base = (if base = ''.'' then '''' else base) in
        if IsAbs base \<noteq> IsAbs targ then
          Inl (LibError ''Rel: can't make one path relative to the other'')
        else
          (case strip_common (rel_words base) (rel_words targ) of (bs, ts) \<Rightarrow>
             if bs \<noteq> [] \<and> ts \<noteq> [] \<and> hd bs = ''..'' then
               Inl (LibError ''Rel: can't make one path relative to the other'')
             else Inr (join_with slash (map (\<lambda>_. ''..'') bs @ ts))))"

section \<open>Elements of clean paths\<close>

definition plain_elem :: "string \<Rightarrow> bool" where
  "plain_elem w \<longleftrightarrow> w \<noteq> '''' \<and> w \<noteq> ''.'' \<and> w \<noteq> ''..'' \<and> slash \<notin> set w"

lemma clean_plain: "\<forall>w \<in> set ws. plain_elem w \<Longrightarrow> clean_elems r out ws = out @ ws"
  by (induction ws arbitrary: out) (simp_all add: clean_elem_def plain_elem_def)

lemma clean_rooted_plain:
  "\<forall>w \<in> set out. plain_elem w \<Longrightarrow> \<forall>w \<in> set ws. slash \<notin> set w \<Longrightarrow>
    \<forall>w \<in> set (clean_elems True out ws). plain_elem w"
proof (induction ws arbitrary: out)
  case (Cons w ws)
  have "\<forall>v \<in> set (clean_elem True out w). plain_elem v"
    using Cons.prems by (auto simp: clean_elem_def plain_elem_def dest: in_set_butlastD)
  with Cons show ?case by simp
qed simp

text \<open>Cleaning a relative part first does not change what it leads to.\<close>

lemma clean_elem_simps:
  "w = '''' \<or> w = ''.'' \<Longrightarrow> clean_elem r out w = out"
  "out \<noteq> [] \<and> last out \<noteq> ''..'' \<Longrightarrow> clean_elem r out ''..'' = butlast out"
  "out = [] \<or> last out = ''..'' \<Longrightarrow> clean_elem r out ''..'' = (if r then out else out @ [''..''])"
  "w \<noteq> '''' \<Longrightarrow> w \<noteq> ''.'' \<Longrightarrow> w \<noteq> ''..'' \<Longrightarrow> clean_elem r out w = out @ [w]"
  by (auto simp: clean_elem_def)

lemma clean_elems_named:
  "\<forall>v \<in> set out. v \<noteq> '''' \<and> v \<noteq> ''.'' \<Longrightarrow> \<forall>v \<in> set (clean_elems r out ws). v \<noteq> '''' \<and> v \<noteq> ''.''"
proof (induction ws arbitrary: out)
  case (Cons w ws)
  have "\<forall>v \<in> set (clean_elem r out w). v \<noteq> '''' \<and> v \<noteq> ''.''"
    using Cons.prems by (auto simp: clean_elem_def dest: in_set_butlastD)
  from Cons.IH [OF this] show ?case by simp
qed simp

lemma clean_absorb: "clean_elems True out (clean_elems False [] ws) = clean_elems True out ws"
proof (induction ws rule: rev_induct)
  case (snoc w ws)
  let ?c = "clean_elems False [] ws"
  consider "w = '''' \<or> w = ''.''" | "w \<noteq> ''''" "w \<noteq> ''.''" "w \<noteq> ''..''"
    | "w = ''..''" "?c = [] \<or> last ?c = ''..''" | "w = ''..''" "?c \<noteq> [] \<and> last ?c \<noteq> ''..''" by blast
  then show ?case
  proof cases
    case 4
    then obtain ys y where c: "?c = ys @ [y]" "y \<noteq> ''..''" by (metis append_butlast_last_id)
    moreover have "y \<noteq> '''' \<and> y \<noteq> ''.''"
      using clean_elems_named [of "[]" False ws] c(1) by simp
    ultimately have "clean_elems True out ws = clean_elems True out ys @ [y]"
      unfolding snoc.IH [symmetric] by (simp add: clean_elem_simps(4))
    with c 4(1) show ?thesis by (simp add: clean_elem_simps(2))
  qed (use snoc.IH in \<open>simp_all add: clean_elem_simps\<close>)
qed simp

section \<open>Absolute paths\<close>

definition abs_words :: "string \<Rightarrow> string \<Rightarrow> string list" where
  "abs_words wd p = (if IsAbs p then split_on slash p else split_on slash wd @ split_on slash p)"

definition abs_elems :: "string \<Rightarrow> string \<Rightarrow> string list" where
  "abs_elems wd p = clean_elems True [] (abs_words wd p)"

definition rooted_path :: "string list \<Rightarrow> string" where
  "rooted_path es = slash # join_with slash es"

lemma IsAbs_iff: "IsAbs p \<longleftrightarrow> (\<exists>q. p = slash # q)"
  by (cases p) (auto simp: IsAbs_def HasPrefix_def)

lemma IsAbs_append: "IsAbs p \<Longrightarrow> IsAbs (p @ q)"
  by (auto simp: IsAbs_iff)

lemma abs_elems_plain: "\<forall>w \<in> set (abs_elems wd p). plain_elem w"
  unfolding abs_elems_def by (rule clean_rooted_plain) (auto simp: abs_words_def dest: split_on_pieces)

lemma Clean_abs: "IsAbs p \<Longrightarrow> Clean p = rooted_path (clean_elems True [] (split_on slash p))"
  unfolding Clean_def rooted_path_def Let_def by (auto simp: IsAbs_iff)

lemma Abs_elems: assumes "IsAbs wd" shows "Abs (Inr wd) p = Inr (rooted_path (abs_elems wd p))"
proof (cases "IsAbs p")
  case True
  then show ?thesis by (simp add: Abs_def Clean_abs abs_elems_def abs_words_def)
next
  case False
  have "wd \<noteq> ''''" using assms by (auto simp: IsAbs_iff)
  then have "Join [wd, p] = Clean (wd @ slash # p)" by (simp add: Join_def)
  then show ?thesis
    using False assms by (simp add: Abs_def Clean_abs IsAbs_append abs_elems_def abs_words_def split_on_sep)
qed

text \<open>Paths with plain elements are clean, and read back as their elements.\<close>

lemma split_rooted:
  "\<forall>w \<in> set es. plain_elem w \<Longrightarrow> split_on slash (rooted_path es) = '''' # (if es = [] then [''''] else es)"
  by (cases "es = []") (auto simp: rooted_path_def plain_elem_def split_join)

lemma IsAbs_rooted: "IsAbs (rooted_path es)"
  by (simp add: rooted_path_def IsAbs_iff)

lemma Clean_rooted: "\<forall>w \<in> set es. plain_elem w \<Longrightarrow> Clean (rooted_path es) = rooted_path es"
  using clean_plain [of es True "[]"]
  by (simp add: Clean_abs IsAbs_rooted split_rooted clean_elem_simps(1))

lemma abs_elems_rooted: "\<forall>w \<in> set es. plain_elem w \<Longrightarrow> abs_elems wd (rooted_path es) = es"
  using clean_plain [of es True "[]"]
  by (simp add: abs_elems_def abs_words_def IsAbs_rooted split_rooted clean_elem_simps(1))

lemma rooted_path_eq:
  "\<forall>w \<in> set es. plain_elem w \<Longrightarrow> \<forall>w \<in> set fs. plain_elem w \<Longrightarrow> rooted_path es = rooted_path fs \<longleftrightarrow> es = fs"
  using abs_elems_rooted [of es] abs_elems_rooted [of fs] by metis

section \<open>Relative paths\<close>

lemma rel_words_rooted:
  assumes "\<forall>w \<in> set es. plain_elem w"
  shows "rel_words (rooted_path es) = '''' # es"
proof -
  have ne: "rooted_path es \<noteq> ''''" by (simp add: rooted_path_def)
  show ?thesis
  proof (cases "es = []")
    case True
    then show ?thesis using ne split_rooted [OF assms] by (simp add: rel_words_def)
  next
    case False
    then have "plain_elem (last es)" using assms by simp
    then have "last es \<noteq> ''''" by (simp add: plain_elem_def)
    then show ?thesis using ne split_rooted [OF assms] False by (simp add: rel_words_def)
  qed
qed

lemma strip_common_prefix:
  "case strip_common bs ts of (bs', ts') \<Rightarrow> (\<exists>cs. bs = cs @ bs' \<and> ts = cs @ ts') \<and>
     (bs' = [] \<or> ts' = [] \<or> hd bs' \<noteq> hd ts')"
proof (induction bs ts rule: strip_common.induct)
  case (1 b bs t ts)
  then show ?case by (auto split: prod.splits)
qed simp_all

lemma join_head: "ts \<noteq> [] \<Longrightarrow> \<exists>q. join_with c ts = hd ts @ q \<and> (q = '''' \<or> hd q = c)"
  by (induction ts rule: induct_list012) auto

lemma HasPrefix_dots:
  "ts \<noteq> [] \<Longrightarrow> hd ts \<noteq> '''' \<Longrightarrow> HasPrefix (join_with slash ts) ''..'' \<longleftrightarrow> HasPrefix (hd ts) ''..''"
proof -
  assume ts: "ts \<noteq> []" "hd ts \<noteq> ''''"
  obtain q where q: "join_with slash ts = hd ts @ q" "q = '''' \<or> hd q = slash" using join_head [OF ts(1)] by blast
  obtain a w where h: "hd ts = a # w" using ts(2) by (cases "hd ts") auto
  show ?thesis unfolding q(1) h using q(2) by (cases w; cases q) (auto simp: HasPrefix_def)
qed

text \<open>The relative path of one clean absolute path in another.\<close>

lemma Rel_rooted:
  assumes "\<forall>w \<in> set bs. plain_elem w" "\<forall>w \<in> set ts. plain_elem w"
  shows "\<exists>r. Rel (rooted_path bs) (rooted_path ts) = Inr r \<and>
    (\<not> HasPrefix r ''..'' \<and> \<not> IsAbs r \<longleftrightarrow>
       (\<exists>cs. ts = bs @ cs \<and> (cs = [] \<or> \<not> HasPrefix (hd cs) ''..'')))"
proof (cases "bs = ts")
  case True
  then show ?thesis by (auto simp: Rel_def HasPrefix_def IsAbs_iff)
next
  case False
  have base: "rooted_path bs \<noteq> ''.''" by (simp add: rooted_path_def)
  obtain bs' ts' where s: "strip_common bs ts = (bs', ts')" by fastforce
  with strip_common_prefix [of bs ts] obtain cs where
    cs: "bs = cs @ bs'" "ts = cs @ ts'" "bs' = [] \<or> ts' = [] \<or> hd bs' \<noteq> hd ts'" by auto
  have "bs' = [] \<or> hd bs' \<noteq> ''..''" using assms(1) cs(1) by (cases bs') (auto simp: plain_elem_def)
  then have r: "Rel (rooted_path bs) (rooted_path ts) = Inr (join_with slash (map (\<lambda>_. ''..'') bs' @ ts'))"
    using False assms base
    unfolding Rel_def Let_def by (auto simp: Clean_rooted rooted_path_eq IsAbs_rooted rel_words_rooted s)
  show ?thesis
  proof (cases "bs' = []")
    case True
    with False cs have ts': "ts' \<noteq> []" by auto
    then have h: "plain_elem (hd ts')" using assms(2) cs(2) by (cases ts') auto
    have "\<not> IsAbs (join_with slash ts')"
      using join_head [OF ts', of slash] h by (cases "hd ts'") (auto simp: IsAbs_iff plain_elem_def)
    moreover have "hd ts' \<noteq> ''''" using h by (simp add: plain_elem_def)
    ultimately show ?thesis using r True cs ts' by (auto simp: HasPrefix_dots)
  next
    case bs': False
    have "HasPrefix (join_with slash (map (\<lambda>_. ''..'') bs' @ ts')) ''..''"
      using bs' HasPrefix_dots [of "map (\<lambda>_. ''..'') bs' @ ts'"] by (cases bs') (auto simp: HasPrefix_def)
    moreover have "\<not> (\<exists>es. ts = bs @ es)"
      using cs bs' by (cases bs'; cases ts') auto
    ultimately show ?thesis using r by auto
  qed
qed

section \<open>Joining\<close>

lemma split_join_with: "es \<noteq> [] \<Longrightarrow> split_on c (join_with c es) = concat (map (split_on c) es)"
  by (induction es rule: induct_list012) (simp_all add: split_on_sep)

lemma IsAbs_join: "e \<noteq> '''' \<Longrightarrow> IsAbs (join_with slash (e # es)) \<longleftrightarrow> IsAbs e"
  by (cases es; cases e) (auto simp: IsAbs_iff)

lemma Join_Cons: "e \<noteq> '''' \<Longrightarrow> Join (e # es) = Clean (join_with slash (e # es))"
  by (simp add: Join_def)

text \<open>A relative path that is cleaned leads to where it led before.\<close>

lemma abs_elems_Clean: "abs_elems wd (Clean p) = abs_elems wd p"
proof (cases "IsAbs p")
  case True
  have "\<forall>w \<in> set (clean_elems True [] (split_on slash p)). plain_elem w"
    by (rule clean_rooted_plain) (auto dest: split_on_pieces)
  with True show ?thesis by (simp add: Clean_abs abs_elems_rooted) (simp add: abs_elems_def abs_words_def)
next
  case False
  let ?out = "clean_elems False [] (split_on slash p)"
  have named: "\<forall>v \<in> set ?out. v \<noteq> '''' \<and> v \<noteq> ''.'' \<and> slash \<notin> set v"
  proof -
    have "\<forall>v \<in> set (clean_elems False out ws). slash \<notin> set v"
      if "\<forall>v \<in> set out \<union> set ws. slash \<notin> set v" for out ws
      using that
    proof (induction ws arbitrary: out)
      case (Cons w ws)
      have "\<forall>v \<in> set (clean_elem False out w) \<union> set ws. slash \<notin> set v"
        using Cons.prems by (auto simp: clean_elem_def dest: in_set_butlastD)
      from Cons.IH [OF this] show ?case by simp
    qed simp
    from this [of "[]" "split_on slash p"] clean_elems_named [of "[]" False "split_on slash p"] show ?thesis
      by (auto dest: split_on_pieces)
  qed
  have wd: "abs_elems wd p = clean_elems True (clean_elems True [] (split_on slash wd)) ?out"
    using False by (simp add: abs_elems_def abs_words_def clean_absorb)
  show ?thesis
  proof (cases "p = '''' \<or> ?out = []")
    case True
    then have "Clean p = ''.''" using False by (auto simp: Clean_def)
    moreover have "?out = []" using True by (auto simp: clean_elem_simps(1))
    ultimately show ?thesis
      unfolding wd by (simp add: abs_elems_def abs_words_def IsAbs_iff clean_elem_simps(1))
  next
    case out: False
    then have c: "Clean p = join_with slash ?out" using False by (simp add: Clean_def)
    have "split_on slash (Clean p) = ?out" unfolding c using out named by (intro split_join) auto
    moreover have "\<not> IsAbs (Clean p)"
    proof -
      obtain q where "join_with slash ?out = hd ?out @ q" using join_head [of ?out slash] out by blast
      moreover have "hd ?out \<noteq> '''' \<and> slash \<notin> set (hd ?out)" using named out by simp
      ultimately show ?thesis unfolding c by (cases "hd ?out") (auto simp: IsAbs_iff)
    qed
    ultimately show ?thesis unfolding wd by (simp add: abs_elems_def abs_words_def)
  qed
qed

lemma abs_elems_Join:
  assumes "e \<noteq> ''''"
  shows "abs_elems wd (Join (e # es)) = clean_elems True (abs_elems wd e) (concat (map (split_on slash) es))"
  using assms by (simp add: Join_Cons abs_elems_Clean)
    (simp add: abs_elems_def abs_words_def IsAbs_join split_join_with)

lemma abs_elems_Join_plain:
  assumes "e \<noteq> ''''" "\<forall>w \<in> set es. plain_elem w"
  shows "abs_elems wd (Join (e # es)) = abs_elems wd e @ es"
proof -
  have "concat (map (split_on slash) es) = es"
    using assms(2) by (induction es) (simp_all add: split_on_none plain_elem_def)
  with assms show ?thesis by (simp add: abs_elems_Join clean_plain)
qed

lemma Clean_not_Nil [simp]: "Clean p \<noteq> ''''"
proof (cases "IsAbs p")
  case True
  then show ?thesis by (simp add: Clean_abs rooted_path_def)
next
  case False
  let ?out = "clean_elems False [] (split_on slash p)"
  have "join_with slash ?out \<noteq> ''''" if "?out \<noteq> []"
  proof -
    have "hd ?out \<in> set ?out" using that by simp
    then have "hd ?out \<noteq> ''''" using clean_elems_named [of "[]" False "split_on slash p"] by auto
    then show ?thesis using join_head [OF that, of slash] by auto
  qed
  then show ?thesis using False by (simp add: Clean_def Let_def)
qed

lemma Join_not_Nil: "e \<noteq> '''' \<Longrightarrow> Join (e # es) \<noteq> ''''"
  by (simp add: Join_Cons)

text \<open>The last element of a path.\<close>

lemma Base_last: "f \<noteq> '''' \<Longrightarrow> slash \<notin> set f \<Longrightarrow> Base (q @ slash # f) = f \<and> Base f = f"
proof -
  assume f: "f \<noteq> ''''" "slash \<notin> set f"
  then obtain a g where rf: "rev f = a # g" by (cases "rev f") auto
  have "a \<noteq> slash" using f(2) rf by (metis list.set_intros(1) set_rev)
  moreover have "takeWhile (\<lambda>c. c \<noteq> slash) (rev f @ slash # rev q) = rev f"
    using f(2) by (subst takeWhile_append2) auto
  moreover have "takeWhile (\<lambda>c. c \<noteq> slash) (rev f) = rev f" using f(2) by (auto simp: takeWhile_eq_all_conv)
  ultimately show ?thesis using f(1) rf by (auto simp: Base_def)
qed

lemma join_snoc: "os \<noteq> [] \<Longrightarrow> join_with c (os @ [f]) = join_with c os @ c # f"
  by (induction os rule: induct_list012) simp_all

lemma Base_join: "f \<noteq> '''' \<Longrightarrow> slash \<notin> set f \<Longrightarrow> Base (join_with slash (os @ [f])) = f"
  using Base_last [of f "join_with slash os"] by (cases "os = []") (simp_all add: join_snoc)

lemma Base_Join:
  assumes "e \<noteq> ''''" "plain_elem f"
  shows "Base (Join (e # es @ [f])) = f"
proof -
  let ?s = "join_with slash (e # es @ [f])"
  have f: "f \<noteq> ''''" "f \<noteq> ''.''" "f \<noteq> ''..''" "slash \<notin> set f" using assms(2) by (simp_all add: plain_elem_def)
  have s: "split_on slash ?s = concat (map (split_on slash) (e # es)) @ [f]"
    by (subst split_join_with) (simp_all add: split_on_none f(4))
  obtain os where os: "clean_elems (IsAbs ?s) [] (split_on slash ?s) = os @ [f]"
    unfolding s by (simp add: clean_elem_simps(4) f)
  have ne: "?s \<noteq> ''''" using assms(1) by (cases e; cases "es @ [f]") auto
  show ?thesis
  proof (cases "IsAbs ?s")
    case True
    then have "Clean ?s = slash # join_with slash (os @ [f])" using ne os by (simp add: Clean_def)
    also have "\<dots> = (if os = [] then '''' else slash # join_with slash os) @ slash # f"
      by (cases "os = []") (simp_all add: join_snoc)
    finally show ?thesis using Base_last [OF f(1,4)] assms(1) by (simp add: Join_Cons)
  next
    case False
    then have "Clean ?s = join_with slash (os @ [f])" using ne os by (simp add: Clean_def)
    then show ?thesis using Base_join [OF f(1,4)] assms(1) by (simp add: Join_Cons)
  qed
qed

end
