(* ===== verification/MultiNode.thy ===== *)
theory MultiNode
  imports Paths Proc
begin

text \<open>
  \<open>cmd/veranatestd/cmd/testnet_multi_node.go\<close>: the command that writes the directories of a local
  network of \<open>v\<close> validators. The flags, the file operations of \<open>os\<close> and \<open>io\<close>, the key ring, the
  transaction builder and the configuration writers are parameters; an index of a node is a \<open>nat\<close>.
\<close>

type_synonym coin = "string \<times> int"

section \<open>Flags and arguments\<close>

datatype sdk_flag = FlagKeyringBackend | FlagChainID | FlagMinGasPrices | FlagKeyType

definition flagNodeDirPrefix :: string where "flagNodeDirPrefix = ''node-dir-prefix''"
definition flagPorts :: string where "flagPorts = ''list-ports''"
definition flagNumValidators :: string where "flagNumValidators = ''v''"
definition flagOutputDir :: string where "flagOutputDir = ''output-dir''"
definition flagValidatorsStakeAmount :: string where "flagValidatorsStakeAmount = ''validators-stake-amount''"
definition flagStartingIPAddress :: string where "flagStartingIPAddress = ''starting-ip-address''"

datatype flag_value = IntFlag int | StringFlag string

text \<open>A flag is its name, its shorthand and its default; \<open>F\<close> gives the names of the SDK's flags.\<close>

definition addTestnetFlagsToCmd ::
    "(sdk_flag \<Rightarrow> string) \<Rightarrow> string \<Rightarrow> string \<Rightarrow> (string \<times> string \<times> flag_value) list" where
  "addTestnetFlagsToCmd F defaultBondDenom secp256k1 =
     [(flagNumValidators, '''', IntFlag 4),
      (flagOutputDir, ''o'', StringFlag ''./.testnets''),
      (F FlagChainID, '''', StringFlag ''''),
      (F FlagMinGasPrices, '''', StringFlag (''0.0001'' @ defaultBondDenom)),
      (F FlagKeyType, '''', StringFlag secp256k1)]"

text \<open>The old name of the key type flag is still read.\<close>

definition normalize_flag :: "(sdk_flag \<Rightarrow> string) \<Rightarrow> string \<Rightarrow> string" where
  "normalize_flag F name = (if name = ''algo'' then F FlagKeyType else name)"

definition multi_node_flags ::
    "(sdk_flag \<Rightarrow> string) \<Rightarrow> string \<Rightarrow> string \<Rightarrow> (string \<times> string \<times> flag_value) list" where
  "multi_node_flags F defaultBondDenom secp256k1 =
     addTestnetFlagsToCmd F defaultBondDenom secp256k1 @
     [(flagPorts, '''', StringFlag ''''),
      (flagNodeDirPrefix, '''', StringFlag ''validator''),
      (flagValidatorsStakeAmount, '''', StringFlag ''100000000,100000000,100000000,100000000''),
      (flagStartingIPAddress, '''', StringFlag ''localhost''),
      (F FlagKeyringBackend, '''', StringFlag ''test'')]"

record initArgs =
  ia_algo :: string
  ia_chainID :: string
  ia_keyringBackend :: string
  ia_minGasPrices :: string
  ia_nodeDirPrefix :: string
  ia_numValidators :: int
  ia_outputDir :: string
  ia_startingIPAddress :: string
  ia_validatorsStakesAmount :: "nat \<rightharpoonup> coin"
  ia_ports :: "nat \<rightharpoonup> string"

text \<open>
  The amounts that parse are numbered from zero, the others are skipped; \<open>sdk.NewCoin\<close> panics on an
  amount it refuses.
\<close>

fun parse_stakes ::
    "(string \<Rightarrow> int option) \<Rightarrow> (int \<Rightarrow> go_error + coin) \<Rightarrow> string list \<Rightarrow> nat \<Rightarrow> (nat \<rightharpoonup> coin)
     \<Rightarrow> (nat \<rightharpoonup> coin) outcome" where
  "parse_stakes newIntFromString newCoin [] idx m = Ret m"
| "parse_stakes newIntFromString newCoin (amount # rest) idx m =
     (case newIntFromString amount of
        None \<Rightarrow> parse_stakes newIntFromString newCoin rest idx m
      | Some a \<Rightarrow>
          (case newCoin a of
             Inl e \<Rightarrow> Panic e
           | Inr c \<Rightarrow> parse_stakes newIntFromString newCoin rest (idx + 1) (m(idx \<mapsto> c))))"

text \<open>The ports of a node; the remote call port is the default of the flag.\<close>

definition rpc_port :: "nat \<Rightarrow> int" where "rpc_port i = 26657 - 3 * int i"
definition p2p_port :: "nat \<Rightarrow> int" where "p2p_port i = 26656 - 3 * int i"
definition proxy_port :: "nat \<Rightarrow> int" where "proxy_port i = 26658 - 3 * int i"
definition prometheus_port :: "nat \<Rightarrow> int" where "prometheus_port i = 26660 + int i"
definition grpc_port :: "nat \<Rightarrow> int" where "grpc_port i = 9090 - 2 * int i"
definition api_port :: "nat \<Rightarrow> int" where "api_port i = 1317 - int i"

definition parse_ports :: "int \<Rightarrow> string \<Rightarrow> nat \<rightharpoonup> string" where
  "parse_ports numValidators s =
     (if s = '''' then
        foldl (\<lambda>m i. m(i \<mapsto> Itoa (rpc_port i))) Map.empty [0..<nat numValidators]
      else
        foldl (\<lambda>m (i, port). m(i \<mapsto> port)) Map.empty (enumerate 0 (strings_Split s CHR '','')))"

text \<open>
  \<open>GetString\<close> and \<open>GetInt\<close> give the zero value next to an error; the error is dropped, except that the
  lists are then left empty.
\<close>

definition string_or_zero :: "go_error + string \<Rightarrow> string" where
  "string_or_zero r = (case r of Inl _ \<Rightarrow> '''' | Inr s \<Rightarrow> s)"

definition parse_args ::
    "(sdk_flag \<Rightarrow> string) \<Rightarrow> (string \<Rightarrow> go_error + string) \<Rightarrow> (string \<Rightarrow> go_error + int)
     \<Rightarrow> (string \<Rightarrow> int option) \<Rightarrow> (int \<Rightarrow> go_error + coin) \<Rightarrow> initArgs outcome" where
  "parse_args F getString getInt newIntFromString newCoin =
     (let numValidators = (case getInt flagNumValidators of Inl _ \<Rightarrow> 0 | Inr n \<Rightarrow> n) in
      case (case getString flagValidatorsStakeAmount of
              Inl _ \<Rightarrow> Ret Map.empty
            | Inr s \<Rightarrow> parse_stakes newIntFromString newCoin (strings_Split s CHR '','') 0 Map.empty) of
        Err e \<Rightarrow> Err e
      | Panic e \<Rightarrow> Panic e
      | Ret stakes \<Rightarrow>
          Ret \<lparr>ia_algo = string_or_zero (getString (F FlagKeyType)),
               ia_chainID = string_or_zero (getString (F FlagChainID)),
               ia_keyringBackend = string_or_zero (getString (F FlagKeyringBackend)),
               ia_minGasPrices = string_or_zero (getString (F FlagMinGasPrices)),
               ia_nodeDirPrefix = string_or_zero (getString flagNodeDirPrefix),
               ia_numValidators = numValidators,
               ia_outputDir = string_or_zero (getString flagOutputDir),
               ia_startingIPAddress = string_or_zero (getString flagStartingIPAddress),
               ia_validatorsStakesAmount = stakes,
               ia_ports = (case getString flagPorts of
                 Inl _ \<Rightarrow> Map.empty | Inr s \<Rightarrow> parse_ports numValidators s)\<rparr>)"

text \<open>A missing key of the map of ports reads as the empty string.\<close>

definition port_of :: "initArgs \<Rightarrow> nat \<Rightarrow> string" where
  "port_of args i = (case ia_ports args i of None \<Rightarrow> '''' | Some p \<Rightarrow> p)"

section \<open>Files\<close>

record ('s, 'h) os_ops =
  os_MkdirAll :: "string \<Rightarrow> ('s, unit) proc"
  os_WriteFile :: "string \<Rightarrow> bytes \<Rightarrow> ('s, unit) proc"
  os_RemoveAll :: "string \<Rightarrow> ('s, unit) proc"
  os_Open :: "string \<Rightarrow> ('s, 'h) proc"
  os_Create :: "string \<Rightarrow> ('s, 'h) proc"
  os_Copy :: "'h \<Rightarrow> 'h \<Rightarrow> ('s, 64 word) proc"   \<comment> \<open>\<open>io.Copy(dst, src)\<close>\<close>
  os_Sync :: "'h \<Rightarrow> ('s, unit) proc"
  os_Close :: "'h \<Rightarrow> ('s, unit) proc"

definition writeFile :: "('s, 'h) os_ops \<Rightarrow> string \<Rightarrow> string \<Rightarrow> bytes \<Rightarrow> ('s, unit) proc" where
  "writeFile A file dir contents s =
     (case os_MkdirAll A dir s of
        (Err err, s) \<Rightarrow> (Err (Wrapf err ''could not create directory %q: %w'' [ArgStr dir]), s)
      | (Panic e, s) \<Rightarrow> (Panic e, s)
      | (Ret _, s) \<Rightarrow> os_WriteFile A file contents s)"

text \<open>\<open>defer h.Close()\<close>: the file is closed however the rest ends, and the error of closing is dropped.\<close>

definition deferring :: "('s, unit) proc \<Rightarrow> ('s, 'a) proc \<Rightarrow> ('s, 'a) proc" where
  "deferring closing p s = (case p s of (r, s') \<Rightarrow> (r, snd (closing s')))"

definition copyFile :: "('s, 'h) os_ops \<Rightarrow> string \<Rightarrow> string \<Rightarrow> ('s, 64 word) proc" where
  "copyFile A src dstDir =
     (let fileName = Base src; dst = Join [dstDir, fileName] in
      bindP (os_Open A src) (\<lambda>sourceFile.
      deferring (os_Close A sourceFile)
        (bindP (os_Create A dst) (\<lambda>destinationFile.
         deferring (os_Close A destinationFile)
           (bindP (os_Copy A destinationFile sourceFile) (\<lambda>bytesCopied.
            bindP (os_Sync A destinationFile) (\<lambda>_.
            retP bytesCopied)))))))"

definition isSubDir :: "go_error + string \<Rightarrow> string \<Rightarrow> string \<Rightarrow> go_error + bool" where
  "isSubDir getwd src dstDir =
     (case Abs getwd src of
        Inl err \<Rightarrow> Inl err
      | Inr absSrc \<Rightarrow>
     (case Abs getwd dstDir of
        Inl err \<Rightarrow> Inl err
      | Inr absDstDir \<Rightarrow>
     (case Rel absDstDir absSrc of
        Inl err \<Rightarrow> Inl err
      | Inr relativePath \<Rightarrow> Inr (\<not> HasPrefix relativePath ''..'' \<and> \<not> IsAbs relativePath))))"

text \<open>The numbers of the random source come from \<open>intn\<close>: the \<open>i\<close>-th call with a bound.\<close>

definition charset :: string where
  "charset = ''abcdefghijklmnopqrstuvwxyz0123456789''"

definition generateRandomString :: "(nat \<Rightarrow> nat \<Rightarrow> nat) \<Rightarrow> nat \<Rightarrow> string" where
  "generateRandomString intn n = map (\<lambda>i. charset ! intn i (length charset)) [0..<n]"

section \<open>Paths and addresses of a node\<close>

definition nodeDirName :: "string \<Rightarrow> nat \<Rightarrow> string" where
  "nodeDirName prefix i = prefix @ Itoa (int i)"

definition nodeDir :: "initArgs \<Rightarrow> nat \<Rightarrow> string" where
  "nodeDir args i = Join [ia_outputDir args, nodeDirName (ia_nodeDirPrefix args) i]"

text \<open>The first loop joins the parts at once, the later ones join to the directory of the node.\<close>

definition gentxsDir_of_node :: "initArgs \<Rightarrow> nat \<Rightarrow> string" where
  "gentxsDir_of_node args i =
     Join [ia_outputDir args, nodeDirName (ia_nodeDirPrefix args) i, ''config'', ''gentx'']"

definition gentxsDir :: "initArgs \<Rightarrow> nat \<Rightarrow> string" where
  "gentxsDir args i = Join [nodeDir args i, ''config'', ''gentx'']"

definition gentx_name :: "string \<Rightarrow> string" where
  "gentx_name nodeID = ''gentx-'' @ nodeID @ ''.json''"

definition node_memo :: "string \<Rightarrow> string \<Rightarrow> nat \<Rightarrow> string" where
  "node_memo ip nodeID i = nodeID @ ''@'' @ ip @ '':'' @ Itoa (26656 - 3 * int i)"

definition add_peer :: "string \<Rightarrow> string \<Rightarrow> string" where
  "add_peer persistentPeers memo =
     (if persistentPeers = '''' then memo else persistentPeers @ '','' @ memo)"

section \<open>The copies of the genesis transactions\<close>

definition copy_gentx ::
    "('s, 'h) os_ops \<Rightarrow> go_error + string \<Rightarrow> string \<Rightarrow> string \<Rightarrow> ('s, unit) proc" where
  "copy_gentx A getwd dir file =
     (case isSubDir getwd file dir of
        Inr False \<Rightarrow> bindP (copyFile A file dir) (\<lambda>_. retP ())
      | _ \<Rightarrow> retP ())"

definition copy_gentxs ::
    "('s, 'h) os_ops \<Rightarrow> go_error + string \<Rightarrow> initArgs \<Rightarrow> string list \<Rightarrow> ('s, unit) proc" where
  "copy_gentxs A getwd args gentxsFiles =
     each (\<lambda>i. each (copy_gentx A getwd (gentxsDir args i)) gentxsFiles) [0..<nat (ia_numValidators args)]"

end
