(* ===== verification/MultiNodeRun.thy ===== *)
theory MultiNodeRun
  imports MultiNode
begin

text \<open>
  \<open>initTestnetFiles\<close> of \<open>testnet_multi_node.go\<close>: the loop that makes the files, keys and genesis
  transaction of each node, the common genesis file, the copies of the genesis transactions, and the
  final configuration. The configuration structs are shared by all nodes, as in the code: each step
  writes the fields it changes and the rest is what the step before left.
\<close>

section \<open>Configurations\<close>

record 'x node_config =
  nc_RootDir :: string
  nc_Moniker :: string
  nc_RPC_ListenAddress :: string
  nc_P2P_PersistentPeers :: string
  nc_P2P_AllowDuplicateIP :: bool
  nc_P2P_ListenAddress :: string
  nc_ProxyApp :: string
  nc_PrometheusListenAddr :: string
  nc_Prometheus :: bool
  nc_Rest :: 'x

text \<open>
  \<open>BaseConfig\<close> is embedded in the configuration of the application: \<open>appConfig.MinGasPrices\<close> and
  \<open>appConfig.BaseConfig.MinGasPrices\<close> are one field.
\<close>

record 'x srv_config =
  sc_MinGasPrices :: string
  sc_API_Enable :: bool
  sc_API_Address :: string
  sc_GRPC_Address :: string
  sc_EnableHostnameLabel :: bool
  sc_Telemetry_Enabled :: bool
  sc_PrometheusRetentionTime :: int
  sc_Rest :: 'x

definition testnet_app_config :: "string \<Rightarrow> 'x srv_config \<Rightarrow> initArgs \<Rightarrow> 'x srv_config" where
  "testnet_app_config defaultBondDenom defaultConfig args =
     (let c = defaultConfig\<lparr>sc_MinGasPrices := ia_minGasPrices args\<rparr>;
          c = c\<lparr>sc_API_Enable := False\<rparr>;
          c = c\<lparr>sc_MinGasPrices := ''0.0001'' @ defaultBondDenom\<rparr>;
          c = c\<lparr>sc_EnableHostnameLabel := False\<rparr>;
          c = c\<lparr>sc_Telemetry_Enabled := False\<rparr> in
      c\<lparr>sc_PrometheusRetentionTime := 0\<rparr>)"

section \<open>One node\<close>

text \<open>The message: rates and the least self delegation are the number one, the other texts of the
  description are empty.\<close>

record 'pk create_validator =
  cv_ValidatorAddress :: string
  cv_PubKey :: 'pk
  cv_Value :: coin
  cv_Moniker :: string
  cv_Rates :: "int \<times> int \<times> int"
  cv_MinSelfDelegation :: int

record ('s, 'pk, 'kb, 'alg, 'ad, 'm, 'b, 'x) node_ops =
  no_DefaultBondDenom :: string
  no_PowerReduction :: int
  no_NewCoin :: "string \<Rightarrow> int \<Rightarrow> go_error + coin"
  no_SortCoins :: "coin list \<Rightarrow> coin list"
  no_DefaultConfig :: "'x srv_config"
  no_InitializeNodeValidatorFiles :: "'x node_config \<Rightarrow> ('s, string \<times> 'pk) proc"
  no_GenesisFile :: "'x node_config \<Rightarrow> string"
  no_NewKeyring :: "string \<Rightarrow> string \<Rightarrow> ('s, 'kb) proc"
  no_SigningAlgo :: "'kb \<Rightarrow> string \<Rightarrow> go_error + 'alg"
  no_GenerateSaveCoinKey :: "'kb \<Rightarrow> string \<Rightarrow> 'alg \<Rightarrow> ('s, 'ad \<times> string) proc"
  no_MarshalSecret :: "string \<Rightarrow> go_error + bytes"
  no_AccString :: "'ad \<Rightarrow> string"
  no_ValString :: "'ad \<Rightarrow> string"
  no_NewMsgCreateValidator :: "'pk create_validator \<Rightarrow> go_error + 'm"
  no_NewTxBuilder :: 'b
  no_SetMsgs :: "'m list \<Rightarrow> 'b \<Rightarrow> go_error + 'b"
  no_SetMemo :: "string \<Rightarrow> 'b \<Rightarrow> 'b"
  no_Sign :: "string \<Rightarrow> string \<Rightarrow> 'kb \<Rightarrow> string \<Rightarrow> 'b \<Rightarrow> ('s, 'b) proc"
  no_EncodeTx :: "'b \<Rightarrow> go_error + bytes"
  no_WriteAppConfig :: "string \<Rightarrow> 'x srv_config \<Rightarrow> ('s, unit) proc"

text \<open>The variables of \<open>initTestnetFiles\<close> the loop over the nodes fills.\<close>

record ('pk, 'ad, 'x) testnet_vars =
  tv_nodeConfig :: "'x node_config"
  tv_appConfig :: "'x srv_config"
  tv_nodeIDs :: "string list"
  tv_valPubKeys :: "'pk list"
  tv_genAccounts :: "'ad list"
  tv_genBalances :: "(string \<times> coin list) list"
  tv_genFiles :: "string list"
  tv_persistentPeers :: string
  tv_gentxsFiles :: "string list"

text \<open>Some errors remove the output directory before they are returned.\<close>

definition or_remove :: "('s, 'h) os_ops \<Rightarrow> string \<Rightarrow> ('s, 'a) proc \<Rightarrow> ('s, 'a) proc" where
  "or_remove A dir p s =
     (case p s of (Err e, s') \<Rightarrow> (Err e, snd (os_RemoveAll A dir s')) | r \<Rightarrow> r)"

definition must_coin :: "go_error + coin \<Rightarrow> ('s, coin) proc" where
  "must_coin c = must (pureP c)"

definition node_coins ::
    "('s, 'pk, 'kb, 'alg, 'ad, 'm, 'b, 'x) node_ops \<Rightarrow> ('s, coin list) proc" where
  "node_coins N =
     bindP (must_coin (no_NewCoin N ''testtoken'' (1000 * no_PowerReduction N))) (\<lambda>accTokens.
     bindP (must_coin (no_NewCoin N (no_DefaultBondDenom N) (500 * no_PowerReduction N))) (\<lambda>accStakingTokens.
     retP (no_SortCoins N [accTokens, accStakingTokens])))"

text \<open>The stake of a node is its amount of the flag, and 100 units of power when it has none.\<close>

definition node_stake ::
    "('s, 'pk, 'kb, 'alg, 'ad, 'm, 'b, 'x) node_ops \<Rightarrow> initArgs \<Rightarrow> nat \<Rightarrow> ('s, coin) proc" where
  "node_stake N args i =
     (case ia_validatorsStakesAmount args i of
        Some c \<Rightarrow> retP c
      | None \<Rightarrow> must_coin (no_NewCoin N (no_DefaultBondDenom N) (100 * no_PowerReduction N)))"

text \<open>The signed genesis transaction of a node.\<close>

definition node_gentx ::
    "('s, 'pk, 'kb, 'alg, 'ad, 'm, 'b, 'x) node_ops \<Rightarrow> string \<Rightarrow> string \<Rightarrow> string \<Rightarrow> 'kb
     \<Rightarrow> 'pk create_validator \<Rightarrow> ('s, bytes) proc" where
  "node_gentx N chainID memo name kb cv =
     bindP (pureP (no_NewMsgCreateValidator N cv)) (\<lambda>createValMsg.
     bindP (pureP (no_SetMsgs N [createValMsg] (no_NewTxBuilder N))) (\<lambda>txBuilder.
     bindP (no_Sign N chainID memo kb name (no_SetMemo N memo txBuilder)) (\<lambda>txBuilder.
     pureP (no_EncodeTx N txBuilder))))"

definition init_node ::
    "('s, 'h) os_ops \<Rightarrow> ('s, 'pk, 'kb, 'alg, 'ad, 'm, 'b, 'x) node_ops \<Rightarrow> initArgs \<Rightarrow> nat
     \<Rightarrow> ('pk, 'ad, 'x) testnet_vars \<Rightarrow> ('s, ('pk, 'ad, 'x) testnet_vars) proc" where
  "init_node A N args i v =
     (let name = nodeDirName (ia_nodeDirPrefix args) i;
          dir = nodeDir args i;
          gentxs = gentxsDir_of_node args i;
          cfg = (tv_nodeConfig v)\<lparr>nc_RootDir := dir, nc_Moniker := name,
                  nc_RPC_ListenAddress := ''tcp://0.0.0.0:'' @ port_of args i\<rparr> in
      bindP (or_remove A (ia_outputDir args) (os_MkdirAll A (Join [dir, ''config'']))) (\<lambda>_.
      bindP (or_remove A (ia_outputDir args) (no_InitializeNodeValidatorFiles N cfg)) (\<lambda>(nodeID, valPubKey).
      let memo = node_memo (ia_startingIPAddress args) nodeID i in
      bindP (no_NewKeyring N (ia_keyringBackend args) dir) (\<lambda>kb.
      bindP (pureP (no_SigningAlgo N kb (ia_algo args))) (\<lambda>algo.
      bindP (or_remove A (ia_outputDir args) (no_GenerateSaveCoinKey N kb name algo)) (\<lambda>(addr, secret).
      bindP (pureP (no_MarshalSecret N secret)) (\<lambda>cliPrint.
      bindP (writeFile A (Join [dir, ''key_seed.json'']) dir cliPrint) (\<lambda>_.
      bindP (node_coins N) (\<lambda>coins.
      bindP (node_stake N args i) (\<lambda>valTokens.
      bindP (node_gentx N (ia_chainID args) memo name kb
              \<lparr>cv_ValidatorAddress = no_ValString N addr, cv_PubKey = valPubKey, cv_Value = valTokens,
               cv_Moniker = name, cv_Rates = (1, 1, 1), cv_MinSelfDelegation = 1\<rparr>) (\<lambda>txBz.
      let file = Join [gentxs, gentx_name nodeID];
          app = (tv_appConfig v)
            \<lparr>sc_GRPC_Address := ia_startingIPAddress args @ '':'' @ Itoa (grpc_port i),
             sc_API_Address := ''tcp://localhost:'' @ Itoa (api_port i)\<rparr> in
      bindP (writeFile A file gentxs txBz) (\<lambda>_.
      bindP (no_WriteAppConfig N (Join [dir, ''config'', ''app.toml'']) app) (\<lambda>_.
      retP
        \<lparr>tv_nodeConfig = cfg, tv_appConfig = app,
         tv_nodeIDs = tv_nodeIDs v @ [nodeID],
         tv_valPubKeys = tv_valPubKeys v @ [valPubKey],
         tv_genAccounts = tv_genAccounts v @ [addr],
         tv_genBalances = tv_genBalances v @ [(no_AccString N addr, coins)],
         tv_genFiles = tv_genFiles v @ [no_GenesisFile N cfg],
         tv_persistentPeers = add_peer (tv_persistentPeers v) memo,
         tv_gentxsFiles = tv_gentxsFiles v @ [file]\<rparr>)))))))))))))"

section \<open>The genesis files\<close>

record ('s, 'g, 'au, 'bk, 'ac, 'ad, 'j) gen_ops =
  go_DefaultGenesis :: "string \<Rightarrow> 'g option"
  go_authName :: string
  go_bankName :: string
  go_UnmarshalAuth :: "'g option \<Rightarrow> go_error + 'au"
  go_UnmarshalBank :: "'g option \<Rightarrow> go_error + 'bk"
  go_PackAccounts :: "'ad list \<Rightarrow> go_error + 'ac"
  go_SetAccounts :: "'ac \<Rightarrow> 'au \<Rightarrow> 'au"
  go_SetBalances :: "(string \<times> coin list) list \<Rightarrow> 'bk \<Rightarrow> 'bk"
  go_AddSupply :: "coin list \<Rightarrow> 'bk \<Rightarrow> 'bk"
  go_Sanitize :: "(string \<times> coin list) list \<Rightarrow> (string \<times> coin list) list"
  go_MarshalAuth :: "'au \<Rightarrow> go_error + 'g"
  go_MarshalBank :: "'bk \<Rightarrow> go_error + 'g"
  go_MarshalIndent :: "(string \<rightharpoonup> 'g) \<Rightarrow> go_error + 'j"
  go_SaveAs :: "string \<Rightarrow> 'j \<Rightarrow> string \<Rightarrow> ('s, unit) proc"    \<comment> \<open>chain id, application state, file\<close>

text \<open>The supply is the total of the balances after \<open>SanitizeGenesisBalances\<close>, added one by one.\<close>

definition genesis_bank :: "('s, 'g, 'au, 'bk, 'ac, 'ad, 'j) gen_ops \<Rightarrow> (string \<times> coin list) list \<Rightarrow> 'bk \<Rightarrow> 'bk" where
  "genesis_bank G genBalances bank =
     (let balances = go_Sanitize G genBalances in
      foldl (\<lambda>b (_, coins). go_AddSupply G coins b) (go_SetBalances G balances bank) balances)"

definition initGenFiles ::
    "('s, 'g, 'au, 'bk, 'ac, 'ad, 'j) gen_ops \<Rightarrow> string \<Rightarrow> 'ad list \<Rightarrow> (string \<times> coin list) list
     \<Rightarrow> string list \<Rightarrow> int \<Rightarrow> ('s, unit) proc" where
  "initGenFiles G chainID genAccounts genBalances genFiles numValidators =
     (let appGenState = go_DefaultGenesis G in
      bindP (must (pureP (go_UnmarshalAuth G (appGenState (go_authName G))))) (\<lambda>authGenState.
      bindP (pureP (go_PackAccounts G genAccounts)) (\<lambda>accounts.
      bindP (must (pureP (go_MarshalAuth G (go_SetAccounts G accounts authGenState)))) (\<lambda>auth.
      let appGenState = appGenState(go_authName G \<mapsto> auth) in
      bindP (must (pureP (go_UnmarshalBank G (appGenState (go_bankName G))))) (\<lambda>bankGenState.
      bindP (must (pureP (go_MarshalBank G (genesis_bank G genBalances bankGenState)))) (\<lambda>bank.
      let appGenState = appGenState(go_bankName G \<mapsto> bank) in
      bindP (pureP (go_MarshalIndent G appGenState)) (\<lambda>appGenStateJSON.
      each (\<lambda>i. go_SaveAs G chainID appGenStateJSON (genFiles ! i)) [0..<nat numValidators])))))))"

section \<open>The final configuration\<close>

record ('s, 'pk, 'a, 'j, 'x) collect_ops =
  co_GenesisFile :: "'x node_config \<Rightarrow> string"
  co_AppGenesisFromFile :: "string \<Rightarrow> ('s, 'a) proc"
  co_GenAppStateFromConfig :: "'x node_config \<Rightarrow> string \<Rightarrow> string \<Rightarrow> string \<Rightarrow> 'pk \<Rightarrow> 'a \<Rightarrow> ('s, 'j) proc"
  co_WriteConfigFile :: "string \<Rightarrow> 'x node_config \<Rightarrow> ('s, unit) proc"
  co_ExportGenesisFileWithTime :: "string \<Rightarrow> string \<Rightarrow> 'j option \<Rightarrow> int \<Rightarrow> ('s, unit) proc"

definition final_config :: "initArgs \<Rightarrow> string \<Rightarrow> nat \<Rightarrow> 'x node_config \<Rightarrow> 'x node_config" where
  "final_config args persistentPeers i cfg =
     cfg\<lparr>nc_P2P_PersistentPeers := persistentPeers,
         nc_P2P_AllowDuplicateIP := True,
         nc_P2P_ListenAddress := ''tcp://0.0.0.0:'' @ Itoa (p2p_port i),
         nc_RPC_ListenAddress := ''tcp://127.0.0.1:'' @ port_of args i,
         nc_ProxyApp := ''tcp://127.0.0.1:'' @ Itoa (proxy_port i),
         nc_PrometheusListenAddr := '':'' @ Itoa (prometheus_port i),
         nc_Prometheus := True\<rparr>"

definition node_config_of :: "initArgs \<Rightarrow> nat \<Rightarrow> 'x node_config \<Rightarrow> 'x node_config" where
  "node_config_of args i cfg =
     cfg\<lparr>nc_Moniker := nodeDirName (ia_nodeDirPrefix args) i, nc_RootDir := nodeDir args i\<rparr>"

text \<open>
  The application state of the first node is the one written for all. The configuration is handed to the
  next node as the last one left it.
\<close>

definition collect_node ::
    "('s, 'pk, 'a, 'j, 'x) collect_ops \<Rightarrow> initArgs \<Rightarrow> string list \<Rightarrow> 'pk list \<Rightarrow> string \<Rightarrow> int \<Rightarrow> nat
     \<Rightarrow> 'x node_config \<times> 'j option \<Rightarrow> ('s, 'x node_config \<times> 'j option) proc" where
  "collect_node K args nodeIDs valPubKeys persistentPeers genTime i =
     (\<lambda>(cfg, appState).
      let cfg = node_config_of args i cfg in
      bindP (co_AppGenesisFromFile K (co_GenesisFile K cfg)) (\<lambda>appGenesis.
      bindP (co_GenAppStateFromConfig K cfg (ia_chainID args) (gentxsDir args i) (nodeIDs ! i) (valPubKeys ! i)
              appGenesis) (\<lambda>nodeAppState.
      let cfg = final_config args persistentPeers i cfg in
      bindP (co_WriteConfigFile K (Join [nc_RootDir cfg, ''config'', ''config.toml'']) cfg) (\<lambda>_.
      let appState = (case appState of None \<Rightarrow> Some nodeAppState | Some j \<Rightarrow> Some j) in
      bindP (co_ExportGenesisFileWithTime K (co_GenesisFile K cfg) (ia_chainID args) appState genTime) (\<lambda>_.
      retP (cfg, appState))))))"

definition collectGenFiles ::
    "('s, 'pk, 'a, 'j, 'x) collect_ops \<Rightarrow> initArgs \<Rightarrow> 'x node_config \<Rightarrow> string list \<Rightarrow> 'pk list \<Rightarrow> string
     \<Rightarrow> int \<Rightarrow> ('s, unit) proc" where
  "collectGenFiles K args nodeConfig nodeIDs valPubKeys persistentPeers now =
     bindP (foldP (collect_node K args nodeIDs valPubKeys persistentPeers now) [0..<nat (ia_numValidators args)]
             (nodeConfig, None)) (\<lambda>_. retP ())"

section \<open>All of it\<close>

text \<open>\<open>make\<close> panics on a negative length.\<close>

definition initTestnetFiles ::
    "('s, 'h) os_ops \<Rightarrow> ('s, 'pk, 'kb, 'alg, 'ad, 'm, 'b, 'x) node_ops
     \<Rightarrow> ('s, 'g, 'au, 'bk, 'ac, 'ad, 'j) gen_ops \<Rightarrow> ('s, 'pk, 'a, 'j2, 'x) collect_ops
     \<Rightarrow> go_error + string \<Rightarrow> (nat \<Rightarrow> nat \<Rightarrow> nat) \<Rightarrow> int \<Rightarrow> 'x node_config \<Rightarrow> initArgs \<Rightarrow> ('s, unit) proc" where
  "initTestnetFiles A N G K getwd intn now nodeConfig args =
     (let args = (if ia_chainID args = '''' then args\<lparr>ia_chainID := ''chain-'' @ generateRandomString intn 6\<rparr>
                  else args) in
      if ia_numValidators args < 0 then panicP (LibError ''makeslice: len out of range'')
      else
        bindP (foldP (init_node A N args) [0..<nat (ia_numValidators args)]
          \<lparr>tv_nodeConfig = nodeConfig,
           tv_appConfig = testnet_app_config (no_DefaultBondDenom N) (no_DefaultConfig N) args,
           tv_nodeIDs = [], tv_valPubKeys = [], tv_genAccounts = [], tv_genBalances = [], tv_genFiles = [],
           tv_persistentPeers = '''', tv_gentxsFiles = []\<rparr>) (\<lambda>v.
        seqP
          [initGenFiles G (ia_chainID args) (tv_genAccounts v) (tv_genBalances v) (tv_genFiles v)
             (ia_numValidators args),
           copy_gentxs A getwd args (tv_gentxsFiles v),
           collectGenFiles K args (tv_nodeConfig v) (tv_nodeIDs v) (tv_valPubKeys v) (tv_persistentPeers v) now]))"

text \<open>The command: the arguments are parsed after the contexts have been read.\<close>

definition multi_node_RunE ::
    "('s, 'q) proc \<Rightarrow> initArgs outcome \<Rightarrow> ('q \<Rightarrow> initArgs \<Rightarrow> ('s, unit) proc) \<Rightarrow> ('s, unit) proc" where
  "multi_node_RunE getClientQueryContext args run =
     bindP getClientQueryContext (\<lambda>clientCtx. bindP (outcomeP args) (\<lambda>args. run clientCtx args))"

end
