(* ===== verification/FileSpec.thy ===== *)
theory FileSpec
  imports MultiNodeSpec
begin

text \<open>
  The contract of the file operations \<open>copyFile\<close> uses, over the files by the elements of their absolute
  path, and the effect of the copies of the genesis transactions. \<open>mem_os\<close> keeps the contract.
\<close>

section \<open>The contract\<close>

locale file_system =
  fixes A :: "('s, 'h) os_ops"
    and wd :: string
    and invar :: "'s \<Rightarrow> bool"
    and files :: "'s \<Rightarrow> string list \<Rightarrow> bytes option"
    and dirs :: "'s \<Rightarrow> string list set"
    and path :: "'h \<Rightarrow> string list"
  assumes wd: "IsAbs wd"
    and opens: "invar s \<Longrightarrow> files s (abs_elems wd p) = Some bz \<Longrightarrow>
      \<exists>h s'. os_Open A p s = (Ret h, s') \<and> path h = abs_elems wd p \<and> invar s' \<and> files s' = files s \<and> dirs s' = dirs s"
    and creates: "invar s \<Longrightarrow> abs_elems wd p = d @ [f] \<Longrightarrow> d \<in> dirs s \<Longrightarrow>
      \<exists>h s'. os_Create A p s = (Ret h, s') \<and> path h = abs_elems wd p \<and> invar s' \<and>
        files s' = (files s)(abs_elems wd p \<mapsto> []) \<and> dirs s' = dirs s"
    and copies: "invar s \<Longrightarrow> files s (path src) = Some bz \<Longrightarrow> path src \<noteq> path dst \<Longrightarrow> files s (path dst) = Some [] \<Longrightarrow>
      \<exists>n s'. os_Copy A dst src s = (Ret n, s') \<and> invar s' \<and> files s' = (files s)(path dst \<mapsto> bz) \<and> dirs s' = dirs s"
    and syncs: "invar s \<Longrightarrow> \<exists>s'. os_Sync A h s = (Ret (), s') \<and> invar s' \<and> files s' = files s \<and> dirs s' = dirs s"
    and closes: "invar s \<Longrightarrow> invar (snd (os_Close A h s)) \<and> files (snd (os_Close A h s)) = files s \<and>
      dirs (snd (os_Close A h s)) = dirs s"
begin

lemma copyFile_runs:
  assumes "invar s" "files s (abs_elems wd src) = Some bz" "dst = Join [dstDir, Base src]"
    "abs_elems wd dst = d @ [f]" "d \<in> dirs s" "abs_elems wd src \<noteq> abs_elems wd dst"
  shows "\<exists>n s'. copyFile A src dstDir s = (Ret n, s') \<and> invar s' \<and>
    files s' = (files s)(abs_elems wd dst \<mapsto> bz) \<and> dirs s' = dirs s"
proof -
  obtain h s1 where 1: "os_Open A src s = (Ret h, s1)" "path h = abs_elems wd src" "invar s1"
    "files s1 = files s" "dirs s1 = dirs s" using opens [OF assms(1,2)] by blast
  obtain g s2 where 2: "os_Create A dst s1 = (Ret g, s2)" "path g = abs_elems wd dst" "invar s2"
    "files s2 = (files s1)(abs_elems wd dst \<mapsto> [])" "dirs s2 = dirs s1"
    using creates [OF 1(3) assms(4)] 1(5) assms(5) by blast
  have "files s2 (path h) = Some bz" "path h \<noteq> path g" "files s2 (path g) = Some []"
    using assms(2,6) 1 2 by simp_all
  then obtain n s3 where 3: "os_Copy A g h s2 = (Ret n, s3)" "invar s3" "files s3 = (files s2)(path g \<mapsto> bz)"
    "dirs s3 = dirs s2" using copies [OF 2(3)] by blast
  obtain s4 where 4: "os_Sync A g s3 = (Ret (), s4)" "invar s4" "files s4 = files s3" "dirs s4 = dirs s3"
    using syncs [OF 3(2)] by blast
  note 5 = closes [OF 4(2), of g]
  note 6 = closes [of "snd (os_Close A g s4)" h]
  show ?thesis
    using 1 2 3 4 5 6
    by (simp add: copyFile_def assms(3) [symmetric] bindP_def deferring_def retP_def)
qed

text \<open>
  One copy changes one entry: file \<open>j\<close> goes to directory \<open>i\<close>, or is there already. \<open>E\<close> gives the elements
  of the directories, \<open>g\<close> the names of the files.
\<close>

lemma copy_gentx_runs:
  assumes E: "\<And>i. abs_elems wd (dir i) = B @ [q @ Itoa (int i), ''config'', ''gentx'']"
    and src: "src = Join [src_dir, g]" "src_dir \<noteq> ''''" "plain_elem g" "\<not> HasPrefix g ''..''"
    and src_dir: "abs_elems wd src_dir = B @ [q @ Itoa (int j), ''config'', ''gentx'']"
    and dir: "dir i \<noteq> ''''" "abs_elems wd (dir i) \<in> dirs s"
    and s: "invar s" "files s (abs_elems wd (dir j) @ [g]) = Some bz"
  shows "\<exists>s'. copy_gentx A (Inr wd) (dir i) src s = (Ret (), s') \<and> invar s' \<and>
    files s' = (files s)(abs_elems wd (dir i) @ [g] \<mapsto> bz) \<and> dirs s' = dirs s"
proof -
  have elems: "abs_elems wd src = abs_elems wd (dir j) @ [g]"
    unfolding src(1) using src(2,3) src_dir E by (simp add: abs_elems_Join_plain)
  have inside: "isSubDir (Inr wd) src (dir i) = Inr (i = j)"
    unfolding isSubDir_elems [OF wd] using src(4) by (auto simp: elems E Itoa_inj)
  show ?thesis
  proof (cases "i = j")
    case True
    then show ?thesis using s inside by (auto simp: copy_gentx_def retP_def fun_upd_idem)
  next
    case False
    have base: "Base src = g" unfolding src(1) using Base_Join [of src_dir g "[]"] src(2,3) by simp
    have dst: "abs_elems wd (Join [dir i, Base src]) = abs_elems wd (dir i) @ [g]"
      unfolding base using dir(1) src(3) by (simp add: abs_elems_Join_plain)
    have "abs_elems wd src \<noteq> abs_elems wd (Join [dir i, Base src])"
      unfolding elems dst E using False by (simp add: Itoa_inj)
    from copyFile_runs [OF s(1) _ refl dst dir(2) this] s(2) elems dst obtain n s' where
      "copyFile A src (dir i) s = (Ret n, s')" "invar s'"
      "files s' = (files s)(abs_elems wd (dir i) @ [g] \<mapsto> bz)" "dirs s' = dirs s" by auto
    then show ?thesis using inside False by (auto simp: copy_gentx_def bindP_def retP_def)
  qed
qed

end

section \<open>All copies\<close>

text \<open>
  \<open>spread D g bz ps m\<close> is the file system with file \<open>j\<close> in directory \<open>i\<close> for all pairs of \<open>ps\<close>; a pair of
  files that are where they should be stays so.
\<close>

definition spread ::
    "(nat \<Rightarrow> string list) \<Rightarrow> (nat \<Rightarrow> string) \<Rightarrow> (nat \<Rightarrow> bytes) \<Rightarrow> (nat \<times> nat) list
     \<Rightarrow> (string list \<Rightarrow> bytes option) \<Rightarrow> (string list \<Rightarrow> bytes option)" where
  "spread D g bz ps m = foldl (\<lambda>m (i, j). m(D i @ [g j] \<mapsto> bz j)) m ps"

lemma spread_lookup:
  assumes "inj_on g J" "\<forall>(i, j) \<in> set ps. j \<in> J"
  shows "spread D g bz ps m p =
    (if \<exists>(i, j) \<in> set ps. p = D i @ [g j] then Some (bz (THE j. j \<in> J \<and> g j = last p)) else m p)"
  using assms
proof (induction ps arbitrary: m)
  case (Cons ij ps)
  obtain i j where ij: "ij = (i, j)" by fastforce
  have j: "(THE k. k \<in> J \<and> g k = g j) = j"
    using Cons.prems ij by (intro the_equality) (auto dest: inj_onD)
  have "spread D g bz (ij # ps) m p = spread D g bz ps (m(D i @ [g j] \<mapsto> bz j)) p"
    by (simp add: spread_def ij)
  also have "\<dots> = (if \<exists>(i, j) \<in> set ps. p = D i @ [g j] then Some (bz (THE j. j \<in> J \<and> g j = last p))
      else (m(D i @ [g j] \<mapsto> bz j)) p)" using Cons by auto
  finally show ?case using j by (auto simp: ij)
qed (simp add: spread_def)

context file_system
begin

lemma each_copies:
  assumes E: "\<And>i. abs_elems wd (dir i) = B @ [q @ Itoa (int i), ''config'', ''gentx'']"
    and src: "\<forall>j < n. src j = Join [src_dir j, g j] \<and> src_dir j \<noteq> '''' \<and> plain_elem (g j) \<and>
      \<not> HasPrefix (g j) ''..'' \<and> abs_elems wd (src_dir j) = B @ [q @ Itoa (int j), ''config'', ''gentx'']"
    and dir: "\<forall>i < n. dir i \<noteq> '''' \<and> abs_elems wd (dir i) \<in> dirs s"
    and inj: "inj_on g {..<n}"
    and s: "invar s" "\<forall>j < n. files s (abs_elems wd (dir j) @ [g j]) = Some (bz j)"
    and ps: "\<forall>(i, j) \<in> set ps. i < n \<and> j < n"
  shows "\<exists>s'. each (\<lambda>(i, j). copy_gentx A (Inr wd) (dir i) (src j)) ps s = (Ret (), s') \<and> invar s' \<and>
    files s' = spread (\<lambda>i. abs_elems wd (dir i)) g bz ps (files s) \<and> dirs s' = dirs s"
  using dir s ps
proof (induction ps arbitrary: s)
  case Nil
  then show ?case by (simp add: retP_def spread_def)
next
  case (Cons ij ps)
  obtain i j where ij: "ij = (i, j)" "i < n" "j < n" using Cons.prems(4) by fastforce
  note sj = src [rule_format, OF ij(3)]
  obtain s1 where s1: "copy_gentx A (Inr wd) (dir i) (src j) s = (Ret (), s1)" "invar s1"
    "files s1 = (files s)(abs_elems wd (dir i) @ [g j] \<mapsto> bz j)" "dirs s1 = dirs s"
    using copy_gentx_runs [OF E, of "src j" "src_dir j" "g j" j i s "bz j"] sj Cons.prems ij by blast
  have "\<forall>k < n. files s1 (abs_elems wd (dir k) @ [g k]) = Some (bz k)"
    using Cons.prems(3) s1(3) inj ij(3) by (auto dest: inj_onD)
  moreover have "\<forall>i < n. dir i \<noteq> [] \<and> abs_elems wd (dir i) \<in> dirs s1" "\<forall>(i, j) \<in> set ps. i < n \<and> j < n"
    using Cons.prems(1,4) s1(4) by simp_all
  ultimately obtain s2 where
    "each (\<lambda>(i, j). copy_gentx A (Inr wd) (dir i) (src j)) ps s1 = (Ret (), s2)" "invar s2"
    "files s2 = spread (\<lambda>i. abs_elems wd (dir i)) g bz ps (files s1)" "dirs s2 = dirs s1"
    using Cons.IH [of s1] s1(2) by blast
  with s1 show ?case by (auto simp: ij(1) bindP_def spread_def)
qed

lemma each_nested: "each (\<lambda>i. each (f i) ys) xs = each (\<lambda>(i, y). f i y) (concat (map (\<lambda>i. map (Pair i) ys) xs))"
proof -
  have "each (f i) ys = each (\<lambda>(i, y). f i y) (map (Pair i) ys)" for i by (simp add: each_def comp_def)
  then show ?thesis by (induction xs) (simp_all add: each_def seqP_append)
qed

text \<open>Every node gets every genesis transaction, and no other file changes.\<close>

lemma gentxs_copied:
  assumes "ia_outputDir args \<noteq> ''''" "n = nat (ia_numValidators args)"
    and ids: "inj_on ids {..<n}" "\<forall>j < n. slash \<notin> set (ids j)"
    and "invar s" "\<forall>i < n. abs_elems wd (gentxsDir args i) \<in> dirs s"
    and "\<forall>j < n. files s (abs_elems wd (gentxsDir args j) @ [gentx_name (ids j)]) = Some (bz j)"
  shows "\<exists>s'. copy_gentxs A (Inr wd) args
      (map (\<lambda>j. Join [gentxsDir_of_node args j, gentx_name (ids j)]) [0..<n]) s = (Ret (), s') \<and>
    (\<forall>i < n. \<forall>j < n. files s' (abs_elems wd (gentxsDir args i) @ [gentx_name (ids j)]) = Some (bz j)) \<and>
    (\<forall>p. (\<forall>i < n. \<forall>j < n. p \<noteq> abs_elems wd (gentxsDir args i) @ [gentx_name (ids j)]) \<longrightarrow> files s' p = files s p)"
proof -
  let ?g = "\<lambda>j. gentx_name (ids j)" and ?ps = "concat (map (\<lambda>i. map (Pair i) [0..<n]) [0..<n])"
  obtain B q where E: "\<And>i. abs_elems wd (gentxsDir args i) = B @ [q @ Itoa (int i), ''config'', ''gentx'']"
    "\<And>i. abs_elems wd (gentxsDir_of_node args i) = B @ [q @ Itoa (int i), ''config'', ''gentx'']"
    using abs_gentxsDir [OF assms(1)] by metis
  have inj: "inj_on ?g {..<n}" using ids(1) by (auto simp: inj_on_def gentx_name_def)
  have src: "\<forall>j < n. Join [gentxsDir_of_node args j, ?g j] = Join [gentxsDir_of_node args j, ?g j] \<and>
      gentxsDir_of_node args j \<noteq> '''' \<and> plain_elem (?g j) \<and> \<not> HasPrefix (?g j) ''..'' \<and>
      abs_elems wd (gentxsDir_of_node args j) = B @ [q @ Itoa (int j), ''config'', ''gentx'']"
    using E(2) ids(2) plain_gentx_name
    by (simp add: gentxsDir_of_node_def Join_not_Nil assms(1)) (simp add: HasPrefix_def gentx_name_def)
  have dir: "\<forall>i < n. gentxsDir args i \<noteq> '''' \<and> abs_elems wd (gentxsDir args i) \<in> dirs s"
    using assms(6) by (simp add: gentxsDir_def nodeDir_def Join_not_Nil assms(1))
  have ps: "\<forall>(i, j) \<in> set ?ps. i < n \<and> j < n" by auto
  obtain s' where s': "each (\<lambda>(i, j). copy_gentx A (Inr wd) (gentxsDir args i)
      (Join [gentxsDir_of_node args j, ?g j])) ?ps s = (Ret (), s')"
    "files s' = spread (\<lambda>i. abs_elems wd (gentxsDir args i)) ?g bz ?ps (files s)"
    using each_copies [OF E(1) src dir inj assms(5,7) ps] by blast
  have "copy_gentxs A (Inr wd) args (map (\<lambda>j. Join [gentxsDir_of_node args j, ?g j]) [0..<n]) =
      each (\<lambda>i. each (\<lambda>j. copy_gentx A (Inr wd) (gentxsDir args i) (Join [gentxsDir_of_node args j, ?g j])) [0..<n]) [0..<n]"
    by (simp add: copy_gentxs_def assms(2) each_def comp_def)
  then have run: "copy_gentxs A (Inr wd) args (map (\<lambda>j. Join [gentxsDir_of_node args j, ?g j]) [0..<n]) s = (Ret (), s')"
    using s'(1) unfolding each_nested by (simp add: case_prod_unfold)
  have J: "\<forall>(i, j) \<in> set ?ps. j \<in> {..<n}" by auto
  note look = spread_lookup [OF inj J]
  have "files s' (abs_elems wd (gentxsDir args i) @ [?g j]) = Some (bz j)" if "i < n" "j < n" for i j
  proof -
    have "(THE k. k \<in> {..<n} \<and> ?g k = ?g j) = j"
      using that inj by (intro the_equality) (auto dest: inj_onD)
    then show ?thesis unfolding s'(2) look using that by auto
  qed
  moreover have "files s' p = files s p"
    if "\<forall>i < n. \<forall>j < n. p \<noteq> abs_elems wd (gentxsDir args i) @ [?g j]" for p
    unfolding s'(2) look using that by auto
  ultimately show ?thesis using run by blast
qed

end

section \<open>A file system in memory\<close>

record mem_fs =
  mf_files :: "string list \<rightharpoonup> bytes"
  mf_dirs :: "string list set"

definition mem_open :: "string \<Rightarrow> string \<Rightarrow> (mem_fs, string list) proc" where
  "mem_open wd p s =
     (if mf_files s (abs_elems wd p) = None then (Err (LibError ''no such file or directory''), s)
      else (Ret (abs_elems wd p), s))"

definition mem_create :: "string \<Rightarrow> string \<Rightarrow> (mem_fs, string list) proc" where
  "mem_create wd p s =
     (if abs_elems wd p \<noteq> [] \<and> butlast (abs_elems wd p) \<in> mf_dirs s then
        (Ret (abs_elems wd p), s\<lparr>mf_files := (mf_files s)(abs_elems wd p \<mapsto> [])\<rparr>)
      else (Err (LibError ''no such file or directory''), s))"

definition mem_os :: "string \<Rightarrow> (mem_fs, string list) os_ops" where
  "mem_os wd =
     \<lparr>os_MkdirAll = (\<lambda>p. changeP (\<lambda>s. s\<lparr>mf_dirs := insert (abs_elems wd p) (mf_dirs s)\<rparr>)),
      os_WriteFile = (\<lambda>p bz. bindP (mem_create wd p) (\<lambda>h. changeP (\<lambda>s. s\<lparr>mf_files := (mf_files s)(h \<mapsto> bz)\<rparr>))),
      os_RemoveAll = (\<lambda>p. changeP (\<lambda>s. s\<lparr>mf_files := (\<lambda>q. if take (length (abs_elems wd p)) q = abs_elems wd p
        then None else mf_files s q)\<rparr>)),
      os_Open = mem_open wd,
      os_Create = mem_create wd,
      os_Copy = (\<lambda>dst src. bindP (readP (\<lambda>s. case mf_files s src of None \<Rightarrow> Inl (LibError ''read'') | Some bz \<Rightarrow> Inr bz))
        (\<lambda>bz. bindP (changeP (\<lambda>s. s\<lparr>mf_files := (mf_files s)(dst \<mapsto> bz)\<rparr>)) (\<lambda>_. retP (of_nat (length bz))))),
      os_Sync = (\<lambda>_. retP ()),
      os_Close = (\<lambda>_. retP ())\<rparr>"

definition sample_wd :: string where
  "sample_wd = ''/home''"

interpretation mem: file_system "mem_os sample_wd" sample_wd "\<lambda>_. True" mf_files mf_dirs "\<lambda>h. h"
  by unfold_locales
    (auto simp: mem_os_def mem_open_def mem_create_def sample_wd_def IsAbs_iff bindP_def readP_def changeP_def retP_def)

end
