(* ===== verification/InPlace.thy ===== *)
theory InPlace
  imports GoStd Proc
begin

text \<open>
  \<open>cmd/veranatestd/cmd/testnet.go\<close> and the constructors of \<open>commands.go\<close>: the command that turns the
  state of a chain into that of a network with one new validator, and the export command. The options,
  the keepers and the stores are parameters. \<open>os.Exit(1)\<close> ends the process, as a panic does; both are the
  outcome \<open>Panic\<close>.
\<close>

section \<open>Arguments\<close>

datatype testnet_key = KeyNewValAddr | KeyUserPubKey | KeyNewOpAddr | KeyTriggerTestnetUpgrade | KeyHome

definition flagAccountsToFund :: string where
  "flagAccountsToFund = ''accounts-to-fund''"

definition valVotingPower :: int where
  "valVotingPower = 900000000000000"

text \<open>A value of the options, by its dynamic type.\<close>

datatype ('pk, 'v) option_value = HexBytesOpt bytes | PubKeyOpt 'pk | StringOpt string | OtherOpt 'v

record 'pk valArgs =
  va_newValAddr :: bytes
  va_newOperatorAddress :: string
  va_newValPubKey :: 'pk
  va_accountsToFund :: "string list"
  va_upgradeToTrigger :: string
  va_homeDir :: string

text \<open>\<open>toString\<close> is \<open>cast.ToString\<close>, \<open>key\<close> gives the names of the keys.\<close>

definition getCommandArgs ::
    "(testnet_key \<Rightarrow> string) \<Rightarrow> (('pk, 'v) option_value \<Rightarrow> string) \<Rightarrow> (string \<Rightarrow> ('pk, 'v) option_value)
     \<Rightarrow> go_error + 'pk valArgs" where
  "getCommandArgs key toString get =
     (case get (key KeyNewValAddr) of
        HexBytesOpt newValAddr \<Rightarrow>
     (case get (key KeyUserPubKey) of
        PubKeyOpt newValPubKey \<Rightarrow>
     (case get (key KeyNewOpAddr) of
        StringOpt newOperatorAddress \<Rightarrow>
     (case get (key KeyTriggerTestnetUpgrade) of
        StringOpt upgradeToTrigger \<Rightarrow>
          let accountsString = toString (get flagAccountsToFund);
              homeDir = toString (get (key KeyHome)) in
          if homeDir = '''' then Inl (Errorf ''invalid home dir'' [])
          else Inr \<lparr>va_newValAddr = newValAddr, va_newOperatorAddress = newOperatorAddress,
                 va_newValPubKey = newValPubKey,
                 va_accountsToFund = strings_Split accountsString CHR '','',
                 va_upgradeToTrigger = upgradeToTrigger, va_homeDir = homeDir\<rparr>
      | _ \<Rightarrow> Inl (Errorf ''upgradeToTrigger is not of type string'' []))
      | _ \<Rightarrow> Inl (Errorf ''newOperatorAddress is not of type string'' []))
      | _ \<Rightarrow> Inl (Errorf ''newValPubKey is not of type crypto.PubKey'' []))
      | _ \<Rightarrow> Inl (Errorf ''newValAddr is not of type bytes.HexBytes'' []))"

text \<open>An error that is not nil is printed and ends the process.\<close>

definition handleErr :: "('s, 'a) proc \<Rightarrow> ('s, 'a) proc" where
  "handleErr = must"

section \<open>The new validator\<close>

record ('any, 'd) testnet_validator =
  nv_OperatorAddress :: string
  nv_ConsensusPubkey :: 'any
  nv_Jailed :: bool
  nv_Bonded :: bool            \<comment> \<open>the status \<open>stakingtypes.Bonded\<close>\<close>
  nv_Tokens :: int
  nv_DelegatorShares :: 'd
  nv_Moniker :: string
  nv_Rate :: 'd
  nv_MaxRate :: 'd
  nv_MaxChangeRate :: 'd
  nv_MinSelfDelegation :: int

text \<open>\<open>dec\<close> is \<open>math.LegacyMustNewDecFromStr\<close>.\<close>

definition testnet_newVal :: "(string \<Rightarrow> 'd) \<Rightarrow> string \<Rightarrow> 'any \<Rightarrow> ('any, 'd) testnet_validator" where
  "testnet_newVal dec newOperatorAddress pubkeyAny =
     \<lparr>nv_OperatorAddress = newOperatorAddress, nv_ConsensusPubkey = pubkeyAny, nv_Jailed = False,
      nv_Bonded = True, nv_Tokens = valVotingPower, nv_DelegatorShares = dec ''10000000'',
      nv_Moniker = ''Testnet Validator'', nv_Rate = dec ''0.05'', nv_MaxRate = dec ''0.1'',
      nv_MaxChangeRate = dec ''0.05'', nv_MinSelfDelegation = 1\<rparr>"

record signing_info =
  tsi_Address :: string
  tsi_StartHeight :: "64 word"
  tsi_Tombstoned :: bool

section \<open>The state\<close>

text \<open>
  The keepers and the staking store. \<open>DecCoins\<close> that are empty are not written out: the records of the
  distribution module are set to their empty value, the historical and current rewards with the
  reference count or period 1.
\<close>

record ('s, 'pk, 'any, 'd, 'c) testnet_keepers =
  nk_PackPubKey :: "'pk \<Rightarrow> go_error + 'any"
  nk_Dec :: "string \<Rightarrow> 'd"
  nk_ValBytes :: "string \<Rightarrow> go_error + bytes"
  nk_PowerIterator :: "'s \<Rightarrow> go_error + bytes list"
  nk_LastValidatorsIterator :: "'s \<Rightarrow> go_error + bytes list"
  nk_RangeIterator :: "bytes \<Rightarrow> bytes \<Rightarrow> 's \<Rightarrow> bytes list"
  nk_ValidatorsKey :: bytes
  nk_ValidatorQueueKey :: bytes
  nk_PrefixEndBytes :: "bytes \<Rightarrow> bytes"
  nk_Delete :: "bytes \<Rightarrow> 's \<Rightarrow> 's"
  nk_SetValidator :: "('any, 'd) testnet_validator \<Rightarrow> ('s, unit) proc"
  nk_SetValidatorByConsAddr :: "('any, 'd) testnet_validator \<Rightarrow> ('s, unit) proc"
  nk_SetValidatorByPowerIndex :: "('any, 'd) testnet_validator \<Rightarrow> ('s, unit) proc"
  nk_SetLastValidatorPower :: "bytes \<Rightarrow> 64 word \<Rightarrow> ('s, unit) proc"
  nk_AfterValidatorCreated :: "bytes \<Rightarrow> ('s, unit) proc"
  nk_SetHistoricalRewards :: "bytes \<Rightarrow> 64 word \<Rightarrow> 32 word \<Rightarrow> ('s, unit) proc"
  nk_SetCurrentRewards :: "bytes \<Rightarrow> 64 word \<Rightarrow> ('s, unit) proc"
  nk_SetAccumulatedCommission :: "bytes \<Rightarrow> ('s, unit) proc"
  nk_SetOutstandingRewards :: "bytes \<Rightarrow> ('s, unit) proc"
  nk_ConsAddressString :: "bytes \<Rightarrow> string"
  nk_LastBlockHeight :: "64 word"
  nk_SetSigningInfo :: "bytes \<Rightarrow> signing_info \<Rightarrow> ('s, unit) proc"
  nk_BondDenom :: "'s \<Rightarrow> go_error + string"
  nk_NewCoins :: "string \<Rightarrow> int \<Rightarrow> go_error + 'c"
  nk_MintModule :: string
  nk_MintCoins :: "string \<Rightarrow> 'c \<Rightarrow> ('s, unit) proc"
  nk_AccBytes :: "string \<Rightarrow> go_error + bytes"
  nk_SendFromModule :: "string \<Rightarrow> bytes \<Rightarrow> 'c \<Rightarrow> ('s, unit) proc"

text \<open>An iterator is opened, then every key it stops at is deleted.\<close>

definition delete_keys ::
    "('s, 'pk, 'any, 'd, 'c) testnet_keepers \<Rightarrow> ('s \<Rightarrow> go_error + bytes list) \<Rightarrow> ('s, unit) proc" where
  "delete_keys X items = bindP (handleErr (readP items)) (each (\<lambda>k. changeP (nk_Delete X k)))"

definition prefix_items ::
    "('s, 'pk, 'any, 'd, 'c) testnet_keepers \<Rightarrow> bytes \<Rightarrow> 's \<Rightarrow> go_error + bytes list" where
  "prefix_items X p s = Inr (nk_RangeIterator X p (nk_PrefixEndBytes X p) s)"

definition remove_validators :: "('s, 'pk, 'any, 'd, 'c) testnet_keepers \<Rightarrow> ('s, unit) proc" where
  "remove_validators X =
     seqP
       [delete_keys X (nk_PowerIterator X),
        delete_keys X (nk_LastValidatorsIterator X),
        delete_keys X (prefix_items X (nk_ValidatorsKey X)),
        delete_keys X (prefix_items X (nk_ValidatorQueueKey X))]"

definition add_validator ::
    "('s, 'pk, 'any, 'd, 'c) testnet_keepers \<Rightarrow> ('any, 'd) testnet_validator \<Rightarrow> bytes \<Rightarrow> ('s, unit) proc" where
  "add_validator X newVal validator =
     seqP
       [handleErr (nk_SetValidator X newVal),
        handleErr (nk_SetValidatorByConsAddr X newVal),
        handleErr (nk_SetValidatorByPowerIndex X newVal),
        handleErr (nk_SetLastValidatorPower X validator 0),
        handleErr (nk_AfterValidatorCreated X validator),
        handleErr (nk_SetHistoricalRewards X validator 0 1),
        handleErr (nk_SetCurrentRewards X validator 1),
        handleErr (nk_SetAccumulatedCommission X validator),
        handleErr (nk_SetOutstandingRewards X validator)]"

definition testnet_signing_info ::
    "('s, 'pk, 'any, 'd, 'c) testnet_keepers \<Rightarrow> bytes \<Rightarrow> signing_info" where
  "testnet_signing_info X newConsAddr =
     \<lparr>tsi_Address = nk_ConsAddressString X newConsAddr, tsi_StartHeight = nk_LastBlockHeight X - 1,
      tsi_Tombstoned = False\<rparr>"

definition fund_account ::
    "('s, 'pk, 'any, 'd, 'c) testnet_keepers \<Rightarrow> 'c \<Rightarrow> string \<Rightarrow> ('s, unit) proc" where
  "fund_account X defaultCoins accountStr =
     bindP (handleErr (nk_MintCoins X (nk_MintModule X) defaultCoins)) (\<lambda>_.
     bindP (handleErr (pureP (nk_AccBytes X accountStr))) (\<lambda>account.
     handleErr (nk_SendFromModule X (nk_MintModule X) account defaultCoins)))"

definition fund_accounts ::
    "('s, 'pk, 'any, 'd, 'c) testnet_keepers \<Rightarrow> string list \<Rightarrow> ('s, unit) proc" where
  "fund_accounts X accountsToFund =
     bindP (handleErr (readP (nk_BondDenom X))) (\<lambda>bondDenom.
     bindP (must (pureP (nk_NewCoins X bondDenom 1000000000))) (\<lambda>defaultCoins.
     each (fund_account X defaultCoins) accountsToFund))"

definition initAppForTestnet ::
    "('s, 'pk, 'any, 'd, 'c) testnet_keepers \<Rightarrow> 'pk valArgs \<Rightarrow> ('s, unit) proc" where
  "initAppForTestnet X args =
     bindP (handleErr (pureP (nk_PackPubKey X (va_newValPubKey args)))) (\<lambda>pubkeyAny.
     let newVal = testnet_newVal (nk_Dec X) (va_newOperatorAddress args) pubkeyAny in
     bindP (handleErr (pureP (nk_ValBytes X (nv_OperatorAddress newVal)))) (\<lambda>validator.
     seqP
       [remove_validators X,
        add_validator X newVal validator,
        ignoring (nk_SetSigningInfo X (va_newValAddr args) (testnet_signing_info X (va_newValAddr args))),
        fund_accounts X (va_accountsToFund args)]))"

section \<open>Constructors\<close>

text \<open>\<open>newApp\<close> of \<open>commands.go\<close> loads the latest state with the default options; \<open>new\<close> is \<open>app.New\<close>.\<close>

definition newApp :: "('p \<Rightarrow> 'o list) \<Rightarrow> (bool \<Rightarrow> 'p \<Rightarrow> 'o list \<Rightarrow> 'a outcome) \<Rightarrow> 'p \<Rightarrow> 'a outcome" where
  "newApp defaultBaseappOptions new appOpts = new True appOpts (defaultBaseappOptions appOpts)"

text \<open>The application \<open>newApp\<close> returns always is an \<open>*app.App\<close>.\<close>

definition newTestnetApp ::
    "'s outcome \<Rightarrow> (go_error + 'pk valArgs) \<Rightarrow> ('s, 'pk, 'any, 'd, 'c) testnet_keepers \<Rightarrow> 's outcome" where
  "newTestnetApp built args X =
     (case built of
        Ret app \<Rightarrow>
          (case args of
             Inl err \<Rightarrow> Panic err
           | Inr a \<Rightarrow>
               (case initAppForTestnet X a app of
                  (Ret _, app) \<Rightarrow> Ret app
                | (Err e, _) \<Rightarrow> Err e
                | (Panic e, _) \<Rightarrow> Panic e))
      | r \<Rightarrow> r)"

text \<open>
  \<open>home\<close> is the home option when it is a string, \<open>isViper\<close> the type test on the options; the result is a
  value and an error.
\<close>

definition appExport ::
    "string option \<Rightarrow> bool \<Rightarrow> (bool \<Rightarrow> 'a outcome) \<Rightarrow> (64 word \<Rightarrow> ('a, unit) proc)
     \<Rightarrow> (bool \<Rightarrow> string list \<Rightarrow> string list \<Rightarrow> 'a \<Rightarrow> ('e \<times> go_error option) outcome) \<Rightarrow> 'e
     \<Rightarrow> 64 word \<Rightarrow> bool \<Rightarrow> string list \<Rightarrow> string list \<Rightarrow> ('e \<times> go_error option) outcome" where
  "appExport home isViper new loadHeight export zero height forZeroHeight jailAllowedAddrs modulesToExport =
     (if home = None \<or> home = Some '''' then Ret (zero, Some (Errorf ''application home not set'' []))
      else if \<not> isViper then Ret (zero, Some (Errorf ''appOpts is not viper.Viper'' []))
      else if height \<noteq> - 1 then
        (case new False of
           Ret bApp \<Rightarrow>
             (case loadHeight height bApp of
                (Err err, _) \<Rightarrow> Ret (zero, Some err)
              | (Panic e, _) \<Rightarrow> Panic e
              | (Ret _, bApp) \<Rightarrow> export forZeroHeight jailAllowedAddrs modulesToExport bApp)
         | Err e \<Rightarrow> Err e | Panic e \<Rightarrow> Panic e)
      else
        (case new True of
           Ret bApp \<Rightarrow> export forZeroHeight jailAllowedAddrs modulesToExport bApp
         | Err e \<Rightarrow> Err e | Panic e \<Rightarrow> Panic e))"

end
