(* ===== verification/InPlaceSpec.thy ===== *)
theory InPlaceSpec
  imports InPlace Wire
begin

text \<open>
  The contracts of the stores \<open>initAppForTestnet\<close> works on: the staking store as its set of keys, the bank
  as balances of one denomination. \<open>sample_keepers\<close> keeps both.
\<close>

section \<open>The staking store\<close>

lemma each_deletes:
  assumes "\<And>k s. keys (nk_Delete X k s) = keys s - {k}"
  shows "\<exists>s'. each (\<lambda>k. changeP (nk_Delete X k)) ks s = (Ret (), s') \<and> keys s' = keys s - set ks"
proof (induction ks arbitrary: s)
  case (Cons k ks)
  obtain s' where "each (\<lambda>k. changeP (nk_Delete X k)) ks (nk_Delete X k s) = (Ret (), s')"
    "keys s' = keys (nk_Delete X k s) - set ks" using Cons.IH by blast
  moreover have "each (\<lambda>k. changeP (nk_Delete X k)) (k # ks) s =
      each (\<lambda>k. changeP (nk_Delete X k)) ks (nk_Delete X k s)"
    by (simp add: bindP_def changeP_def [of "nk_Delete X k"])
  ultimately show ?case using assms by auto
qed (simp add: retP_def)

locale staking_store =
  fixes X :: "('s, 'pk, 'any, 'd, 'c) testnet_keepers"
    and keys :: "'s \<Rightarrow> bytes set"
    and powers lasts vals queue :: "bytes set"    \<comment> \<open>the keys of the four parts\<close>
  assumes power: "\<exists>ks. nk_PowerIterator X s = Inr ks \<and> set ks = keys s \<inter> powers"
    and last: "\<exists>ks. nk_LastValidatorsIterator X s = Inr ks \<and> set ks = keys s \<inter> lasts"
    and val: "set (nk_RangeIterator X (nk_ValidatorsKey X) (nk_PrefixEndBytes X (nk_ValidatorsKey X)) s) =
      keys s \<inter> vals"
    and que: "set (nk_RangeIterator X (nk_ValidatorQueueKey X) (nk_PrefixEndBytes X (nk_ValidatorQueueKey X)) s) =
      keys s \<inter> queue"
    and delete: "keys (nk_Delete X k s) = keys s - {k}"
begin

lemma delete_keys_runs:
  assumes "items s = Inr ks" "set ks = keys s \<inter> K"
  shows "\<exists>s'. delete_keys X items s = (Ret (), s') \<and> keys s' = keys s - K"
proof -
  obtain s' where "each (\<lambda>k. changeP (nk_Delete X k)) ks s = (Ret (), s')" "keys s' = keys s - set ks"
    using each_deletes [OF delete] by blast
  with assms show ?thesis by (auto simp: delete_keys_def handleErr_def must_def readP_def bindP_def)
qed

lemma remove_runs:
  "\<exists>s'. remove_validators X s = (Ret (), s') \<and> keys s' = keys s - (powers \<union> lasts \<union> vals \<union> queue)"
proof -
  obtain s1 where 1: "delete_keys X (nk_PowerIterator X) s = (Ret (), s1)" "keys s1 = keys s - powers"
    using power [of s] delete_keys_runs [of "nk_PowerIterator X" s] by blast
  obtain s2 where 2: "delete_keys X (nk_LastValidatorsIterator X) s1 = (Ret (), s2)" "keys s2 = keys s1 - lasts"
    using last [of s1] delete_keys_runs [of "nk_LastValidatorsIterator X" s1] by blast
  obtain s3 where 3: "delete_keys X (prefix_items X (nk_ValidatorsKey X)) s2 = (Ret (), s3)" "keys s3 = keys s2 - vals"
    using delete_keys_runs [of "prefix_items X (nk_ValidatorsKey X)" s2, OF prefix_items_def val] by blast
  obtain s4 where 4: "delete_keys X (prefix_items X (nk_ValidatorQueueKey X)) s3 = (Ret (), s4)"
    "keys s4 = keys s3 - queue"
    using delete_keys_runs [of "prefix_items X (nk_ValidatorQueueKey X)" s3, OF prefix_items_def que] by blast
  show ?thesis using 1 2 3 4 by (auto simp: remove_validators_def bindP_def retP_def)
qed

end

section \<open>The bank\<close>

locale testnet_bank =
  fixes X :: "('s, 'pk, 'any, 'd, 'c) testnet_keepers"
    and bal :: "'s \<Rightarrow> bytes \<Rightarrow> int"
    and minted :: "'s \<Rightarrow> int"
    and mint :: bytes
    and denom :: string
    and grant :: 'c
  assumes bond: "nk_BondDenom X s = Inr denom"
    and coins: "nk_NewCoins X denom 1000000000 = Inr grant"
    and mints: "\<exists>s'. nk_MintCoins X (nk_MintModule X) grant s = (Ret (), s') \<and> minted s' = minted s + 1000000000 \<and>
      bal s' = (bal s)(mint := bal s mint + 1000000000)"
    and sends: "a \<noteq> mint \<Longrightarrow> 1000000000 \<le> bal s mint \<Longrightarrow>
      \<exists>s'. nk_SendFromModule X (nk_MintModule X) a grant s = (Ret (), s') \<and> minted s' = minted s \<and>
      bal s' = (bal s)(mint := bal s mint - 1000000000, a := bal s a + 1000000000)"
begin

lemma fund_account_runs:
  assumes "nk_AccBytes X str = Inr a" "a \<noteq> mint" "0 \<le> bal s mint"
  shows "\<exists>s'. fund_account X grant str s = (Ret (), s') \<and> minted s' = minted s + 1000000000 \<and>
    bal s' = (bal s)(a := bal s a + 1000000000)"
proof -
  obtain s1 where 1: "nk_MintCoins X (nk_MintModule X) grant s = (Ret (), s1)" "minted s1 = minted s + 1000000000"
    "bal s1 = (bal s)(mint := bal s mint + 1000000000)" using mints by blast
  then have "1000000000 \<le> bal s1 mint" using assms(3) by simp
  then obtain s2 where "nk_SendFromModule X (nk_MintModule X) a grant s1 = (Ret (), s2)" "minted s2 = minted s1"
    "bal s2 = (bal s1)(mint := bal s1 mint - 1000000000, a := bal s1 a + 1000000000)"
    using sends [OF assms(2)] by blast
  with 1 assms(1,2) show ?thesis
    by (auto simp: fund_account_def handleErr_def must_def bindP_def pureP_def fun_eq_iff)
qed

lemma each_funds:
  assumes "\<forall>str \<in> set strs. nk_AccBytes X str = Inr (ad str) \<and> ad str \<noteq> mint" "0 \<le> bal s mint"
  shows "\<exists>s'. each (fund_account X grant) strs s = (Ret (), s') \<and>
    minted s' = minted s + 1000000000 * int (length strs) \<and>
    (\<forall>a. bal s' a = bal s a + 1000000000 * int (count_list (map ad strs) a))"
  using assms
proof (induction strs arbitrary: s)
  case (Cons str strs)
  obtain s1 where 1: "fund_account X grant str s = (Ret (), s1)" "minted s1 = minted s + 1000000000"
    "bal s1 = (bal s)(ad str := bal s (ad str) + 1000000000)"
    using fund_account_runs [of str "ad str" s] Cons.prems by auto
  have "0 \<le> bal s1 mint" using Cons.prems 1(3) by auto
  with Cons obtain s2 where 2: "each (fund_account X grant) strs s1 = (Ret (), s2)"
    "minted s2 = minted s1 + 1000000000 * int (length strs)"
    "\<forall>a. bal s2 a = bal s1 a + 1000000000 * int (count_list (map ad strs) a)" by force
  with 1 show ?case by (auto simp: bindP_def)
qed (simp add: retP_def)

lemma fund_runs:
  assumes "\<forall>str \<in> set strs. nk_AccBytes X str = Inr (ad str) \<and> ad str \<noteq> mint" "0 \<le> bal s mint"
  shows "\<exists>s'. fund_accounts X strs s = (Ret (), s') \<and>
    minted s' = minted s + 1000000000 * int (length strs) \<and>
    (\<forall>a. bal s' a = bal s a + 1000000000 * int (count_list (map ad strs) a))"
  using each_funds [OF assms]
  by (simp add: fund_accounts_def handleErr_def must_def bindP_def readP_def pureP_def bond coins)

end

section \<open>An instance\<close>

record testnet_chain =
  nt_keys :: "bytes list"
  nt_bal :: "bytes \<Rightarrow> int"
  nt_supply :: int

definition with_byte :: "byte \<Rightarrow> bytes \<Rightarrow> bool" where
  "with_byte b k \<longleftrightarrow> k \<noteq> [] \<and> hd k = b"

definition mint_address :: bytes where
  "mint_address = bytes_of_string ''mint''"

definition sample_keepers :: "(testnet_chain, unit, unit, string, int) testnet_keepers" where
  "sample_keepers =
     \<lparr>nk_PackPubKey = Inr, nk_Dec = (\<lambda>s. s),
      nk_ValBytes = (\<lambda>s. Inr (bytes_of_string s)),
      nk_PowerIterator = (\<lambda>s. Inr (filter (with_byte 0x23) (nt_keys s))),
      nk_LastValidatorsIterator = (\<lambda>s. Inr (filter (with_byte 0x11) (nt_keys s))),
      nk_RangeIterator = (\<lambda>p e s. filter (with_byte (hd p)) (nt_keys s)),
      nk_ValidatorsKey = [0x21], nk_ValidatorQueueKey = [0x43],
      nk_PrefixEndBytes = (\<lambda>p. [hd p + 1]),
      nk_Delete = (\<lambda>k s. s\<lparr>nt_keys := removeAll k (nt_keys s)\<rparr>),
      nk_SetValidator = (\<lambda>v. changeP (\<lambda>s. s\<lparr>nt_keys := nt_keys s @ [0x21 # bytes_of_string (nv_OperatorAddress v)]\<rparr>)),
      nk_SetValidatorByConsAddr = (\<lambda>v. retP ()),
      nk_SetValidatorByPowerIndex = (\<lambda>v. retP ()),
      nk_SetLastValidatorPower = (\<lambda>a p. retP ()),
      nk_AfterValidatorCreated = (\<lambda>a. retP ()),
      nk_SetHistoricalRewards = (\<lambda>a p r. retP ()),
      nk_SetCurrentRewards = (\<lambda>a p. retP ()),
      nk_SetAccumulatedCommission = (\<lambda>a. retP ()),
      nk_SetOutstandingRewards = (\<lambda>a. retP ()),
      nk_ConsAddressString = string_of_bytes,
      nk_LastBlockHeight = 7,
      nk_SetSigningInfo = (\<lambda>a i. retP ()),
      nk_BondDenom = (\<lambda>s. Inr ''stake''),
      nk_NewCoins = (\<lambda>d n. Inr n),
      nk_MintModule = ''mint'',
      nk_MintCoins = (\<lambda>m c. changeP (\<lambda>s. s\<lparr>nt_supply := nt_supply s + c,
        nt_bal := (nt_bal s)(bytes_of_string m := nt_bal s (bytes_of_string m) + c)\<rparr>)),
      nk_AccBytes = (\<lambda>s. if s = '''' then Inl (LibError ''empty address string is not allowed'')
        else Inr (bytes_of_string s)),
      nk_SendFromModule = (\<lambda>m a c s.
        if nt_bal s (bytes_of_string m) < c then (Err (LibError ''insufficient funds''), s)
        else (Ret (), s\<lparr>nt_bal := (nt_bal s)(bytes_of_string m := nt_bal s (bytes_of_string m) - c,
          a := ((nt_bal s)(bytes_of_string m := nt_bal s (bytes_of_string m) - c)) a + c)\<rparr>))\<rparr>"

interpretation sample_staking: staking_store sample_keepers "\<lambda>s. set (nt_keys s)"
  "{k. with_byte 0x23 k}" "{k. with_byte 0x11 k}" "{k. with_byte 0x21 k}" "{k. with_byte 0x43 k}"
  by unfold_locales (auto simp: sample_keepers_def)

interpretation sample_bank: testnet_bank sample_keepers nt_bal nt_supply mint_address "''stake''" 1000000000
  by unfold_locales (auto simp: sample_keepers_def changeP_def mint_address_def)

definition sample_testnet :: testnet_chain where
  "sample_testnet =
     \<lparr>nt_keys = [[0x21, 1], [0x21, 2], [0x23, 9], [0x11, 1], [0x43, 5], [0x99]], nt_bal = (\<lambda>_. 0), nt_supply = 0\<rparr>"

end
