(* ===== verification/Client.thy ===== *)
theory Client
  imports TdModule VrModule GoStd
begin

text \<open>
  The command descriptions of the two modules (\<open>AutoCLIOptions\<close>), the methods they refer to,
  the interfaces the modules register, and the simulation entry points. The simulated
  messages are scaffolding that does nothing.
\<close>

section \<open>Services and messages\<close>

datatype service_desc = ServiceDesc string "string list"   \<comment> \<open>name and methods\<close>

fun sd_ServiceName :: "service_desc \<Rightarrow> string" where
  "sd_ServiceName (ServiceDesc n ms) = n"

fun sd_Methods :: "service_desc \<Rightarrow> string list" where
  "sd_Methods (ServiceDesc n ms) = ms"

definition td_Query_serviceDesc :: service_desc where
  "td_Query_serviceDesc = ServiceDesc ''veranatest.td.v1.Query'' [''Params'']"

definition td_Msg_serviceDesc :: service_desc where
  "td_Msg_serviceDesc = ServiceDesc ''veranatest.td.v1.Msg'' [''UpdateParams'', ''FundModule'']"

definition vr_Query_serviceDesc :: service_desc where
  "vr_Query_serviceDesc =
     ServiceDesc ''veranatest.validatorregistry.v1.Query'' [''Params'', ''GetValidator'', ''ListValidator'']"

definition vr_Msg_serviceDesc :: service_desc where
  "vr_Msg_serviceDesc = ServiceDesc ''veranatest.validatorregistry.v1.Msg'' [''UpdateParams'', ''OnboardValidator'']"

section \<open>Command descriptions\<close>

record rpc_command =
  rpc_Method :: string
  rpc_Use :: string
  rpc_Short :: string
  rpc_Alias :: "string list"
  rpc_Skip :: bool
  rpc_PositionalArgs :: "string list"

definition plain_command :: "string \<Rightarrow> string \<Rightarrow> string \<Rightarrow> string list \<Rightarrow> rpc_command" where
  "plain_command method use short args =
     \<lparr>rpc_Method = method, rpc_Use = use, rpc_Short = short, rpc_Alias = [], rpc_Skip = False,
      rpc_PositionalArgs = args\<rparr>"

definition skipped_command :: "string \<Rightarrow> rpc_command" where
  "skipped_command method =
     \<lparr>rpc_Method = method, rpc_Use = '''', rpc_Short = '''', rpc_Alias = [], rpc_Skip = True,
      rpc_PositionalArgs = []\<rparr>"

record service_commands =
  sc_Service :: string
  sc_EnhanceCustomCommand :: bool
  sc_Commands :: "rpc_command list"

record module_options =
  mo_Query :: service_commands
  mo_Tx :: service_commands

definition td_AutoCLIOptions :: module_options where
  "td_AutoCLIOptions =
     \<lparr>mo_Query =
        \<lparr>sc_Service = sd_ServiceName td_Query_serviceDesc, sc_EnhanceCustomCommand = False,
         sc_Commands = [plain_command ''Params'' ''params'' ''Shows the parameters of the module'' []]\<rparr>,
      mo_Tx =
        \<lparr>sc_Service = sd_ServiceName td_Msg_serviceDesc, sc_EnhanceCustomCommand = True,
         sc_Commands =
           [skipped_command ''UpdateParams'',
            plain_command ''FundModule'' ''fund-module [amount] [module-name]'' ''Send a fund-module tx''
              [''amount'', ''module'']]\<rparr>\<rparr>"

definition vr_AutoCLIOptions :: module_options where
  "vr_AutoCLIOptions =
     \<lparr>mo_Query =
        \<lparr>sc_Service = sd_ServiceName vr_Query_serviceDesc, sc_EnhanceCustomCommand = False,
         sc_Commands =
           [plain_command ''Params'' ''params'' ''Shows the parameters of the module'' [],
            plain_command ''ListValidator'' ''list-validator'' ''List all validator'' [],
            (plain_command ''GetValidator'' ''get-validator [id]'' ''Gets a validator'' [''index''])
              \<lparr>rpc_Alias := [''show-validator'']\<rparr>]\<rparr>,
      mo_Tx =
        \<lparr>sc_Service = sd_ServiceName vr_Msg_serviceDesc, sc_EnhanceCustomCommand = True,
         sc_Commands =
           [skipped_command ''UpdateParams'',
            plain_command ''OnboardValidator''
              ''onboard-validator [index] [member-id] [operator-address] [consensus-pubkey] [status] [term-end]''
              ''Send a onboard-validator tx''
              [''index'', ''member_id'', ''operator_address'', ''consensus_pubkey'', ''status'', ''term_end'']]\<rparr>\<rparr>"

section \<open>Registered interfaces\<close>

text \<open>The messages each module registers as implementations of \<open>sdk.Msg\<close>, then the service.\<close>

definition td_RegisterInterfaces :: "string list \<times> service_desc" where
  "td_RegisterInterfaces = ([''MsgFundModule'', ''MsgUpdateParams''], td_Msg_serviceDesc)"

definition vr_RegisterInterfaces :: "string list \<times> service_desc" where
  "vr_RegisterInterfaces = ([''MsgOnboardValidator'', ''MsgUpdateParams''], vr_Msg_serviceDesc)"

section \<open>Simulation\<close>

text \<open>
  The default genesis state is stored under the name of the module; a codec that fails panics. The loop
  over the accounts fills a slice that is not used.
\<close>

definition td_GenerateGenesisState ::
    "'d dec_ops \<Rightarrow> ('d TdGenesisState \<Rightarrow> go_error + 'j) \<Rightarrow> (string \<rightharpoonup> 'j) \<Rightarrow> (string \<rightharpoonup> 'j) outcome" where
  "td_GenerateGenesisState L marshalJSON genState =
     (case marshalJSON \<lparr>tgs_Params = td_DefaultParams L\<rparr> of
        Inl err \<Rightarrow> Panic err
      | Inr bz \<Rightarrow> Ret (genState(td_ModuleName \<mapsto> bz)))"

definition vr_GenerateGenesisState ::
    "(VrGenesisState \<Rightarrow> go_error + 'j) \<Rightarrow> (string \<rightharpoonup> 'j) \<Rightarrow> (string \<rightharpoonup> 'j) outcome" where
  "vr_GenerateGenesisState marshalJSON genState =
     (case marshalJSON \<lparr>vgs_Params = vr_DefaultParams, vgs_ValidatorMap = []\<rparr> of
        Inl err \<Rightarrow> Panic err
      | Inr bz \<Rightarrow> Ret (genState(vr_ModuleName \<mapsto> bz)))"

text \<open>
  \<open>GetOrGenerate\<close> reads a weight from the parameters of the simulation and calls the closure when there
  is none. A weighted operation is its weight and the operation.
\<close>

definition get_or_generate :: "(string \<Rightarrow> int option) \<Rightarrow> string \<Rightarrow> int \<Rightarrow> int" where
  "get_or_generate appParams key default_weight =
     (case appParams key of None \<Rightarrow> default_weight | Some w \<Rightarrow> w)"

record operation_msg =
  om_Route :: string
  om_TypeURL :: string
  om_Comment :: string

definition SimulateMsgFundModule :: "(string \<Rightarrow> string) \<Rightarrow> operation_msg" where
  "SimulateMsgFundModule msgTypeURL =
     \<lparr>om_Route = td_ModuleName, om_TypeURL = msgTypeURL ''MsgFundModule'',
      om_Comment = ''FundModule simulation not implemented''\<rparr>"

definition SimulateMsgOnboardValidator :: "(string \<Rightarrow> string) \<Rightarrow> operation_msg" where
  "SimulateMsgOnboardValidator msgTypeURL =
     \<lparr>om_Route = vr_ModuleName, om_TypeURL = msgTypeURL ''MsgOnboardValidator'',
      om_Comment = ''OnboardValidator simulation not implemented''\<rparr>"

definition td_WeightedOperations ::
    "(string \<Rightarrow> int option) \<Rightarrow> (string \<Rightarrow> string) \<Rightarrow> (int \<times> operation_msg) list" where
  "td_WeightedOperations appParams msgTypeURL =
     [(get_or_generate appParams ''op_weight_msg_td'' 100, SimulateMsgFundModule msgTypeURL)]"

definition vr_WeightedOperations ::
    "(string \<Rightarrow> int option) \<Rightarrow> (string \<Rightarrow> string) \<Rightarrow> (int \<times> operation_msg) list" where
  "vr_WeightedOperations appParams msgTypeURL =
     [(get_or_generate appParams ''op_weight_msg_validatorregistry'' 100, SimulateMsgOnboardValidator msgTypeURL)]"

end
