(* ===== verification/CmdProps.thy ===== *)
theory CmdProps
  imports FileSpec InPlaceSpec Client
begin

text \<open>
  The properties of the commands: the ports, peers and genesis transactions of a local network, the
  state of an in-place network, and the genesis states of the simulation.
\<close>

section \<open>Local networks\<close>

definition ports_of_node :: "nat \<Rightarrow> int list" where
  "ports_of_node i = [rpc_port i, p2p_port i, proxy_port i, prometheus_port i, grpc_port i, api_port i]"

lemmas port_defs = rpc_port_def p2p_port_def proxy_port_def prometheus_port_def grpc_port_def api_port_def

lemma ports_distinct: "i < 1317 \<Longrightarrow> distinct (ports_of_node i)"
  unfolding ports_of_node_def port_defs by simp

lemma ports_disjoint:
  "i < 1317 \<Longrightarrow> j < 1317 \<Longrightarrow> i \<noteq> j \<Longrightarrow> set (ports_of_node i) \<inter> set (ports_of_node j) = {}"
  unfolding ports_of_node_def port_defs by simp

lemma ports_in_range: "i < 1317 \<Longrightarrow> \<forall>p \<in> set (ports_of_node i). 1 \<le> p \<and> p \<le> 65535"
  by (simp add: ports_of_node_def port_defs)

lemma parse_default_ports: "parse_ports (int n) '''' i = (if i < n then Some (Itoa (rpc_port i)) else None)"
proof -
  have "foldl (\<lambda>m i. m(i \<mapsto> Itoa (rpc_port i))) Map.empty [0..<n] i =
      (if i < n then Some (Itoa (rpc_port i)) else None)"
    by (induction n) auto
  then show ?thesis by (simp add: parse_ports_def)
qed

text \<open>C36. Up to 1317 nodes get ports that are all different and valid, with the remote call ports the
  defaults of the flag; the node after them would get the port zero.\<close>

theorem local_network_ports:
  assumes "n \<le> 1317"
  shows "distinct (concat (map ports_of_node [0..<n])) \<and>
    (\<forall>i < n. parse_ports (int n) '''' i = Some (Itoa (rpc_port i)) \<and> (\<forall>p \<in> set (ports_of_node i). 1 \<le> p \<and> p \<le> 65535)) \<and>
    api_port 1317 = 0"
proof -
  have "inj_on ports_of_node {0..<n}" by (rule inj_onI) (simp add: ports_of_node_def port_defs)
  then have "distinct (map ports_of_node [0..<n])" by (simp add: distinct_map)
  then have "distinct (concat (map ports_of_node [0..<n]))"
  proof (rule distinct_concat)
    fix ps assume "ps \<in> set (map ports_of_node [0..<n])"
    then show "distinct ps" using assms ports_distinct by auto
  next
    fix ps qs assume ps: "ps \<in> set (map ports_of_node [0..<n])" and qs: "qs \<in> set (map ports_of_node [0..<n])"
      and ne: "ps \<noteq> qs"
    from ps obtain i where "ps = ports_of_node i" "i < n" by auto
    moreover from qs obtain j where "qs = ports_of_node j" "j < n" by auto
    moreover have "i \<noteq> j" using ne calculation by auto
    ultimately show "set ps \<inter> set qs = {}" using assms ports_disjoint [of i j] by simp
  qed
  moreover have "\<forall>p \<in> set (ports_of_node i). 1 \<le> p \<and> p \<le> 65535" if "i < n" for i
    using that assms by (intro ports_in_range) simp
  ultimately show ?thesis by (simp add: parse_default_ports api_port_def)
qed

lemma local_network_ports_witness: "distinct (ports_of_node 0 @ ports_of_node 1)"
  using local_network_ports [of 2] by (simp add: upt_rec)

text \<open>C35. After the loop over the nodes the list of persistent peers names every node in order, with the
  port on which the final configuration of that node listens.\<close>

theorem peers_match_listeners:
  assumes "foldP (init_node A N args) [0..<n] v0 s = (Ret v, s')"
    "tv_nodeIDs v0 = []" "tv_persistentPeers v0 = ''''" "tv_gentxsFiles v0 = []"
  shows "length (tv_nodeIDs v) = n \<and>
    tv_persistentPeers v = join_with CHR '','' (map (\<lambda>i. (tv_nodeIDs v ! i) @ ''@'' @ ia_startingIPAddress args @
      '':'' @ Itoa (p2p_port i)) [0..<n]) \<and>
    (\<forall>i cfg. nc_P2P_ListenAddress (final_config args (tv_persistentPeers v) i cfg) = ''tcp://0.0.0.0:'' @ Itoa (p2p_port i) \<and>
      nc_P2P_PersistentPeers (final_config args (tv_persistentPeers v) i cfg) = tv_persistentPeers v)"
  using nodes_collected [OF assms]
  by (simp add: collected_def node_memo_def p2p_port_def [symmetric] final_config_def)

text \<open>The witness initialises two nodes whose files are not kept.\<close>

definition sample_os :: "(nat, unit) os_ops" where
  "sample_os =
     \<lparr>os_MkdirAll = (\<lambda>_. retP ()), os_WriteFile = (\<lambda>_ _. retP ()), os_RemoveAll = (\<lambda>_. retP ()),
      os_Open = (\<lambda>_. retP ()), os_Create = (\<lambda>_. retP ()), os_Copy = (\<lambda>_ _. retP 0), os_Sync = (\<lambda>_. retP ()),
      os_Close = (\<lambda>_. retP ())\<rparr>"

definition sample_node_ops :: "(nat, unit, unit, unit, string, unit, unit, unit) node_ops" where
  "sample_node_ops =
     \<lparr>no_DefaultBondDenom = ''stake'', no_PowerReduction = 1000000, no_NewCoin = (\<lambda>d n. Inr (d, n)),
      no_SortCoins = (\<lambda>cs. cs),
      no_DefaultConfig = \<lparr>sc_MinGasPrices = '''', sc_API_Enable = True, sc_API_Address = '''', sc_GRPC_Address = '''',
        sc_EnableHostnameLabel = True, sc_Telemetry_Enabled = True, sc_PrometheusRetentionTime = 60, sc_Rest = ()\<rparr>,
      no_InitializeNodeValidatorFiles = (\<lambda>cfg k. (Ret (''n'' @ Itoa (int k), ()), Suc k)),
      no_GenesisFile = (\<lambda>cfg. nc_RootDir cfg), no_NewKeyring = (\<lambda>b d. retP ()), no_SigningAlgo = (\<lambda>kb a. Inr ()),
      no_GenerateSaveCoinKey = (\<lambda>kb name algo. retP (name, ''words'')), no_MarshalSecret = (\<lambda>w. Inr []),
      no_AccString = (\<lambda>a. a), no_ValString = (\<lambda>a. a), no_NewMsgCreateValidator = (\<lambda>cv. Inr ()),
      no_NewTxBuilder = (), no_SetMsgs = (\<lambda>ms b. Inr ()), no_SetMemo = (\<lambda>m b. ()),
      no_Sign = (\<lambda>c m kb n b. retP ()), no_EncodeTx = (\<lambda>b. Inr []), no_WriteAppConfig = (\<lambda>f c. retP ())\<rparr>"

definition sample_args :: initArgs where
  "sample_args =
     \<lparr>ia_algo = ''secp256k1'', ia_chainID = ''test-1'', ia_keyringBackend = ''test'', ia_minGasPrices = ''0stake'',
      ia_nodeDirPrefix = ''validator'', ia_numValidators = 2, ia_outputDir = ''./.testnets'',
      ia_startingIPAddress = ''localhost'', ia_validatorsStakesAmount = Map.empty, ia_ports = parse_ports 2 ''''\<rparr>"

definition sample_vars :: "(unit, string, unit) testnet_vars" where
  "sample_vars =
     \<lparr>tv_nodeConfig = \<lparr>nc_RootDir = '''', nc_Moniker = '''', nc_RPC_ListenAddress = '''', nc_P2P_PersistentPeers = '''',
        nc_P2P_AllowDuplicateIP = False, nc_P2P_ListenAddress = '''', nc_ProxyApp = '''', nc_PrometheusListenAddr = '''',
        nc_Prometheus = False, nc_Rest = ()\<rparr>,
      tv_appConfig = testnet_app_config ''stake'' (no_DefaultConfig sample_node_ops) sample_args,
      tv_nodeIDs = [], tv_valPubKeys = [], tv_genAccounts = [], tv_genBalances = [], tv_genFiles = [],
      tv_persistentPeers = '''', tv_gentxsFiles = []\<rparr>"

lemma sample_dir: "ia_outputDir sample_args \<noteq> ''''"
  by (simp add: sample_args_def)

lemma sample_num: "ia_numValidators sample_args = 2"
  by (simp add: sample_args_def)

lemma sample_ip: "ia_startingIPAddress sample_args = ''localhost''"
  by (simp add: sample_args_def)

lemma sample_vars_empty:
  "tv_nodeIDs sample_vars = []" "tv_persistentPeers sample_vars = ''''" "tv_gentxsFiles sample_vars = []"
  by (simp_all add: sample_vars_def)

lemma sample_nodes_run:
  "\<exists>v s. foldP (init_node sample_os sample_node_ops sample_args) [0..<2] sample_vars 0 = (Ret v, s) \<and>
     tv_nodeIDs v = [''n0'', ''n1'']"
proof -
  have itoa: "Itoa 0 = ''0''" "Itoa 1 = ''1''" by (simp_all add: itoa_eval)
  have up: "[0..<2] = [0, 1 :: nat]" by (simp add: upt_rec)
  show ?thesis
    by (simp add: up init_node_def sample_os_def sample_node_ops_def sample_vars_def sample_args_def Let_def bindP_def
        retP_def or_remove_def writeFile_def node_coins_def node_stake_def node_gentx_def must_coin_def must_def pureP_def itoa)
qed

lemma peers_match_listeners_witness:
  "\<exists>v s. foldP (init_node sample_os sample_node_ops sample_args) [0..<2] sample_vars 0 = (Ret v, s) \<and>
     tv_persistentPeers v = ''n0@localhost:26656,n1@localhost:26653''"
proof -
  obtain v s where run: "foldP (init_node sample_os sample_node_ops sample_args) [0..<2] sample_vars 0 = (Ret v, s)"
    "tv_nodeIDs v = [''n0'', ''n1'']" using sample_nodes_run by blast
  have up: "[0..<2] = [0, 1 :: nat]" by (simp add: upt_rec)
  have "tv_persistentPeers v = join_with CHR '','' (map (\<lambda>i. (tv_nodeIDs v ! i) @ ''@'' @
      ia_startingIPAddress sample_args @ '':'' @ Itoa (p2p_port i)) [0..<2])"
    using peers_match_listeners [OF run(1) sample_vars_empty] by blast
  also have "\<dots> = ''n0@localhost:26656,n1@localhost:26653''"
    using run(2) by (simp add: up sample_ip p2p_port_def itoa_eval)
  finally have "tv_persistentPeers v = ''n0@localhost:26656,n1@localhost:26653''" .
  with run(1) show ?thesis by blast
qed

text \<open>C25. Once every genesis transaction has been written to the directory of its node, the copies
  succeed, every node has the transactions of all nodes with their contents, and no other file changes.\<close>

theorem gentxs_reach_all_nodes:
  assumes "file_system A wd invar files dirs path" "ia_outputDir args \<noteq> ''''" "n = nat (ia_numValidators args)"
    "inj_on ids {..<n}" "\<forall>j < n. slash \<notin> set (ids j)"
    "invar s" "\<forall>i < n. abs_elems wd (gentxsDir args i) \<in> dirs s"
    "\<forall>j < n. files s (abs_elems wd (gentxsDir args j) @ [gentx_name (ids j)]) = Some (bz j)"
  shows "\<exists>s'. copy_gentxs A (Inr wd) args
      (map (\<lambda>j. Join [gentxsDir_of_node args j, gentx_name (ids j)]) [0..<n]) s = (Ret (), s') \<and>
    (\<forall>i < n. \<forall>j < n. files s' (abs_elems wd (gentxsDir args i) @ [gentx_name (ids j)]) = Some (bz j)) \<and>
    (\<forall>p. (\<forall>i < n. \<forall>j < n. p \<noteq> abs_elems wd (gentxsDir args i) @ [gentx_name (ids j)]) \<longrightarrow> files s' p = files s p)"
  by (rule file_system.gentxs_copied [OF assms])

lemma gentxs_reach_all_nodes_witness:
  "\<exists>s s'. copy_gentxs (mem_os sample_wd) (Inr sample_wd) sample_args
      (map (\<lambda>j. Join [gentxsDir_of_node sample_args j, gentx_name (Itoa (int j))]) [0..<2]) s = (Ret (), s') \<and>
    mf_files s (abs_elems sample_wd (gentxsDir sample_args 1) @ [gentx_name ''0'']) = None \<and>
    mf_files s' (abs_elems sample_wd (gentxsDir sample_args 1) @ [gentx_name ''0'']) = Some [7]"
proof -
  let ?D = "\<lambda>i. abs_elems sample_wd (gentxsDir sample_args i)"
  obtain B q where D: "\<And>i. ?D i = B @ [q @ Itoa (int i), ''config'', ''gentx'']"
    using abs_gentxsDir [of sample_args sample_wd] sample_dir by metis
  let ?s = "\<lparr>mf_files = [?D 0 @ [gentx_name (Itoa 0)] \<mapsto> [7], ?D 1 @ [gentx_name (Itoa 1)] \<mapsto> [8]], mf_dirs = {?D 0, ?D 1}\<rparr>"
  have lt: "i < 2 \<longleftrightarrow> i = 0 \<or> i = 1" for i :: nat by auto
  have ne: "?D 0 \<noteq> ?D 1" by (simp add: D Itoa_inj)
  have files: "\<forall>j < 2. mf_files ?s (?D j @ [gentx_name (Itoa (int j))]) = Some [7 + of_nat j]"
    using ne by (auto simp: lt)
  from gentxs_reach_all_nodes [OF mem.file_system_axioms, of sample_args 2 "\<lambda>j. Itoa (int j)" ?s "\<lambda>j. [7 + of_nat j]"]
  obtain s' where s': "copy_gentxs (mem_os sample_wd) (Inr sample_wd) sample_args
      (map (\<lambda>j. Join [gentxsDir_of_node sample_args j, gentx_name (Itoa (int j))]) [0..<2]) ?s = (Ret (), s')"
    "\<forall>i < 2. \<forall>j < 2. mf_files s' (?D i @ [gentx_name (Itoa (int j))]) = Some [7 + of_nat j]"
    using files itoa_no_slash sample_dir by (auto simp: sample_num inj_on_def Itoa_inj lt)
  have itoa: "Itoa 0 = ''0''" "Itoa 1 = ''1''" by (simp_all add: itoa_eval)
  from s'(2) [rule_format, of 1 0] have "mf_files s' (?D 1 @ [gentx_name ''0'']) = Some [7]" by (simp add: itoa)
  moreover have "mf_files ?s (?D 1 @ [gentx_name ''0'']) = None" using ne by (simp add: itoa gentx_name_def)
  ultimately show ?thesis using s'(1) by blast
qed

text \<open>\<open>isSubDir\<close> says whether the first path lies in the second, except that it takes an element whose
  name begins with two dots for the way out.\<close>

theorem isSubDir_decides:
  assumes "IsAbs wd"
  shows "isSubDir (Inr wd) src dstDir = Inr (\<exists>cs. abs_elems wd src = abs_elems wd dstDir @ cs \<and>
    (cs = [] \<or> \<not> HasPrefix (hd cs) ''..''))"
  by (rule isSubDir_elems [OF assms])

lemma isSubDir_decides_witness:
  "isSubDir (Inr ''/'') ''a/b/../c'' ''a'' = Inr True \<and> isSubDir (Inr ''/'') ''a/..c'' ''a'' = Inr False"
proof -
  have elems: "abs_elems ''/'' ''a/b/../c'' = [''a'', ''c'']" "abs_elems ''/'' ''a/..c'' = [''a'', ''..c'']"
    "abs_elems ''/'' ''a'' = [''a'']" by code_simp+
  have "IsAbs ''/''" by (simp add: IsAbs_iff)
  from isSubDir_decides [OF this] show ?thesis by (simp add: elems) (simp add: HasPrefix_def)
qed

text \<open>The stakes of the flag that parse are given to the first nodes in order: an amount that does
  not parse is not replaced by the default but moves the amounts after it to earlier nodes.\<close>

theorem parse_stakes_compacts:
  assumes "\<forall>a. newCoin a = Inr (denom, a)"
  shows "parse_stakes parse newCoin amounts 0 Map.empty =
    Ret (\<lambda>i. let as = List.map_filter parse amounts in if i < length as then Some (denom, as ! i) else None)"
proof -
  have "parse_stakes parse newCoin amounts k m =
      Ret (\<lambda>i. let as = List.map_filter parse amounts in
        if k \<le> i \<and> i < k + length as then Some (denom, as ! (i - k)) else m i)" for k m
  proof (induction amounts arbitrary: k m)
    case (Cons x xs)
    show ?case
    proof (cases "parse x")
      case None
      then show ?thesis using Cons by (simp add: List.map_filter_simps)
    next
      case (Some a)
      then show ?thesis using Cons assms
        by (auto simp: List.map_filter_simps Let_def fun_eq_iff nth_Cons' Suc_diff_Suc)
    qed
  qed (auto simp: List.map_filter_simps fun_eq_iff)
  from this [of 0 Map.empty] show ?thesis by (simp add: Let_def cong: if_cong)
qed

lemma parse_stakes_compacts_witness:
  "parse_stakes (\<lambda>s. if s = ''x'' then None else Some 5) (\<lambda>a. Inr (''stake'', a)) [''x'', ''5''] 0 Map.empty =
    Ret [0 \<mapsto> (''stake'', 5)]"
  by (subst parse_stakes_compacts [where denom = "''stake''"]) (auto simp: List.map_filter_simps fun_eq_iff)

text \<open>The flag of the minimum gas prices has no effect on the configuration: the embedded field is
  overwritten by a constant.\<close>

theorem min_gas_flag_ignored:
  "sc_MinGasPrices (testnet_app_config denom c args) = ''0.0001'' @ denom \<and>
   testnet_app_config denom c (args\<lparr>ia_minGasPrices := p\<rparr>) = testnet_app_config denom c args"
  by (simp add: testnet_app_config_def)

text \<open>The generated identifiers have the asked length and only use lower case letters and digits.\<close>

theorem random_string_type:
  assumes "\<And>i n. 0 < n \<Longrightarrow> intn i n < n"
  shows "length (generateRandomString intn n) = n \<and> set (generateRandomString intn n) \<subseteq> set charset"
proof -
  have "0 < length charset" by (simp add: charset_def)
  then have "charset ! intn i (length charset) \<in> set charset" for i using assms by simp
  then show ?thesis by (auto simp: generateRandomString_def)
qed

lemma random_string_type_witness: "length (generateRandomString (\<lambda>i n. 0) 6) = 6"
  using random_string_type [of "\<lambda>i n. 0" 6] by simp

section \<open>In-place networks\<close>

text \<open>The arguments are accepted exactly when the four values have their types and the home
  directory is not empty; the accounts are the pieces between the commas.\<close>

theorem command_args_accepted_iff:
  "getCommandArgs key toString get = Inr args \<longleftrightarrow>
    get (key KeyNewValAddr) = HexBytesOpt (va_newValAddr args) \<and>
    get (key KeyUserPubKey) = PubKeyOpt (va_newValPubKey args) \<and>
    get (key KeyNewOpAddr) = StringOpt (va_newOperatorAddress args) \<and>
    get (key KeyTriggerTestnetUpgrade) = StringOpt (va_upgradeToTrigger args) \<and>
    va_accountsToFund args = strings_Split (toString (get flagAccountsToFund)) CHR '','' \<and>
    va_homeDir args = toString (get (key KeyHome)) \<and> va_homeDir args \<noteq> ''''"
  by (cases args) (auto simp: getCommandArgs_def Let_def split: option_value.splits)

text \<open>C37. Without the flag of the accounts the command does not start: the empty text is taken for one
  account, and its address is refused after the coins have been minted.\<close>

theorem no_accounts_aborts:
  assumes "getCommandArgs key toString get = Inr args" "toString (get flagAccountsToFund) = ''''"
    "nk_AccBytes X '''' = Inl e" "initAppForTestnet X args s = (r, s')"
  shows "r \<noteq> Ret ()"
proof
  assume "r = Ret ()"
  moreover have "va_accountsToFund args = ['''']"
    using assms(1,2) by (auto simp: getCommandArgs_def Let_def split_empty split: option_value.splits if_splits)
  ultimately show False
    using assms(3,4)
    by (auto simp: initAppForTestnet_def Let_def proc_Ret handleErr_def fund_accounts_def fund_account_def)
qed

definition sample_options :: "string \<Rightarrow> (unit, unit) option_value" where
  "sample_options k =
     (if k = ''a'' then HexBytesOpt [1] else if k = ''p'' then PubKeyOpt ()
      else if k = flagAccountsToFund then StringOpt '''' else StringOpt k)"

fun sample_key :: "testnet_key \<Rightarrow> string" where
  "sample_key KeyNewValAddr = ''a''"
| "sample_key KeyUserPubKey = ''p''"
| "sample_key KeyNewOpAddr = ''op''"
| "sample_key KeyTriggerTestnetUpgrade = ''up''"
| "sample_key KeyHome = ''home''"

fun to_text :: "(unit, unit) option_value \<Rightarrow> string" where
  "to_text (StringOpt s) = s"
| "to_text _ = ''''"

lemma no_accounts_aborts_witness:
  "\<exists>args. getCommandArgs sample_key to_text sample_options = Inr args \<and>
     fst (initAppForTestnet sample_keepers args sample_testnet) \<noteq> Ret ()"
proof -
  obtain args where args: "getCommandArgs sample_key to_text sample_options = Inr args"
    by (simp add: getCommandArgs_def sample_options_def flagAccountsToFund_def)
  have acc: "to_text (sample_options flagAccountsToFund) = ''''"
    by (simp add: sample_options_def flagAccountsToFund_def)
  have bad: "nk_AccBytes sample_keepers '''' = Inl (LibError ''empty address string is not allowed'')"
    by (simp add: sample_keepers_def)
  obtain r s' where run: "initAppForTestnet sample_keepers args sample_testnet = (r, s')" by fastforce
  show ?thesis using no_accounts_aborts [OF args acc bad run] args run by auto
qed

text \<open>The removal of the validators deletes the keys of the power index, of the last validators, of
  the validators and of the unbonding queue, and no other key of the staking store.\<close>

theorem in_place_removes_validators:
  assumes "staking_store X keys powers lasts vals queue"
  shows "\<exists>s'. remove_validators X s = (Ret (), s') \<and> keys s' = keys s - (powers \<union> lasts \<union> vals \<union> queue)"
  by (rule staking_store.remove_runs [OF assms])

lemma in_place_removes_validators_witness:
  "\<exists>s'. remove_validators sample_keepers sample_testnet = (Ret (), s') \<and> set (nt_keys s') = {[0x99]}"
proof -
  obtain s' where "remove_validators sample_keepers sample_testnet = (Ret (), s')"
    "set (nt_keys s') = set (nt_keys sample_testnet) -
      ({k. with_byte 0x23 k} \<union> {k. with_byte 0x11 k} \<union> {k. with_byte 0x21 k} \<union> {k. with_byte 0x43 k})"
    using in_place_removes_validators [OF sample_staking.staking_store_axioms] by blast
  moreover have "set (nt_keys sample_testnet) -
      ({k. with_byte 0x23 k} \<union> {k. with_byte 0x11 k} \<union> {k. with_byte 0x21 k} \<union> {k. with_byte 0x43 k}) = {[0x99]}"
    by (auto simp: sample_testnet_def with_byte_def)
  ultimately show ?thesis by auto
qed

text \<open>Every account of the list receives the grant once for each time it is named, the supply grows
  by exactly the sum, and the mint account is left as it was.\<close>

theorem in_place_funds_accounts:
  assumes "testnet_bank X bal minted mint denom grant"
    "\<forall>str \<in> set strs. nk_AccBytes X str = Inr (ad str) \<and> ad str \<noteq> mint" "0 \<le> bal s mint"
  shows "\<exists>s'. fund_accounts X strs s = (Ret (), s') \<and>
    minted s' = minted s + 1000000000 * int (length strs) \<and>
    (\<forall>a. bal s' a = bal s a + 1000000000 * int (count_list (map ad strs) a))"
  by (rule testnet_bank.fund_runs [OF assms])

lemma in_place_funds_accounts_witness:
  "\<exists>s'. fund_accounts sample_keepers [''alice'', ''bob''] sample_testnet = (Ret (), s') \<and> nt_supply s' = 2000000000"
proof -
  have "\<forall>str \<in> set [''alice'', ''bob'']. nk_AccBytes sample_keepers str = Inr (bytes_of_string str) \<and>
      bytes_of_string str \<noteq> mint_address"
    by (simp add: sample_keepers_def mint_address_def bytes_of_string_def)
  from in_place_funds_accounts [OF sample_bank.testnet_bank_axioms this, of sample_testnet] show ?thesis
    by (auto simp: sample_testnet_def)
qed

text \<open>An export at a height builds the application without loading the latest state, an export of
  the latest state loads it, and without a home directory no application is built.\<close>

theorem export_loads_latest_iff:
  "appExport homePath isViper new load export zero height z al mods =
    (if homePath = None \<or> homePath = Some '''' then Ret (zero, Some (Errorf ''application home not set'' []))
     else appExport homePath isViper (\<lambda>latest. if latest = (height = - 1) then new latest else Panic e) load export zero height
       z al mods)"
  by (simp add: appExport_def)

section \<open>Simulation\<close>

text \<open>The genesis states the simulation generates pass the validation of their module when the codec
  reads back what it writes.\<close>

theorem simulated_genesis_valid:
  assumes "\<And>g j. marshalTd g = Inr j \<Longrightarrow> unmarshalTd j = Inr g" "\<And>g j. marshalVr g = Inr j \<Longrightarrow> unmarshalVr j = Inr g"
    "td_GenerateGenesisState L marshalTd m = Ret m1" "vr_GenerateGenesisState marshalVr m1 = Ret m2"
  shows "\<exists>j1 j2. m2 td_ModuleName = Some j1 \<and> m2 vr_ModuleName = Some j2 \<and>
    td_module_ValidateGenesis unmarshalTd j1 = None \<and> vr_module_ValidateGenesis unmarshalVr j2 = None"
proof -
  obtain j1 where j1: "marshalTd \<lparr>tgs_Params = td_DefaultParams L\<rparr> = Inr j1" "m1 = m(td_ModuleName \<mapsto> j1)"
    using assms(3) by (auto simp: td_GenerateGenesisState_def split: sum.splits)
  obtain j2 where j2: "marshalVr \<lparr>vgs_Params = vr_DefaultParams, vgs_ValidatorMap = []\<rparr> = Inr j2"
    "m2 = m1(vr_ModuleName \<mapsto> j2)"
    using assms(4) by (auto simp: vr_GenerateGenesisState_def split: sum.splits)
  have "td_Genesis_Validate \<lparr>tgs_Params = td_DefaultParams L\<rparr> = None"
    by (simp add: td_Genesis_Validate_def td_Params_Validate_def validateTrustDepositShareValue_def
        validateTrustDepositValue_def validateTrustDepositYieldRate_def)
  moreover have "vr_Genesis_Validate \<lparr>vgs_Params = vr_DefaultParams, vgs_ValidatorMap = []\<rparr> = None"
    using vr_DefaultGenesis_valid by (simp add: vr_DefaultGenesis_def)
  moreover have "td_ModuleName \<noteq> vr_ModuleName" by (simp add: td_ModuleName_def vr_ModuleName_def)
  ultimately show ?thesis
    using assms(1) [OF j1(1)] assms(2) [OF j2(1)] j1(2) j2(2)
    by (simp add: td_module_ValidateGenesis_def vr_module_ValidateGenesis_def)
qed

end
