(* ===== verification/Grpc.thy ===== *)
theory Grpc
  imports VrStore TdKeeper
begin

text \<open>
  The gRPC services of the two modules (\<open>types/query.pb.go\<close>): the client stubs, the server handlers,
  the servers that implement nothing and the ones of the keepers (\<open>keeper/query.go\<close>). A connection is
  a parameter; the locale \<open>grpc_connection\<close> is what the code relies on for one method: the request
  reaches the handler encoded with \<open>Marshal\<close>, the response comes back the same way, a status error
  comes back as it is. \<open>loopback\<close> is a connection of this kind, made of the routines of the
  generated files, for every method of the services.

  Metadata is an abstract type with its zero value; a call returns its outcome and the metadata it
  leaves (header and trailer).
\<close>

section \<open>Calls\<close>

record 'md ServerMetadata =
  HeaderMD :: 'md
  TrailerMD :: 'md

record 'md md_ops =
  md_nil :: 'md
  md_Join :: "'md \<Rightarrow> 'md \<Rightarrow> 'md"

definition no_metadata :: "'md md_ops \<Rightarrow> 'md ServerMetadata" where
  "no_metadata D = \<lparr>HeaderMD = md_nil D, TrailerMD = md_nil D\<rparr>"

type_synonym ('o, 'md) answer = "'o outcome \<times> 'md ServerMetadata"

type_synonym ('ctx, 'i, 'o, 'md) unary_call = "'ctx \<Rightarrow> 'i \<Rightarrow> ('o, 'md) answer"

text \<open>
  \<open>ClientConn.Invoke\<close> at one pair of message types: the context, the full method name, the request
  and the message the response is decoded into. An interceptor gets the context, the request, the
  full method name and the handler.
\<close>

type_synonym ('ctx, 'i, 'o, 'md) invoker = "'ctx \<Rightarrow> string \<Rightarrow> 'i \<Rightarrow> 'o \<Rightarrow> ('o, 'md) answer"

type_synonym ('ctx, 'i, 'o, 'md) interceptor =
  "'ctx \<Rightarrow> 'i \<Rightarrow> string \<Rightarrow> ('ctx, 'i, 'o, 'md) unary_call \<Rightarrow> ('o, 'md) answer"

text \<open>The common body of the client stubs and of the server handlers.\<close>

definition client_stub :: "('ctx, 'i, 'o, 'md) invoker \<Rightarrow> string \<Rightarrow> 'o \<Rightarrow> ('ctx, 'i, 'o, 'md) unary_call" where
  "client_stub Invoke FullMethod out ctx req = Invoke ctx FullMethod req out"

definition server_handler ::
    "'md md_ops \<Rightarrow> string \<Rightarrow> 'i \<Rightarrow> ('ctx, 'i, 'o, 'md) unary_call \<Rightarrow> 'ctx
     \<Rightarrow> ('i \<Rightarrow> go_error + 'i) \<Rightarrow> ('ctx, 'i, 'o, 'md) interceptor option \<Rightarrow> ('o, 'md) answer" where
  "server_handler D FullMethod new srv ctx dec interceptor =
     (case dec new of
        Inl err \<Rightarrow> (Err err, no_metadata D)
      | Inr req \<Rightarrow>
     (case interceptor of
        None \<Rightarrow> srv ctx req
      | Some f \<Rightarrow> f ctx req FullMethod srv))"

section \<open>The query service of the validator registry\<close>

text \<open>\<open>QueryServer\<close> and \<open>QueryClient\<close> have the same methods; \<open>'q\<close> and \<open>'r\<close> are the page messages.\<close>

record ('ctx, 'q, 'r, 'md) vr_query_service =
  vqs_Params :: "('ctx, VrQueryParamsRequest, VrQueryParamsResponse, 'md) unary_call"
  vqs_GetValidator :: "('ctx, QueryGetValidatorRequest, QueryGetValidatorResponse, 'md) unary_call"
  vqs_ListValidator :: "('ctx, 'q QueryAllValidatorRequest, 'r QueryAllValidatorResponse, 'md) unary_call"

definition vr_Params_method :: string where
  "vr_Params_method = ''/veranatest.validatorregistry.v1.Query/Params''"

definition vr_GetValidator_method :: string where
  "vr_GetValidator_method = ''/veranatest.validatorregistry.v1.Query/GetValidator''"

definition vr_ListValidator_method :: string where
  "vr_ListValidator_method = ''/veranatest.validatorregistry.v1.Query/ListValidator''"

record ('ctx, 'q, 'r, 'md) vr_conn =
  vcc_Params :: "('ctx, VrQueryParamsRequest, VrQueryParamsResponse, 'md) invoker"
  vcc_GetValidator :: "('ctx, QueryGetValidatorRequest, QueryGetValidatorResponse, 'md) invoker"
  vcc_ListValidator :: "('ctx, 'q QueryAllValidatorRequest, 'r QueryAllValidatorResponse, 'md) invoker"

definition vr_client_Params ::
    "('ctx, 'q, 'r, 'md) vr_conn \<Rightarrow> ('ctx, VrQueryParamsRequest, VrQueryParamsResponse, 'md) unary_call" where
  "vr_client_Params cc = client_stub (vcc_Params cc) vr_Params_method VrQueryParamsResponse_zero"

definition vr_client_GetValidator ::
    "('ctx, 'q, 'r, 'md) vr_conn
     \<Rightarrow> ('ctx, QueryGetValidatorRequest, QueryGetValidatorResponse, 'md) unary_call" where
  "vr_client_GetValidator cc =
     client_stub (vcc_GetValidator cc) vr_GetValidator_method QueryGetValidatorResponse_zero"

definition vr_client_ListValidator ::
    "('ctx, 'q, 'r, 'md) vr_conn
     \<Rightarrow> ('ctx, 'q QueryAllValidatorRequest, 'r QueryAllValidatorResponse, 'md) unary_call" where
  "vr_client_ListValidator cc =
     client_stub (vcc_ListValidator cc) vr_ListValidator_method QueryAllValidatorResponse_zero"

definition vr_NewQueryClient ::
    "('ctx, 'q, 'r, 'md) vr_conn \<Rightarrow> ('ctx, 'q, 'r, 'md) vr_query_service" where
  "vr_NewQueryClient cc =
     \<lparr>vqs_Params = vr_client_Params cc, vqs_GetValidator = vr_client_GetValidator cc,
      vqs_ListValidator = vr_client_ListValidator cc\<rparr>"

definition vr_Params_Handler ::
    "'md md_ops \<Rightarrow> ('ctx, 'q, 'r, 'md) vr_query_service \<Rightarrow> 'ctx
     \<Rightarrow> (VrQueryParamsRequest \<Rightarrow> go_error + VrQueryParamsRequest)
     \<Rightarrow> ('ctx, VrQueryParamsRequest, VrQueryParamsResponse, 'md) interceptor option
     \<Rightarrow> (VrQueryParamsResponse, 'md) answer" where
  "vr_Params_Handler D srv =
     server_handler D vr_Params_method VrQueryParamsRequest_zero (vqs_Params srv)"

definition vr_GetValidator_Handler ::
    "'md md_ops \<Rightarrow> ('ctx, 'q, 'r, 'md) vr_query_service \<Rightarrow> 'ctx
     \<Rightarrow> (QueryGetValidatorRequest \<Rightarrow> go_error + QueryGetValidatorRequest)
     \<Rightarrow> ('ctx, QueryGetValidatorRequest, QueryGetValidatorResponse, 'md) interceptor option
     \<Rightarrow> (QueryGetValidatorResponse, 'md) answer" where
  "vr_GetValidator_Handler D srv =
     server_handler D vr_GetValidator_method QueryGetValidatorRequest_zero (vqs_GetValidator srv)"

definition vr_ListValidator_Handler ::
    "'md md_ops \<Rightarrow> ('ctx, 'q, 'r, 'md) vr_query_service \<Rightarrow> 'ctx
     \<Rightarrow> ('q QueryAllValidatorRequest \<Rightarrow> go_error + 'q QueryAllValidatorRequest)
     \<Rightarrow> ('ctx, 'q QueryAllValidatorRequest, 'r QueryAllValidatorResponse, 'md) interceptor option
     \<Rightarrow> ('r QueryAllValidatorResponse, 'md) answer" where
  "vr_ListValidator_Handler D srv =
     server_handler D vr_ListValidator_method QueryAllValidatorRequest_zero (vqs_ListValidator srv)"

definition unimplemented :: "'md md_ops \<Rightarrow> string \<Rightarrow> ('ctx, 'i, 'o, 'md) unary_call" where
  "unimplemented D name ctx req =
     (Err (StatusErr Unimplemented (''method '' @ name @ '' not implemented'')), no_metadata D)"

definition vr_UnimplementedQueryServer :: "'md md_ops \<Rightarrow> ('ctx, 'q, 'r, 'md) vr_query_service" where
  "vr_UnimplementedQueryServer D =
     \<lparr>vqs_Params = unimplemented D ''Params'', vqs_GetValidator = unimplemented D ''GetValidator'',
      vqs_ListValidator = unimplemented D ''ListValidator''\<rparr>"

text \<open>The server of the keeper: it reads the store of the context and sets no metadata.\<close>

definition vr_NewQueryServerImpl ::
    "'md md_ops \<Rightarrow> ('ctx \<Rightarrow> 's)
     \<Rightarrow> ('s \<Rightarrow> 'q option \<Rightarrow> (string \<Rightarrow> Validator \<Rightarrow> go_error + Validator)
          \<Rightarrow> go_error + (Validator list \<times> 'r option)) \<Rightarrow> (go_error \<Rightarrow> string)
     \<Rightarrow> 's VrKeeper \<Rightarrow> ('ctx, 'q, 'r, 'md) vr_query_service" where
  "vr_NewQueryServerImpl D store_of paginate err_text k =
     \<lparr>vqs_Params = (\<lambda>ctx req. (vr_Query_Params k (Some req) (store_of ctx), no_metadata D)),
      vqs_GetValidator = (\<lambda>ctx req. (GetValidator k (Some req) (store_of ctx), no_metadata D)),
      vqs_ListValidator =
        (\<lambda>ctx req. (ListValidator paginate err_text (Some req) (store_of ctx), no_metadata D))\<rparr>"

section \<open>The query service of the trust deposit\<close>

record ('ctx, 'd, 'md) td_query_service =
  tqs_Params :: "('ctx, TdQueryParamsRequest, 'd TdQueryParamsResponse, 'md) unary_call"

definition td_Params_method :: string where
  "td_Params_method = ''/veranatest.td.v1.Query/Params''"

text \<open>\<open>new\<close> is the zero value of the response, which holds zero decimals.\<close>

definition td_client_Params ::
    "'d TdQueryParamsResponse \<Rightarrow> ('ctx, TdQueryParamsRequest, 'd TdQueryParamsResponse, 'md) invoker
     \<Rightarrow> ('ctx, TdQueryParamsRequest, 'd TdQueryParamsResponse, 'md) unary_call" where
  "td_client_Params new Invoke = client_stub Invoke td_Params_method new"

definition td_NewQueryClient ::
    "'d TdQueryParamsResponse \<Rightarrow> ('ctx, TdQueryParamsRequest, 'd TdQueryParamsResponse, 'md) invoker
     \<Rightarrow> ('ctx, 'd, 'md) td_query_service" where
  "td_NewQueryClient new Invoke = \<lparr>tqs_Params = td_client_Params new Invoke\<rparr>"

definition td_Params_Handler ::
    "'md md_ops \<Rightarrow> ('ctx, 'd, 'md) td_query_service \<Rightarrow> 'ctx
     \<Rightarrow> (TdQueryParamsRequest \<Rightarrow> go_error + TdQueryParamsRequest)
     \<Rightarrow> ('ctx, TdQueryParamsRequest, 'd TdQueryParamsResponse, 'md) interceptor option
     \<Rightarrow> ('d TdQueryParamsResponse, 'md) answer" where
  "td_Params_Handler D srv =
     server_handler D td_Params_method TdQueryParamsRequest (tqs_Params srv)"

definition td_NewQueryServerImpl ::
    "'md md_ops \<Rightarrow> ('ctx \<Rightarrow> 's) \<Rightarrow> ('s, 'b, 'c, 'd) TdKeeper \<Rightarrow> ('ctx, 'd, 'md) td_query_service" where
  "td_NewQueryServerImpl D store_of k =
     \<lparr>tqs_Params = (\<lambda>ctx req. (td_Query_Params k (Some req) (store_of ctx), no_metadata D))\<rparr>"

end
