(* ===== verification/GrpcSpec.thy ===== *)
theory GrpcSpec
  imports Grpc
begin

text \<open>
  The contract of a connection for one method of a service, a lemma that carries a call through the
  client stub and the server handler, and \<open>loopback\<close>, a connection made of the \<open>Marshal\<close> and
  \<open>Unmarshal\<close> routines of the generated files.
\<close>

section \<open>The contract\<close>

text \<open>
  \<open>serve ctx dec\<close> is the handler the server registered for the method, in the context the server
  makes for a request sent in \<open>ctx\<close>; \<open>dec\<close> decodes the request into a message.
\<close>

locale grpc_connection =
  fixes Invoke :: "('ctx, 'i, 'o, 'md) invoker"
    and FullMethod :: string
    and serve :: "'ctx \<Rightarrow> ('i \<Rightarrow> go_error + 'i) \<Rightarrow> ('o, 'md) answer"
    and marshal_in :: "'i \<Rightarrow> bytes outcome"
    and unmarshal_in :: "bytes \<Rightarrow> 'i \<Rightarrow> go_error + 'i"
    and marshal_out :: "'o \<Rightarrow> bytes outcome"
    and unmarshal_out :: "bytes \<Rightarrow> 'o \<Rightarrow> go_error + 'o"
  assumes invoke_ret: "marshal_in req = Ret bs \<Longrightarrow> serve ctx (unmarshal_in bs) = (Ret resp, md) \<Longrightarrow>
      marshal_out resp = Ret bs' \<Longrightarrow> unmarshal_out bs' out = Inr out' \<Longrightarrow>
      Invoke ctx FullMethod req out = (Ret out', md)"
    and invoke_status: "marshal_in req = Ret bs \<Longrightarrow>
      serve ctx (unmarshal_in bs) = (Err (StatusErr code msg), md) \<Longrightarrow>
      Invoke ctx FullMethod req out = (Err (StatusErr code msg), md)"

text \<open>A connection to a service whose messages survive encoding, and the answer of the service.\<close>

locale grpc_service = grpc_connection Invoke FullMethod
    "\<lambda>ctx dec. server_handler D FullMethod new_in srv (server_ctx ctx) dec interceptor"
    marshal_in unmarshal_in marshal_out unmarshal_out
  for Invoke :: "('ctx, 'i, 'o, 'md) invoker"
    and FullMethod :: string and D :: "'md md_ops" and new_in :: 'i
    and srv :: "('sctx, 'i, 'o, 'md) unary_call" and server_ctx :: "'ctx \<Rightarrow> 'sctx"
    and interceptor :: "('sctx, 'i, 'o, 'md) interceptor option"
    and marshal_in :: "'i \<Rightarrow> bytes outcome" and unmarshal_in :: "bytes \<Rightarrow> 'i \<Rightarrow> go_error + 'i"
    and marshal_out :: "'o \<Rightarrow> bytes outcome" and unmarshal_out :: "bytes \<Rightarrow> 'o \<Rightarrow> go_error + 'o" +
  fixes new_out :: 'o and small_in :: "'i \<Rightarrow> bool" and small_out :: "'o \<Rightarrow> bool"
  assumes in_roundtrip: "small_in req \<Longrightarrow>
      \<exists>bs. marshal_in req = Ret bs \<and> unmarshal_in bs new_in = Inr req"
    and out_roundtrip: "small_out resp \<Longrightarrow>
      \<exists>bs. marshal_out resp = Ret bs \<and> unmarshal_out bs new_out = Inr resp"
    and transparent: "interceptor = Some f \<Longrightarrow> f c req FullMethod srv = srv c req"
begin

lemma handled:
  assumes "unmarshal_in bs new_in = Inr req"
  shows "server_handler D FullMethod new_in srv c (unmarshal_in bs) interceptor = srv c req"
  using assms transparent by (simp add: server_handler_def split: option.split)

lemma stub_ret:
  assumes "small_in req" "small_out resp" "srv (server_ctx ctx) req = (Ret resp, md)"
  shows "client_stub Invoke FullMethod new_out ctx req = (Ret resp, md)"
proof -
  obtain bs where bs: "marshal_in req = Ret bs" "unmarshal_in bs new_in = Inr req"
    using in_roundtrip [OF assms(1)] by blast
  obtain bs' where bs': "marshal_out resp = Ret bs'" "unmarshal_out bs' new_out = Inr resp"
    using out_roundtrip [OF assms(2)] by blast
  show ?thesis
    unfolding client_stub_def by (rule invoke_ret [OF bs(1) _ bs']) (simp add: handled [OF bs(2)] assms(3))
qed

lemma stub_status:
  assumes "small_in req" "srv (server_ctx ctx) req = (Err (StatusErr code msg), md)"
  shows "client_stub Invoke FullMethod new_out ctx req = (Err (StatusErr code msg), md)"
proof -
  obtain bs where bs: "marshal_in req = Ret bs" "unmarshal_in bs new_in = Inr req"
    using in_roundtrip [OF assms(1)] by blast
  show ?thesis
    unfolding client_stub_def by (rule invoke_status [OF bs(1)]) (simp add: handled [OF bs(2)] assms(2))
qed

end

section \<open>A connection that satisfies it\<close>

definition loopback ::
    "'md md_ops \<Rightarrow> string \<Rightarrow> ('ctx \<Rightarrow> ('i \<Rightarrow> go_error + 'i) \<Rightarrow> ('o, 'md) answer)
     \<Rightarrow> ('i \<Rightarrow> bytes outcome) \<Rightarrow> (bytes \<Rightarrow> 'i \<Rightarrow> go_error + 'i)
     \<Rightarrow> ('o \<Rightarrow> bytes outcome) \<Rightarrow> (bytes \<Rightarrow> 'o \<Rightarrow> go_error + 'o) \<Rightarrow> ('ctx, 'i, 'o, 'md) invoker" where
  "loopback D FullMethod serve marshal_in unmarshal_in marshal_out unmarshal_out ctx method req out =
     (if method \<noteq> FullMethod then (Err (StatusErr Unimplemented ''unknown method''), no_metadata D)
      else
        (case marshal_in req of
           Err e \<Rightarrow> (Err (StatusErr Internal ''marshal''), no_metadata D)
         | Panic e \<Rightarrow> (Panic e, no_metadata D)
         | Ret bs \<Rightarrow>
             (case serve ctx (unmarshal_in bs) of
                (Ret resp, md) \<Rightarrow>
                  ((case marshal_out resp of
                      Ret bs' \<Rightarrow> (case unmarshal_out bs' out of
                                   Inl e \<Rightarrow> Err (StatusErr Internal ''unmarshal'') | Inr out' \<Rightarrow> Ret out')
                    | _ \<Rightarrow> Err (StatusErr Internal ''marshal'')), md)
              | answer \<Rightarrow> answer)))"

lemma loopback_connection:
  "grpc_connection (loopback D FullMethod serve marshal_in unmarshal_in marshal_out unmarshal_out)
     FullMethod serve marshal_in unmarshal_in marshal_out unmarshal_out"
  by unfold_locales (simp_all add: loopback_def)

section \<open>The methods of the validator registry\<close>

text \<open>What the client relies on for \<open>GetValidator\<close> and \<open>Params\<close>, for a connection \<open>cc\<close>.\<close>

definition transparent_interceptor ::
    "('ctx, 'i, 'o, 'md) interceptor option \<Rightarrow> bool" where
  "transparent_interceptor interceptor \<longleftrightarrow>
     (\<forall>f. interceptor = Some f \<longrightarrow> (\<forall>c req m srv. f c req m srv = srv c req))"

definition connects_GetValidator ::
    "('ctx, 'q, 'r, 'md) vr_conn \<Rightarrow> 'md md_ops \<Rightarrow> ('sctx, 'q, 'r, 'md) vr_query_service
     \<Rightarrow> ('ctx \<Rightarrow> 'sctx)
     \<Rightarrow> ('sctx, QueryGetValidatorRequest, QueryGetValidatorResponse, 'md) interceptor option \<Rightarrow> bool" where
  "connects_GetValidator cc D srv server_ctx interceptor \<longleftrightarrow>
     transparent_interceptor interceptor \<and>
     grpc_connection (vcc_GetValidator cc) vr_GetValidator_method
       (\<lambda>ctx dec. vr_GetValidator_Handler D srv (server_ctx ctx) dec interceptor)
       QueryGetValidatorRequest_Marshal QueryGetValidatorRequest_Unmarshal
       QueryGetValidatorResponse_Marshal QueryGetValidatorResponse_Unmarshal"

definition connects_Params ::
    "('ctx, 'q, 'r, 'md) vr_conn \<Rightarrow> 'md md_ops \<Rightarrow> ('sctx, 'q, 'r, 'md) vr_query_service
     \<Rightarrow> ('ctx \<Rightarrow> 'sctx)
     \<Rightarrow> ('sctx, VrQueryParamsRequest, VrQueryParamsResponse, 'md) interceptor option \<Rightarrow> bool" where
  "connects_Params cc D srv server_ctx interceptor \<longleftrightarrow>
     transparent_interceptor interceptor \<and>
     grpc_connection (vcc_Params cc) vr_Params_method
       (\<lambda>ctx dec. vr_Params_Handler D srv (server_ctx ctx) dec interceptor)
       VrQueryParamsRequest_Marshal VrQueryParamsRequest_Unmarshal
       VrQueryParamsResponse_Marshal VrQueryParamsResponse_Unmarshal"

text \<open>A message smaller than \<open>2^63\<close> bytes survives encoding.\<close>

lemma query_messages_survive:
  "QueryGetValidatorRequest_Size q < 2 ^ 63 \<Longrightarrow> \<exists>bs. QueryGetValidatorRequest_Marshal q = Ret bs \<and>
     QueryGetValidatorRequest_Unmarshal bs QueryGetValidatorRequest_zero = Inr q"
  "QueryGetValidatorResponse_Size r < 2 ^ 63 \<Longrightarrow> \<exists>bs. QueryGetValidatorResponse_Marshal r = Ret bs \<and>
     QueryGetValidatorResponse_Unmarshal bs QueryGetValidatorResponse_zero = Inr r"
  "VrQueryParamsRequest_Size q' < 2 ^ 63 \<Longrightarrow> \<exists>bs. VrQueryParamsRequest_Marshal q' = Ret bs \<and>
     VrQueryParamsRequest_Unmarshal bs VrQueryParamsRequest_zero = Inr q'"
  "VrQueryParamsResponse_Size r' < 2 ^ 63 \<Longrightarrow> \<exists>bs. VrQueryParamsResponse_Marshal r' = Ret bs \<and>
     VrQueryParamsResponse_Unmarshal bs VrQueryParamsResponse_zero = Inr r'"
  using query_get_pb.roundtrip [of q] query_get_resp_pb.roundtrip [of r]
    vr_query_params_pb.roundtrip [of q'] vr_query_params_resp_pb.roundtrip [of r']
  by (auto simp: QueryGetValidatorRequest_Marshal_def QueryGetValidatorRequest_Unmarshal_def
      QueryGetValidatorResponse_Marshal_def QueryGetValidatorResponse_Unmarshal_def
      VrQueryParamsRequest_Marshal_def VrQueryParamsRequest_Unmarshal_def
      VrQueryParamsResponse_Marshal_def VrQueryParamsResponse_Unmarshal_def)

lemma get_service:
  assumes "connects_GetValidator cc D srv server_ctx interceptor"
  shows "grpc_service (vcc_GetValidator cc) vr_GetValidator_method D QueryGetValidatorRequest_zero
    (vqs_GetValidator srv) server_ctx interceptor
    QueryGetValidatorRequest_Marshal QueryGetValidatorRequest_Unmarshal
    QueryGetValidatorResponse_Marshal QueryGetValidatorResponse_Unmarshal
    QueryGetValidatorResponse_zero
    (\<lambda>m. QueryGetValidatorRequest_Size m < 2 ^ 63) (\<lambda>m. QueryGetValidatorResponse_Size m < 2 ^ 63)"
  unfolding grpc_service_def grpc_service_axioms_def
proof (intro conjI allI impI)
  show "grpc_connection (vcc_GetValidator cc) vr_GetValidator_method
     (\<lambda>ctx dec. server_handler D vr_GetValidator_method QueryGetValidatorRequest_zero
        (vqs_GetValidator srv) (server_ctx ctx) dec interceptor)
     QueryGetValidatorRequest_Marshal QueryGetValidatorRequest_Unmarshal
     QueryGetValidatorResponse_Marshal QueryGetValidatorResponse_Unmarshal"
    using assms by (simp add: connects_GetValidator_def vr_GetValidator_Handler_def)
qed (use assms in \<open>auto simp: connects_GetValidator_def transparent_interceptor_def
    intro: query_messages_survive\<close>)

lemma params_service:
  assumes "connects_Params cc D srv server_ctx interceptor"
  shows "grpc_service (vcc_Params cc) vr_Params_method D VrQueryParamsRequest_zero
    (vqs_Params srv) server_ctx interceptor
    VrQueryParamsRequest_Marshal VrQueryParamsRequest_Unmarshal
    VrQueryParamsResponse_Marshal VrQueryParamsResponse_Unmarshal
    VrQueryParamsResponse_zero
    (\<lambda>m. VrQueryParamsRequest_Size m < 2 ^ 63) (\<lambda>m. VrQueryParamsResponse_Size m < 2 ^ 63)"
  unfolding grpc_service_def grpc_service_axioms_def
proof (intro conjI allI impI)
  show "grpc_connection (vcc_Params cc) vr_Params_method
     (\<lambda>ctx dec. server_handler D vr_Params_method VrQueryParamsRequest_zero
        (vqs_Params srv) (server_ctx ctx) dec interceptor)
     VrQueryParamsRequest_Marshal VrQueryParamsRequest_Unmarshal
     VrQueryParamsResponse_Marshal VrQueryParamsResponse_Unmarshal"
    using assms by (simp add: connects_Params_def vr_Params_Handler_def)
qed (use assms in \<open>auto simp: connects_Params_def transparent_interceptor_def
    intro: query_messages_survive\<close>)

text \<open>
  The loopback connection to a server; the messages of \<open>ListValidator\<close> hold page messages of a
  library, whose routines are \<open>P\<close> and \<open>R\<close>.
\<close>

definition vr_loopback ::
    "'q pb_codec \<Rightarrow> 'r pb_codec \<Rightarrow> 'md md_ops \<Rightarrow> ('ctx, 'q, 'r, 'md) vr_query_service
     \<Rightarrow> ('ctx, 'q, 'r, 'md) vr_conn" where
  "vr_loopback P R D srv =
     \<lparr>vcc_Params = loopback D vr_Params_method (\<lambda>ctx dec. vr_Params_Handler D srv ctx dec None)
        VrQueryParamsRequest_Marshal VrQueryParamsRequest_Unmarshal
        VrQueryParamsResponse_Marshal VrQueryParamsResponse_Unmarshal,
      vcc_GetValidator = loopback D vr_GetValidator_method
        (\<lambda>ctx dec. vr_GetValidator_Handler D srv ctx dec None)
        QueryGetValidatorRequest_Marshal QueryGetValidatorRequest_Unmarshal
        QueryGetValidatorResponse_Marshal QueryGetValidatorResponse_Unmarshal,
      vcc_ListValidator = loopback D vr_ListValidator_method
        (\<lambda>ctx dec. vr_ListValidator_Handler D srv ctx dec None)
        (QueryAllValidatorRequest_Marshal P) (QueryAllValidatorRequest_Unmarshal P)
        (QueryAllValidatorResponse_Marshal R) (QueryAllValidatorResponse_Unmarshal R)\<rparr>"

lemma loopback_connects:
  "connects_GetValidator (vr_loopback P R D srv) D srv (\<lambda>ctx. ctx) None"
  "connects_Params (vr_loopback P R D srv) D srv (\<lambda>ctx. ctx) None"
  by (simp_all add: connects_GetValidator_def connects_Params_def transparent_interceptor_def
      vr_loopback_def loopback_connection)

interpretation loop_get: grpc_service "vcc_GetValidator (vr_loopback P R D srv)"
  vr_GetValidator_method D QueryGetValidatorRequest_zero "vqs_GetValidator srv" "\<lambda>ctx. ctx" None
  QueryGetValidatorRequest_Marshal QueryGetValidatorRequest_Unmarshal
  QueryGetValidatorResponse_Marshal QueryGetValidatorResponse_Unmarshal
  QueryGetValidatorResponse_zero
  "\<lambda>m. QueryGetValidatorRequest_Size m < 2 ^ 63" "\<lambda>m. QueryGetValidatorResponse_Size m < 2 ^ 63"
  by (rule get_service [OF loopback_connects(1)])

end
