(* ===== verification/Gateway.thy ===== *)
theory Gateway
  imports GrpcSpec
begin

text \<open>
  The REST gateway of the two modules (\<open>types/query.pb.gw.go\<close>): for every query a function that
  calls the service through a client and one that calls the server directly, the HTTP handlers
  around them, and their registration with the patterns of their paths.

  The runtime library of the gateway is a parameter: contexts, annotation of a request, the parsing
  of forms and path parameters, metadata and the printing of errors. A handler either writes an
  error or forwards a message, in a context that holds the metadata of the call. The unused
  marshaler arguments are left out.
\<close>

section \<open>The runtime\<close>

record double_array =
  da_Encoding :: "(string \<times> int) list"
  da_Base :: "int list"
  da_Check :: "int list"

record ('ctx, 'req, 'form, 'q, 'md) gw_runtime =
  gw_metadata :: "'md md_ops"
  gw_Context :: "'req \<Rightarrow> 'ctx"                 \<comment> \<open>\<open>context.WithCancel(req.Context())\<close>\<close>
  gw_WithStream :: "'ctx \<Rightarrow> 'ctx"              \<comment> \<open>\<open>grpc.NewContextWithServerTransportStream\<close>\<close>
  gw_AnnotateIncomingContext :: "'ctx \<Rightarrow> 'req \<Rightarrow> go_error + 'ctx"
  gw_AnnotateContext :: "'ctx \<Rightarrow> 'req \<Rightarrow> go_error + 'ctx"
  gw_NewServerMetadataContext :: "'ctx \<Rightarrow> 'md ServerMetadata \<Rightarrow> 'ctx"
  gw_String :: "string \<Rightarrow> go_error + string"
  gw_ParseForm :: "'req \<Rightarrow> go_error + 'form"
  gw_PopulateQueryParameters ::
    "'q QueryAllValidatorRequest \<Rightarrow> 'form \<Rightarrow> double_array \<Rightarrow> go_error + 'q QueryAllValidatorRequest"
  gw_err_text :: "go_error \<Rightarrow> string"

type_synonym path_params = "string \<rightharpoonup> string"

datatype ('ctx, 'msg) http_reply = HTTPError 'ctx go_error | ForwardMessage 'ctx 'msg

definition with_reply :: "('o \<Rightarrow> 'msg) \<Rightarrow> ('o, 'md) answer \<Rightarrow> ('msg, 'md) answer" where
  "with_reply f a = (map_outcome f (fst a), snd a)"

text \<open>A local call: the metadata of the message is zero, the stream has what the server set.\<close>

definition on_stream ::
    "'md md_ops \<Rightarrow> ('msg, 'md) answer \<Rightarrow> ('msg, 'md) answer \<times> 'md ServerMetadata" where
  "on_stream D a = ((fst a, no_metadata D), snd a)"

definition not_called :: "'md md_ops \<Rightarrow> go_error \<Rightarrow> ('msg, 'md) answer" where
  "not_called D err = (Err err, no_metadata D)"

section \<open>The requests of the validator registry\<close>

datatype 'r vr_message =
    ParamsMessage VrQueryParamsResponse
  | GetValidatorMessage QueryGetValidatorResponse
  | ListValidatorMessage "'r QueryAllValidatorResponse"

definition vr_request_Params ::
    "('ctx, 'q, 'r, 'md) vr_query_service \<Rightarrow> 'ctx \<Rightarrow> ('r vr_message, 'md) answer" where
  "vr_request_Params client ctx = with_reply ParamsMessage (vqs_Params client ctx VrQueryParamsRequest)"

definition vr_local_request_Params ::
    "('ctx, 'req, 'form, 'q, 'md) gw_runtime \<Rightarrow> ('ctx, 'q, 'r, 'md) vr_query_service \<Rightarrow> 'ctx
     \<Rightarrow> ('r vr_message, 'md) answer \<times> 'md ServerMetadata" where
  "vr_local_request_Params R server ctx =
     on_stream (gw_metadata R) (with_reply ParamsMessage (vqs_Params server ctx VrQueryParamsRequest))"

text \<open>The path parameter of \<open>GetValidator\<close>.\<close>

definition index_param ::
    "('ctx, 'req, 'form, 'q, 'md) gw_runtime \<Rightarrow> path_params \<Rightarrow> go_error + QueryGetValidatorRequest" where
  "index_param R pathParams =
     (case pathParams ''index'' of
        None \<Rightarrow> Inl (StatusErr InvalidArgument ''missing parameter index'')
      | Some val \<Rightarrow>
     (case gw_String R val of
        Inl err \<Rightarrow> Inl (StatusErr InvalidArgument
          (''type mismatch, parameter: index, error: '' @ gw_err_text R err))
      | Inr s \<Rightarrow> Inr \<lparr>qgvr_Index = s\<rparr>))"

definition vr_request_GetValidator ::
    "('ctx, 'req, 'form, 'q, 'md) gw_runtime \<Rightarrow> ('ctx, 'q, 'r, 'md) vr_query_service \<Rightarrow> path_params
     \<Rightarrow> 'ctx \<Rightarrow> ('r vr_message, 'md) answer" where
  "vr_request_GetValidator R client pathParams ctx =
     (case index_param R pathParams of
        Inl err \<Rightarrow> not_called (gw_metadata R) err
      | Inr protoReq \<Rightarrow> with_reply GetValidatorMessage (vqs_GetValidator client ctx protoReq))"

definition vr_local_request_GetValidator ::
    "('ctx, 'req, 'form, 'q, 'md) gw_runtime \<Rightarrow> ('ctx, 'q, 'r, 'md) vr_query_service \<Rightarrow> path_params
     \<Rightarrow> 'ctx \<Rightarrow> ('r vr_message, 'md) answer \<times> 'md ServerMetadata" where
  "vr_local_request_GetValidator R server pathParams ctx =
     on_stream (gw_metadata R)
       (case index_param R pathParams of
          Inl err \<Rightarrow> not_called (gw_metadata R) err
        | Inr protoReq \<Rightarrow> with_reply GetValidatorMessage (vqs_GetValidator server ctx protoReq))"

text \<open>\<open>ListValidator\<close> takes its request from the query string; the filter excludes no field.\<close>

definition filter_Query_ListValidator :: double_array where
  "filter_Query_ListValidator = \<lparr>da_Encoding = [], da_Base = [], da_Check = []\<rparr>"

definition list_form ::
    "('ctx, 'req, 'form, 'q, 'md) gw_runtime \<Rightarrow> 'req \<Rightarrow> go_error + 'q QueryAllValidatorRequest" where
  "list_form R req =
     (case gw_ParseForm R req of
        Inl err \<Rightarrow> Inl (StatusErr InvalidArgument (gw_err_text R err))
      | Inr form \<Rightarrow>
     (case gw_PopulateQueryParameters R QueryAllValidatorRequest_zero form filter_Query_ListValidator of
        Inl err \<Rightarrow> Inl (StatusErr InvalidArgument (gw_err_text R err))
      | Inr protoReq \<Rightarrow> Inr protoReq))"

definition vr_request_ListValidator ::
    "('ctx, 'req, 'form, 'q, 'md) gw_runtime \<Rightarrow> ('ctx, 'q, 'r, 'md) vr_query_service \<Rightarrow> 'req
     \<Rightarrow> 'ctx \<Rightarrow> ('r vr_message, 'md) answer" where
  "vr_request_ListValidator R client req ctx =
     (case list_form R req of
        Inl err \<Rightarrow> not_called (gw_metadata R) err
      | Inr protoReq \<Rightarrow> with_reply ListValidatorMessage (vqs_ListValidator client ctx protoReq))"

definition vr_local_request_ListValidator ::
    "('ctx, 'req, 'form, 'q, 'md) gw_runtime \<Rightarrow> ('ctx, 'q, 'r, 'md) vr_query_service \<Rightarrow> 'req
     \<Rightarrow> 'ctx \<Rightarrow> ('r vr_message, 'md) answer \<times> 'md ServerMetadata" where
  "vr_local_request_ListValidator R server req ctx =
     on_stream (gw_metadata R)
       (case list_form R req of
          Inl err \<Rightarrow> not_called (gw_metadata R) err
        | Inr protoReq \<Rightarrow> with_reply ListValidatorMessage (vqs_ListValidator server ctx protoReq))"

section \<open>The HTTP handlers\<close>

definition reply_in :: "'ctx \<Rightarrow> 'msg outcome \<Rightarrow> ('ctx, 'msg) http_reply outcome" where
  "reply_in ctx r =
     (case r of
        Ret resp \<Rightarrow> Ret (ForwardMessage ctx resp)
      | Err err \<Rightarrow> Ret (HTTPError ctx err)
      | Panic err \<Rightarrow> Panic err)"

definition handle_remote ::
    "('ctx, 'req, 'form, 'q, 'md) gw_runtime \<Rightarrow> ('ctx \<Rightarrow> ('msg, 'md) answer) \<Rightarrow> 'req
     \<Rightarrow> ('ctx, 'msg) http_reply outcome" where
  "handle_remote R request req =
     (let ctx = gw_Context R req in
      case gw_AnnotateContext R ctx req of
        Inl err \<Rightarrow> Ret (HTTPError ctx err)
      | Inr rctx \<Rightarrow>
     (case request rctx of
        (r, md) \<Rightarrow> reply_in (gw_NewServerMetadataContext R ctx md) r))"

definition join_metadata ::
    "'md md_ops \<Rightarrow> 'md ServerMetadata \<Rightarrow> 'md ServerMetadata \<Rightarrow> 'md ServerMetadata" where
  "join_metadata D md stream =
     \<lparr>HeaderMD = md_Join D (HeaderMD md) (HeaderMD stream),
      TrailerMD = md_Join D (TrailerMD md) (TrailerMD stream)\<rparr>"

definition handle_local ::
    "('ctx, 'req, 'form, 'q, 'md) gw_runtime
     \<Rightarrow> ('ctx \<Rightarrow> ('msg, 'md) answer \<times> 'md ServerMetadata) \<Rightarrow> 'req
     \<Rightarrow> ('ctx, 'msg) http_reply outcome" where
  "handle_local R local_request req =
     (let ctx = gw_WithStream R (gw_Context R req) in
      case gw_AnnotateIncomingContext R ctx req of
        Inl err \<Rightarrow> Ret (HTTPError ctx err)
      | Inr rctx \<Rightarrow>
     (case local_request rctx of
        ((r, md), stream) \<Rightarrow>
          reply_in (gw_NewServerMetadataContext R ctx (join_metadata (gw_metadata R) md stream)) r))"

section \<open>Patterns and registration\<close>

text \<open>A pattern: version, operations with their operands, the strings they refer to, the verb.\<close>

datatype gw_pattern = NewPattern nat "nat list" "string list" string bool

fun pattern_ops :: "gw_pattern \<Rightarrow> nat list" where
  "pattern_ops (NewPattern version ops pool verb colon) = ops"

fun pattern_pool :: "gw_pattern \<Rightarrow> string list" where
  "pattern_pool (NewPattern version ops pool verb colon) = pool"

definition pattern_vr_Params :: gw_pattern where
  "pattern_vr_Params = NewPattern 1 [2, 0, 2, 1, 2, 2, 2, 3]
     [''veranatest'', ''validatorregistry'', ''v1'', ''params''] '''' False"

definition pattern_vr_GetValidator :: gw_pattern where
  "pattern_vr_GetValidator = NewPattern 1 [2, 0, 2, 1, 2, 2, 2, 3, 1, 0, 4, 1, 5, 4]
     [''veranatest'', ''validatorregistry'', ''v1'', ''validator'', ''index''] '''' False"

definition pattern_vr_ListValidator :: gw_pattern where
  "pattern_vr_ListValidator = NewPattern 1 [2, 0, 2, 1, 2, 2, 2, 3]
     [''veranatest'', ''validatorregistry'', ''v1'', ''validator''] '''' False"

definition pattern_td_Params :: gw_pattern where
  "pattern_td_Params = NewPattern 1 [2, 0, 2, 1, 2, 2, 2, 3]
     [''veranatest'', ''td'', ''v1'', ''params''] '''' False"

text \<open>A route of the multiplexer: the HTTP method, the pattern and the handler.\<close>

type_synonym ('ctx, 'req, 'msg) route =
  "string \<times> gw_pattern \<times> ('req \<Rightarrow> path_params \<Rightarrow> ('ctx, 'msg) http_reply outcome)"

type_synonym ('ctx, 'req, 'msg) serve_mux = "('ctx, 'req, 'msg) route list"

definition mux_Handle ::
    "('ctx, 'req, 'msg) serve_mux \<Rightarrow> string \<Rightarrow> gw_pattern
     \<Rightarrow> ('req \<Rightarrow> path_params \<Rightarrow> ('ctx, 'msg) http_reply outcome) \<Rightarrow> ('ctx, 'req, 'msg) serve_mux" where
  "mux_Handle mux method pat h = mux @ [(method, pat, h)]"

definition vr_RegisterQueryHandlerServer ::
    "('ctx, 'req, 'form, 'q, 'md) gw_runtime \<Rightarrow> ('ctx, 'q, 'r, 'md) vr_query_service
     \<Rightarrow> ('ctx, 'req, 'r vr_message) serve_mux \<Rightarrow> go_error option \<times> ('ctx, 'req, 'r vr_message) serve_mux" where
  "vr_RegisterQueryHandlerServer R server mux =
     (let mux = mux_Handle mux ''GET'' pattern_vr_Params
            (\<lambda>req pathParams. handle_local R (vr_local_request_Params R server) req);
          mux = mux_Handle mux ''GET'' pattern_vr_GetValidator
            (\<lambda>req pathParams. handle_local R (vr_local_request_GetValidator R server pathParams) req);
          mux = mux_Handle mux ''GET'' pattern_vr_ListValidator
            (\<lambda>req pathParams. handle_local R (vr_local_request_ListValidator R server req) req) in
      (None, mux))"

definition vr_RegisterQueryHandlerClient ::
    "('ctx, 'req, 'form, 'q, 'md) gw_runtime \<Rightarrow> ('ctx, 'q, 'r, 'md) vr_query_service
     \<Rightarrow> ('ctx, 'req, 'r vr_message) serve_mux \<Rightarrow> go_error option \<times> ('ctx, 'req, 'r vr_message) serve_mux" where
  "vr_RegisterQueryHandlerClient R client mux =
     (let mux = mux_Handle mux ''GET'' pattern_vr_Params
            (\<lambda>req pathParams. handle_remote R (vr_request_Params client) req);
          mux = mux_Handle mux ''GET'' pattern_vr_GetValidator
            (\<lambda>req pathParams. handle_remote R (vr_request_GetValidator R client pathParams) req);
          mux = mux_Handle mux ''GET'' pattern_vr_ListValidator
            (\<lambda>req pathParams. handle_remote R (vr_request_ListValidator R client req) req) in
      (None, mux))"

definition vr_RegisterQueryHandler ::
    "('ctx, 'req, 'form, 'q, 'md) gw_runtime \<Rightarrow> ('ctx, 'q, 'r, 'md) vr_conn
     \<Rightarrow> ('ctx, 'req, 'r vr_message) serve_mux \<Rightarrow> go_error option \<times> ('ctx, 'req, 'r vr_message) serve_mux" where
  "vr_RegisterQueryHandler R conn mux = vr_RegisterQueryHandlerClient R (vr_NewQueryClient conn) mux"

text \<open>
  Registration over a dialled connection, which is closed at once when registration fails and when
  the context is done otherwise.
\<close>

datatype conn_fate = NoConnection | ClosedNow | ClosedWhenDone

definition from_endpoint ::
    "('endpoint \<Rightarrow> go_error + 'conn) \<Rightarrow> ('conn \<Rightarrow> 'mux \<Rightarrow> go_error option \<times> 'mux) \<Rightarrow> 'endpoint \<Rightarrow> 'mux
     \<Rightarrow> go_error option \<times> 'mux \<times> conn_fate" where
  "from_endpoint Dial register endpoint mux =
     (case Dial endpoint of
        Inl err \<Rightarrow> (Some err, mux, NoConnection)
      | Inr conn \<Rightarrow>
     (case register conn mux of
        (err, mux') \<Rightarrow> (err, mux', if err \<noteq> None then ClosedNow else ClosedWhenDone)))"

definition vr_RegisterQueryHandlerFromEndpoint ::
    "('ctx, 'req, 'form, 'q, 'md) gw_runtime \<Rightarrow> ('endpoint \<Rightarrow> go_error + ('ctx, 'q, 'r, 'md) vr_conn)
     \<Rightarrow> 'endpoint \<Rightarrow> ('ctx, 'req, 'r vr_message) serve_mux
     \<Rightarrow> go_error option \<times> ('ctx, 'req, 'r vr_message) serve_mux \<times> conn_fate" where
  "vr_RegisterQueryHandlerFromEndpoint R Dial = from_endpoint Dial (vr_RegisterQueryHandler R)"

section \<open>The trust deposit\<close>

definition td_request_Params ::
    "('ctx, 'd, 'md) td_query_service \<Rightarrow> 'ctx \<Rightarrow> ('d TdQueryParamsResponse, 'md) answer" where
  "td_request_Params client ctx = tqs_Params client ctx TdQueryParamsRequest"

definition td_local_request_Params ::
    "('ctx, 'req, 'form, 'q, 'md) gw_runtime \<Rightarrow> ('ctx, 'd, 'md) td_query_service \<Rightarrow> 'ctx
     \<Rightarrow> ('d TdQueryParamsResponse, 'md) answer \<times> 'md ServerMetadata" where
  "td_local_request_Params R server ctx =
     on_stream (gw_metadata R) (tqs_Params server ctx TdQueryParamsRequest)"

definition td_RegisterQueryHandlerServer ::
    "('ctx, 'req, 'form, 'q, 'md) gw_runtime \<Rightarrow> ('ctx, 'd, 'md) td_query_service
     \<Rightarrow> ('ctx, 'req, 'd TdQueryParamsResponse) serve_mux
     \<Rightarrow> go_error option \<times> ('ctx, 'req, 'd TdQueryParamsResponse) serve_mux" where
  "td_RegisterQueryHandlerServer R server mux =
     (None, mux_Handle mux ''GET'' pattern_td_Params
        (\<lambda>req pathParams. handle_local R (td_local_request_Params R server) req))"

definition td_RegisterQueryHandlerClient ::
    "('ctx, 'req, 'form, 'q, 'md) gw_runtime \<Rightarrow> ('ctx, 'd, 'md) td_query_service
     \<Rightarrow> ('ctx, 'req, 'd TdQueryParamsResponse) serve_mux
     \<Rightarrow> go_error option \<times> ('ctx, 'req, 'd TdQueryParamsResponse) serve_mux" where
  "td_RegisterQueryHandlerClient R client mux =
     (None, mux_Handle mux ''GET'' pattern_td_Params
        (\<lambda>req pathParams. handle_remote R (td_request_Params client) req))"

definition td_RegisterQueryHandler ::
    "('ctx, 'req, 'form, 'q, 'md) gw_runtime \<Rightarrow> 'd TdQueryParamsResponse
     \<Rightarrow> ('ctx, TdQueryParamsRequest, 'd TdQueryParamsResponse, 'md) invoker
     \<Rightarrow> ('ctx, 'req, 'd TdQueryParamsResponse) serve_mux
     \<Rightarrow> go_error option \<times> ('ctx, 'req, 'd TdQueryParamsResponse) serve_mux" where
  "td_RegisterQueryHandler R new conn mux =
     td_RegisterQueryHandlerClient R (td_NewQueryClient new conn) mux"

definition td_RegisterQueryHandlerFromEndpoint ::
    "('ctx, 'req, 'form, 'q, 'md) gw_runtime \<Rightarrow> 'd TdQueryParamsResponse
     \<Rightarrow> ('endpoint \<Rightarrow> go_error + ('ctx, TdQueryParamsRequest, 'd TdQueryParamsResponse, 'md) invoker)
     \<Rightarrow> 'endpoint \<Rightarrow> ('ctx, 'req, 'd TdQueryParamsResponse) serve_mux
     \<Rightarrow> go_error option \<times> ('ctx, 'req, 'd TdQueryParamsResponse) serve_mux \<times> conn_fate" where
  "td_RegisterQueryHandlerFromEndpoint R new Dial = from_endpoint Dial (td_RegisterQueryHandler R new)"

end
