(* ===== verification/Services.thy ===== *)
theory Services
  imports Client Gateway TdPb TdModule
begin

text \<open>
  What the two modules register with the application (\<open>module/module.go\<close>, \<open>module/depinject.go\<close>,
  \<open>keeper/msg_server.go\<close>, the service handlers of \<open>types/tx.pb.go\<close>): the module objects, the message
  services with their handlers, the query services and the gateway routes. A service registrar keeps
  what is registered in order; \<open>deliver\<close> is a router that runs the handler registered for the full
  name of a method on the encoded message.
\<close>

section \<open>Message handlers\<close>

type_synonym ('ctx, 'i) msg_call = "'i \<Rightarrow> 'ctx \<Rightarrow> unit outcome \<times> 'ctx"

type_synonym ('ctx, 'i) msg_interceptor =
  "'i \<Rightarrow> string \<Rightarrow> ('ctx, 'i) msg_call \<Rightarrow> 'ctx \<Rightarrow> unit outcome \<times> 'ctx"

definition msg_handler ::
    "string \<Rightarrow> 'i \<Rightarrow> ('ctx, 'i) msg_call \<Rightarrow> ('i \<Rightarrow> go_error + 'i) \<Rightarrow> ('ctx, 'i) msg_interceptor option
     \<Rightarrow> 'ctx \<Rightarrow> unit outcome \<times> 'ctx" where
  "msg_handler FullMethod new srv dec interceptor ctx =
     (case dec new of
        Inl err \<Rightarrow> (Err err, ctx)
      | Inr req \<Rightarrow>
     (case interceptor of
        None \<Rightarrow> srv req ctx
      | Some f \<Rightarrow> f req FullMethod srv ctx))"

record 's vr_msg_server =
  vms_UpdateParams :: "('s VrCtx, VrMsgUpdateParams) msg_call"
  vms_OnboardValidator :: "('s VrCtx, MsgOnboardValidator) msg_call"

definition vr_NewMsgServerImpl :: "'s VrKeeper \<Rightarrow> 's vr_msg_server" where
  "vr_NewMsgServerImpl k =
     \<lparr>vms_UpdateParams = vr_UpdateParams k, vms_OnboardValidator = OnboardValidator k\<rparr>"

definition vr_Msg_UpdateParams_Handler ::
    "'s vr_msg_server \<Rightarrow> (VrMsgUpdateParams \<Rightarrow> go_error + VrMsgUpdateParams)
     \<Rightarrow> ('s VrCtx, VrMsgUpdateParams) msg_interceptor option \<Rightarrow> 's VrCtx \<Rightarrow> unit outcome \<times> 's VrCtx" where
  "vr_Msg_UpdateParams_Handler srv =
     msg_handler ''/veranatest.validatorregistry.v1.Msg/UpdateParams'' VrMsgUpdateParams_zero
       (vms_UpdateParams srv)"

definition vr_Msg_OnboardValidator_Handler ::
    "'s vr_msg_server \<Rightarrow> (MsgOnboardValidator \<Rightarrow> go_error + MsgOnboardValidator)
     \<Rightarrow> ('s VrCtx, MsgOnboardValidator) msg_interceptor option \<Rightarrow> 's VrCtx \<Rightarrow> unit outcome \<times> 's VrCtx" where
  "vr_Msg_OnboardValidator_Handler srv =
     msg_handler ''/veranatest.validatorregistry.v1.Msg/OnboardValidator'' MsgOnboardValidator_zero
       (vms_OnboardValidator srv)"

record ('s, 'b, 'd) td_msg_server =
  tms_UpdateParams :: "(('s, 'b) TdCtx, 'd TdMsgUpdateParams) msg_call"
  tms_FundModule :: "(('s, 'b) TdCtx, MsgFundModule) msg_call"

definition td_NewMsgServerImpl :: "('s, 'b, 'c, 'd) TdKeeper \<Rightarrow> ('s, 'b, 'd) td_msg_server" where
  "td_NewMsgServerImpl k = \<lparr>tms_UpdateParams = td_UpdateParams k, tms_FundModule = FundModule k\<rparr>"

definition td_Msg_UpdateParams_Handler ::
    "'d dec_codec \<Rightarrow> ('s, 'b, 'd) td_msg_server \<Rightarrow> ('d TdMsgUpdateParams \<Rightarrow> go_error + 'd TdMsgUpdateParams)
     \<Rightarrow> (('s, 'b) TdCtx, 'd TdMsgUpdateParams) msg_interceptor option \<Rightarrow> ('s, 'b) TdCtx
     \<Rightarrow> unit outcome \<times> ('s, 'b) TdCtx" where
  "td_Msg_UpdateParams_Handler D srv =
     msg_handler ''/veranatest.td.v1.Msg/UpdateParams'' (TdMsgUpdateParams_zero D) (tms_UpdateParams srv)"

definition td_Msg_FundModule_Handler ::
    "('s, 'b, 'd) td_msg_server \<Rightarrow> (MsgFundModule \<Rightarrow> go_error + MsgFundModule)
     \<Rightarrow> (('s, 'b) TdCtx, MsgFundModule) msg_interceptor option \<Rightarrow> ('s, 'b) TdCtx
     \<Rightarrow> unit outcome \<times> ('s, 'b) TdCtx" where
  "td_Msg_FundModule_Handler srv =
     msg_handler ''/veranatest.td.v1.Msg/FundModule'' MsgFundModule_zero (tms_FundModule srv)"

section \<open>Registered services\<close>

text \<open>
  The interceptors of the application, one per message type; the methods of a message service on
  encoded messages, in the order of its description.
\<close>

record 's vr_interceptors =
  vri_UpdateParams :: "('s VrCtx, VrMsgUpdateParams) msg_interceptor option"
  vri_OnboardValidator :: "('s VrCtx, MsgOnboardValidator) msg_interceptor option"

record ('s, 'b, 'd) td_interceptors =
  tdi_UpdateParams :: "(('s, 'b) TdCtx, 'd TdMsgUpdateParams) msg_interceptor option"
  tdi_FundModule :: "(('s, 'b) TdCtx, MsgFundModule) msg_interceptor option"

type_synonym 'ctx msg_methods = "(string \<times> (bytes \<Rightarrow> 'ctx \<Rightarrow> unit outcome \<times> 'ctx)) list"

definition vr_Msg_methods :: "'s vr_interceptors \<Rightarrow> 's vr_msg_server \<Rightarrow> 's VrCtx msg_methods" where
  "vr_Msg_methods itc srv =
     [(''UpdateParams'',
         \<lambda>bs. vr_Msg_UpdateParams_Handler srv (VrMsgUpdateParams_Unmarshal bs) (vri_UpdateParams itc)),
      (''OnboardValidator'',
         \<lambda>bs. vr_Msg_OnboardValidator_Handler srv (MsgOnboardValidator_Unmarshal bs)
                (vri_OnboardValidator itc))]"

definition td_Msg_methods ::
    "'d dec_codec \<Rightarrow> ('s, 'b, 'd) td_interceptors \<Rightarrow> ('s, 'b, 'd) td_msg_server
     \<Rightarrow> ('s, 'b) TdCtx msg_methods" where
  "td_Msg_methods D itc srv =
     [(''UpdateParams'',
         \<lambda>bs. td_Msg_UpdateParams_Handler D srv (TdMsgUpdateParams_Unmarshal D bs) (tdi_UpdateParams itc)),
      (''FundModule'',
         \<lambda>bs. td_Msg_FundModule_Handler srv (MsgFundModule_Unmarshal bs) (tdi_FundModule itc))]"

datatype ('ctx, 'query) registered_service =
    MsgService service_desc "'ctx msg_methods"
  | QueryService service_desc 'query

type_synonym ('ctx, 'query) registrar = "('ctx, 'query) registered_service list"

definition vr_RegisterMsgServer ::
    "'s vr_interceptors \<Rightarrow> 's vr_msg_server \<Rightarrow> ('s VrCtx, 'query) registrar \<Rightarrow> ('s VrCtx, 'query) registrar" where
  "vr_RegisterMsgServer itc srv r = r @ [MsgService vr_Msg_serviceDesc (vr_Msg_methods itc srv)]"

definition vr_RegisterQueryServer ::
    "'query \<Rightarrow> ('ctx, 'query) registrar \<Rightarrow> ('ctx, 'query) registrar" where
  "vr_RegisterQueryServer srv r = r @ [QueryService vr_Query_serviceDesc srv]"

definition td_RegisterMsgServer ::
    "'d dec_codec \<Rightarrow> ('s, 'b, 'd) td_interceptors \<Rightarrow> ('s, 'b, 'd) td_msg_server
     \<Rightarrow> (('s, 'b) TdCtx, 'query) registrar \<Rightarrow> (('s, 'b) TdCtx, 'query) registrar" where
  "td_RegisterMsgServer D itc srv r = r @ [MsgService td_Msg_serviceDesc (td_Msg_methods D itc srv)]"

definition td_RegisterQueryServer ::
    "'query \<Rightarrow> ('ctx, 'query) registrar \<Rightarrow> ('ctx, 'query) registrar" where
  "td_RegisterQueryServer srv r = r @ [QueryService td_Query_serviceDesc srv]"

text \<open>A router for encoded messages.\<close>

fun service_methods :: "('ctx, 'query) registered_service \<Rightarrow> 'ctx msg_methods" where
  "service_methods (MsgService d ms) = map (\<lambda>(n, h). (''/'' @ sd_ServiceName d @ ''/'' @ n, h)) ms"
| "service_methods (QueryService d srv) = []"

definition deliver ::
    "('ctx, 'query) registrar \<Rightarrow> string \<Rightarrow> bytes \<Rightarrow> 'ctx \<Rightarrow> unit outcome \<times> 'ctx" where
  "deliver r FullMethod bs ctx =
     (case map_of (concat (map service_methods r)) FullMethod of
        None \<Rightarrow> (Err (LibError ''unrecognized message''), ctx)
      | Some h \<Rightarrow> h bs ctx)"

section \<open>The module objects\<close>

record ('cdc, 's, 'ak, 'bk, 'gk) vr_AppModule =
  vam_cdc :: 'cdc
  vam_keeper :: "'s VrKeeper"
  vam_authKeeper :: 'ak
  vam_bankKeeper :: 'bk
  vam_groupKeeper :: 'gk

definition vr_NewAppModule ::
    "'cdc \<Rightarrow> 's VrKeeper \<Rightarrow> 'ak \<Rightarrow> 'bk \<Rightarrow> 'gk \<Rightarrow> ('cdc, 's, 'ak, 'bk, 'gk) vr_AppModule" where
  "vr_NewAppModule cdc keeper authKeeper bankKeeper groupKeeper =
     \<lparr>vam_cdc = cdc, vam_keeper = keeper, vam_authKeeper = authKeeper, vam_bankKeeper = bankKeeper,
      vam_groupKeeper = groupKeeper\<rparr>"

definition vr_Name :: string where
  "vr_Name = vr_ModuleName"

definition vr_RegisterServices ::
    "'md md_ops \<Rightarrow> ('ctx \<Rightarrow> 's)
     \<Rightarrow> ('s \<Rightarrow> 'q option \<Rightarrow> (string \<Rightarrow> Validator \<Rightarrow> go_error + Validator)
          \<Rightarrow> go_error + (Validator list \<times> 'r option)) \<Rightarrow> (go_error \<Rightarrow> string) \<Rightarrow> 's vr_interceptors
     \<Rightarrow> ('cdc, 's, 'ak, 'bk, 'gk) vr_AppModule
     \<Rightarrow> ('s VrCtx, ('ctx, 'q, 'r, 'md) vr_query_service) registrar
     \<Rightarrow> go_error option \<times> ('s VrCtx, ('ctx, 'q, 'r, 'md) vr_query_service) registrar" where
  "vr_RegisterServices D store_of paginate err_text itc am r =
     (let r = vr_RegisterMsgServer itc (vr_NewMsgServerImpl (vam_keeper am)) r;
          r = vr_RegisterQueryServer (vr_NewQueryServerImpl D store_of paginate err_text (vam_keeper am)) r in
      (None, r))"

definition gateway_or_panic :: "go_error option \<times> 'mux \<Rightarrow> unit outcome \<times> 'mux" where
  "gateway_or_panic r = (case r of (Some err, mux) \<Rightarrow> (Panic err, mux) | (None, mux) \<Rightarrow> (Ret (), mux))"

definition vr_RegisterGRPCGatewayRoutes ::
    "('ctx, 'req, 'form, 'q, 'md) gw_runtime \<Rightarrow> ('ctx, 'q, 'r, 'md) vr_conn
     \<Rightarrow> ('ctx, 'req, 'r vr_message) serve_mux \<Rightarrow> unit outcome \<times> ('ctx, 'req, 'r vr_message) serve_mux" where
  "vr_RegisterGRPCGatewayRoutes R clientCtx mux =
     gateway_or_panic (vr_RegisterQueryHandlerClient R (vr_NewQueryClient clientCtx) mux)"

record ('cdc, 's, 'ak, 'bk) td_AppModule =
  tam_cdc :: 'cdc
  tam_keeper :: 's
  tam_authKeeper :: 'ak
  tam_bankKeeper :: 'bk

definition td_NewAppModule ::
    "'cdc \<Rightarrow> 'k \<Rightarrow> 'ak \<Rightarrow> 'bk \<Rightarrow> ('cdc, 'k, 'ak, 'bk) td_AppModule" where
  "td_NewAppModule cdc keeper authKeeper bankKeeper =
     \<lparr>tam_cdc = cdc, tam_keeper = keeper, tam_authKeeper = authKeeper, tam_bankKeeper = bankKeeper\<rparr>"

definition td_Name :: string where
  "td_Name = td_ModuleName"

definition td_RegisterServices ::
    "'md md_ops \<Rightarrow> ('ctx \<Rightarrow> 's) \<Rightarrow> 'd dec_codec \<Rightarrow> ('s, 'b, 'd) td_interceptors
     \<Rightarrow> ('cdc, ('s, 'b, 'c, 'd) TdKeeper, 'ak, 'bk) td_AppModule
     \<Rightarrow> (('s, 'b) TdCtx, ('ctx, 'd, 'md) td_query_service) registrar
     \<Rightarrow> go_error option \<times> (('s, 'b) TdCtx, ('ctx, 'd, 'md) td_query_service) registrar" where
  "td_RegisterServices D store_of C itc am r =
     (let r = td_RegisterMsgServer C itc (td_NewMsgServerImpl (tam_keeper am)) r;
          r = td_RegisterQueryServer (td_NewQueryServerImpl D store_of (tam_keeper am)) r in
      (None, r))"

definition td_RegisterGRPCGatewayRoutes ::
    "('ctx, 'req, 'form, 'q, 'md) gw_runtime \<Rightarrow> 'd TdQueryParamsResponse
     \<Rightarrow> ('ctx, TdQueryParamsRequest, 'd TdQueryParamsResponse, 'md) invoker
     \<Rightarrow> ('ctx, 'req, 'd TdQueryParamsResponse) serve_mux
     \<Rightarrow> unit outcome \<times> ('ctx, 'req, 'd TdQueryParamsResponse) serve_mux" where
  "td_RegisterGRPCGatewayRoutes R new clientCtx mux =
     gateway_or_panic (td_RegisterQueryHandlerClient R (td_NewQueryClient new clientCtx) mux)"

section \<open>Dependency injection\<close>

text \<open>
  The inputs of the modules: \<open>mk authority\<close> stands for the keeper over the injected store service,
  codecs and keepers, \<open>build_err\<close> for the error of the schema builder.
\<close>

record ('cdc, 's, 'ak, 'bk, 'gk) vr_ModuleInputs =
  vmi_Config :: VrModuleConfig
  vmi_mk :: "bytes \<Rightarrow> 's VrKeeper"
  vmi_Cdc :: 'cdc
  vmi_AuthKeeper :: 'ak
  vmi_BankKeeper :: 'bk
  vmi_GroupKeeper :: 'gk

record ('cdc, 's, 'ak, 'bk, 'gk) vr_ModuleOutputs =
  vmo_ValidatorregistryKeeper :: "'s VrKeeper"
  vmo_Module :: "('cdc, 's, 'ak, 'bk, 'gk) vr_AppModule"

definition vr_ProvideModule ::
    "(string \<Rightarrow> bytes) \<Rightarrow> (string \<Rightarrow> bytes) \<Rightarrow> go_error option
     \<Rightarrow> ('cdc, 's, 'ak, 'bk, 'gk) vr_ModuleInputs \<Rightarrow> ('cdc, 's, 'ak, 'bk, 'gk) vr_ModuleOutputs outcome" where
  "vr_ProvideModule newModuleAddress newModuleAddressOrBech32 build_err inputs =
     (let authority = vr_ProvideModule_authority newModuleAddress newModuleAddressOrBech32
                        (vmc_Authority (vmi_Config inputs)) in
      case vr_NewKeeper (vmi_mk inputs authority) build_err of
        Ret k \<Rightarrow>
          (let m = vr_NewAppModule (vmi_Cdc inputs) k (vmi_AuthKeeper inputs) (vmi_BankKeeper inputs)
                     (vmi_GroupKeeper inputs) in
           Ret \<lparr>vmo_ValidatorregistryKeeper = k, vmo_Module = m\<rparr>)
      | Err e \<Rightarrow> Err e
      | Panic e \<Rightarrow> Panic e)"

record ('cdc, 'k, 'ak, 'bk) td_ModuleInputs =
  tmi_Config :: TdModuleConfig
  tmi_mk :: "bytes \<Rightarrow> 'k"
  tmi_Cdc :: 'cdc
  tmi_AuthKeeper :: 'ak
  tmi_BankKeeper :: 'bk

record ('cdc, 'k, 'ak, 'bk) td_ModuleOutputs =
  tmo_TdKeeper :: 'k
  tmo_Module :: "('cdc, 'k, 'ak, 'bk) td_AppModule"

text \<open>The keeper is the one of \<open>td_ProvideModule\<close>.\<close>

definition td_ProvideModuleOutputs ::
    "(string \<Rightarrow> bytes) \<Rightarrow> (string \<Rightarrow> bytes) \<Rightarrow> go_error option
     \<Rightarrow> ('cdc, ('s, 'b, 'c, 'd) TdKeeper, 'ak, 'bk) td_ModuleInputs
     \<Rightarrow> ('cdc, ('s, 'b, 'c, 'd) TdKeeper, 'ak, 'bk) td_ModuleOutputs outcome" where
  "td_ProvideModuleOutputs newModuleAddress newModuleAddressOrBech32 build_err inputs =
     (case td_ProvideModule newModuleAddress newModuleAddressOrBech32 (tmi_mk inputs) build_err
             (tmi_Config inputs) of
        Ret k \<Rightarrow>
          (let m = td_NewAppModule (tmi_Cdc inputs) k (tmi_AuthKeeper inputs) (tmi_BankKeeper inputs) in
           Ret \<lparr>tmo_TdKeeper = k, tmo_Module = m\<rparr>)
      | Err e \<Rightarrow> Err e
      | Panic e \<Rightarrow> Panic e)"

section \<open>What a registrar delivers\<close>

lemma deliver_onboard:
  assumes "MsgOnboardValidator_Unmarshal bs MsgOnboardValidator_zero = Inr msg"
    and "vri_OnboardValidator itc = None"
  shows "deliver (snd (vr_RegisterServices D store_of paginate err_text itc am []))
      ''/veranatest.validatorregistry.v1.Msg/OnboardValidator'' bs =
    OnboardValidator (vam_keeper am) msg"
  using assms
  by (simp add: fun_eq_iff deliver_def vr_RegisterServices_def vr_RegisterMsgServer_def
      vr_RegisterQueryServer_def vr_Msg_methods_def vr_Msg_serviceDesc_def
      vr_Msg_OnboardValidator_Handler_def msg_handler_def vr_NewMsgServerImpl_def)

end
