(* ===== verification/GatewaySpec.thy ===== *)
theory GatewaySpec
  imports Gateway GoStd
begin

text \<open>
  Which route answers a path. A pattern is a small program for the stack machine of the gateway
  runtime; \<open>template_of\<close> reads the program as the template of the HTTP rule it was generated from. The
  locale \<open>path_matcher\<close> is the documented contract of the library's matcher, in terms of templates,
  and \<open>run_ops\<close>, the machine the documentation of the operations describes, satisfies it.
\<close>

section \<open>Templates\<close>

datatype segment = Lit string | Var string

fun bind_template :: "segment list \<Rightarrow> string list \<Rightarrow> path_params \<Rightarrow> path_params option" where
  "bind_template [] [] b = Some b"
| "bind_template (Lit s # t) (c # cs) b = (if c = s then bind_template t cs b else None)"
| "bind_template (Var v # t) (c # cs) b = bind_template t cs (b(v \<mapsto> c))"
| "bind_template _ _ _ = None"

text \<open>
  The operations: 2 matches a literal and pushes it; 1 pushes a component, 4 joins the \<open>n\<close> topmost
  ones, 5 pops one and binds it to a variable.
\<close>

fun decode_ops :: "nat list \<Rightarrow> string list \<Rightarrow> segment list option" where
  "decode_ops [] pool = Some []"
| "decode_ops (op # x # ops) pool =
     (if op = 2 then
        if x < length pool then map_option (\<lambda>t. Lit (pool ! x) # t) (decode_ops ops pool) else None
      else
        (case ops of
           c # n # k # v # rest \<Rightarrow>
             if op = 1 \<and> c = 4 \<and> n = 1 \<and> k = 5 \<and> v < length pool
             then map_option (\<lambda>t. Var (pool ! v) # t) (decode_ops rest pool) else None
         | _ \<Rightarrow> None))"
| "decode_ops [op] pool = None"

definition template_of :: "gw_pattern \<Rightarrow> segment list option" where
  "template_of p = decode_ops (pattern_ops p) (pattern_pool p)"

section \<open>The matcher and dispatch\<close>

locale path_matcher =
  fixes pmatch :: "gw_pattern \<Rightarrow> string list \<Rightarrow> path_params option"
  assumes pmatch_template: "template_of p = Some t \<Longrightarrow> pmatch p comps = bind_template t comps Map.empty"

text \<open>The answers of all routes that match.\<close>

definition answers ::
    "(gw_pattern \<Rightarrow> string list \<Rightarrow> path_params option) \<Rightarrow> ('ctx, 'req, 'msg) serve_mux \<Rightarrow> string
     \<Rightarrow> string list \<Rightarrow> 'req \<Rightarrow> ('ctx, 'msg) http_reply outcome list" where
  "answers pmatch mux method comps req =
     concat (map (\<lambda>(m, p, h). if m = method
                    then (case pmatch p comps of None \<Rightarrow> [] | Some b \<Rightarrow> [h req b]) else []) mux)"

lemma answers_simps [simp]:
  "answers pmatch [] method comps req = []"
  "answers pmatch ((m, p, h) # mux) method comps req =
     (if m = method then (case pmatch p comps of None \<Rightarrow> [] | Some b \<Rightarrow> [h req b]) else [])
     @ answers pmatch mux method comps req"
  by (simp_all add: answers_def)

definition vr_path :: "string list \<Rightarrow> string list" where
  "vr_path rest = [''veranatest'', ''validatorregistry'', ''v1''] @ rest"

definition td_path :: "string list \<Rightarrow> string list" where
  "td_path rest = [''veranatest'', ''td'', ''v1''] @ rest"

lemma templates:
  "template_of pattern_vr_Params = Some (map Lit (vr_path [''params'']))"
  "template_of pattern_vr_GetValidator = Some (map Lit (vr_path [''validator'']) @ [Var ''index''])"
  "template_of pattern_vr_ListValidator = Some (map Lit (vr_path [''validator'']))"
  "template_of pattern_td_Params = Some (map Lit (td_path [''params'']))"
  by (simp_all add: template_of_def pattern_vr_Params_def pattern_vr_GetValidator_def
      pattern_vr_ListValidator_def pattern_td_Params_def vr_path_def td_path_def)

lemma bind_literals:
  "bind_template (map Lit ss) cs b = (if cs = ss then Some b else None)"
proof (induction ss arbitrary: cs)
  case Nil
  then show ?case by (cases cs) simp_all
next
  case (Cons s ss)
  then show ?case by (cases cs) simp_all
qed

lemma bind_literals_var:
  "bind_template (map Lit ss @ [Var v]) cs b =
     (if cs \<noteq> [] \<and> butlast cs = ss then Some (b(v \<mapsto> List.last cs)) else None)"
proof (induction ss arbitrary: cs)
  case Nil
  then show ?case
  proof (cases cs)
    case (Cons c cs')
    then show ?thesis by (cases cs') simp_all
  qed simp
next
  case (Cons s ss)
  then show ?case
  proof (cases cs)
    case Cons': (Cons c cs')
    then show ?thesis using Cons by (cases "cs' = []") (auto simp: if_distrib)
  qed simp
qed

context path_matcher begin

lemma matches:
  "pmatch pattern_vr_Params cs = (if cs = vr_path [''params''] then Some Map.empty else None)"
  "pmatch pattern_vr_ListValidator cs = (if cs = vr_path [''validator''] then Some Map.empty else None)"
  "pmatch pattern_td_Params cs = (if cs = td_path [''params''] then Some Map.empty else None)"
  "pmatch pattern_vr_GetValidator cs =
     (if cs \<noteq> [] \<and> butlast cs = vr_path [''validator''] then Some [''index'' \<mapsto> List.last cs] else None)"
  using templates [THEN pmatch_template] by (simp_all only: bind_literals bind_literals_var)

text \<open>The answer of the four paths of the two modules; \<open>hs\<close> are the handlers of the routes.\<close>

lemma vr_answers:
  "answers pmatch [(''GET'', pattern_vr_Params, h1), (''GET'', pattern_vr_GetValidator, h2),
      (''GET'', pattern_vr_ListValidator, h3)] ''GET'' cs req =
     (if cs = vr_path [''params''] then [h1 req Map.empty]
      else if cs = vr_path [''validator''] then [h3 req Map.empty]
      else if cs \<noteq> [] \<and> butlast cs = vr_path [''validator''] then [h2 req [''index'' \<mapsto> List.last cs]]
      else [])"
  by (auto simp: matches vr_path_def)

end

section \<open>The stack machine\<close>

fun run_ops ::
    "nat list \<Rightarrow> string list \<Rightarrow> string list \<Rightarrow> string list \<Rightarrow> path_params \<Rightarrow> path_params option" where
  "run_ops [] pool cs stack b = (if cs = [] then Some b else None)"
| "run_ops (op # x # ops) pool cs stack b =
     (if op = 0 then run_ops ops pool cs stack b
      else if op = 1 then (case cs of [] \<Rightarrow> None | c # cs \<Rightarrow> run_ops ops pool cs (c # stack) b)
      else if op = 2 then
        (case cs of [] \<Rightarrow> None
         | c # cs \<Rightarrow> if c = pool ! x then run_ops ops pool cs (c # stack) b else None)
      else if op = 4 then
        run_ops ops pool cs (join_with (CHR 0x2F) (rev (take x stack)) # drop x stack) b
      else if op = 5 then
        (case stack of [] \<Rightarrow> None | c # stack \<Rightarrow> run_ops ops pool cs stack (b(pool ! x \<mapsto> c)))
      else None)"
| "run_ops [op] pool cs stack b = None"

definition stack_match :: "gw_pattern \<Rightarrow> string list \<Rightarrow> path_params option" where
  "stack_match p comps = run_ops (pattern_ops p) (pattern_pool p) comps [] Map.empty"

lemma run_ops_template:
  "decode_ops ops pool = Some t \<Longrightarrow> run_ops ops pool cs stack b = bind_template t cs b"
proof (induction ops pool arbitrary: t cs stack b rule: decode_ops.induct)
  case (1 pool)
  then show ?case by (cases cs) auto
next
  case (2 op x ops pool)
  show ?case
  proof (cases "op = 2")
    case True
    with "2.prems" obtain t' where t': "decode_ops ops pool = Some t'" "t = Lit (pool ! x) # t'" "x < length pool"
      by (auto split: if_splits)
    show ?thesis using "2.IH"(1) [OF True t'(3,1)] t'(2) True by (cases cs) auto
  next
    case False
    with "2.prems" obtain c n k v rest t' where o: "ops = c # n # k # v # rest" "op = 1" "c = 4" "n = 1"
        "k = 5" "v < length pool"
      and t': "decode_ops rest pool = Some t'" "t = Var (pool ! v) # t'"
      by (auto split: if_splits list.splits)
    have IH: "run_ops rest pool cs stack b = bind_template t' cs b" for cs stack b
      using "2.IH"(2) [OF False, of c "n # k # v # rest" n "k # v # rest" k "v # rest" v rest] o t'(1)
      by simp
    show ?thesis using IH o t'(2) by (cases cs) auto
  qed
qed auto

interpretation stack: path_matcher stack_match
  by unfold_locales (simp add: stack_match_def template_of_def run_ops_template)

end
