(* ===== verification/GatewayProps.thy ===== *)
theory GatewayProps
  imports GatewaySpec
begin

text \<open>
  The properties of the gateway: which handler answers a path, what a query over REST gives when the
  gateway reaches the keeper over a connection, and that the two ways to register the gateway
  answer alike.
\<close>

section \<open>Registered routes\<close>

lemmas registered = vr_RegisterQueryHandlerServer_def vr_RegisterQueryHandlerClient_def
  vr_RegisterQueryHandler_def td_RegisterQueryHandlerServer_def td_RegisterQueryHandlerClient_def
  td_RegisterQueryHandler_def mux_Handle_def

lemma vr_server_answers:
  assumes "path_matcher pmatch"
  shows "answers pmatch (snd (vr_RegisterQueryHandlerServer R server [])) ''GET'' cs req =
    (if cs = vr_path [''params''] then [handle_local R (vr_local_request_Params R server) req]
     else if cs = vr_path [''validator'']
       then [handle_local R (vr_local_request_ListValidator R server req) req]
     else if cs \<noteq> [] \<and> butlast cs = vr_path [''validator'']
       then [handle_local R (vr_local_request_GetValidator R server [''index'' \<mapsto> List.last cs]) req]
     else [])"
  by (simp only: registered Let_def snd_conv append.simps path_matcher.vr_answers [OF assms])

lemma vr_client_answers:
  assumes "path_matcher pmatch"
  shows "answers pmatch (snd (vr_RegisterQueryHandlerClient R client [])) ''GET'' cs req =
    (if cs = vr_path [''params''] then [handle_remote R (vr_request_Params client) req]
     else if cs = vr_path [''validator'']
       then [handle_remote R (vr_request_ListValidator R client req) req]
     else if cs \<noteq> [] \<and> butlast cs = vr_path [''validator'']
       then [handle_remote R (vr_request_GetValidator R client [''index'' \<mapsto> List.last cs]) req]
     else [])"
  by (simp only: registered Let_def snd_conv append.simps path_matcher.vr_answers [OF assms])

text \<open>C34. Every path is answered by at most one route of the gateway of the validator registry: the
  parameters, the list, and the entry whose index is the last component; the trust deposit has one
  more path. Each is answered by the handler of its own query.\<close>

theorem gateway_routes:
  assumes "path_matcher pmatch"
  shows "length (answers pmatch (snd (vr_RegisterQueryHandlerClient R client [])) ''GET'' cs req) \<le> 1 \<and>
    answers pmatch (snd (vr_RegisterQueryHandlerClient R client [])) ''GET'' (vr_path [''params'']) req =
      [handle_remote R (vr_request_Params client) req] \<and>
    answers pmatch (snd (vr_RegisterQueryHandlerClient R client [])) ''GET'' (vr_path [''validator'']) req =
      [handle_remote R (vr_request_ListValidator R client req) req] \<and>
    answers pmatch (snd (vr_RegisterQueryHandlerClient R client [])) ''GET'' (vr_path [''validator'', i]) req =
      [handle_remote R (vr_request_GetValidator R client [''index'' \<mapsto> i]) req] \<and>
    answers pmatch (snd (td_RegisterQueryHandlerClient R' client' [])) ''GET'' cs' req' =
      (if cs' = td_path [''params''] then [handle_remote R' (td_request_Params client') req'] else [])"
proof -
  have td: "answers pmatch (snd (td_RegisterQueryHandlerClient R' client' [])) ''GET'' cs' req' =
      (if cs' = td_path [''params''] then [handle_remote R' (td_request_Params client') req'] else [])"
    by (simp add: registered path_matcher.matches [OF assms])
  show ?thesis unfolding vr_client_answers [OF assms] td by (simp add: vr_path_def)
qed

section \<open>A query over REST\<close>

lemma snd_answer [simp]: "snd (map_outcome f r, md) = md"
  by simp

definition get_outcome :: "Validator option \<Rightarrow> QueryGetValidatorResponse outcome" where
  "get_outcome v =
     (case v of None \<Rightarrow> Err (StatusErr NotFound ''not found'') | Some v \<Rightarrow> Ret \<lparr>qgvs_Validator = v\<rparr>)"

lemma get_over_connection:
  assumes k: "registry k invar pabs iok vabs okey ok lt"
    and conn: "connects_GetValidator cc D (vr_NewQueryServerImpl D store_of paginate err_text k) server_ctx itc"
    and "invar (store_of (server_ctx ctx))" "okey i"
    and "QueryGetValidatorRequest_Size \<lparr>qgvr_Index = i\<rparr> < 2 ^ 63"
    and "\<And>v. vabs (store_of (server_ctx ctx)) i = Some v \<Longrightarrow> QueryGetValidatorResponse_Size \<lparr>qgvs_Validator = v\<rparr> < 2 ^ 63"
  shows "vqs_GetValidator (vr_NewQueryClient cc) ctx \<lparr>qgvr_Index = i\<rparr> =
    (get_outcome (vabs (store_of (server_ctx ctx)) i), no_metadata D)"
proof -
  let ?srv = "vqs_GetValidator (vr_NewQueryServerImpl D store_of paginate err_text k)"
  have srv: "?srv (server_ctx ctx) \<lparr>qgvr_Index = i\<rparr> =
      (get_outcome (vabs (store_of (server_ctx ctx)) i), no_metadata D)"
    using registry.get_validator_abs [OF k assms(3,4)]
    by (simp add: vr_NewQueryServerImpl_def get_outcome_def)
  have stub: "vqs_GetValidator (vr_NewQueryClient cc) =
      client_stub (vcc_GetValidator cc) vr_GetValidator_method QueryGetValidatorResponse_zero"
    by (simp add: vr_NewQueryClient_def vr_client_GetValidator_def)
  show ?thesis
  proof (cases "vabs (store_of (server_ctx ctx)) i")
    case None
    with srv have "?srv (server_ctx ctx) \<lparr>qgvr_Index = i\<rparr> =
        (Err (StatusErr NotFound ''not found''), no_metadata D)" by (simp add: get_outcome_def)
    from grpc_service.stub_status [OF get_service [OF conn] assms(5) this] None
    show ?thesis by (simp add: stub get_outcome_def)
  next
    case (Some v)
    with srv have "?srv (server_ctx ctx) \<lparr>qgvr_Index = i\<rparr> = (Ret \<lparr>qgvs_Validator = v\<rparr>, no_metadata D)"
      by (simp add: get_outcome_def)
    from grpc_service.stub_ret [OF get_service [OF conn] assms(5) assms(6) [OF Some] this] Some
    show ?thesis by (simp add: stub get_outcome_def)
  qed
qed

lemma params_response_small: "VrQueryParamsResponse_Size r < 2 ^ 63" "VrQueryParamsRequest_Size q < 2 ^ 63"
  using sov_bounds [of 0]
  by (simp_all add: VrQueryParamsResponse_Size_def VrQueryParamsRequest_Size_def VrParams_Size_def len_size_def)

lemma params_over_connection:
  assumes k: "registry k invar pabs iok vabs okey ok lt"
    and conn: "connects_Params cc D (vr_NewQueryServerImpl D store_of paginate err_text k) server_ctx itc"
    and "invar (store_of (server_ctx ctx))"
  shows "vqs_Params (vr_NewQueryClient cc) ctx q = (Ret \<lparr>vqpr_Params = VrParams\<rparr>, no_metadata D)"
proof -
  let ?srv = "vqs_Params (vr_NewQueryServerImpl D store_of paginate err_text k)"
  have srv: "?srv (server_ctx ctx) q = (Ret \<lparr>vqpr_Params = VrParams\<rparr>, no_metadata D)"
    using registry.params_abs [OF k assms(3)] by (simp add: vr_NewQueryServerImpl_def)
  from grpc_service.stub_ret [OF params_service [OF conn] params_response_small(2,1) srv]
  show ?thesis by (simp add: vr_NewQueryClient_def vr_client_Params_def)
qed

lemma get_validator_over_rest:
  assumes "path_matcher pmatch" and k: "registry k invar pabs iok vabs okey ok lt"
    and conn: "connects_GetValidator cc (gw_metadata R)
      (vr_NewQueryServerImpl (gw_metadata R) store_of paginate err_text k) server_ctx itc"
    and ctx: "gw_AnnotateContext R (gw_Context R req) req = Inr rctx" "invar (store_of (server_ctx rctx))"
    and i: "gw_String R raw = Inr i" "okey i" "QueryGetValidatorRequest_Size \<lparr>qgvr_Index = i\<rparr> < 2 ^ 63"
    and v: "\<And>v. vabs (store_of (server_ctx rctx)) i = Some v \<Longrightarrow>
      QueryGetValidatorResponse_Size \<lparr>qgvs_Validator = v\<rparr> < 2 ^ 63"
    and c: "c = gw_NewServerMetadataContext R (gw_Context R req) (no_metadata (gw_metadata R))"
  shows "answers pmatch (snd (vr_RegisterQueryHandler R cc [])) ''GET'' (vr_path [''validator'', raw]) req =
    [Ret (case vabs (store_of (server_ctx rctx)) i of
        None \<Rightarrow> HTTPError c (StatusErr NotFound ''not found'')
      | Some v \<Rightarrow> ForwardMessage c (GetValidatorMessage \<lparr>qgvs_Validator = v\<rparr>))]"
proof -
  have "answers pmatch (snd (vr_RegisterQueryHandler R cc [])) ''GET'' (vr_path [''validator'', raw]) req =
      [handle_remote R (vr_request_GetValidator R (vr_NewQueryClient cc) [''index'' \<mapsto> raw]) req]"
    unfolding vr_RegisterQueryHandler_def vr_client_answers [OF assms(1)] by (simp add: vr_path_def)
  also have "vr_request_GetValidator R (vr_NewQueryClient cc) [''index'' \<mapsto> raw] rctx =
      (map_outcome GetValidatorMessage (get_outcome (vabs (store_of (server_ctx rctx)) i)),
       no_metadata (gw_metadata R))"
    using get_over_connection [OF k conn ctx(2) i(2,3) v] i(1)
    by (simp add: vr_request_GetValidator_def index_param_def with_reply_def)
  then have "handle_remote R (vr_request_GetValidator R (vr_NewQueryClient cc) [''index'' \<mapsto> raw]) req =
      Ret (case vabs (store_of (server_ctx rctx)) i of
          None \<Rightarrow> HTTPError c (StatusErr NotFound ''not found'')
        | Some v \<Rightarrow> ForwardMessage c (GetValidatorMessage \<lparr>qgvs_Validator = v\<rparr>))"
    by (simp add: handle_remote_def ctx(1) c reply_in_def get_outcome_def split: option.split)
  finally show ?thesis .
qed

text \<open>C23. A \<open>GET\<close> of the path of an entry, through the gateway, the client stub, the encoded messages and
  the server handler, answers with the entry the registry holds under that index, or with the
  not-found status when there is none.\<close>

theorem gateway_get_validator:
  assumes "path_matcher pmatch" and k: "registry k invar pabs iok vabs okey ok lt"
    and conn: "connects_GetValidator cc (gw_metadata R)
      (vr_NewQueryServerImpl (gw_metadata R) store_of paginate err_text k) server_ctx itc"
    and ctx: "gw_AnnotateContext R (gw_Context R req) req = Inr rctx" "invar (store_of (server_ctx rctx))"
    and i: "gw_String R raw = Inr i" "okey i" "QueryGetValidatorRequest_Size \<lparr>qgvr_Index = i\<rparr> < 2 ^ 63"
    and v: "\<And>v. vabs (store_of (server_ctx rctx)) i = Some v \<Longrightarrow>
      QueryGetValidatorResponse_Size \<lparr>qgvs_Validator = v\<rparr> < 2 ^ 63"
    and c: "c = gw_NewServerMetadataContext R (gw_Context R req) (no_metadata (gw_metadata R))"
  shows "answers pmatch (snd (vr_RegisterQueryHandler R cc [])) ''GET'' (vr_path [''validator'', raw]) req =
    [Ret (case vabs (store_of (server_ctx rctx)) i of
        None \<Rightarrow> HTTPError c (StatusErr NotFound ''not found'')
      | Some v \<Rightarrow> ForwardMessage c (GetValidatorMessage \<lparr>qgvs_Validator = v\<rparr>))]"
  by (rule get_validator_over_rest [OF assms])

text \<open>
  The witness onboards an entry into the sample registry and asks for it over the loopback
  connection; the context of a request is the store.
\<close>

definition sample_gateway :: "(kv, kv, unit, unit, unit) gw_runtime" where
  "sample_gateway =
     \<lparr>gw_metadata = \<lparr>md_nil = (), md_Join = (\<lambda>_ _. ())\<rparr>, gw_Context = (\<lambda>s. s), gw_WithStream = (\<lambda>s. s),
      gw_AnnotateIncomingContext = (\<lambda>s _. Inr s), gw_AnnotateContext = (\<lambda>s _. Inr s),
      gw_NewServerMetadataContext = (\<lambda>s _. s), gw_String = Inr, gw_ParseForm = (\<lambda>_. Inr ()),
      gw_PopulateQueryParameters = (\<lambda>q _ _. Inr q), gw_err_text = (\<lambda>_. [])\<rparr>"

definition sample_server :: "(kv, unit, unit, unit) vr_query_service" where
  "sample_server = vr_NewQueryServerImpl (gw_metadata sample_gateway) (\<lambda>s. s)
     (\<lambda>s q f. Inr ([], None)) (\<lambda>_. []) sample_keeper"

definition unit_codec :: "unit pb_codec" where
  "unit_codec = \<lparr>pc_Size = (\<lambda>_. 0), pc_MarshalToSizedBuffer = (\<lambda>_ b. Ret (b, 0)),
     pc_Unmarshal = (\<lambda>_. Inr), pc_zero = ()\<rparr>"

definition sample_conn :: "(kv, unit, unit, unit) vr_conn" where
  "sample_conn = vr_loopback unit_codec unit_codec (gw_metadata sample_gateway) sample_server"

lemma get_request_size: "length i \<le> 100 \<Longrightarrow> QueryGetValidatorRequest_Size \<lparr>qgvr_Index = i\<rparr> < 2 ^ 63"
  using string_size_le [of i] by (simp add: QueryGetValidatorRequest_Size_def)

lemma get_response_size:
  assumes "Validator_Size v \<le> 1066"
  shows "QueryGetValidatorResponse_Size \<lparr>qgvs_Validator = v\<rparr> < 2 ^ 63"
  using assms sov_bounds [of "of_nat (Validator_Size v)"]
  by (simp add: QueryGetValidatorResponse_Size_def len_size_def Let_def)

lemma sample_onboarded:
  obtains s where "vr_inv s" "validators_of s = [''v1'' \<mapsto> onboarded_validator sample_onboard]"
proof -
  obtain ctx' where "OnboardValidator sample_keeper sample_onboard sample_ctx = (Ret (), ctx')"
    using sample_onboards by blast
  from registry.onboard_abs [OF sample_registry _ _ _ this] that [of "vc_store ctx'"] show ?thesis
    by (simp add: sample_onboard_ok)
qed

lemma gateway_get_validator_witness:
  "\<exists>s. answers stack_match (snd (vr_RegisterQueryHandler sample_gateway sample_conn [])) ''GET''
     (vr_path [''validator'', ''v1'']) s =
   [Ret (ForwardMessage s (GetValidatorMessage \<lparr>qgvs_Validator = onboarded_validator sample_onboard\<rparr>))]"
proof -
  obtain s where s: "vr_inv s" "validators_of s = [''v1'' \<mapsto> onboarded_validator sample_onboard]"
    by (rule sample_onboarded)
  have size: "Validator_Size (onboarded_validator sample_onboard) \<le> 1066"
    by (rule validator_small_size) (simp add: onboarded_validator_def sample_onboard_def)
  have conn: "connects_GetValidator sample_conn (gw_metadata sample_gateway)
      (vr_NewQueryServerImpl (gw_metadata sample_gateway) (\<lambda>s. s) (\<lambda>s q f. Inr ([], None)) (\<lambda>_. [])
        sample_keeper) (\<lambda>ctx. ctx) None"
    unfolding sample_conn_def sample_server_def by (rule loopback_connects)
  from gateway_get_validator [OF stack.path_matcher_axioms sample_registry conn,
      of s s "''v1''" "''v1''" s] s get_response_size [OF size] get_request_size [of "''v1''"]
  show ?thesis by (auto simp: sample_gateway_def)
qed

lemma gateway_routes_witness:
  "length (answers stack_match (snd (vr_RegisterQueryHandlerClient sample_gateway sample_server [])) ''GET''
     (vr_path [''validator'', ''v1'']) []) \<le> 1"
  using gateway_routes [OF stack.path_matcher_axioms] by fast

section \<open>The two registrations\<close>

text \<open>What the client of the gateway sees: the answer without its context.\<close>

definition seen :: "('ctx, 'msg) http_reply outcome \<Rightarrow> (unit, 'msg) http_reply outcome" where
  "seen = map_outcome (map_http_reply (\<lambda>_. ()) (\<lambda>m. m))"

lemma seen_reply_in:
  "seen (reply_in c r) = reply_in () r"
  by (simp add: seen_def reply_in_def split: outcome.split)

lemma seen_remote:
  "gw_AnnotateContext R (gw_Context R req) req = Inr rctx \<Longrightarrow>
   seen (handle_remote R f req) = reply_in () (fst (f rctx))"
  by (simp add: handle_remote_def seen_reply_in case_prod_beta)

lemma seen_local:
  "gw_AnnotateIncomingContext R (gw_WithStream R (gw_Context R req)) req = Inr lctx \<Longrightarrow>
   seen (handle_local R (\<lambda>ctx. on_stream D (f ctx)) req) = reply_in () (fst (f lctx))"
  by (simp add: handle_local_def seen_reply_in on_stream_def case_prod_beta Let_def)

text \<open>C28. Registered with the server itself or over a connection to it, the gateway gives the same
  answer to every path but the one of the list: the parameters, an entry, the not-found status and the
  refusal of a malformed index, as long as the request and the entries have a size below \<open>2^63\<close>.\<close>

theorem gateway_local_is_remote:
  assumes "path_matcher pmatch" and k: "registry k invar pabs iok vabs okey ok lt"
    and server: "server = vr_NewQueryServerImpl (gw_metadata R) store_of paginate err_text k"
    and conn: "connects_GetValidator cc (gw_metadata R) server server_ctx itc"
      "connects_Params cc (gw_metadata R) server server_ctx itc'"
    and ctx: "gw_AnnotateContext R (gw_Context R req) req = Inr rctx"
      "gw_AnnotateIncomingContext R (gw_WithStream R (gw_Context R req)) req = Inr lctx"
      "store_of (server_ctx rctx) = store_of lctx" "invar (store_of lctx)"
    and i: "\<And>raw i. cs = vr_path [''validator'', raw] \<Longrightarrow> gw_String R raw = Inr i \<Longrightarrow>
      okey i \<and> QueryGetValidatorRequest_Size \<lparr>qgvr_Index = i\<rparr> < 2 ^ 63"
    and v: "\<And>i v. vabs (store_of lctx) i = Some v \<Longrightarrow>
      QueryGetValidatorResponse_Size \<lparr>qgvs_Validator = v\<rparr> < 2 ^ 63"
    and cs: "cs \<noteq> vr_path [''validator'']"
  shows "map seen (answers pmatch (snd (vr_RegisterQueryHandlerServer R server [])) ''GET'' cs req) =
    map seen (answers pmatch (snd (vr_RegisterQueryHandler R cc [])) ''GET'' cs req)"
proof -
  have get: "vqs_GetValidator (vr_NewQueryClient cc) rctx \<lparr>qgvr_Index = i\<rparr> =
      vqs_GetValidator server lctx \<lparr>qgvr_Index = i\<rparr>"
    if "cs = vr_path [''validator'', raw]" "gw_String R raw = Inr i" for raw i
    using get_over_connection [OF k conn(1) [unfolded server], of rctx i] i [OF that] v
      registry.get_validator_abs [OF k ctx(4), of i]
    by (simp add: server vr_NewQueryServerImpl_def get_outcome_def ctx(3,4))
  have params: "vqs_Params (vr_NewQueryClient cc) rctx q = vqs_Params server lctx q" for q
    using params_over_connection [OF k conn(2) [unfolded server], of rctx q]
      registry.params_abs [OF k ctx(4), of q]
    by (simp add: server vr_NewQueryServerImpl_def ctx(3,4))
  have "seen (handle_local R (vr_local_request_Params R server) req) =
      seen (handle_remote R (vr_request_Params (vr_NewQueryClient cc)) req)"
    unfolding vr_local_request_Params_def seen_local [OF ctx(2)] seen_remote [OF ctx(1)]
    by (simp add: vr_request_Params_def params)
  moreover have "seen (handle_local R (vr_local_request_GetValidator R server [''index'' \<mapsto> List.last cs]) req) =
      seen (handle_remote R (vr_request_GetValidator R (vr_NewQueryClient cc) [''index'' \<mapsto> List.last cs]) req)"
    if "cs \<noteq> [] \<and> butlast cs = vr_path [''validator'']"
  proof -
    from that have "cs = vr_path [''validator''] @ [List.last cs]" using append_butlast_last_id [of cs] by simp
    then have "cs = vr_path [''validator'', List.last cs]" by (simp add: vr_path_def)
    from get [OF this] show ?thesis
      unfolding vr_local_request_GetValidator_def seen_local [OF ctx(2)] seen_remote [OF ctx(1)]
      by (auto simp: vr_request_GetValidator_def index_param_def split: sum.split option.split)
  qed
  ultimately show ?thesis
    using cs by (simp add: vr_server_answers [OF assms(1)] vr_client_answers [OF assms(1)]
        vr_RegisterQueryHandler_def)
qed

lemma gateway_local_is_remote_witness:
  "\<exists>s. validators_of s = [''v1'' \<mapsto> onboarded_validator sample_onboard] \<and>
     map seen (answers stack_match (snd (vr_RegisterQueryHandlerServer sample_gateway sample_server [])) ''GET''
       (vr_path [''validator'', ''v1'']) s) =
     map seen (answers stack_match (snd (vr_RegisterQueryHandler sample_gateway sample_conn [])) ''GET''
       (vr_path [''validator'', ''v1'']) s)"
proof -
  obtain s where s: "vr_inv s" "validators_of s = [''v1'' \<mapsto> onboarded_validator sample_onboard]"
    by (rule sample_onboarded)
  have size: "Validator_Size (onboarded_validator sample_onboard) \<le> 1066"
    by (rule validator_small_size) (simp add: onboarded_validator_def sample_onboard_def)
  have conn: "connects_GetValidator sample_conn (gw_metadata sample_gateway) sample_server (\<lambda>ctx. ctx) None"
    "connects_Params sample_conn (gw_metadata sample_gateway) sample_server (\<lambda>ctx. ctx) None"
    unfolding sample_conn_def by (simp_all add: loopback_connects)
  have server: "sample_server = vr_NewQueryServerImpl (gw_metadata sample_gateway) (\<lambda>s. s)
      (\<lambda>s q f. Inr ([], None)) (\<lambda>_. []) sample_keeper"
    by (simp add: sample_server_def)
  have i: "True \<and> QueryGetValidatorRequest_Size \<lparr>qgvr_Index = i\<rparr> < 2 ^ 63"
    if "vr_path [''validator'', ''v1''] = vr_path [''validator'', raw]" "gw_String sample_gateway raw = Inr i" for raw i
    using that get_request_size [of i] by (auto simp: sample_gateway_def vr_path_def)
  have v: "QueryGetValidatorResponse_Size \<lparr>qgvs_Validator = v\<rparr> < 2 ^ 63" if "validators_of s i = Some v" for i v
    using that get_response_size [OF size] unfolding s(2) by (simp split: if_splits)
  show ?thesis
  proof (intro exI [of _ s] conjI s(2) gateway_local_is_remote [where lctx = s and rctx = s,
        OF stack.path_matcher_axioms sample_registry server conn _ _ _ _ i v])
  qed (simp_all add: sample_gateway_def vr_path_def s(1))
qed

end
