(* ===== verification/Loops.thy ===== *)
theory Loops
  imports Codec
begin

text \<open>
  The loops of the generated decoders without a termination argument in their definition: a run that
  does not end is \<open>None\<close>. \<open>skip_run\<close> nests the varint loop, \<open>unmarshal_run\<close> both. Every run ends, with
  the result of the total functions of \<open>Wire\<close> and \<open>Codec\<close> that the rest of the development uses.
\<close>

partial_function (option) varint_run ::
    "bytes \<Rightarrow> nat \<Rightarrow> nat \<Rightarrow> u64 \<Rightarrow> (go_error + (u64 \<times> nat)) option" where
  "varint_run dAtA iNdEx shift acc =
     (if 64 \<le> shift then Some (Inl ErrIntOverflow)
      else if length dAtA \<le> iNdEx then Some (Inl io_ErrUnexpectedEOF)
      else
        let b = dAtA ! iNdEx;
            acc' = acc OR push_bit shift (ucast (b AND 0x7F)) in
        if b < 0x80 then Some (Inr (acc', Suc iNdEx))
        else varint_run dAtA (Suc iNdEx) (shift + 7) acc')"

text \<open>The body of the skip loop after the tag; two of its cases hold a varint loop.\<close>

definition skip_body_run :: "bytes \<Rightarrow> u64 \<Rightarrow> nat \<Rightarrow> nat \<Rightarrow> (go_error + (nat \<times> nat)) option" where
  "skip_body_run dAtA wireType iNdEx depth =
     (if wireType = 0 then
        (case varint_run dAtA iNdEx 0 0 of
           None \<Rightarrow> None
         | Some (Inl err) \<Rightarrow> Some (Inl err)
         | Some (Inr (_, i)) \<Rightarrow> Some (Inr (i, depth)))
      else if wireType = 1 then
        (case add_index iNdEx 8 of
           None \<Rightarrow> Some (Inl ErrInvalidLength) | Some i \<Rightarrow> Some (Inr (i, depth)))
      else if wireType = 2 then
        (case varint_run dAtA iNdEx 0 0 of
           None \<Rightarrow> None
         | Some (Inl err) \<Rightarrow> Some (Inl err)
         | Some (Inr (len, i)) \<Rightarrow>
             if sint len < 0 then Some (Inl ErrInvalidLength)
             else (case add_index i (nat (sint len)) of
                     None \<Rightarrow> Some (Inl ErrInvalidLength) | Some j \<Rightarrow> Some (Inr (j, depth))))
      else if wireType = 3 then Some (Inr (iNdEx, depth + 1))
      else if wireType = 4 then
        (if depth = 0 then Some (Inl ErrUnexpectedEndOfGroup) else Some (Inr (iNdEx, depth - 1)))
      else if wireType = 5 then
        (case add_index iNdEx 4 of
           None \<Rightarrow> Some (Inl ErrInvalidLength) | Some i \<Rightarrow> Some (Inr (i, depth)))
      else Some (Inl (Errorf ''proto: illegal wireType %d'' [ArgU64 wireType])))"

partial_function (option) skip_run :: "bytes \<Rightarrow> nat \<Rightarrow> nat \<Rightarrow> (go_error + nat) option" where
  "skip_run dAtA iNdEx depth =
     (if iNdEx < length dAtA then
        do {
          tag \<leftarrow> varint_run dAtA iNdEx 0 0;
          case tag of
            Inl err \<Rightarrow> Some (Inl err)
          | Inr (wire, i1) \<Rightarrow>
              do {
                body \<leftarrow> skip_body_run dAtA (wire AND 0x7) i1 depth;
                case body of
                  Inl err \<Rightarrow> Some (Inl err)
                | Inr (i2, depth') \<Rightarrow>
                    if depth' = 0 then Some (Inr i2) else skip_run dAtA i2 depth'
              }
        }
      else Some (Inl io_ErrUnexpectedEOF))"

text \<open>One field of a message: the tag, then the known field or the skipped one.\<close>

definition field_run ::
    "string \<Rightarrow> (int \<times> 'm field) list \<Rightarrow> bytes \<Rightarrow> nat \<Rightarrow> 'm \<Rightarrow> (go_error + ('m \<times> nat)) option" where
  "field_run name fields dAtA preIndex m =
     (case varint_run dAtA preIndex 0 0 of
        None \<Rightarrow> None
      | Some (Inl err) \<Rightarrow> Some (Inl err)
      | Some (Inr (wire, iNdEx)) \<Rightarrow>
     let fieldNum = field_number wire; wireType = wire AND 0x7 in
     if wireType = 4 then
       Some (Inl (Errorf (''proto: '' @ name @ '': wiretype end group for non-group'') []))
     else if fieldNum \<le> 0 then
       Some (Inl (Errorf (''proto: '' @ name @ '': illegal tag %d (wire type %d)'')
         [ArgInt fieldNum, ArgU64 wire]))
     else
     (case map_of fields fieldNum of
        Some f \<Rightarrow> Some (unmarshal_value f wireType dAtA iNdEx m)
      | None \<Rightarrow>
     (case skip_run (drop preIndex dAtA) 0 0 of
        None \<Rightarrow> None
      | Some (Inl err) \<Rightarrow> Some (Inl err)
      | Some (Inr skippy) \<Rightarrow>
     (case add_index preIndex skippy of
        None \<Rightarrow> Some (Inl ErrInvalidLength)
      | Some i \<Rightarrow>
          if length dAtA < i then Some (Inl io_ErrUnexpectedEOF) else Some (Inr (m, i))))))"

partial_function (option) unmarshal_run ::
    "string \<Rightarrow> (int \<times> 'm field) list \<Rightarrow> bytes \<Rightarrow> nat \<Rightarrow> 'm \<Rightarrow> (go_error + 'm) option" where
  "unmarshal_run name fields dAtA iNdEx m =
     (if iNdEx < length dAtA then
        do {
          r \<leftarrow> field_run name fields dAtA iNdEx m;
          case r of
            Inl err \<Rightarrow> Some (Inl err)
          | Inr (m', i) \<Rightarrow> unmarshal_run name fields dAtA i m'
        }
      else if length dAtA < iNdEx then Some (Inl io_ErrUnexpectedEOF)
      else Some (Inr m))"

section \<open>Every run ends\<close>

lemma varint_run_returns: "varint_run dAtA i shift acc = Some (read_varint dAtA i shift acc)"
  by (induction dAtA i shift acc rule: read_varint.induct)
    (subst varint_run.simps, subst read_varint.simps, auto simp: Let_def)

lemma skip_body_run_returns: "skip_body_run dAtA wt i depth = Some (skip_body dAtA wt i depth)"
  by (simp add: skip_body_run_def skip_body_def varint_run_returns split: sum.split option.split)

lemma skip_run_returns: "skip_run dAtA i depth = Some (skip_loop dAtA i depth)"
  by (induction dAtA i depth rule: skip_loop.induct)
    (subst skip_run.simps, subst skip_loop.simps,
     auto simp: varint_run_returns skip_body_run_returns split: sum.split)

lemma field_run_returns:
  "field_run name fields dAtA i m = Some (unmarshal_field name fields dAtA i m)"
  by (simp add: field_run_def unmarshal_field_def varint_run_returns skip_run_returns
      skip_unknown_def skip_field_def Let_def split: sum.split option.split)

lemma unmarshal_run_returns:
  "unmarshal_run name fields dAtA i m = Some (unmarshal_loop name fields dAtA i m)"
  by (induction name fields dAtA i m rule: unmarshal_loop.induct)
    (subst unmarshal_run.simps, subst unmarshal_loop.simps,
     auto simp: field_run_returns split: sum.split)

end
