(* ===== verification/ServiceProps.thy ===== *)
theory ServiceProps
  imports Services GatewayProps Loops
begin

text \<open>
  Properties that join the services, the wire format and the keeper: an onboarding message delivered
  in its encoding is answered over REST afterwards; the stubs call methods that are registered; the
  decoders end on every input.
\<close>

section \<open>From an encoded message to the REST answer\<close>

lemma onboard_message_survives:
  "MsgOnboardValidator_Size msg < 2 ^ 63 \<Longrightarrow> MsgOnboardValidator_Marshal msg = Ret bs \<Longrightarrow>
   MsgOnboardValidator_Unmarshal bs MsgOnboardValidator_zero = Inr msg"
  using onboard_pb.roundtrip [of msg]
  by (auto simp: MsgOnboardValidator_Marshal_def MsgOnboardValidator_Unmarshal_def)

text \<open>C18. When the encoding of an onboarding message is delivered to the registered service and the call
  succeeds, a \<open>GET\<close> of the path of its index is answered with the entry the message describes.\<close>

theorem onboarded_entry_served:
  assumes "path_matcher pmatch" and k: "registry (vam_keeper am) invar pabs iok vabs okey ok lt"
    and msg: "MsgOnboardValidator_Marshal msg = Ret bs" "MsgOnboardValidator_Size msg < 2 ^ 63"
      "vri_OnboardValidator itc = None"
    and before: "invar (vc_store bctx)" "okey (mov_Index msg)" "ok (onboarded_validator msg)"
    and ret: "deliver (snd (vr_RegisterServices (gw_metadata R) store_of paginate err_text itc am []))
      ''/veranatest.validatorregistry.v1.Msg/OnboardValidator'' bs bctx = (Ret (), bctx')"
    and conn: "connects_GetValidator cc (gw_metadata R)
      (vr_NewQueryServerImpl (gw_metadata R) store_of paginate err_text (vam_keeper am)) server_ctx itc'"
    and ctx: "gw_AnnotateContext R (gw_Context R req) req = Inr rctx"
      "store_of (server_ctx rctx) = vc_store bctx'"
    and small: "gw_String R raw = Inr (mov_Index msg)"
      "QueryGetValidatorRequest_Size \<lparr>qgvr_Index = mov_Index msg\<rparr> < 2 ^ 63"
      "QueryGetValidatorResponse_Size \<lparr>qgvs_Validator = onboarded_validator msg\<rparr> < 2 ^ 63"
    and c: "c = gw_NewServerMetadataContext R (gw_Context R req) (no_metadata (gw_metadata R))"
  shows "answers pmatch (snd (vr_RegisterQueryHandler R cc [])) ''GET'' (vr_path [''validator'', raw]) req =
    [Ret (ForwardMessage c (GetValidatorMessage \<lparr>qgvs_Validator = onboarded_validator msg\<rparr>))]"
proof -
  have "OnboardValidator (vam_keeper am) msg bctx = (Ret (), bctx')"
    using ret deliver_onboard [OF onboard_message_survives [OF msg(2,1)] msg(3)] by metis
  from registry.onboard_abs [OF k before this]
  have s: "invar (store_of (server_ctx rctx))"
    "vabs (store_of (server_ctx rctx)) (mov_Index msg) = Some (onboarded_validator msg)"
    by (simp_all add: ctx(2))
  have v: "QueryGetValidatorResponse_Size \<lparr>qgvs_Validator = v\<rparr> < 2 ^ 63"
    if "vabs (store_of (server_ctx rctx)) (mov_Index msg) = Some v" for v
    using that s(2) small(3) by simp
  from get_validator_over_rest [OF assms(1) k conn ctx(1) s(1) small(1) before(2) small(2) v c] s(2)
  show ?thesis by simp
qed

definition sample_module :: "(unit, kv, unit, unit, unit) vr_AppModule" where
  "sample_module = vr_NewAppModule () sample_keeper () () ()"

definition no_interceptors :: "kv vr_interceptors" where
  "no_interceptors = \<lparr>vri_UpdateParams = None, vri_OnboardValidator = None\<rparr>"

definition sample_registrar :: "(kv VrCtx, (kv, unit, unit, unit) vr_query_service) registrar" where
  "sample_registrar = snd (vr_RegisterServices (gw_metadata sample_gateway) (\<lambda>s. s)
     (\<lambda>s q f. Inr ([], None)) (\<lambda>_. []) no_interceptors sample_module [])"

lemma onboarded_entry_served_witness:
  "\<exists>bs ctx'. MsgOnboardValidator_Marshal sample_onboard = Ret bs \<and>
     deliver sample_registrar ''/veranatest.validatorregistry.v1.Msg/OnboardValidator'' bs sample_ctx =
       (Ret (), ctx') \<and>
     answers stack_match (snd (vr_RegisterQueryHandler sample_gateway sample_conn [])) ''GET''
       (vr_path [''validator'', ''v1'']) (vc_store ctx') =
     [Ret (ForwardMessage (vc_store ctx')
        (GetValidatorMessage \<lparr>qgvs_Validator = onboarded_validator sample_onboard\<rparr>))]"
proof -
  have "MsgOnboardValidator_Size sample_onboard = 32" by code_simp
  then have size: "MsgOnboardValidator_Size sample_onboard < 2 ^ 63" by simp
  then obtain bs where bs: "MsgOnboardValidator_Marshal sample_onboard = Ret bs"
    using onboard_pb.roundtrip [of sample_onboard] by (auto simp: MsgOnboardValidator_Marshal_def)
  obtain ctx' where ret: "OnboardValidator sample_keeper sample_onboard sample_ctx = (Ret (), ctx')"
    using sample_onboards by blast
  have k: "sample_registry (vam_keeper sample_module)"
    by (simp add: sample_module_def vr_NewAppModule_def sample_registry)
  have del: "deliver sample_registrar ''/veranatest.validatorregistry.v1.Msg/OnboardValidator'' bs sample_ctx =
      (Ret (), ctx')"
    unfolding sample_registrar_def
    by (subst deliver_onboard [OF onboard_message_survives [OF size bs]])
      (simp_all add: no_interceptors_def sample_module_def vr_NewAppModule_def ret)
  have conn: "connects_GetValidator sample_conn (gw_metadata sample_gateway)
      (vr_NewQueryServerImpl (gw_metadata sample_gateway) (\<lambda>s. s) (\<lambda>s q f. Inr ([], None)) (\<lambda>_. [])
        (vam_keeper sample_module)) (\<lambda>ctx. ctx) None"
    unfolding sample_conn_def sample_server_def sample_module_def vr_NewAppModule_def
    by (simp add: loopback_connects)
  have v: "Validator_Size (onboarded_validator sample_onboard) \<le> 1066"
    by (rule validator_small_size) (simp add: onboarded_validator_def sample_onboard_def)
  from onboarded_entry_served [OF stack.path_matcher_axioms k bs size _ _ _ sample_onboard_ok
      del [unfolded sample_registrar_def] conn, of "vc_store ctx'" "vc_store ctx'" "''v1''" "vc_store ctx'"]
    get_response_size [OF v] get_request_size [of "''v1''"] bs del
  show ?thesis by (auto simp: sample_gateway_def no_interceptors_def)
qed

section \<open>Stubs and services\<close>

text \<open>The full names of the methods of a description.\<close>

definition full_methods :: "service_desc \<Rightarrow> string list" where
  "full_methods d = map (\<lambda>m. ''/'' @ sd_ServiceName d @ ''/'' @ m) (sd_Methods d)"

lemma stubs_call_registered_methods:
  "full_methods vr_Query_serviceDesc = [vr_Params_method, vr_GetValidator_method, vr_ListValidator_method]"
  "full_methods td_Query_serviceDesc = [td_Params_method]"
  "map fst (service_methods (MsgService vr_Msg_serviceDesc (vr_Msg_methods vi vsrv))) =
     full_methods vr_Msg_serviceDesc"
  "map fst (service_methods (MsgService td_Msg_serviceDesc (td_Msg_methods C ti tsrv))) =
     full_methods td_Msg_serviceDesc"
  by (simp_all add: full_methods_def vr_Query_serviceDesc_def td_Query_serviceDesc_def
      vr_Msg_serviceDesc_def td_Msg_serviceDesc_def vr_Msg_methods_def td_Msg_methods_def
      vr_Params_method_def vr_GetValidator_method_def vr_ListValidator_method_def td_Params_method_def)

section \<open>Decoding ends\<close>

text \<open>C29. The loops of the decoders end on every input: the run of \<open>Unmarshal\<close>, for any message and any
  bytes, and the run that skips an unknown field return, with the result of the total functions
  that the round trips are about.\<close>

theorem unmarshal_terminates:
  "unmarshal_run name fs dAtA 0 m = Some (pb_Unmarshal name fs dAtA m) \<and>
   unmarshal_run ''Validator'' Validator_fields dAtA 0 v = Some (Validator_Unmarshal dAtA v) \<and>
   skip_run dAtA 0 0 = Some (skip_field dAtA)"
  by (simp add: unmarshal_run_returns skip_run_returns pb_Unmarshal_def Validator_Unmarshal_def
      skip_field_def)

end
