(* ===== verification/Root.thy ===== *)
theory Root
  imports MultiNode InPlace Ibc App
begin

text \<open>
  The node command \<open>veranatestd\<close> (\<open>cmd/veranatestd/main.go\<close>, \<open>cmd/root.go\<close>, \<open>cmd/config.go\<close> and the
  command lists of \<open>cmd/commands.go\<close>): the tree of subcommands, the client context, what runs before
  every command, and the client side of the IBC modules. The commands of the SDK are the values of a
  parameter \<open>L\<close>, help texts longer than a line are left out.
\<close>

section \<open>Commands\<close>

text \<open>A command: use, aliases, short text, whether it validates its subcommand, flags, subcommands.\<close>

datatype cobra = Command string "string list" string bool "(string \<times> string \<times> flag_value) list" "cobra list"

fun cmd_Use :: "cobra \<Rightarrow> string" where
  "cmd_Use (Command use aliases short validate flags subs) = use"

fun cmd_subs :: "cobra \<Rightarrow> cobra list" where
  "cmd_subs (Command use aliases short validate flags subs) = subs"

fun AddCommand :: "cobra \<Rightarrow> cobra list \<Rightarrow> cobra" where
  "AddCommand (Command use aliases short validate flags subs) new =
     Command use aliases short validate flags (subs @ new)"

fun set_Short :: "string \<Rightarrow> cobra \<Rightarrow> cobra" where
  "set_Short s (Command use aliases short validate flags subs) = Command use aliases s validate flags subs"

fun add_flag :: "string \<times> string \<times> flag_value \<Rightarrow> cobra \<Rightarrow> cobra" where
  "add_flag f (Command use aliases short validate flags subs) =
     Command use aliases short validate (flags @ [f]) subs"

datatype 'bm lib_command =
    InitCmd 'bm string | InPlaceTestnetCreator | DebugCmd | ConfigCommand | PruningCmd string | SnapshotCmd
  | StatusCommand | GenutilCommands 'bm string | KeysCommands
  | WaitTxCmd | ValidatorCommand | QueryBlockCmd | QueryTxsByEventsCmd | QueryBlocksCmd | QueryTxCmd
  | QueryBlockResultsCmd
  | GetSignCommand | GetSignBatchCommand | GetMultiSignCommand | GetMultiSignBatchCmd
  | GetValidateSignaturesCommand | LineBreak | GetBroadcastCommand | GetEncodeCommand | GetDecodeCommand
  | GetSimulateCmd

definition NewInPlaceTestnetCmd :: "('bm lib_command \<Rightarrow> cobra) \<Rightarrow> cobra" where
  "NewInPlaceTestnetCmd L =
     (let cmd = L InPlaceTestnetCreator;
          cmd = set_Short (''Updates chain'' @ [CHR 0x27] @ ''s application and consensus state with provided ''
                  @ ''validator info and starts the node'') cmd in
      add_flag (flagAccountsToFund, '''', StringFlag '''') cmd)"

definition NewTestnetMultiNodeCmd :: "(sdk_flag \<Rightarrow> string) \<Rightarrow> string \<Rightarrow> string \<Rightarrow> cobra" where
  "NewTestnetMultiNodeCmd F defaultBondDenom secp256k1 =
     Command ''multi-node'' []
       (''Initialize config directories & files for a multi-validator testnet running locally via ''
        @ ''separate processes (e.g. Docker Compose or similar)'')
       False (multi_node_flags F defaultBondDenom secp256k1) []"

definition queryCommand :: "('bm lib_command \<Rightarrow> cobra) \<Rightarrow> cobra" where
  "queryCommand L =
     AddCommand (Command ''query'' [''q''] ''Querying subcommands'' True [] [])
       (map L [WaitTxCmd, ValidatorCommand, QueryBlockCmd, QueryTxsByEventsCmd, QueryBlocksCmd, QueryTxCmd,
               QueryBlockResultsCmd])"

definition txCommand :: "('bm lib_command \<Rightarrow> cobra) \<Rightarrow> cobra" where
  "txCommand L =
     AddCommand (Command ''tx'' [] ''Transactions subcommands'' True [] [])
       (map L [GetSignCommand, GetSignBatchCommand, GetMultiSignCommand, GetMultiSignBatchCmd,
               GetValidateSignaturesCommand, LineBreak, GetBroadcastCommand, GetEncodeCommand,
               GetDecodeCommand, GetSimulateCmd])"

text \<open>
  \<open>server_commands home\<close> are the commands of \<open>server.AddCommandsWithStartCmdOptions\<close>, whose start command
  \<open>addModuleInitFlags\<close> leaves as it is.
\<close>

definition addModuleInitFlags :: "cobra \<Rightarrow> cobra" where
  "addModuleInitFlags startCmd = startCmd"

definition initRootCmd ::
    "('bm lib_command \<Rightarrow> cobra) \<Rightarrow> ((cobra \<Rightarrow> cobra) \<Rightarrow> string \<Rightarrow> cobra list) \<Rightarrow> cobra \<Rightarrow> string \<Rightarrow> 'bm
     \<Rightarrow> cobra \<Rightarrow> cobra" where
  "initRootCmd L server_commands multiNode home basicManager rootCmd =
     (let rootCmd = AddCommand rootCmd
            [L (InitCmd basicManager home), NewInPlaceTestnetCmd L, multiNode, L DebugCmd, L ConfigCommand,
             L (PruningCmd home), L SnapshotCmd];
          rootCmd = AddCommand rootCmd (server_commands addModuleInitFlags home) in
      AddCommand rootCmd
        [L StatusCommand, L (GenutilCommands basicManager home), queryCommand L, txCommand L, L KeysCommands])"

section \<open>Configuration\<close>

definition initCometBFTConfig :: "'cmt \<Rightarrow> 'cmt" where
  "initCometBFTConfig defaultConfig = (let cfg = defaultConfig in cfg)"

datatype 'srv custom_app_config = CustomAppConfig 'srv

definition initAppConfig :: "string \<Rightarrow> 'srv \<Rightarrow> string \<times> 'srv custom_app_config" where
  "initAppConfig defaultConfigTemplate defaultConfig =
     (let srvCfg = defaultConfig; customAppConfig = CustomAppConfig srvCfg;
          customAppTemplate = defaultConfigTemplate in
      (customAppTemplate, customAppConfig))"

section \<open>The client context\<close>

record ('codec, 'reg, 'amino, 'txc, 'cmdctx) client_context =
  cx_Codec :: "'codec option"
  cx_InterfaceRegistry :: "'reg option"
  cx_LegacyAmino :: "'amino option"
  cx_InputStdin :: bool
  cx_AccountRetriever :: bool
  cx_HomeDir :: string
  cx_ViperPrefix :: "string option"
  cx_TxConfig :: "'txc option"
  cx_CmdContext :: "'cmdctx option"

definition empty_context :: "('codec, 'reg, 'amino, 'txc, 'cmdctx) client_context" where
  "empty_context =
     \<lparr>cx_Codec = None, cx_InterfaceRegistry = None, cx_LegacyAmino = None, cx_InputStdin = False,
      cx_AccountRetriever = False, cx_HomeDir = '''', cx_ViperPrefix = None, cx_TxConfig = None,
      cx_CmdContext = None\<rparr>"

text \<open>
  \<open>readConfig\<close> is \<open>config.ReadFromClientConfig\<close>, whose error is dropped here; \<open>withTextual\<close> sets the
  coin metadata query of the transaction options to the one over the context.
\<close>

definition ProvideClientContext ::
    "(('codec, 'reg, 'amino, 'txc, 'cmdctx) client_context
        \<Rightarrow> ('codec, 'reg, 'amino, 'txc, 'cmdctx) client_context \<times> go_error option)
     \<Rightarrow> (('codec, 'reg, 'amino, 'txc, 'cmdctx) client_context \<Rightarrow> 'opts \<Rightarrow> 'opts)
     \<Rightarrow> ('codec option \<Rightarrow> 'opts \<Rightarrow> go_error + 'txc) \<Rightarrow> string \<Rightarrow> 'codec \<Rightarrow> 'reg \<Rightarrow> 'opts \<Rightarrow> 'amino
     \<Rightarrow> ('codec, 'reg, 'amino, 'txc, 'cmdctx) client_context outcome" where
  "ProvideClientContext readConfig withTextual newTxConfig home appCodec interfaceRegistry txConfigOpts
       legacyAmino =
     (let clientCtx = empty_context
            \<lparr>cx_Codec := Some appCodec, cx_InterfaceRegistry := Some interfaceRegistry,
             cx_LegacyAmino := Some legacyAmino, cx_InputStdin := True, cx_AccountRetriever := True,
             cx_HomeDir := home, cx_ViperPrefix := Some Name\<rparr>;
          clientCtx = fst (readConfig clientCtx);
          txConfigOpts = withTextual clientCtx txConfigOpts in
      case newTxConfig (cx_Codec clientCtx) txConfigOpts of
        Inl err \<Rightarrow> Panic err
      | Inr txConfig \<Rightarrow> Ret (clientCtx\<lparr>cx_TxConfig := Some txConfig\<rparr>))"

section \<open>Before every command\<close>

text \<open>
  The state of the hook: the command and the client context of the enclosing function, which the hook
  updates once before it works on a copy.
\<close>

record ('c, 'ctx) prerun_state =
  pr_cmd :: 'c
  pr_clientCtx :: 'ctx

record ('c, 'ctx, 'cmt, 'srv) prerun_ops =
  po_SetOut :: "'c \<Rightarrow> 'c"
  po_SetErr :: "'c \<Rightarrow> 'c"
  po_WithCmdContextAndViper :: "'c \<Rightarrow> string \<Rightarrow> 'ctx \<Rightarrow> 'ctx"
  po_ReadPersistentCommandFlags :: "'ctx \<Rightarrow> 'c \<Rightarrow> go_error + 'ctx"
  po_ReadFromClientConfig :: "'ctx \<Rightarrow> go_error + 'ctx"
  po_SetCmdClientContextHandler :: "'ctx \<Rightarrow> ('c, unit) proc"
  po_InterceptConfigsPreRunHandler :: "string \<Rightarrow> 'srv custom_app_config \<Rightarrow> 'cmt \<Rightarrow> ('c, unit) proc"
  po_DefaultConfigTemplate :: string
  po_ServerDefaultConfig :: 'srv
  po_CometDefaultConfig :: 'cmt

definition on_cmd :: "('c, 'a) proc \<Rightarrow> (('c, 'ctx) prerun_state, 'a) proc" where
  "on_cmd p s = (case p (pr_cmd s) of (r, c) \<Rightarrow> (r, s\<lparr>pr_cmd := c\<rparr>))"

definition PersistentPreRunE ::
    "('c, 'ctx, 'cmt, 'srv) prerun_ops \<Rightarrow> (('c, 'ctx) prerun_state, unit) proc" where
  "PersistentPreRunE P =
     bindP (changeP (\<lambda>s. s\<lparr>pr_cmd := po_SetErr P (po_SetOut P (pr_cmd s))\<rparr>)) (\<lambda>_.
     bindP (changeP (\<lambda>s. s\<lparr>pr_clientCtx := po_WithCmdContextAndViper P (pr_cmd s) Name (pr_clientCtx s)\<rparr>)) (\<lambda>_.
     bindP (readP (\<lambda>s. po_ReadPersistentCommandFlags P (pr_clientCtx s) (pr_cmd s))) (\<lambda>clientCtx.
     bindP (pureP (po_ReadFromClientConfig P clientCtx)) (\<lambda>clientCtx.
     bindP (on_cmd (po_SetCmdClientContextHandler P clientCtx)) (\<lambda>_.
     let (customAppTemplate, customAppConfig) =
           initAppConfig (po_DefaultConfigTemplate P) (po_ServerDefaultConfig P);
         customCMTConfig = initCometBFTConfig (po_CometDefaultConfig P) in
     on_cmd (po_InterceptConfigsPreRunHandler P customAppTemplate customAppConfig customCMTConfig))))))"

section \<open>The root command\<close>

text \<open>
  The client side of the IBC modules is added to the module manager and to the options of the
  generated commands, by name; \<open>adapt\<close> is \<open>module.CoreAppModuleBasicAdaptor\<close>.
\<close>

definition with_ibc_modules :: "(string \<Rightarrow> 'm) \<Rightarrow> string set \<Rightarrow> (string \<rightharpoonup> 'm) \<Rightarrow> (string \<rightharpoonup> 'm)" where
  "with_ibc_modules adapt ibcModules manager =
     manager ++ (\<lambda>name. if name \<in> ibcModules then Some (adapt name) else None)"

record ('m, 'cli, 'ctx) root_deps =
  rd_autoCliOpts :: "string \<rightharpoonup> 'cli"
  rd_moduleBasicManager :: "string \<rightharpoonup> 'm"
  rd_clientCtx :: 'ctx

definition NewRootCmd ::
    "(sdk_const \<Rightarrow> string) \<Rightarrow> (ibc_const \<Rightarrow> string) \<Rightarrow> ((string \<rightharpoonup> 'm) lib_command \<Rightarrow> cobra)
     \<Rightarrow> ((cobra \<Rightarrow> cobra) \<Rightarrow> string \<Rightarrow> cobra list) \<Rightarrow> cobra \<Rightarrow> string \<Rightarrow> (string \<Rightarrow> 'm) \<Rightarrow> (string \<Rightarrow> 'cli)
     \<Rightarrow> ((string \<rightharpoonup> 'cli) \<Rightarrow> cobra \<Rightarrow> go_error + cobra) \<Rightarrow> (go_error + ('m, 'cli, 'ctx) root_deps)
     \<Rightarrow> cobra outcome" where
  "NewRootCmd C I L server_commands multiNode home adapt cliModule EnhanceRootCommand injected =
     (case injected of
        Inl err \<Rightarrow> Panic err
      | Inr deps \<Rightarrow>
     let rootCmd = Command (Name @ ''d'') [] ''veranatest node'' False [] [];
         ibcModules = fst (RegisterIBC C I (\<lambda>_. True) {});
         moduleBasicManager = with_ibc_modules adapt ibcModules (rd_moduleBasicManager deps);
         autoCliOpts = with_ibc_modules cliModule ibcModules (rd_autoCliOpts deps);
         rootCmd = initRootCmd L server_commands multiNode home moduleBasicManager rootCmd in
     (case EnhanceRootCommand autoCliOpts rootCmd of
        Inl err \<Rightarrow> Panic err
      | Inr rootCmd \<Rightarrow> Ret rootCmd))"

text \<open>\<open>main\<close>: the exit code of the process.\<close>

definition main_exit :: "cobra outcome \<Rightarrow> (cobra \<Rightarrow> string \<Rightarrow> string \<Rightarrow> go_error option) \<Rightarrow> string \<Rightarrow> string \<Rightarrow> nat outcome" where
  "main_exit newRootCmd Execute envPrefix home =
     (case newRootCmd of
        Ret rootCmd \<Rightarrow> Ret (if Execute rootCmd envPrefix home \<noteq> None then 1 else 0)
      | Err e \<Rightarrow> Err e
      | Panic e \<Rightarrow> Panic e)"

section \<open>What the client knows\<close>

text \<open>
  When the injected manager has the modules of the configuration, the manager the commands get has a
  module for every entry of the genesis order: the IBC modules the configuration lacks are added.
\<close>

lemma with_ibc_modules_dom: "dom (with_ibc_modules adapt names manager) = names \<union> dom manager"
  by (auto simp: with_ibc_modules_def domIff map_add_def split: if_splits)

lemma root_manager_covers_genesis:
  assumes "dom manager = set (map fst (appConfig_modules C))"
  shows "set (InitGenesis_order C) \<subseteq>
    dom (with_ibc_modules adapt (fst (RegisterIBC C I isBasic reg)) manager)"
  by (auto simp: with_ibc_modules_dom assms RegisterIBC_def Let_def InitGenesis_order_def
      appConfig_modules_def)

text \<open>A failing step of the hook is its answer, and the configuration files are not touched.\<close>

lemma prerun_stops:
  assumes "c = po_SetErr P (po_SetOut P (pr_cmd s))"
    and "ctx = po_WithCmdContextAndViper P c Name (pr_clientCtx s)"
  shows "po_ReadPersistentCommandFlags P ctx c = Inl err \<Longrightarrow>
      PersistentPreRunE P s = (Err err, \<lparr>pr_cmd = c, pr_clientCtx = ctx\<rparr>)"
    "po_ReadPersistentCommandFlags P ctx c = Inr ctx' \<Longrightarrow> po_ReadFromClientConfig P ctx' = Inl err \<Longrightarrow>
      PersistentPreRunE P s = (Err err, \<lparr>pr_cmd = c, pr_clientCtx = ctx\<rparr>)"
  using assms
  by (simp_all add: PersistentPreRunE_def bindP_def changeP_def readP_def pureP_def)

text \<open>The exit code is 1 exactly when the command returned an error.\<close>

lemma main_exit_code:
  "main_exit (Ret root) Execute envPrefix home = Ret 1 \<longleftrightarrow> Execute root envPrefix home \<noteq> None"
  by (simp add: main_exit_def)

end
