(* ===== verification/Docs.thy ===== *)
theory Docs
  imports App
begin

text \<open>
  \<open>docs/docs.go\<close>: the OpenAPI console. A router is the list of its routes, a handler writes to the
  response or panics; the file server, the templates and the two embedded directories are parameters.
\<close>

definition apiFile :: string where
  "apiFile = ''/static/openapi.json''"

definition indexFile :: string where
  "indexFile = ''template/index.tpl''"

text \<open>The data the template is given.\<close>

record console =
  cs_Title :: string
  cs_URL :: string

type_synonym ('w, 'req) http_handler = "'w \<Rightarrow> 'req \<Rightarrow> 'w outcome"

type_synonym ('w, 'req) router = "(string \<times> ('w, 'req) http_handler) list"

record ('fs, 'tmpl, 'w, 'req) http_ops =
  ho_FileServer :: "'fs \<Rightarrow> ('w, 'req) http_handler"
  ho_ParseFS :: "'fs \<Rightarrow> string \<Rightarrow> go_error + 'tmpl"
  ho_Execute :: "'tmpl \<Rightarrow> console \<Rightarrow> 'w \<Rightarrow> go_error option \<times> 'w"

text \<open>
  The error of the parse is dropped: the template is nil then, and executing it panics. The error of
  the execution is dropped too.
\<close>

definition docs_handler ::
    "('fs, 'tmpl, 'w, 'req) http_ops \<Rightarrow> 'fs \<Rightarrow> string \<Rightarrow> ('w, 'req) http_handler" where
  "docs_handler H tmpl_dir title =
     (let t = (case ho_ParseFS H tmpl_dir indexFile of Inl _ \<Rightarrow> None | Inr t \<Rightarrow> Some t) in
      (\<lambda>w req. case t of
          None \<Rightarrow> Panic (LibError ''nil pointer dereference'')
        | Some t \<Rightarrow> Ret (snd (ho_Execute H t \<lparr>cs_Title = title, cs_URL = apiFile\<rparr> w))))"

definition RegisterOpenAPIService ::
    "('fs, 'tmpl, 'w, 'req) http_ops \<Rightarrow> 'fs \<Rightarrow> 'fs \<Rightarrow> string \<Rightarrow> ('w, 'req) router \<Rightarrow> ('w, 'req) router" where
  "RegisterOpenAPIService H static_dir tmpl_dir appName rtr =
     (let rtr = rtr @ [(apiFile, ho_FileServer H static_dir)] in
      rtr @ [(''/'', docs_handler H tmpl_dir appName)])"

text \<open>
  The API server of the application serves the console at the root, and the specification under the
  address the console is given, unless an earlier route answers that path.
\<close>

lemma api_console_served:
  assumes "RegisterAPIRoutes runtimeRoutes swaggerAPI
      (\<lambda>name. changeP (RegisterOpenAPIService H static_dir tmpl_dir name)) rtr = (Ret (), rtr')"
    and "ho_ParseFS H tmpl_dir indexFile = Inr t"
  shows "\<exists>earlier console. rtr' = earlier @ [(cs_URL console, ho_FileServer H static_dir),
      (''/'', \<lambda>w req. Ret (snd (ho_Execute H t console w)))] \<and> cs_Title console = Name"
proof -
  from assms(1) obtain r where
    "rtr' = RegisterOpenAPIService H static_dir tmpl_dir Name r"
    by (auto simp: RegisterAPIRoutes_def proc_Ret)
  with assms(2) show ?thesis
    by (intro exI [of _ r] exI [of _ "\<lparr>cs_Title = Name, cs_URL = apiFile\<rparr>"])
      (simp add: RegisterOpenAPIService_def docs_handler_def Let_def)
qed

end
