(* ===== verification/Spec2Isabelle.thy ===== *)
theory Spec2Isabelle
  imports Ante Expected VrProps RegistrySpec TdProps TdRunProps ChainProps Nested Approval GenesisProps FromGenesis CodecProps AppProps CmdProps ServiceProps Root Docs
begin

text \<open>
  The chain \<open>veranatest\<close>, a Cosmos SDK application in Go with two modules of its own and an ante
  handler, its application package and its commands.

  \<^bold>\<open>The program.\<close> \<open>x/validatorregistry\<close> keeps a registry of validators the council has admitted:
  \<open>MsgOnboardValidator\<close>, open to the module authority only, adds an entry, and the end blocker executes
  group proposals whose voting period is over. \<open>ante/\<close> chains the decorators every transaction passes;
  one of them asks the registry whether the operator of a \<open>MsgCreateValidator\<close> is admitted, another asks
  the group module whether a \<open>MsgExec\<close> comes after the voting period. \<open>x/td\<close> pays, at the start of each
  block, a yield from the account \<open>verana_pool\<close> to its own account, carries the fraction of a unit
  (the dust) over to the next block and sends what is left of the pool to the community pool;
  \<open>MsgFundModule\<close> adds to the deposit from which the yield is computed. All state goes through the
  collections of the SDK into a byte store, encoded by generated protobuf code.

  \<^bold>\<open>Conventions\<close> (\<open>Prelude\<close>). A Go struct is a record, an error a value of \<open>go_error\<close>, a function that
  returns an error but cannot panic a sum, one that may panic an \<open>outcome\<close>. A handler takes the context
  and returns its result next to the context, so that a refused message is seen to leave the state
  alone. \<open>uint64\<close> and \<open>int64\<close> are 64-bit words, the latter read with \<open>sint\<close>. Times are integers.
  Log output is not modelled.

  \<^bold>\<open>Libraries.\<close> Code that is not in the repository is a parameter with a contract: the collections
  (\<open>Store\<close>: locales \<open>item_store\<close>, \<open>map_store\<close>, \<open>registry_store\<close>), \<open>LegacyDec\<close> and the bank (\<open>Sdk\<close>: locales
  \<open>legacy_dec\<close>, \<open>sdk_bank\<close>), the group keeper (\<open>Group\<close>: the record \<open>group_ops\<close>), the SDK's decorators
  (\<open>Ante\<close>: locale \<open>sdk_chain\<close>), and the codecs of \<open>LegacyDec\<close> and of the page messages (\<open>CodecLaws\<close>: locales
  \<open>dec_codec_laws\<close>, \<open>pb_library\<close>). \<open>KVStore\<close> and \<open>SdkModel\<close> give an instance of each, built from the
  module's own byte encodings where the code has them: a sorted byte store, a decimal with eighteen
  fractional digits, a ledger of coins. The interpretations show that the contracts can hold together;
  the properties are stated for every keeper that meets them, and the witnesses run the instance.

  \<^bold>\<open>The registry.\<close>
  \<^item> \<open>VrTypes\<close>: \<open>types/keys.go\<close>, \<open>errors.go\<close>, \<open>params.go\<close>, \<open>genesis.go\<close> and the message structs.
  \<^item> \<open>VrKeeper\<close>: \<open>keeper/*.go\<close>. Every handler is characterised on every branch; in the locale \<open>registry\<close>
    each is an operation on a map from indexes to entries.
  \<^item> \<open>VrRun\<close>: runs of messages as an inductive relation, with the invariants of a run.
  \<^item> \<open>VrModule\<close>: \<open>module/module.go\<close> and \<open>ProvideModule\<close>. \<open>exec_keeps\<close> lifts a property of one execution to
    the three nested loops of the end blocker. \<open>GroupSpec\<close>: the contract \<open>group_keeper\<close> of the execution of a
    proposal, under which the end blocker leaves no ready proposal behind.
  \<^item> \<open>VrStore\<close>: the keeper on the byte store. \<open>RegistrySpec\<close>: an abstract registry (parameters, a map, the
    events) that the keeper refines. \<open>VrProps\<close>: the properties.

  \<^bold>\<open>The trust deposit.\<close>
  \<^item> \<open>TdTypes\<close>, \<open>TdKeeper\<close>, \<open>TdModule\<close>: \<open>types/*.go\<close>, \<open>keeper/*.go\<close> and \<open>module/*.go\<close>.
  \<^item> \<open>TdSpec\<close>: the abstract block \<open>spec_block\<close> on a dust number and a function of balances, and in the
    locale \<open>trust_deposit\<close> the refinement of \<open>BeginBlocker\<close> to it, the runs of blocks and \<open>FundModule\<close>.
  \<^item> \<open>TdRun\<close>: the life of the module on a chain, as a step relation of begin blockers, messages and bank
    movements elsewhere, with the invariant (\<open>td_safe\<close>) that every step keeps: the store is in order, the
    dust is below one unit, and the deposit value exceeds the coins of the module by \<open>2^62\<close> at most. The
    supply is assumed below \<open>2^62\<close> units, the rate governance sets between zero and \<open>2^120\<close> units of \<open>10^-18\<close>
    and the deposit value between zero and \<open>2^62\<close>; the code checks neither. Without \<open>UpdateParams\<close> the part of
    the deposit value that is not covered never grows.
  \<^item> \<open>TdStore\<close>: the keeper on the byte store, the decimal and the ledger. \<open>TdProps\<close>, \<open>TdRunProps\<close>: the
    properties.

  \<^bold>\<open>The wire format.\<close>
  \<^item> \<open>Wire\<close>: \<open>encodeVarint\<close>, \<open>sov\<close>, \<open>soz\<close>, \<open>skip\<close> and the reading loops, which every generated file
    repeats. \<open>Varint\<close>: their laws.
  \<^item> \<open>Codec\<close>: the steps of \<open>MarshalToSizedBuffer\<close>, which fills a buffer from its end, the cases of
    \<open>Unmarshal\<close>, and their loops. \<open>CodecLaws\<close>: what a step emits, what a field decodes, and the locale
    \<open>pb_message\<close> with the round trip and the size of any message that meets it.
  \<^item> \<open>VrPb\<close>, \<open>TdPb\<close>: the messages of \<open>types/*.pb.go\<close>, each an instance of \<open>pb_message\<close>. \<open>CodecProps\<close>: the
    properties.

  \<^bold>\<open>The ante handler.\<close> \<open>Ante\<close> holds \<open>ante/*.go\<close>; this theory holds its properties and those that tie it
  to the registry.

  \<^bold>\<open>The chain.\<close> \<open>Chain\<close> composes the two modules, the ante handler and the rest of the chain: a state holds
  both modules' contexts, the time and the history of the messages the registry handled with success, a step
  is a begin block, a transaction the ante handler accepted on the state before it, an end block, or a change
  elsewhere. The locale \<open>chain_node\<close> is the contract of the other modules: they reach the two modules only
  through their messages, and the staking module answers a \<open>MsgCreateValidator\<close> with a validator of its
  operator. Validators may also come about in other ways, as the ante handler does not look into messages
  that carry others (\<open>authz\<close>, proposals): steps and runs carry the set of operators for whom this happened,
  and what the whitelist promises is stated with these exceptions. Seen from the modules, a run is a list of
  messages to the registry and a run of the trust deposit, so the facts of \<open>VrRun\<close> and \<open>TdRun\<close> hold on the
  chain. \<open>ChainModel\<close> is an instance with a council that executes its proposals and an \<open>authz\<close> module that hands
  messages on; \<open>ChainProps\<close>: the properties. \<open>Approval\<close>: what an approved proposal to onboard an operator
  leads to, under the contract \<open>onboarding_council\<close> of a group module that runs the messages once the minimal
  execution period is over. \<open>Nested\<close>: what the handler does with a transaction of messages that carry others,
  and how a validator the registry does not list comes about that way. \<open>GenesisProps\<close> ties the order of the
  genesis, the import of the registry and the whitelist decorator together; \<open>FromGenesis\<close> follows a chain
  from the genesis file on.

  \<^bold>\<open>The application\<close> (\<open>app/\<close>).
  \<^item> \<open>AppConfig\<close>: \<open>app_config.go\<close>, over the names the SDK and ibc-go give their modules; \<open>names_ok\<close> says they
    are distinct, \<open>sdk_names\<close> are their values.
  \<^item> \<open>Docs\<close>: \<open>docs/docs.go\<close>, the OpenAPI console. \<open>App\<close>: \<open>app.go\<close>, \<open>config.go\<close>, \<open>genesis_account.go\<close>. The locale \<open>app_runtime\<close> is the contract of the
    runtime under which the application \<open>New\<close> returns runs the ante handler of \<open>Ante\<close>.
  \<^item> \<open>Ibc\<close>: \<open>ibc.go\<close>. \<open>Export\<close>: \<open>export.go\<close>. \<open>ExportSpec\<close>: the abstract preparation for height zero, the
    loop over keyed rows (\<open>keyed_rows\<close>) and the contracts \<open>zero_height\<close> and \<open>reward_pool\<close> of the keepers, under
    which the preparation refines it up to the update of the validator set, which may panic, and loses no reward. \<open>ExportModel\<close>: an instance. \<open>AppProps\<close>: the
    properties.

  \<^bold>\<open>The commands\<close> (\<open>cmd/veranatestd/cmd/\<close>).
  \<^item> \<open>GoStd\<close>, \<open>Paths\<close>: the functions of Go's library on text and paths, with the elements of an absolute
    path as their meaning.
  \<^item> \<open>MultiNode\<close>, \<open>MultiNodeRun\<close>: \<open>testnet_multi_node.go\<close>, the flags, files and ports, and the run over all
    nodes. \<open>MultiNodeSpec\<close>: what the loop collects and where its paths lead. \<open>FileSpec\<close>: the contract
    \<open>file_system\<close> and the copies of the genesis transactions.
  \<^item> \<open>InPlace\<close>: \<open>testnet.go\<close> and the constructors of \<open>commands.go\<close>. \<open>InPlaceSpec\<close>: the contracts of the
    staking store and the bank.
  \<^item> \<open>Client\<close>: \<open>autocli.go\<close>, \<open>codec.go\<close> and the simulation of both modules. \<open>CmdProps\<close>: the properties.

  \<^item> \<open>Root\<close>: \<open>root.go\<close>, \<open>config.go\<close>, \<open>main.go\<close> and the command lists of \<open>commands.go\<close>.

  \<^bold>\<open>The services and the REST gateway.\<close>
  \<^item> \<open>Grpc\<close>: the client stubs and the handlers of the query services (\<open>types/query.pb.go\<close>, \<open>keeper/query.go\<close>).
    \<open>GrpcSpec\<close>: the contract \<open>grpc_connection\<close> of a connection, the calls it carries (\<open>grpc_service\<close>), and an
    instance made of the routines of the wire format.
  \<^item> \<open>Gateway\<close>: \<open>types/query.pb.gw.go\<close>. \<open>GatewaySpec\<close>: patterns as programs of a stack machine and the templates
    they implement, with the contract \<open>path_matcher\<close>. \<open>GatewayProps\<close>: routing, a query over REST, and the two
    ways to register.
  \<^item> \<open>Services\<close>: what \<open>module/module.go\<close> registers, the message handlers of \<open>types/tx.pb.go\<close> and a router for
    encoded messages. \<open>ServiceProps\<close>: from an encoded message to the REST answer.

  \<open>Expected\<close> holds the interfaces the modules expect of others (\<open>types/expected_keepers.go\<close>) and the sample
  address of \<open>testutil\<close>. \<open>Proc\<close> holds the procedures these parts are written with: a state passed through calls that return, fail
  or panic, loops over slices and iterators, and the invariants of such loops.

  \<^bold>\<open>Termination and bounds.\<close> No definition uses fuel. The loops over lists are structural; the reading
  loops end because every round moves the index forward. Where the code adds to an index of type \<open>int\<close>
  it tests the sum for a wrap: \<open>add_index\<close> is \<open>None\<close> from \<open>2^63\<close> on, so a round trip assumes a size below
  \<open>2^63\<close>, as any buffer in memory has. The decimal panics outside \<open>dec_limit\<close>, and the properties of the
  begin blocker assume that the dust and the yield of a block stay below it.

  An iterator of the SDK is the list of the items it finds when it is opened; \<open>os.Exit\<close> is a panic.
  The ports of a local network are valid for at most 1317 nodes.

  \<open>Loops\<close> states the reading loops without a termination argument, as runs that may be \<open>None\<close>, and proves
  that they end.

  \<^bold>\<open>Not modelled.\<close> Logging and terminal output, long help texts, the hooks file (all commented out), the
  state type of \<open>genesis.go\<close> (a synonym nothing uses), imports and interface assertions, and of the
  generated files the descriptors, the registration of types, the methods that only call the protobuf
  library and the client stubs of the message services.
\<close>

section \<open>The ante handler and the modules it consults\<close>

text \<open>C1. Every top-level message of a transaction the ante handler accepts is allowed: a group \<open>MsgExec\<close> names a
  stored, accepted proposal whose voting period is over, and a \<open>MsgCreateValidator\<close> an operator of the
  registry, as seen in the state before the transaction. Messages inside other messages are not looked at
  (\<open>Nested\<close>).\<close>

theorem ante_admits_only_allowed:
  assumes "sdk_chain S" "NewAnteHandler S ak bk smh sgc k G = Inr h" "h ctx tx sim = (r, Ret ())"
  shows "\<forall>msg \<in> set (tx_Msgs tx). exec_allowed G (ac_Group ctx) (ac_BlockTime ctx) msg \<and>
    create_allowed k (ac_Registry ctx) msg"
  using sdk_chain.accepted [OF assms] by (simp add: list_all_iff)

text \<open>The witness accepts the execution of the ready proposal of \<open>sample_group\<close>.\<close>

definition sample_tx :: "(unit, unit) Tx" where
  "sample_tx = \<lparr>tx_Msgs = [MsgExec 1], tx_Rest = ()\<rparr>"

definition sample_ante_ctx :: "(kv, u64 list, nat) AnteCtx" where
  "sample_ante_ctx = \<lparr>ac_BlockTime = 20, ac_Registry = [], ac_Group = [], ac_Rest = 0\<rparr>"

definition sample_sdk :: "((kv, u64 list, nat) AnteCtx, (unit, unit) Tx, unit, unit) sdk_ante" where
  "sample_sdk = sdk_decorators Suc (\<lambda>tx. True)"

lemma ante_admits_only_allowed_witness:
  "\<exists>h r. NewAnteHandler sample_sdk () (Some ()) (Some ()) () sample_keeper sample_group = Inr h \<and>
     h sample_ante_ctx sample_tx False = (r, Ret ()) \<and>
     exec_allowed sample_group [] 20 (MsgExec 1 :: unit sdk_msg)"
proof -
  obtain h where h: "NewAnteHandler sample_sdk () (Some ()) (Some ()) () sample_keeper sample_group = Inr h"
    by (simp add: NewAnteHandler_def Let_def)
  then have "h = sa_ChainAnteDecorators sample_sdk [sa_SetUpContext sample_sdk,
      sa_ValidateBasic sample_sdk, GroupProposalTiming_AnteHandle sample_group,
      ValidatorWhitelist_AnteHandle sample_keeper, sa_DeductFee sample_sdk () (),
      sa_IncrementSequence sample_sdk ()]"
    by (simp add: NewAnteHandler_def Let_def)
  then have "\<exists>r. h sample_ante_ctx sample_tx False = (r, Ret ())"
    by (simp add: sample_sdk_def sdk_decorators_def sample_ante_ctx_def sample_tx_def sample_group_def
        GroupProposalTiming_AnteHandle_def ValidatorWhitelist_AnteHandle_def Let_def)
  then obtain r where r: "h sample_ante_ctx sample_tx False = (r, Ret ())" by blast
  have "sdk_chain sample_sdk" unfolding sample_sdk_def by (rule sdk_decorators.sdk_chain_axioms)
  from ante_admits_only_allowed [OF this h r] h r show ?thesis
    by (auto simp: sample_tx_def sample_ante_ctx_def)
qed

text \<open>C19. On a chain whose transactions pass the handler the application built by \<open>New\<close> runs, over the
  registry and the group keeper the dependency injection gave it, every validator is one of an operator
  in the registry, in every state the chain reaches, if this holds at the start, except for operators whose
  validators came about without a \<open>MsgCreateValidator\<close> at the top level of a transaction.\<close>

theorem built_app_keeps_validators_registered:
  assumes "app_runtime R ante chainer" "sdk_chain S" "New R S sgc inject latest opts os = Ret app"
    "inject opts = Inr deps" "ante app = Some (nd_ante nd)" "nd_vr nd = in_ValidatorregistryKeeper deps"
    "nd_group nd = in_GroupKeeper deps" "chain_node nd (vr_admissible okey ok iok) tadm others"
    "registry (nd_vr nd) invar pabs iok vabs okey ok lt"
    "invar (vc_store (ch_Registry ch))" "keyed (vabs (vc_store (ch_Registry ch)))"
    "\<forall>a \<in> nd_operators nd ch. IsValidatorWhitelisted (nd_vr nd) (vc_store (ch_Registry ch)) a"
    "chain_run nd (vr_admissible okey ok iok) tadm ch W ch'" "a \<in> nd_operators nd ch'" "a \<notin> W"
  shows "IsValidatorWhitelisted (nd_vr nd) (vc_store (ch_Registry ch')) a"
proof -
  from app_runtime.New_installs [OF assms(1,3)] assms(4-7) have
    "NewAnteHandler S (in_AuthKeeper deps) (in_BankKeeper deps) (in_SignModeHandler deps) sgc (nd_vr nd)
      (nd_group nd) = Inr (nd_ante nd)" by auto
  with assms(2,8,9) have w: "whitelisting_chain nd tadm others invar pabs iok vabs okey ok lt S
      (in_AuthKeeper deps) (in_BankKeeper deps) (in_SignModeHandler deps) sgc"
    by (simp add: whitelisting_chain_def whitelisting_chain_axioms_def)
  from whitelisting_chain.run_admitted [OF w assms(13)] assms(10-12,14,15) show ?thesis
    by (simp add: whitelisting_chain.admitted_def [OF w])
qed

text \<open>The witness builds the application over the slots of \<open>App\<close> with the keepers of the sample council.\<close>

definition sample_deps where
  "sample_deps = \<lparr>in_AuthKeeper = (), in_BankKeeper = Some (), in_SignModeHandler = Some (),
     in_ValidatorregistryKeeper = sample_keeper, in_GroupKeeper = council_group sample_keeper\<rparr>"

definition sample_app where
  "sample_app = (Some (council_ante sample_keeper),
     Some (initChainer slot_runtime (Some (council_ante sample_keeper), None)))"

lemma sample_app_built:
  "New slot_runtime council_sdk () (\<lambda>_. Inr sample_deps) True () [] = Ret sample_app"
  by (simp add: New_def sample_deps_def NewAnteHandler_def Let_def slot_runtime_def council_ante_def
      sdk_decorators_def sample_app_def bindP_def changeP_def retP_def must_def)

lemma built_app_keeps_validators_registered_witness:
  "\<exists>ch. New slot_runtime council_sdk () (\<lambda>_. Inr sample_deps) True () [] = Ret sample_app \<and>
     council_run (council_start \<lparr>tc_store = [], tc_bank = \<lambda>_. {#}\<rparr>) {''intruder''} ch \<and>
     hb_Operators (ch_Rest ch) = [''intruder'', ''op1''] \<and>
     IsValidatorWhitelisted sample_keeper (vc_store (ch_Registry ch)) ''op1''"
proof -
  obtain ch where r: "council_run (council_start \<lparr>tc_store = [], tc_bank = \<lambda>_. {#}\<rparr>) {''intruder''} ch"
    "hb_Operators (ch_Rest ch) = [''intruder'', ''op1'']" using council_story by blast
  have "IsValidatorWhitelisted (nd_vr (council_node sample_keeper [])) (vc_store (ch_Registry ch)) ''op1''"
  proof (rule built_app_keeps_validators_registered [where nd = "council_node sample_keeper []"
        and deps = sample_deps and ch' = ch and a = "''op1''", OF slot_runtime.app_runtime_axioms
        sdk_decorators.sdk_chain_axioms sample_app_built _ _ _ _ council_chain_node])
    show "registry (nd_vr (council_node sample_keeper [])) vr_inv vr_params_of (co_ok vr_params_codec)
        validators_of (\<lambda>i. True) (co_ok validator_codec) key_less" by (simp add: sample_registry)
    show "council_run (council_start \<lparr>tc_store = [], tc_bank = \<lambda>_. {#}\<rparr>) {''intruder''} ch" by (rule r(1))
  qed (simp_all add: sample_app_def sample_deps_def keyed_def r(2))
  with r sample_app_built show ?thesis by (simp only: council_node_sel) blast
qed

text \<open>When the application built by \<open>New\<close> initialises the chain it first records the module versions;
  if that fails the runtime's own init chainer is not called.\<close>

theorem built_app_init_chain:
  assumes "app_runtime R ante chainer" "New R S sgc inject latest opts os = Ret app"
  shows "\<exists>c app0. chainer app = Some c \<and> (\<forall>ctx req.
    c ctx req = (case rt_SetModuleVersionMap R app0 ctx of
      (Some e, ctx') \<Rightarrow> (None, Some e, ctx')
    | (None, ctx') \<Rightarrow> rt_InitChainer R app0 ctx' req))"
proof -
  obtain app0 where "chainer app = Some (initChainer R app0)"
    using app_runtime.New_installs [OF assms] by auto
  then show ?thesis by (intro exI [of _ "initChainer R app0"] exI [of _ app0]) (simp add: initChainer_def)
qed

lemma built_app_init_chain_witness:
  "\<exists>c app0. snd sample_app = Some c \<and> c () () = rt_InitChainer slot_runtime app0 () ()"
  using built_app_init_chain [OF slot_runtime.app_runtime_axioms sample_app_built] by (auto simp: slot_runtime_def)

lemma timing_check_error:
  "timing_check G g now msgs = Some e \<Longrightarrow> errors_Is e ErrInvalidRequest"
  by (induction msgs) (auto simp: Let_def split: sdk_msg.splits sum.splits if_splits)

text \<open>The timing decorator hands the transaction on unchanged when every group execution in it is
  allowed, and otherwise refuses it with an invalid-request error without calling the rest of the
  chain.\<close>

theorem timing_decorator_decides:
  "if list_all (exec_allowed G (ac_Group ctx) (ac_BlockTime ctx)) (tx_Msgs tx)
   then GroupProposalTiming_AnteHandle G ctx tx sim next = next ctx tx sim
   else \<exists>e. errors_Is e ErrInvalidRequest \<and>
     (\<forall>next. GroupProposalTiming_AnteHandle G ctx tx sim next = (ctx, Err e))"
  using timing_check_None [of G "ac_Group ctx" "ac_BlockTime ctx" "tx_Msgs tx"]
    timing_check_error [of G "ac_Group ctx" "ac_BlockTime ctx" "tx_Msgs tx"]
  by (cases "timing_check G (ac_Group ctx) (ac_BlockTime ctx) (tx_Msgs tx)")
    (auto simp: GroupProposalTiming_AnteHandle_def)

text \<open>C16. The whitelist decorator refuses a transaction with the address of the first operator in it
  that the registry does not list, and hands it on when there is none.\<close>

theorem whitelist_decorator_decides:
  "ValidatorWhitelist_AnteHandle k ctx tx sim next =
    (case find (\<lambda>msg. \<not> create_allowed k (ac_Registry ctx) msg) (tx_Msgs tx) of
       Some (MsgCreateValidator addr) \<Rightarrow> (ctx, Err (Wrapf ErrUnauthorized
         ''validator address %s is not whitelisted. Only whitelisted validators can create validators''
         [ArgStr addr]))
     | _ \<Rightarrow> next ctx tx sim)"
proof -
  have w: "whitelist_check k (ac_Registry ctx) msgs =
      (case find (\<lambda>msg. \<not> create_allowed k (ac_Registry ctx) msg) msgs of
         Some (MsgCreateValidator addr) \<Rightarrow> Some (Wrapf ErrUnauthorized
           ''validator address %s is not whitelisted. Only whitelisted validators can create validators''
           [ArgStr addr])
       | _ \<Rightarrow> None)" for msgs
    by (induction msgs) (auto split: sdk_msg.split)
  then show ?thesis
    by (simp add: ValidatorWhitelist_AnteHandle_def w split: option.split sdk_msg.split)
qed

text \<open>C15. Once the authority has onboarded an operator, the whitelist decorator lets the operator's
  own \<open>MsgCreateValidator\<close> pass, in this block and after any further messages to the registry.\<close>

theorem onboarded_operator_may_create_validator:
  assumes "registry k invar pabs iok vabs okey ok lt" "invar (vc_store c)" "keyed (vabs (vc_store c))"
    "okey (mov_Index msg)" "ok (onboarded_validator msg)" "OnboardValidator k msg c = (Ret (), c')"
    "vr_run k (vr_admissible okey ok iok) c' c''" "ac_Registry ctx = vc_store c''"
    "tx_Msgs tx = [MsgCreateValidator (mov_OperatorAddress msg)]"
  shows "ValidatorWhitelist_AnteHandle k ctx tx sim next = next ctx tx sim"
proof -
  note o = registry.onboard_abs [OF assms(1,2,4,5,6)]
  then have "keyed (vabs (vc_store c'))" using keyed_upd [OF assms(3), of "onboarded_validator msg" "mov_Index msg"] by simp
  moreover have "IsValidatorWhitelisted k (vc_store c') (mov_OperatorAddress msg)"
    using registry.whitelisted_ran [OF assms(1), of "vc_store c'"] o by (auto simp: domIff)
  ultimately have "IsValidatorWhitelisted k (vc_store c'') (mov_OperatorAddress msg)"
    using registry.run_whitelisted [OF assms(1,7)] o by blast
  then show ?thesis by (simp add: ValidatorWhitelist_AnteHandle_def assms(8,9))
qed

lemma onboarded_operator_may_create_validator_witness:
  "\<exists>c'. OnboardValidator sample_keeper sample_onboard sample_ctx = (Ret (), c') \<and>
     ValidatorWhitelist_AnteHandle sample_keeper
       \<lparr>ac_BlockTime = 0, ac_Registry = vc_store c', ac_Group = (), ac_Rest = ()\<rparr>
       \<lparr>tx_Msgs = [MsgCreateValidator ''op1'' :: unit sdk_msg], tx_Rest = ()\<rparr> False
       (\<lambda>ctx tx sim. (ctx, Ret ())) =
     (\<lparr>ac_BlockTime = 0, ac_Registry = vc_store c', ac_Group = (), ac_Rest = ()\<rparr>, Ret ())"
proof -
  obtain c' where r: "OnboardValidator sample_keeper sample_onboard sample_ctx = (Ret (), c')"
    using sample_onboards by blast
  have i: "vr_inv (vc_store sample_ctx)" "keyed (validators_of (vc_store sample_ctx))"
    by (simp_all add: keyed_def)
  show ?thesis
    by (intro exI [of _ c'] conjI r,
        subst onboarded_operator_may_create_validator [OF sample_registry i TrueI sample_onboard_ok r
          vr_run.start]) simp_all
qed

end
